(* ===== verification/GoPrelude.thy ===== *)
theory GoPrelude
  imports Main "HOL-Library.Word" "HOL-Library.AList"
begin

text \<open>
  The part of the Go language and of its standard library that every component uses:
  error values and their text, panics, effects on an abstract world, Go maps with their
  unspecified range order, and the few functions of \<open>strings\<close>, \<open>strconv\<close> and \<open>fmt\<close>
  the sources call. The collections \<open>go_simps\<close> (unfolding of the plumbing) and
  \<open>go_map_simps\<close> (facts about maps) are extended by the component theories.
\<close>

named_theorems go_simps \<open>unfolding rules for the plumbing of calls, errors and panics\<close>
named_theorems go_map_simps \<open>lookup and key facts of Go maps\<close>

section \<open>Errors, panics, effects\<close>

text \<open>
  An \<open>error\<close> value, as far as the sources look into one: a text made by \<open>errors.New\<close> or
  \<open>fmt.Errorf\<close>; a \<open>fmt.Errorf\<close> text around a wrapped cause (\<open>%w\<close>); the type
  \<open>dockerhub.NotFoundError\<close> of this repository; an error made by code outside the
  repository, with the dynamic type the sources test for (\<open>transport.Error\<close> with its status
  code and diagnostic codes, an API status with its reason) and its own text. A type
  assertion looks at the outermost constructor only, as Go's does.
\<close>

datatype foreign_type =
    TransportErr int "string list"
  | ApiStatus string
  | OpaqueErr

datatype go_error =
    ErrorText string
  | WrappedError string go_error string
  | HubNotFound go_error
  | ForeignError foreign_type string

fun error_text :: "go_error \<Rightarrow> string" where
  "error_text (ErrorText s) = s"
| "error_text (WrappedError pre e post) = pre @ error_text e @ post"
| "error_text (HubNotFound e) = error_text e"
| "error_text (ForeignError t s) = s"

text \<open>
  A call that can panic returns an \<open>outcome\<close>; a call that can fail returns \<open>go_error + 'a\<close>
  with \<open>Inl\<close> for the error; a call on the outside world takes the world and returns the
  new one.
\<close>

datatype go_panic = NilDeref | IndexRange | PanicWith go_error

datatype 'a outcome = Returns 'a | Panics go_panic

type_synonym ('w, 'a) effect = "'w \<Rightarrow> 'a \<times> 'w"

section \<open>Go maps\<close>

text \<open>
  A Go map as an association list with one pair per key: assignment replaces the value of a
  present key and adds an absent one. The order of the list is not observable: a
  \<open>range\<close> over a map visits the keys in an order the language leaves open, which is a
  parameter of the code that ranges (\<open>range_order\<close>).
\<close>

type_synonym ('k, 'v) go_map = "('k \<times> 'v) list"

definition go_put :: "'k \<Rightarrow> 'v \<Rightarrow> ('k, 'v) go_map \<Rightarrow> ('k, 'v) go_map" where
  "go_put k v m = AList.update k v m"

definition go_get :: "('k, 'v) go_map \<Rightarrow> 'k \<Rightarrow> 'v option" where
  "go_get m k = map_of m k"

definition go_keys :: "('k, 'v) go_map \<Rightarrow> 'k list" where
  "go_keys m = map fst m"

definition go_map_ok :: "('k, 'v) go_map \<Rightarrow> bool" where
  "go_map_ok m \<longleftrightarrow> distinct (map fst m)"

text \<open>Filling a map in a loop over a slice: later elements overwrite earlier ones.\<close>

definition index_by :: "('a \<Rightarrow> 'k) \<Rightarrow> ('a \<Rightarrow> 'v) \<Rightarrow> 'a list \<Rightarrow> ('k, 'v) go_map" where
  "index_by key val xs = fold (\<lambda>x m. go_put (key x) (val x) m) xs []"

text \<open>A range order visits every key of the map exactly once.\<close>

definition range_order :: "(string list \<Rightarrow> string list) \<Rightarrow> bool" where
  "range_order ord \<longleftrightarrow> (\<forall>ks. distinct ks \<longrightarrow> distinct (ord ks) \<and> set (ord ks) = set ks)"

text \<open>The pairs a \<open>range\<close> loop over a map visits, in the given order of the keys.\<close>

definition go_range :: "('k list \<Rightarrow> 'k list) \<Rightarrow> ('k, 'v) go_map \<Rightarrow> ('k \<times> 'v) list" where
  "go_range ord m =
     concat (map (\<lambda>k. case go_get m k of None \<Rightarrow> [] | Some v \<Rightarrow> [(k, v)]) (ord (go_keys m)))"

text \<open>
  The interface of a map, as the loops that fill and read one use it. The laws are what the
  language promises; the facts about loops are proved once from them.
\<close>

locale finite_lookup =
  fixes none :: "'m"
    and put :: "'k \<Rightarrow> 'v \<Rightarrow> 'm \<Rightarrow> 'm"
    and get :: "'m \<Rightarrow> 'k \<Rightarrow> 'v option"
    and keys :: "'m \<Rightarrow> 'k list"
    and ok :: "'m \<Rightarrow> bool"
  assumes ok_none: "ok none"
    and ok_put: "ok m \<Longrightarrow> ok (put k v m)"
    and get_none: "get none k = None"
    and get_put: "ok m \<Longrightarrow> get (put k v m) k' = (if k' = k then Some v else get m k')"
    and keys_get: "ok m \<Longrightarrow> set (keys m) = {k. get m k \<noteq> None}"
    and keys_distinct: "ok m \<Longrightarrow> distinct (keys m)"
begin

lemma ok_fill: "ok m \<Longrightarrow> ok (fold (\<lambda>x. put (f x) (g x)) xs m)"
  by (induction xs arbitrary: m) (auto intro: ok_put)

text \<open>What a loop leaves under a key: the value of the last element with that key.\<close>

lemma get_fill:
  "ok m \<Longrightarrow> get (fold (\<lambda>x. put (f x) (g x)) xs m) k =
     (if k \<in> f ` set xs then Some (g (last (filter (\<lambda>x. f x = k) xs))) else get m k)"
proof (induction xs rule: rev_induct)
  case Nil
  then show ?case by simp
next
  case (snoc x xs)
  have okf: "ok (fold (\<lambda>x. put (f x) (g x)) xs m)"
    using snoc.prems by (rule ok_fill)
  show ?case
    using snoc.IH snoc.prems by (auto simp: get_put okf)
qed

lemma keys_fill: "set (keys (fold (\<lambda>x. put (f x) (g x)) xs none)) = f ` set xs"
  by (auto simp: keys_get ok_fill ok_none get_fill get_none split: if_splits)

end

interpretation gm: finite_lookup "[]" go_put go_get go_keys go_map_ok
proof (unfold_locales, goal_cases)
  case 1
  show ?case by (simp add: go_map_ok_def)
next
  case (2 m k v)
  then show ?case by (simp add: go_map_ok_def go_put_def distinct_update)
next
  case (3 k)
  show ?case by (simp add: go_get_def)
next
  case (4 m k v k')
  show ?case by (simp add: go_get_def go_put_def update_conv)
next
  case (5 m)
  show ?case by (auto simp: go_get_def go_keys_def map_of_eq_None_iff)
next
  case (6 m)
  then show ?case by (simp add: go_map_ok_def go_keys_def)
qed

lemma index_by_ok [simp]: "go_map_ok (index_by f g xs)"
  unfolding index_by_def by (rule gm.ok_fill [OF gm.ok_none])

lemma index_by_get [go_map_simps]:
  "go_get (index_by f g xs) k =
     (if k \<in> f ` set xs then Some (g (last (filter (\<lambda>x. f x = k) xs))) else None)"
  unfolding index_by_def by (simp add: gm.get_fill gm.ok_none gm.get_none)

lemma index_by_keys [go_map_simps]: "set (go_keys (index_by f g xs)) = f ` set xs"
  unfolding index_by_def by (rule gm.keys_fill)

lemma index_by_distinct [simp]: "distinct (go_keys (index_by f g xs))"
  by (rule gm.keys_distinct) simp

lemma index_by_None: "go_get (index_by f g xs) k = None \<longleftrightarrow> k \<notin> f ` set xs"
  by (simp add: index_by_get)

lemma index_by_Some:
  assumes "go_get (index_by f g xs) k = Some v"
  shows "\<exists>x \<in> set xs. f x = k \<and> g x = v"
proof -
  have k: "k \<in> f ` set xs" and v: "v = g (last (filter (\<lambda>x. f x = k) xs))"
    using assms by (auto simp: index_by_get split: if_splits)
  have "filter (\<lambda>x. f x = k) xs \<noteq> []"
    using k by (auto simp: filter_empty_conv)
  then have "last (filter (\<lambda>x. f x = k) xs) \<in> set (filter (\<lambda>x. f x = k) xs)"
    by (rule last_in_set)
  then show ?thesis using v by auto
qed

lemma index_by_unique:
  assumes "distinct (map f xs)" and "x \<in> set xs"
  shows "go_get (index_by f g xs) (f x) = Some (g x)"
proof -
  have "go_get (index_by f g xs) (f x) \<noteq> None"
    using assms(2) by (auto simp: index_by_None)
  then obtain v where v: "go_get (index_by f g xs) (f x) = Some v" by blast
  then obtain y where "y \<in> set xs" "f y = f x" "g y = v"
    using index_by_Some by fastforce
  then show ?thesis
    using v assms by (metis distinct_map inj_onD)
qed

lemma range_order_set [simp]:
  "range_order ord \<Longrightarrow> distinct ks \<Longrightarrow> set (ord ks) = set ks"
  by (simp add: range_order_def)

lemma range_order_distinct [simp]:
  "range_order ord \<Longrightarrow> distinct ks \<Longrightarrow> distinct (ord ks)"
  by (simp add: range_order_def)

lemma range_order_id [simp]: "range_order (\<lambda>ks. ks)"
  by (simp add: range_order_def)

lemma range_order_rev [simp]: "range_order rev"
  by (simp add: range_order_def)

lemma go_keys_iff: "go_map_ok m \<Longrightarrow> k \<in> set (go_keys m) \<longleftrightarrow> (\<exists>v. go_get m k = Some v)"
  by (auto simp: gm.keys_get)

lemma go_range_set:
  assumes "range_order ord" and "go_map_ok m"
  shows "set (go_range ord m) = {(k, v). go_get m k = Some v}"
proof -
  have "set (ord (go_keys m)) = set (go_keys m)"
    using assms by (simp add: gm.keys_distinct)
  then show ?thesis
    using assms(2) by (auto simp: go_range_def go_keys_iff split: option.splits)
qed

lemma go_range_keys:
  assumes "range_order ord" and "go_map_ok m"
  shows "map fst (go_range ord m) = ord (go_keys m)"
proof -
  have k: "\<forall>k \<in> set (ord (go_keys m)). \<exists>v. go_get m k = Some v"
    using assms by (simp add: gm.keys_distinct go_keys_iff)
  have "map fst (concat (map (\<lambda>k. case go_get m k of None \<Rightarrow> [] | Some v \<Rightarrow> [(k, v)]) ks)) = ks"
    if "\<forall>k \<in> set ks. \<exists>v. go_get m k = Some v" for ks
    using that by (induction ks) auto
  then show ?thesis
    using k by (simp add: go_range_def)
qed

lemma go_range_distinct:
  assumes "range_order ord" and "go_map_ok m"
  shows "distinct (map fst (go_range ord m))"
  using assms by (simp add: go_range_keys gm.keys_distinct)

lemma go_range_map_of:
  assumes "range_order ord" and "go_map_ok m"
  shows "map_of (go_range ord m) = go_get m"
proof
  fix k
  show "map_of (go_range ord m) k = go_get m k"
  proof (cases "go_get m k")
    case None
    then have "k \<notin> fst ` set (go_range ord m)"
      by (auto simp: go_range_set assms)
    then show ?thesis
      using None by (simp add: map_of_eq_None_iff)
  next
    case (Some v)
    then have "(k, v) \<in> set (go_range ord m)"
      by (simp add: go_range_set assms)
    then show ?thesis
      using Some by (simp add: go_range_distinct assms)
  qed
qed

end
