(* ===== verification/GoStrings.thy ===== *)
theory GoStrings
  imports GoPrelude
begin

text \<open>
  The functions of \<open>strings\<close> and \<open>strconv\<close> the sources call, on strings as byte lists:
  \<open>strings.Join\<close>, \<open>strings.HasPrefix\<close>, \<open>strings.SplitN(s, sep, 2)\<close> for a one-byte
  separator, \<open>strconv.Itoa\<close> (which is \<open>fmt\<close>'s \<open>%d\<close>) and \<open>strconv.Atoi\<close> with its 64-bit
  range check.
\<close>

fun go_join :: "string list \<Rightarrow> string \<Rightarrow> string" where
  "go_join [] sep = []"
| "go_join [s] sep = s"
| "go_join (s # t # ts) sep = s @ sep @ go_join (t # ts) sep"

definition go_has_prefix :: "string \<Rightarrow> string \<Rightarrow> bool" where
  "go_has_prefix s p \<longleftrightarrow> take (length p) s = p"

text \<open>\<open>SplitN(s, c, 2)\<close>: the whole string, or the parts around the first separator.\<close>

definition go_split2 :: "string \<Rightarrow> char \<Rightarrow> string list" where
  "go_split2 s c =
     (if c \<in> set s
      then [takeWhile (\<lambda>x. x \<noteq> c) s, tl (dropWhile (\<lambda>x. x \<noteq> c) s)]
      else [s])"

text \<open>
  \<open>%q\<close> of \<open>fmt\<close>: a quoted literal. Bytes from 128 on are copied, which is right for the printable
  characters of UTF-8.
\<close>

definition hex_digit :: "nat \<Rightarrow> char" where
  "hex_digit d = (if d < 10 then char_of (48 + d) else char_of (87 + d))"

definition quote_char :: "char \<Rightarrow> string" where
  "quote_char c =
     (let n = of_char c :: nat
      in if c = CHR 0x22 \<or> c = CHR 0x5C then [CHR 0x5C, c]
         else if n = 7 then [CHR 0x5C, CHR ''a''] else if n = 8 then [CHR 0x5C, CHR ''b'']
         else if n = 9 then [CHR 0x5C, CHR ''t''] else if n = 10 then [CHR 0x5C, CHR ''n'']
         else if n = 11 then [CHR 0x5C, CHR ''v''] else if n = 12 then [CHR 0x5C, CHR ''f'']
         else if n = 13 then [CHR 0x5C, CHR ''r'']
         else if n < 32 \<or> n = 127 then [CHR 0x5C, CHR ''x'', hex_digit (n div 16), hex_digit (n mod 16)]
         else [c])"

definition go_quote :: "string \<Rightarrow> string" where
  "go_quote s = CHR 0x22 # concat (map quote_char s) @ [CHR 0x22]"

section \<open>Decimal numbers\<close>

definition digit_char :: "nat \<Rightarrow> char" where
  "digit_char d = char_of (48 + d)"

definition is_digit :: "char \<Rightarrow> bool" where
  "is_digit c \<longleftrightarrow> 48 \<le> (of_char c :: nat) \<and> (of_char c :: nat) \<le> 57"

definition digit_val :: "char \<Rightarrow> nat" where
  "digit_val c = of_char c - 48"

fun nat_digits :: "nat \<Rightarrow> string" where
  "nat_digits n = (if n < 10 then [digit_char n] else nat_digits (n div 10) @ [digit_char (n mod 10)])"

declare nat_digits.simps [simp del]

definition go_itoa :: "int \<Rightarrow> string" where
  "go_itoa i = (if i < 0 then CHR ''-'' # nat_digits (nat (- i)) else nat_digits (nat i))"

definition digits_nat :: "string \<Rightarrow> nat" where
  "digits_nat s = foldl (\<lambda>n c. 10 * n + digit_val c) 0 s"

text \<open>An optional sign, then at least one digit and nothing else, within an \<open>int64\<close>.\<close>

definition go_atoi :: "string \<Rightarrow> int option" where
  "go_atoi s =
     (let neg = (case s of c # cs \<Rightarrow> c = CHR ''-'' | [] \<Rightarrow> False);
          body = (case s of c # cs \<Rightarrow> if c = CHR ''-'' \<or> c = CHR ''+'' then cs else s | [] \<Rightarrow> s)
      in if body = [] \<or> \<not> list_all is_digit body then None
         else let n = int (digits_nat body); i = (if neg then - n else n)
              in if - (2 ^ 63) \<le> i \<and> i < 2 ^ 63 then Some i else None)"

lemma of_char_digit: "d < 10 \<Longrightarrow> (of_char (digit_char d) :: nat) = 48 + d"
  by (simp add: digit_char_def)

lemma is_digit_digit_char [simp]: "d < 10 \<Longrightarrow> is_digit (digit_char d)"
  by (simp add: is_digit_def of_char_digit)

lemma digit_val_digit_char [simp]: "d < 10 \<Longrightarrow> digit_val (digit_char d) = d"
  by (simp add: digit_val_def of_char_digit)

lemma nat_digits_nonempty [simp]: "nat_digits n \<noteq> []"
  by (subst nat_digits.simps) simp

lemma nat_digits_all: "list_all is_digit (nat_digits n)"
proof (induction n rule: nat_digits.induct)
  case (1 n)
  then show ?case by (subst nat_digits.simps) simp
qed

lemma digits_nat_snoc: "digits_nat (s @ [c]) = 10 * digits_nat s + digit_val c"
  by (simp add: digits_nat_def)

lemma digits_nat_nat_digits [simp]: "digits_nat (nat_digits n) = n"
proof (induction n rule: nat_digits.induct)
  case (1 n)
  show ?case
  proof (cases "n < 10")
    case True
    then show ?thesis by (subst nat_digits.simps) (simp add: digits_nat_def)
  next
    case False
    with 1 have "digits_nat (nat_digits (n div 10)) = n div 10" by simp
    with False show ?thesis by (subst nat_digits.simps) (simp add: digits_nat_snoc)
  qed
qed

lemma is_digit_not_sign: "is_digit c \<Longrightarrow> c \<noteq> CHR ''-'' \<and> c \<noteq> CHR ''+''"
  by (auto simp: is_digit_def)

lemma nat_digits_hd: "is_digit (hd (nat_digits n))"
  using nat_digits_all [of n] by (cases "nat_digits n") auto

text \<open>Printing a 64-bit integer and reading it back gives the integer.\<close>

lemma go_atoi_itoa:
  assumes "- (2 ^ 63) \<le> i" and "i < 2 ^ 63"
  shows "go_atoi (go_itoa i) = Some i"
proof (cases "i < 0")
  case True
  then show ?thesis
    using assms nat_digits_all [of "nat (- i)"] by (simp add: go_atoi_def go_itoa_def)
next
  case False
  obtain c cs where cs: "nat_digits (nat i) = c # cs"
    by (cases "nat_digits (nat i)") auto
  have c: "c \<noteq> CHR ''-'' \<and> c \<noteq> CHR ''+''"
    using nat_digits_hd [of "nat i"] cs is_digit_not_sign by simp
  have n: "digits_nat (c # cs) = nat i"
    using digits_nat_nat_digits [of "nat i"] cs by simp
  have a: "list_all is_digit (c # cs)"
    using nat_digits_all [of "nat i"] cs by simp
  show ?thesis
    using False assms c n a cs by (simp add: go_atoi_def go_itoa_def Let_def)
qed

lemma go_atoi_range:
  "go_atoi s = Some i \<Longrightarrow> - (2 ^ 63) \<le> i \<and> i < 2 ^ 63"
  by (auto simp: go_atoi_def Let_def split: if_splits)

section \<open>Joining and splitting\<close>

lemma go_join_Cons: "go_join (s # ts) sep = s @ concat (map (\<lambda>t. sep @ t) ts)"
proof (induction ts arbitrary: s)
  case Nil
  then show ?case by simp
next
  case (Cons t ts)
  show ?case by (simp add: Cons.IH [of t])
qed

lemma go_has_prefix_append [simp]: "go_has_prefix (p @ s) p"
  by (simp add: go_has_prefix_def)

lemma go_has_prefix_iff: "go_has_prefix s p \<longleftrightarrow> (\<exists>r. s = p @ r)"
  by (metis append_take_drop_id append_eq_conv_conj go_has_prefix_def)

lemma go_split2_append:
  assumes "c \<notin> set k"
  shows "go_split2 (k @ c # v) c = [k, v]"
proof -
  have "takeWhile (\<lambda>x. x \<noteq> c) (k @ c # v) = k"
    using assms by (subst takeWhile_append2) auto
  moreover have "dropWhile (\<lambda>x. x \<noteq> c) (k @ c # v) = c # v"
    using assms by (subst dropWhile_append2) auto
  ultimately show ?thesis by (simp add: go_split2_def)
qed

lemma go_split2_length: "length (go_split2 s c) = (if c \<in> set s then 2 else 1)"
  by (simp add: go_split2_def)

end
