(* ===== verification/CfModel.thy ===== *)
theory CfModel
  imports GoStrings
begin

text \<open>
  The CF API resources of \<open>cf/model/*.go\<close>, field by field. A pointer field that the code only
  copies (\<open>Weight *int\<close>) is an \<open>option\<close>; a slice that is only ranged over is a list; a map
  that is only looked up is a partial map.
\<close>

record relationship_data =
  rdata_guid :: string

record relationship =
  rel_data :: relationship_data

record destination_process =
  dproc_type :: string

record destination_app =
  dapp_guid :: string
  dapp_process :: destination_process

record destination =
  dest_guid :: string
  dest_app :: destination_app
  dest_weight :: "int option"
  dest_port :: int

record domain =
  domain_guid :: string
  domain_name :: string
  domain_internal :: bool

record droplet =
  droplet_image :: string

record space =
  space_guid :: string
  space_name :: string
  space_relationships :: "string \<rightharpoonup> relationship"

record route =
  route_guid :: string
  route_host :: string
  route_path :: string
  route_url :: string
  route_destinations :: "destination list"
  route_relationships :: "string \<rightharpoonup> relationship"

record route_list_included =
  incl_spaces :: "space list"
  incl_domains :: "domain list"

record route_list =
  rl_total_pages :: int
  rl_resources :: "route list"
  rl_included :: route_list_included

definition empty_route_list :: route_list where
  "empty_route_list =
     \<lparr>rl_total_pages = 0, rl_resources = [], rl_included = \<lparr>incl_spaces = [], incl_domains = []\<rparr>\<rparr>"

text \<open>Reading \<open>m[key].Data.GUID\<close>: an absent key gives the zero value, whose GUID is empty.\<close>

definition relationship_guid :: "(string \<rightharpoonup> relationship) \<Rightarrow> string \<Rightarrow> string" where
  "relationship_guid m k = (case m k of None \<Rightarrow> [] | Some r \<Rightarrow> rdata_guid (rel_data r))"

text \<open>
  The payload sent for a finished build. \<open>ProcessTypes\<close> is a Go map that may be nil, which
  its JSON form shows: \<open>None\<close> is the nil map.
\<close>

record lifecycle_data =
  ld_image :: string
  ld_process_types :: "(string, string) go_map option"

record lifecycle =
  lc_type :: string
  lc_data :: lifecycle_data

record cf_build =
  build_state :: string
  build_error :: string
  build_lifecycle :: lifecycle

definition build_staged_state :: string where
  "build_staged_state = ''STAGED''"

definition build_failed_state :: string where
  "build_failed_state = ''FAILED''"

definition kpack_lifecycle_type :: string where
  "kpack_lifecycle_type = ''kpack''"

definition zero_lifecycle :: lifecycle where
  "zero_lifecycle = \<lparr>lc_type = [], lc_data = \<lparr>ld_image = [], ld_process_types = None\<rparr>\<rparr>"

definition failed_build :: "string \<Rightarrow> cf_build" where
  "failed_build msg =
     \<lparr>build_state = build_failed_state, build_error = msg, build_lifecycle = zero_lifecycle\<rparr>"

text \<open>\<open>NewBuildFromKpackBuild\<close> reads only the latest image of the kpack build.\<close>

definition new_build_from_kpack_build :: "string \<Rightarrow> cf_build" where
  "new_build_from_kpack_build latest_image =
     \<lparr>build_state = build_staged_state, build_error = [],
      build_lifecycle = \<lparr>lc_type = kpack_lifecycle_type,
        lc_data = \<lparr>ld_image = latest_image, ld_process_types = None\<rparr>\<rparr>\<rparr>"

lemma relationship_guid_simps [simp]:
  "m k = None \<Longrightarrow> relationship_guid m k = []"
  "m k = Some r \<Longrightarrow> relationship_guid m k = rdata_guid (rel_data r)"
  by (simp_all add: relationship_guid_def)

lemma build_states_differ: "build_staged_state \<noteq> build_failed_state"
  by (simp add: build_staged_state_def build_failed_state_def)

end
