(* ===== verification/RouteTranslator.thy ===== *)
theory RouteTranslator
  imports CfModel
begin

text \<open>
  \<open>cf/kubernetes/route_translator.go\<close>: from a CF API route to a Route custom resource.
  \<open>Port\<close> of a route destination is a pointer; the code fills it with the address of a field
  of the loop variable, so the model keeps a store of cells. A pointer is an index into the
  store, and the resource an observer sees (\<open>DeepEqual\<close>, the JSON sent to the API) is the
  resource with its pointers read (\<open>deref_route\<close>).
\<close>

section \<open>The custom resource\<close>

type_synonym addr = nat

type_synonym port_store = "int list"

text \<open>
  The type parameter is the port's representation: an address while the translator runs, the
  number itself once read. A slice and a map that \<open>DeepEqual\<close> compares may be nil (\<open>None\<close>).
\<close>

record 'p route_destination =
  rdst_guid :: string
  rdst_port :: "'p option"
  rdst_weight :: "int option"
  rdst_app_guid :: string
  rdst_process_type :: string
  rdst_match_labels :: "(string \<rightharpoonup> string) option"

record route_domain =
  rdom_name :: string
  rdom_internal :: bool

record 'p route_spec =
  rspec_host :: string
  rspec_path :: string
  rspec_url :: string
  rspec_domain :: route_domain
  rspec_destinations :: "'p route_destination list option"

record 'p route_cr =
  rcr_name :: string
  rcr_namespace :: string
  rcr_labels :: "string \<rightharpoonup> string"
  rcr_spec :: "'p route_spec"

definition kube_name_label :: string where
  "kube_name_label = ''app.kubernetes.io/name''"
definition kube_version_label :: string where
  "kube_version_label = ''app.kubernetes.io/version''"
definition kube_managed_by_label :: string where
  "kube_managed_by_label = ''app.kubernetes.io/managed-by''"
definition kube_component_label :: string where
  "kube_component_label = ''app.kubernetes.io/component''"
definition kube_part_of_label :: string where
  "kube_part_of_label = ''app.kubernetes.io/part-of''"
definition cf_app_guid_label :: string where
  "cf_app_guid_label = ''cloudfoundry.org/app_guid''"
definition cf_process_type_label :: string where
  "cf_process_type_label = ''cloudfoundry.org/process_type''"
definition cf_org_guid_label :: string where
  "cf_org_guid_label = ''cloudfoundry.org/org_guid''"
definition cf_space_guid_label :: string where
  "cf_space_guid_label = ''cloudfoundry.org/space_guid''"
definition cf_domain_guid_label :: string where
  "cf_domain_guid_label = ''cloudfoundry.org/domain_guid''"
definition cf_route_guid_label :: string where
  "cf_route_guid_label = ''cloudfoundry.org/route_guid''"

lemmas route_label_defs =
  kube_name_label_def kube_version_label_def kube_managed_by_label_def
  kube_component_label_def kube_part_of_label_def cf_app_guid_label_def
  cf_process_type_label_def cf_org_guid_label_def cf_space_guid_label_def
  cf_domain_guid_label_def cf_route_guid_label_def

section \<open>Translation\<close>

text \<open>
  The loop over the destinations. The module is built as Go 1.14, where the variable of a
  \<open>range\<close> loop is one variable for the whole loop: each turn assigns the next destination to
  it, and \<open>&dest.Port\<close> is the same address \<open>a\<close> in every turn.
\<close>

fun translate_destinations ::
  "addr \<Rightarrow> port_store \<Rightarrow> addr route_destination list \<Rightarrow> destination list
    \<Rightarrow> port_store \<times> addr route_destination list" where
  "translate_destinations a h acc [] = (h, acc)"
| "translate_destinations a h acc (d # ds) =
     translate_destinations a (h[a := dest_port d])
       (acc @ [\<lparr>rdst_guid = dest_guid d,
                rdst_port = Some a,
                rdst_weight = dest_weight d,
                rdst_app_guid = dapp_guid (dest_app d),
                rdst_process_type = dproc_type (dapp_process (dest_app d)),
                rdst_match_labels = Some
                  [cf_app_guid_label \<mapsto> dapp_guid (dest_app d),
                   cf_process_type_label \<mapsto> dproc_type (dapp_process (dest_app d))]\<rparr>])
       ds"

text \<open>
  \<open>TranslateRoute\<close>: the space and the domain are pointers the caller looked up in a map, nil
  when absent, and reading a field of a nil pointer panics.
\<close>

definition translate_route ::
  "port_store \<Rightarrow> route \<Rightarrow> space option \<Rightarrow> domain option \<Rightarrow> string
    \<Rightarrow> (addr route_cr \<times> port_store) outcome" where
  "translate_route h r space domain namespace =
     (let (h', destinations) = translate_destinations (length h) (h @ [0]) [] (route_destinations r)
      in case space of
           None \<Rightarrow> Panics NilDeref
         | Some sp \<Rightarrow>
             (case domain of
                None \<Rightarrow> Panics NilDeref
              | Some dmn \<Rightarrow> Returns
                  (\<lparr>rcr_name = route_guid r,
                    rcr_namespace = namespace,
                    rcr_labels =
                      [kube_name_label \<mapsto> route_guid r,
                       kube_version_label \<mapsto> ''0.0.0'',
                       kube_managed_by_label \<mapsto> ''cloudfoundry'',
                       kube_component_label \<mapsto> ''cf-networking'',
                       kube_part_of_label \<mapsto> ''cloudfoundry'',
                       cf_org_guid_label \<mapsto> relationship_guid (space_relationships sp) ''organization'',
                       cf_space_guid_label \<mapsto> space_guid sp,
                       cf_domain_guid_label \<mapsto> domain_guid dmn,
                       cf_route_guid_label \<mapsto> route_guid r],
                    rcr_spec = \<lparr>rspec_host = route_host r,
                      rspec_path = route_path r,
                      rspec_url = route_url r,
                      rspec_domain = \<lparr>rdom_name = domain_name dmn, rdom_internal = domain_internal dmn\<rparr>,
                      rspec_destinations = Some destinations\<rparr>\<rparr>, h')))"

text \<open>Reading the pointers of a resource in a store.\<close>

definition deref_destination :: "port_store \<Rightarrow> addr route_destination \<Rightarrow> int route_destination" where
  "deref_destination h d =
     \<lparr>rdst_guid = rdst_guid d,
      rdst_port = map_option (\<lambda>a. h ! a) (rdst_port d),
      rdst_weight = rdst_weight d,
      rdst_app_guid = rdst_app_guid d,
      rdst_process_type = rdst_process_type d,
      rdst_match_labels = rdst_match_labels d\<rparr>"

definition deref_spec :: "port_store \<Rightarrow> addr route_spec \<Rightarrow> int route_spec" where
  "deref_spec h s =
     \<lparr>rspec_host = rspec_host s,
      rspec_path = rspec_path s,
      rspec_url = rspec_url s,
      rspec_domain = rspec_domain s,
      rspec_destinations = map_option (map (deref_destination h)) (rspec_destinations s)\<rparr>"

definition deref_route :: "port_store \<Rightarrow> addr route_cr \<Rightarrow> int route_cr" where
  "deref_route h r =
     \<lparr>rcr_name = rcr_name r, rcr_namespace = rcr_namespace r, rcr_labels = rcr_labels r,
      rcr_spec = deref_spec h (rcr_spec r)\<rparr>"

text \<open>
  What the caller of \<open>TranslateRoute\<close> sees. The cells a call allocates are reachable from its
  result only and nothing writes them afterwards, so reading them at once or later is the same.
\<close>

definition translated_route ::
  "route \<Rightarrow> space option \<Rightarrow> domain option \<Rightarrow> string \<Rightarrow> int route_cr outcome" where
  "translated_route r space domain namespace =
     (case translate_route [] r space domain namespace of
        Panics p \<Rightarrow> Panics p
      | Returns (cr, h) \<Rightarrow> Returns (deref_route h cr))"

text \<open>\<open>CompareRoutes\<close>: \<open>reflect.DeepEqual\<close> of the specs, which reads pointers.\<close>

definition compare_routes :: "int route_cr \<Rightarrow> int route_cr \<Rightarrow> bool" where
  "compare_routes desired actual \<longleftrightarrow> rcr_spec desired = rcr_spec actual"

section \<open>What the translation computes\<close>

text \<open>The intended translation of one destination, with a given port.\<close>

definition destination_cr :: "int \<Rightarrow> destination \<Rightarrow> int route_destination" where
  "destination_cr port d =
     \<lparr>rdst_guid = dest_guid d,
      rdst_port = Some port,
      rdst_weight = dest_weight d,
      rdst_app_guid = dapp_guid (dest_app d),
      rdst_process_type = dproc_type (dapp_process (dest_app d)),
      rdst_match_labels = Some
        [cf_app_guid_label \<mapsto> dapp_guid (dest_app d),
         cf_process_type_label \<mapsto> dproc_type (dapp_process (dest_app d))]\<rparr>"

definition route_cr_with ::
  "(destination \<Rightarrow> int) \<Rightarrow> route \<Rightarrow> space \<Rightarrow> domain \<Rightarrow> string \<Rightarrow> int route_cr" where
  "route_cr_with port r sp dmn namespace =
     \<lparr>rcr_name = route_guid r,
      rcr_namespace = namespace,
      rcr_labels =
        [kube_name_label \<mapsto> route_guid r,
         kube_version_label \<mapsto> ''0.0.0'',
         kube_managed_by_label \<mapsto> ''cloudfoundry'',
         kube_component_label \<mapsto> ''cf-networking'',
         kube_part_of_label \<mapsto> ''cloudfoundry'',
         cf_org_guid_label \<mapsto> relationship_guid (space_relationships sp) ''organization'',
         cf_space_guid_label \<mapsto> space_guid sp,
         cf_domain_guid_label \<mapsto> domain_guid dmn,
         cf_route_guid_label \<mapsto> route_guid r],
      rcr_spec = \<lparr>rspec_host = route_host r,
        rspec_path = route_path r,
        rspec_url = route_url r,
        rspec_domain = \<lparr>rdom_name = domain_name dmn, rdom_internal = domain_internal dmn\<rparr>,
        rspec_destinations = Some (map (\<lambda>d. destination_cr (port d) d) (route_destinations r))\<rparr>\<rparr>"

text \<open>The port every destination ends up with: that of the last destination.\<close>

definition last_port :: "destination list \<Rightarrow> int" where
  "last_port ds = (if ds = [] then 0 else dest_port (last ds))"

lemma translate_destinations_append:
  "translate_destinations a h acc ds =
     (fst (translate_destinations a h [] ds), acc @ snd (translate_destinations a h [] ds))"
proof (induction ds arbitrary: h acc)
  case Nil
  then show ?case by simp
next
  case (Cons d ds)
  show ?case
    by (simp add: Cons.IH [where acc = "acc @ _"] Cons.IH [where acc = "[_]"])
qed

lemma translate_destinations_store:
  "a < length h \<Longrightarrow>
     fst (translate_destinations a h acc ds) = (if ds = [] then h else h[a := last_port ds])"
  by (induction ds arbitrary: h acc) (auto simp: last_port_def)

lemma translate_destinations_result:
  "map (deref_destination s) (snd (translate_destinations a h [] ds)) =
     map (destination_cr (s ! a)) ds"
proof (induction ds arbitrary: h)
  case Nil
  then show ?case by simp
next
  case (Cons d ds)
  then show ?case
    by (simp add: translate_destinations_append [where acc = "[_]"] deref_destination_def
        destination_cr_def)
qed

text \<open>
  The translation as an observer sees it: everything is copied from the route, the space and
  the domain, but every destination carries the port of the last one.
\<close>

lemma translated_route_Some:
  "translated_route r (Some sp) (Some dmn) ns =
     Returns (route_cr_with (\<lambda>_. last_port (route_destinations r)) r sp dmn ns)"
proof -
  obtain h' destinations where td:
    "translate_destinations 0 [0] [] (route_destinations r) = (h', destinations)"
    by (cases "translate_destinations 0 [0] [] (route_destinations r)")
  have h': "h' = (if route_destinations r = [] then [0] else [last_port (route_destinations r)])"
    using translate_destinations_store [of 0 "[0]" "[]" "route_destinations r"] td
    by (auto split: if_splits)
  then have "h' ! 0 = last_port (route_destinations r)"
    by (simp add: last_port_def)
  then have "map (deref_destination h') destinations =
      map (destination_cr (last_port (route_destinations r))) (route_destinations r)"
    using translate_destinations_result [of h' 0 "[0]" "route_destinations r"] td by simp
  then show ?thesis
    by (simp add: translated_route_def translate_route_def td deref_route_def deref_spec_def
        route_cr_with_def)
qed

lemma translated_route_None [simp]:
  "translated_route r None dmn ns = Panics NilDeref"
  "translated_route r sp None ns = Panics NilDeref"
  by (auto simp: translated_route_def translate_route_def split: prod.splits option.splits)

lemma translated_route_Returns:
  "translated_route r sp dmn ns = Returns cr \<longleftrightarrow>
     (\<exists>s d. sp = Some s \<and> dmn = Some d \<and>
        cr = route_cr_with (\<lambda>_. last_port (route_destinations r)) r s d ns)"
  by (cases sp; cases dmn) (auto simp: translated_route_Some)

lemma translated_route_meta:
  assumes "translated_route r sp dmn ns = Returns cr"
  shows "rcr_name cr = route_guid r" and "rcr_namespace cr = ns"
    and "rcr_labels cr kube_managed_by_label = Some ''cloudfoundry''"
  using assms
  by (auto simp: translated_route_Returns route_cr_with_def route_label_defs)

lemma route_cr_with_cong:
  "(\<And>d. d \<in> set (route_destinations r) \<Longrightarrow> p d = q d) \<Longrightarrow>
     route_cr_with p r sp dmn ns = route_cr_with q r sp dmn ns"
  by (simp add: route_cr_with_def)

lemma destination_cr_inject: "destination_cr p d = destination_cr q d \<longleftrightarrow> p = q"
  by (simp add: destination_cr_def)

lemma route_cr_with_ports_eq:
  "route_cr_with p r sp dmn ns = route_cr_with q r sp dmn ns \<longleftrightarrow>
     (\<forall>d \<in> set (route_destinations r). p d = q d)"
  by (auto simp: route_cr_with_def destination_cr_inject)

section \<open>An example\<close>

text \<open>A route with two destinations on different ports, its space and its domain.\<close>

definition example_relationships :: "string \<rightharpoonup> relationship" where
  "example_relationships =
     [''space'' \<mapsto> \<lparr>rel_data = \<lparr>rdata_guid = ''s1''\<rparr>\<rparr>, ''domain'' \<mapsto> \<lparr>rel_data = \<lparr>rdata_guid = ''d1''\<rparr>\<rparr>]"

definition example_destination :: "string \<Rightarrow> int \<Rightarrow> destination" where
  "example_destination g p =
     \<lparr>dest_guid = g, dest_app = \<lparr>dapp_guid = ''app'', dapp_process = \<lparr>dproc_type = ''web''\<rparr>\<rparr>,
      dest_weight = None, dest_port = p\<rparr>"

definition example_route :: route where
  "example_route =
     \<lparr>route_guid = ''r1'', route_host = ''host'', route_path = ''/p'', route_url = ''host.dom/p'',
      route_destinations = [example_destination ''a'' 8080, example_destination ''b'' 9090],
      route_relationships = example_relationships\<rparr>"

definition example_space :: space where
  "example_space = \<lparr>space_guid = ''s1'', space_name = ''sp'', space_relationships = Map.empty\<rparr>"

definition example_domain :: domain where
  "example_domain = \<lparr>domain_guid = ''d1'', domain_name = ''dom'', domain_internal = False\<rparr>"

section \<open>Properties\<close>

text \<open>C8: For a route whose space and domain are known, the translator returns the resource that
names the route, carries the eight fixed and derived labels of the route, its space, its domain
and its organization, and copies host, path, URL, domain and every destination in order; the port
of every destination is that of the last one. The pointer-filling loop computes exactly this
reference.\<close>

theorem translate_route_reference:
  "translated_route r (Some sp) (Some dmn) ns =
     Returns (route_cr_with (\<lambda>_. last_port (route_destinations r)) r sp dmn ns)"
  by (rule translated_route_Some)

text \<open>The address of the loop variable's port is shared by all destinations of the result, so
a route with destinations on different ports gets one port for all of them: the ports read from
the resource are the last destination's, once per destination.\<close>

theorem translate_route_ports_shared:
  assumes "translated_route r space domain ns = Returns cr"
  shows "map_option (map rdst_port) (rspec_destinations (rcr_spec cr)) =
     Some (replicate (length (route_destinations r)) (Some (last_port (route_destinations r))))"
  using assms
  by (auto simp: translated_route_Returns route_cr_with_def destination_cr_def
      intro!: replicate_eqI [symmetric] simp: comp_def map_replicate_const)

theorem translate_route_ports_shared_witness:
  "map_option (map rdst_port) (rspec_destinations (rcr_spec
     (route_cr_with (\<lambda>_. last_port (route_destinations example_route))
        example_route example_space example_domain ''ns''))) = Some [Some 9090, Some 9090]"
proof -
  have "last_port (route_destinations example_route) = 9090" "length (route_destinations example_route) = 2"
    by (simp_all add: example_route_def example_destination_def last_port_def)
  then show ?thesis
    using translate_route_ports_shared
      [OF translated_route_Some [of example_route example_space example_domain "''ns''"]]
    by (simp add: numeral_2_eq_2)
qed

text \<open>C9: The translation is the intended one, each destination with its own port, exactly when
all destinations of the route have the same port.\<close>

theorem translate_route_intended_iff:
  "translated_route r (Some sp) (Some dmn) ns = Returns (route_cr_with dest_port r sp dmn ns) \<longleftrightarrow>
     (\<exists>p. set (map dest_port (route_destinations r)) \<subseteq> {p})"
proof -
  have "(\<forall>d \<in> set ds. last_port ds = dest_port d) \<longleftrightarrow> (\<exists>p. dest_port ` set ds \<subseteq> {p})" for ds
  proof
    assume "\<exists>p. dest_port ` set ds \<subseteq> {p}"
    then obtain p where p: "\<And>d. d \<in> set ds \<Longrightarrow> dest_port d = p" by blast
    show "\<forall>d \<in> set ds. last_port ds = dest_port d"
    proof
      fix d
      assume "d \<in> set ds"
      then have "ds \<noteq> []" by auto
      moreover from this have "last ds \<in> set ds" by (rule last_in_set)
      ultimately show "last_port ds = dest_port d" using p \<open>d \<in> set ds\<close> by (simp add: last_port_def)
    qed
  next
    assume "\<forall>d \<in> set ds. last_port ds = dest_port d"
    then have "dest_port ` set ds \<subseteq> {last_port ds}" by auto
    then show "\<exists>p. dest_port ` set ds \<subseteq> {p}" by blast
  qed
  then show ?thesis
    by (simp add: translated_route_Some route_cr_with_ports_eq)
qed

end
