(* ===== verification/ControllerRuntime.thy ===== *)
theory ControllerRuntime
  imports GoPrelude
begin

text \<open>
  What the controllers share of controller-runtime: the result of a reconciliation, the events
  of a watch and the objects they carry, and the conditions of a kpack resource.
\<close>

text \<open>\<open>ctrl.Result\<close>: \<open>RequeueAfter\<close> is a \<open>time.Duration\<close>, an int64 of nanoseconds.\<close>

record ctrl_result =
  requeue :: bool
  requeue_after :: "64 word"

definition zero_result :: ctrl_result where
  "zero_result = \<lparr>requeue = False, requeue_after = 0\<rparr>"

definition requeue_result :: ctrl_result where
  "requeue_result = \<lparr>requeue = True, requeue_after = 0\<rparr>"

text \<open>
  An event carries \<open>runtime.Object\<close>s; a type assertion succeeds on the type the controller
  watches only.
\<close>

datatype 'o runtime_object = Watched 'o | OtherObject

datatype 'o watch_event =
    CreateEvent "'o runtime_object"
  | UpdateEvent "'o runtime_object" "'o runtime_object"
  | DeleteEvent "'o runtime_object"
  | GenericEvent "'o runtime_object"

text \<open>The predicate both kpack controllers give the manager, over their object filter.\<close>

fun event_filter :: "('o runtime_object \<Rightarrow> bool) \<Rightarrow> 'o watch_event \<Rightarrow> bool" where
  "event_filter f (CreateEvent e) = f e"
| "event_filter f (UpdateEvent old new) = f new"
| "event_filter f (DeleteEvent e) = False"
| "event_filter f (GenericEvent e) = False"

section \<open>Conditions of kpack resources\<close>

text \<open>
  kpack's \<open>Status.GetCondition\<close> and the tests on the pointer it returns are library code:
  parameters, with what their documentation promises of the nil pointer as \<open>condition_laws\<close>.
\<close>

record core_condition =
  cc_type :: string
  cc_status :: string
  cc_reason :: string
  cc_message :: string

record condition_api =
  ca_get :: "core_condition list \<Rightarrow> string \<Rightarrow> core_condition option"
  ca_is_true :: "core_condition option \<Rightarrow> bool"
  ca_is_unknown :: "core_condition option \<Rightarrow> bool"
  ca_succeeded :: string
  ca_ready :: string

definition condition_laws :: "condition_api \<Rightarrow> bool" where
  "condition_laws ca \<longleftrightarrow> \<not> ca_is_true ca None \<and> ca_is_unknown ca None"

end
