(* ===== verification/PeriodicSyncController.thy ===== *)
theory PeriodicSyncController
  imports RouteTranslator ControllerRuntime
begin

text \<open>
  \<open>controllers/periodic_sync_controller.go\<close> and the resource it reconciles
  (\<open>apis/.../periodicsync_types.go\<close>): the loop that makes the Route resources of the
  workloads namespace equal to the routes the CF API lists.
\<close>

section \<open>The PeriodicSync resource\<close>

type_synonym condition_status = string

definition true_condition_status :: condition_status where
  "true_condition_status = ''True''"
definition false_condition_status :: condition_status where
  "false_condition_status = ''False''"
definition unknown_condition_status :: condition_status where
  "unknown_condition_status = ''Unknown''"

record condition =
  cond_type :: string
  cond_status :: condition_status
  cond_last_transition :: int
  cond_reason :: string
  cond_message :: string

definition synced_condition_type :: string where
  "synced_condition_type = ''Synced''"
definition completed_condition_reason :: string where
  "completed_condition_reason = ''Completed''"
definition failed_condition_reason :: string where
  "failed_condition_reason = ''Failed''"

record periodic_sync =
  ps_name :: string
  ps_namespace :: string
  ps_period_seconds :: "32 word"
  ps_conditions :: "condition list option"

section \<open>The API the reconciler calls\<close>

text \<open>
  The controller-runtime client and the API helpers are outside the repository: they are the
  fields of a parameter. \<open>Get\<close> and \<open>Status().Update\<close> write into the object they are given, so
  they return it; a selector is an opaque value.
\<close>

record ('w, 'sel) sync_client =
  sc_get :: "string \<times> string \<Rightarrow> ('w, periodic_sync \<times> go_error option) effect"
  sc_label_selector :: "(string \<times> string) list \<Rightarrow> go_error + 'sel"
  sc_list :: "string \<Rightarrow> 'sel \<Rightarrow> ('w, go_error + int route_cr list) effect"
  sc_update :: "int route_cr \<Rightarrow> ('w, go_error option) effect"
  sc_create :: "int route_cr \<Rightarrow> ('w, go_error option) effect"
  sc_delete :: "string \<Rightarrow> string \<Rightarrow> ('w, go_error option) effect"
  sc_status_update :: "periodic_sync \<Rightarrow> ('w, periodic_sync \<times> go_error option) effect"
  sc_is_not_found :: "go_error \<Rightarrow> bool"
  sc_ignore_not_found :: "go_error \<Rightarrow> go_error option"
  sc_now :: "'w \<Rightarrow> int"

section \<open>Status updates\<close>

definition set_sync_status ::
  "condition_status \<Rightarrow> string \<Rightarrow> string \<Rightarrow> int \<Rightarrow> periodic_sync \<Rightarrow> periodic_sync" where
  "set_sync_status status reason message now ps =
     ps\<lparr>ps_conditions := Some
          [\<lparr>cond_type = synced_condition_type, cond_status = status, cond_last_transition = now,
            cond_reason = reason, cond_message = message\<rparr>]\<rparr>"

definition update_sync_status_success ::
  "('w, 'sel) sync_client \<Rightarrow> periodic_sync \<Rightarrow> ('w, periodic_sync \<times> go_error option) effect" where
  "update_sync_status_success kc ps w =
     sc_status_update kc
       (set_sync_status true_condition_status completed_condition_reason [] (sc_now kc w) ps) w"

definition update_sync_status_failure ::
  "('w, 'sel) sync_client \<Rightarrow> periodic_sync \<Rightarrow> string
    \<Rightarrow> ('w, periodic_sync \<times> go_error option) effect" where
  "update_sync_status_failure kc ps message w =
     sc_status_update kc
       (set_sync_status false_condition_status failed_condition_reason message (sc_now kc w) ps) w"

section \<open>The reconciliation loops\<close>

text \<open>The maps \<open>Reconcile\<close> builds before its loops, and the namespace it works in.\<close>

record sync_maps =
  sm_routes :: "(string, route) go_map"
  sm_spaces :: "(string, space) go_map"
  sm_domains :: "(string, domain) go_map"
  sm_k8s :: "(string, int route_cr) go_map"
  sm_namespace :: string

definition build_sync_maps :: "route_list \<Rightarrow> int route_cr list \<Rightarrow> string \<Rightarrow> sync_maps" where
  "build_sync_maps rl k8s ns =
     \<lparr>sm_routes = index_by route_guid (\<lambda>r. r) (rl_resources rl),
      sm_spaces = index_by space_guid (\<lambda>s. s) (incl_spaces (rl_included rl)),
      sm_domains = index_by domain_guid (\<lambda>d. d) (incl_domains (rl_included rl)),
      sm_k8s = index_by rcr_name (\<lambda>r. r) k8s,
      sm_namespace = ns\<rparr>"

definition desired_route :: "sync_maps \<Rightarrow> route \<Rightarrow> int route_cr outcome" where
  "desired_route m r =
     translated_route r
       (go_get (sm_spaces m) (relationship_guid (route_relationships r) ''space''))
       (go_get (sm_domains m) (relationship_guid (route_relationships r) ''domain''))
       (sm_namespace m)"

text \<open>
  The first loop, over the CF routes: update the resource that differs, remember the route
  that has none. \<open>ok\<close> is \<open>reconciledSuccessfully\<close>.
\<close>

fun sync_existing ::
  "('w, 'sel) sync_client \<Rightarrow> sync_maps \<Rightarrow> route list \<Rightarrow> bool \<Rightarrow> (string \<times> route) list
    \<Rightarrow> ('w, (route list \<times> bool) outcome) effect" where
  "sync_existing kc m missing ok [] w = (Returns (missing, ok), w)"
| "sync_existing kc m missing ok ((guid, r) # rest) w =
     (case go_get (sm_k8s m) guid of
        None \<Rightarrow> sync_existing kc m (missing @ [r]) ok rest w
      | Some k8s_route \<Rightarrow>
          (case desired_route m r of
             Panics p \<Rightarrow> (Panics p, w)
           | Returns desired \<Rightarrow>
               if compare_routes desired k8s_route then sync_existing kc m missing ok rest w
               else (case sc_update kc (k8s_route\<lparr>rcr_spec := rcr_spec desired\<rparr>) w of
                       (Some e, w') \<Rightarrow> sync_existing kc m missing False rest w'
                     | (None, w') \<Rightarrow> sync_existing kc m missing ok rest w')))"

text \<open>The second loop: create what is missing.\<close>

fun sync_missing ::
  "('w, 'sel) sync_client \<Rightarrow> sync_maps \<Rightarrow> bool \<Rightarrow> route list \<Rightarrow> ('w, bool outcome) effect" where
  "sync_missing kc m ok [] w = (Returns ok, w)"
| "sync_missing kc m ok (r # rest) w =
     (case desired_route m r of
        Panics p \<Rightarrow> (Panics p, w)
      | Returns cr \<Rightarrow>
          (case sc_create kc cr w of
             (Some e, w') \<Rightarrow> sync_missing kc m False rest w'
           | (None, w') \<Rightarrow> sync_missing kc m ok rest w'))"

text \<open>The routes only Kubernetes has, and the third loop, which deletes them.\<close>

definition extra_routes ::
  "sync_maps \<Rightarrow> (string list \<Rightarrow> string list) \<Rightarrow> string list" where
  "extra_routes m ord =
     map fst (filter (\<lambda>(guid, _). go_get (sm_routes m) guid = None) (go_range ord (sm_k8s m)))"

fun sync_extra ::
  "('w, 'sel) sync_client \<Rightarrow> sync_maps \<Rightarrow> bool \<Rightarrow> string list \<Rightarrow> ('w, bool) effect" where
  "sync_extra kc m ok [] w = (ok, w)"
| "sync_extra kc m ok (guid # rest) w =
     (case sc_delete kc (sm_namespace m) guid w of
        (Some e, w') \<Rightarrow>
          if sc_is_not_found kc e then sync_extra kc m ok rest w'
          else sync_extra kc m False rest w'
      | (None, w') \<Rightarrow> sync_extra kc m ok rest w')"

definition sync_routes ::
  "('w, 'sel) sync_client \<Rightarrow> sync_maps \<Rightarrow> (string list \<Rightarrow> string list)
    \<Rightarrow> (string list \<Rightarrow> string list) \<Rightarrow> ('w, bool outcome) effect" where
  "sync_routes kc m ord1 ord2 w =
     (case sync_existing kc m [] True (go_range ord1 (sm_routes m)) w of
        (Panics p, w1) \<Rightarrow> (Panics p, w1)
      | (Returns (missing, ok), w1) \<Rightarrow>
          (case sync_missing kc m ok missing w1 of
             (Panics p, w2) \<Rightarrow> (Panics p, w2)
           | (Returns ok2, w2) \<Rightarrow>
               (case sync_extra kc m ok2 (extra_routes m ord2) w2 of
                  (ok3, w3) \<Rightarrow> (Returns ok3, w3))))"

text \<open>\<open>time.Duration(PeriodSeconds) * time.Second\<close>: sign extension, then an int64 product.\<close>

definition requeue_period :: "32 word \<Rightarrow> 64 word" where
  "requeue_period seconds = signed seconds * 1000000000"

text \<open>\<open>Reconcile\<close>, with \<open>CFClient.ListRoutes\<close> and the two range orders as parameters.\<close>

definition periodic_sync_reconcile ::
  "('w, 'sel) sync_client \<Rightarrow> ('w, go_error + route_list) effect \<Rightarrow> string
    \<Rightarrow> (string list \<Rightarrow> string list) \<Rightarrow> (string list \<Rightarrow> string list) \<Rightarrow> string \<times> string
    \<Rightarrow> ('w, (ctrl_result \<times> go_error option) outcome) effect" where
  "periodic_sync_reconcile kc list_routes ns ord1 ord2 req w =
     (case sc_get kc req w of
        ((ps, Some e), w1) \<Rightarrow>
          (let w2 = (if sc_is_not_found kc e then w1
                     else snd (update_sync_status_failure kc ps (error_text e) w1))
           in (Returns (zero_result, sc_ignore_not_found kc e), w2))
      | ((ps, None), w1) \<Rightarrow>
     (case list_routes w1 of
        (Inl e, w2) \<Rightarrow>
          (Returns (zero_result, Some (WrappedError ''error listing routes from CF API: '' e [])),
           snd (update_sync_status_failure kc ps (error_text e) w2))
      | (Inr rl, w2) \<Rightarrow>
     (case sc_label_selector kc [(kube_managed_by_label, ''cloudfoundry'')] of
        Inl e \<Rightarrow>
          (Returns (zero_result, Some (WrappedError ''error converting label selector: '' e [])),
           snd (update_sync_status_failure kc ps (error_text e) w2))
      | Inr selector \<Rightarrow>
     (case sc_list kc ns selector w2 of
        (Inl e, w3) \<Rightarrow>
          (Returns (zero_result, Some (WrappedError ''error listing routes from kubernetes API: '' e [])),
           snd (update_sync_status_failure kc ps (error_text e) w3))
      | (Inr k8s, w3) \<Rightarrow>
     (case sync_routes kc (build_sync_maps rl k8s ns) ord1 ord2 w3 of
        (Panics p, w4) \<Rightarrow> (Panics p, w4)
      | (Returns False, w4) \<Rightarrow>
          (let e = ErrorText ''failed to reconcile at least one route''
           in (Returns (zero_result, Some e),
               snd (update_sync_status_failure kc ps (error_text e) w4)))
      | (Returns True, w4) \<Rightarrow>
          (case update_sync_status_success kc ps w4 of
             ((ps', Some e), w5) \<Rightarrow> (Returns (zero_result, Some e), w5)
           | ((ps', None), w5) \<Rightarrow>
               (Returns (\<lparr>requeue = False, requeue_after = requeue_period (ps_period_seconds ps')\<rparr>,
                         None), w5)))))))"

section \<open>What the Kubernetes API promises\<close>

text \<open>
  The documented behaviour of the API that the reconciler relies on, for a view of the world as
  the Route resources of the workloads namespace by name: a list returns the resources with the
  managed-by label, once each; a successful update or create stores the resource; a delete that
  succeeds or reports not found leaves no resource of that name; a write that fails otherwise was
  carried out, its response lost, or was not; nothing else changes the view.
\<close>

definition managed_route :: "int route_cr \<Rightarrow> bool" where
  "managed_route r \<longleftrightarrow> rcr_labels r kube_managed_by_label = Some ''cloudfoundry''"

definition route_list_law :: "('w, 'sel) sync_client \<Rightarrow> string \<Rightarrow> ('w \<Rightarrow> string \<rightharpoonup> int route_cr) \<Rightarrow> bool" where
  "route_list_law kc ns view \<longleftrightarrow>
     (\<forall>sel w e w'. sc_list kc ns sel w = (Inl e, w') \<longrightarrow> view w' = view w) \<and>
     (\<forall>sel w rs w'. sc_label_selector kc [(kube_managed_by_label, ''cloudfoundry'')] = Inr sel \<longrightarrow>
        sc_list kc ns sel w = (Inr rs, w') \<longrightarrow>
        view w' = view w \<and> distinct (map rcr_name rs) \<and>
        set rs = {r. \<exists>n. view w n = Some r \<and> rcr_name r = n \<and> managed_route r} \<and>
        (\<forall>n r. view w n = Some r \<longrightarrow> rcr_name r = n))"

definition route_write_laws :: "('w, 'sel) sync_client \<Rightarrow> string \<Rightarrow> ('w \<Rightarrow> string \<rightharpoonup> int route_cr) \<Rightarrow> bool" where
  "route_write_laws kc ns view \<longleftrightarrow>
     (\<forall>r w e w'. sc_update kc r w = (e, w') \<longrightarrow>
        view w' = (view w)(rcr_name r \<mapsto> r) \<or> e \<noteq> None \<and> view w' = view w) \<and>
     (\<forall>r w e w'. sc_create kc r w = (e, w') \<longrightarrow>
        view w' = (view w)(rcr_name r \<mapsto> r) \<or> e \<noteq> None \<and> view w' = view w) \<and>
     (\<forall>n w e w'. sc_delete kc ns n w = (e, w') \<longrightarrow>
        view w' = (view w)(n := None) \<or>
        (case e of None \<Rightarrow> False | Some err \<Rightarrow> \<not> sc_is_not_found kc err) \<and> view w' = view w)"

definition route_frame_laws ::
  "('w, 'sel) sync_client \<Rightarrow> ('w, go_error + route_list) effect \<Rightarrow> ('w \<Rightarrow> string \<rightharpoonup> int route_cr) \<Rightarrow> bool" where
  "route_frame_laws kc list_routes view \<longleftrightarrow>
     (\<forall>req w. view (snd (sc_get kc req w)) = view w) \<and>
     (\<forall>ps w. view (snd (sc_status_update kc ps w)) = view w) \<and>
     (\<forall>w. view (snd (list_routes w)) = view w)"

section \<open>The abstract specification of a sync\<close>

text \<open>
  The state a successful sync reaches from a view \<open>v\<close>: every CF route has its resource, an
  existing managed one with only its spec replaced; a managed resource without a CF route is
  gone; everything else is untouched.
\<close>

definition sync_target :: "sync_maps \<Rightarrow> (string \<rightharpoonup> int route_cr) \<Rightarrow> (string \<rightharpoonup> int route_cr)" where
  "sync_target m v g =
     (case go_get (sm_routes m) g of
        Some r \<Rightarrow>
          (case desired_route m r of
             Returns cr \<Rightarrow>
               (case go_get (sm_k8s m) g of
                  Some old \<Rightarrow> Some (old\<lparr>rcr_spec := rcr_spec cr\<rparr>)
                | None \<Rightarrow> Some cr)
           | Panics _ \<Rightarrow> v g)
      | None \<Rightarrow> if go_get (sm_k8s m) g \<noteq> None then None else v g)"

lemma desired_route_name: "desired_route m r = Returns cr \<Longrightarrow> rcr_name cr = route_guid r"
  unfolding desired_route_def by (rule translated_route_meta)

lemma desired_route_managed: "desired_route m r = Returns cr \<Longrightarrow> managed_route cr"
  unfolding desired_route_def managed_route_def by (rule translated_route_meta)

text \<open>The first loop's step on a pair that is not yet taken apart.\<close>

lemma sync_existing_Cons [simp]:
  "sync_existing kc m missing ok (p # rest) w =
     (case go_get (sm_k8s m) (fst p) of
        None \<Rightarrow> sync_existing kc m (missing @ [snd p]) ok rest w
      | Some k8s_route \<Rightarrow>
          (case desired_route m (snd p) of
             Panics e \<Rightarrow> (Panics e, w)
           | Returns desired \<Rightarrow>
               if compare_routes desired k8s_route then sync_existing kc m missing ok rest w
               else (case sc_update kc (k8s_route\<lparr>rcr_spec := rcr_spec desired\<rparr>) w of
                       (Some e, w') \<Rightarrow> sync_existing kc m missing False rest w'
                     | (None, w') \<Rightarrow> sync_existing kc m missing ok rest w')))"
  by (cases p) (simp only: sync_existing.simps fst_conv snd_conv)

lemmas sync_splits = option.splits outcome.splits if_splits prod.splits

text \<open>\<open>ok\<close> only ever goes from true to false.\<close>

lemma sync_existing_ok:
  "sync_existing kc m missing ok ps w = (Returns (missing', True), w') \<Longrightarrow> ok"
  by (induction ps arbitrary: missing ok w) (fastforce split: sync_splits)+

lemma sync_missing_ok: "sync_missing kc m ok rs w = (Returns True, w') \<Longrightarrow> ok"
  by (induction rs arbitrary: ok w) (auto split: sync_splits)

lemma sync_extra_ok: "sync_extra kc m ok gs w = (True, w') \<Longrightarrow> ok"
  by (induction gs arbitrary: ok w) (auto split: sync_splits)

text \<open>What the first loop leaves to the second: the routes without a resource, in range order.\<close>

lemma sync_existing_missing:
  "sync_existing kc m missing ok ps w = (Returns (missing', ok'), w') \<Longrightarrow>
     missing' = missing @ map snd (filter (\<lambda>p. go_get (sm_k8s m) (fst p) = None) ps)"
  by (induction ps arbitrary: missing ok w) (fastforce split: sync_splits)+

text \<open>No loop panics exactly when every visited route has its space and its domain.\<close>

lemma sync_existing_panics:
  "fst (sync_existing kc m missing ok ps w) = Panics e \<Longrightarrow>
     \<exists>(g, r) \<in> set ps. desired_route m r = Panics e"
  by (induction ps arbitrary: missing ok w) (fastforce split: sync_splits)+

lemma sync_existing_no_panic:
  "fst (sync_existing kc m missing ok ps w) = Returns x \<Longrightarrow> (g, r) \<in> set ps \<Longrightarrow>
     go_get (sm_k8s m) g \<noteq> None \<Longrightarrow> \<exists>cr. desired_route m r = Returns cr"
  by (induction ps arbitrary: missing ok w) (fastforce split: sync_splits)+

lemma sync_missing_panics:
  "fst (sync_missing kc m ok rs w) = Panics e \<Longrightarrow> \<exists>r \<in> set rs. desired_route m r = Panics e"
  by (induction rs arbitrary: ok w) (fastforce split: sync_splits)+

lemma sync_missing_no_panic:
  "fst (sync_missing kc m ok rs w) = Returns x \<Longrightarrow> r \<in> set rs \<Longrightarrow>
     \<exists>cr. desired_route m r = Returns cr"
  by (induction rs arbitrary: ok w) (fastforce split: sync_splits)+

section \<open>A successful sync reaches the target\<close>

lemma route_write_lawsD:
  assumes "route_write_laws kc ns view"
  shows "sc_update kc r w = (None, w') \<Longrightarrow> view w' = (view w)(rcr_name r \<mapsto> r)"
    and "sc_create kc r w = (None, w') \<Longrightarrow> view w' = (view w)(rcr_name r \<mapsto> r)"
    and "sc_delete kc ns n w = (None, w') \<Longrightarrow> view w' = (view w)(n := None)"
    and "sc_delete kc ns n w = (Some e, w') \<Longrightarrow> sc_is_not_found kc e \<Longrightarrow> view w' = (view w)(n := None)"
  using assms unfolding route_write_laws_def by fastforce+

text \<open>The resource the first loop leaves under a name it visited.\<close>

definition updated_resource :: "sync_maps \<Rightarrow> route option \<Rightarrow> int route_cr option \<Rightarrow> int route_cr option" where
  "updated_resource m r v =
     (case r of
        None \<Rightarrow> v
      | Some r' \<Rightarrow>
          (case v of
             None \<Rightarrow> None
           | Some old \<Rightarrow>
               (case desired_route m r' of
                  Returns cr \<Rightarrow> Some (old\<lparr>rcr_spec := rcr_spec cr\<rparr>)
                | Panics _ \<Rightarrow> Some old)))"

lemma compare_routes_same_spec:
  "compare_routes desired actual \<Longrightarrow> actual\<lparr>rcr_spec := rcr_spec desired\<rparr> = actual"
  by (simp add: compare_routes_def)

text \<open>The first loop at a route that has a resource.\<close>

lemma sync_existing_visit:
  assumes laws: "route_write_laws kc ns view" and name: "rcr_name old = g" and old: "view w g = Some old"
    and run: "sync_existing kc m missing ok ((g, r) # ps) w = (Returns (missing', True), w')"
    and found: "go_get (sm_k8s m) g = Some old"
  obtains w1 where "sync_existing kc m missing ok ps w1 = (Returns (missing', True), w')"
    and "view w1 = (view w)(g := updated_resource m (Some r) (Some old))"
proof -
  obtain cr where cr: "desired_route m r = Returns cr"
    using run found by (auto split: outcome.splits)
  show ?thesis
  proof (cases "compare_routes cr old")
    case True
    have "view w = (view w)(g := updated_resource m (Some r) (Some old))"
      using cr True old by (simp add: updated_resource_def compare_routes_same_spec fun_upd_idem)
    moreover have "sync_existing kc m missing ok ps w = (Returns (missing', True), w')"
      using run found cr True by simp
    ultimately show ?thesis by (intro that)
  next
    case False
    let ?new = "old\<lparr>rcr_spec := rcr_spec cr\<rparr>"
    obtain e w1 where up: "sc_update kc ?new w = (e, w1)"
      by (cases "sc_update kc ?new w")
    have e: "e = None"
      using run found cr False up sync_existing_ok by (cases e) fastforce+
    have "view w1 = (view w)(g := updated_resource m (Some r) (Some old))"
      using route_write_lawsD(1) [OF laws, of ?new w w1] up e name cr by (simp add: updated_resource_def)
    moreover have "sync_existing kc m missing ok ps w1 = (Returns (missing', True), w')"
      using run found cr False up e by simp
    ultimately show ?thesis by (intro that)
  qed
qed

lemma sync_existing_view:
  assumes laws: "route_write_laws kc ns view"
    and names: "\<And>g old. go_get (sm_k8s m) g = Some old \<Longrightarrow> rcr_name old = g"
  shows "sync_existing kc m missing ok ps w = (Returns (missing', True), w') \<Longrightarrow>
     distinct (map fst ps) \<Longrightarrow>
     (\<forall>g \<in> fst ` set ps. \<forall>old. go_get (sm_k8s m) g = Some old \<longrightarrow> view w g = Some old) \<Longrightarrow>
     view w' = (\<lambda>g. if go_get (sm_k8s m) g = None then view w g
                   else updated_resource m (map_of ps g) (view w g))"
proof (induction ps arbitrary: missing ok w)
  case Nil
  then show ?case by (auto simp: updated_resource_def)
next
  case (Cons p ps)
  obtain g r where p: "p = (g, r)" by (cases p)
  have dist: "g \<notin> fst ` set ps" "distinct (map fst ps)"
    using Cons.prems(2) p by auto
  then have mo: "map_of ps g = None"
    by (simp add: map_of_eq_None_iff)
  show ?case
  proof (cases "go_get (sm_k8s m) g")
    case None
    then have "sync_existing kc m (missing @ [r]) ok ps w = (Returns (missing', True), w')"
      using Cons.prems(1) p by simp
    from Cons.IH [OF this dist(2)] Cons.prems(3) None p show ?thesis
      by auto
  next
    case (Some old)
    have old: "view w g = Some old"
      using Cons.prems(3) Some p by auto
    obtain w1 where w1: "sync_existing kc m missing ok ps w1 = (Returns (missing', True), w')"
      "view w1 = (view w)(g := updated_resource m (Some r) (Some old))"
      by (rule sync_existing_visit [OF laws names [OF Some] old Cons.prems(1) [unfolded p] Some])
    have "\<forall>g' \<in> fst ` set ps. \<forall>old'. go_get (sm_k8s m) g' = Some old' \<longrightarrow> view w1 g' = Some old'"
      using Cons.prems(3) dist(1) unfolding p w1(2) by auto
    from Cons.IH [OF w1(1) dist(2) this] show ?thesis
      using p old mo w1(2) Some by (auto simp: updated_resource_def fun_eq_iff split: option.splits)
  qed
qed

lemma sync_missing_view:
  assumes laws: "route_write_laws kc ns view"
  shows "sync_missing kc m ok rs w = (Returns True, w') \<Longrightarrow> distinct (map route_guid rs) \<Longrightarrow>
     view w' = (\<lambda>g. case map_of (map (\<lambda>r. (route_guid r, r)) rs) g of
                     None \<Rightarrow> view w g
                   | Some r \<Rightarrow> (case desired_route m r of Returns cr \<Rightarrow> Some cr | Panics _ \<Rightarrow> None))"
proof (induction rs arbitrary: ok w)
  case Nil
  then show ?case by simp
next
  case (Cons r rs)
  obtain cr where cr: "desired_route m r = Returns cr"
    using Cons.prems(1) by (auto split: outcome.splits)
  obtain e w1 where cre: "sc_create kc cr w = (e, w1)"
    by (cases "sc_create kc cr w")
  have e: "e = None"
    using Cons.prems(1) cr cre sync_missing_ok by (cases e) fastforce+
  have rest: "sync_missing kc m ok rs w1 = (Returns True, w')"
    using Cons.prems(1) cr cre e by simp
  have v1: "view w1 = (view w)(route_guid r \<mapsto> cr)"
    using route_write_lawsD(2) [OF laws, of cr w w1] cre e desired_route_name [OF cr] by simp
  have "map_of (map (\<lambda>r. (route_guid r, r)) rs) (route_guid r) = None"
    using Cons.prems(2) by (force simp: map_of_eq_None_iff)
  then show ?case
    using Cons.IH [OF rest] Cons.prems(2) v1 cr by (auto simp: fun_eq_iff split: option.split)
qed

lemma sync_extra_view:
  assumes laws: "route_write_laws kc (sm_namespace m) view"
  shows "sync_extra kc m ok gs w = (True, w') \<Longrightarrow>
     view w' = (\<lambda>g. if g \<in> set gs then None else view w g)"
proof (induction gs arbitrary: ok w)
  case Nil
  then show ?case by simp
next
  case (Cons n gs)
  obtain e w1 where del: "sc_delete kc (sm_namespace m) n w = (e, w1)"
    by (cases "sc_delete kc (sm_namespace m) n w")
  have gone: "case e of None \<Rightarrow> True | Some err \<Rightarrow> sc_is_not_found kc err"
    using Cons.prems del sync_extra_ok by (auto split: option.splits if_splits)
  then have rest: "sync_extra kc m ok gs w1 = (True, w')"
    using Cons.prems del by (auto split: option.splits)
  have "view w1 = (view w)(n := None)"
    using gone del route_write_lawsD(3,4) [OF laws] by (cases e) auto
  then show ?case
    using Cons.IH [OF rest] by (auto simp: fun_eq_iff)
qed

lemma build_sync_maps_sel [simp]:
  "sm_routes (build_sync_maps rl k8s ns) = index_by route_guid (\<lambda>r. r) (rl_resources rl)"
  "sm_k8s (build_sync_maps rl k8s ns) = index_by rcr_name (\<lambda>r. r) k8s"
  "sm_namespace (build_sync_maps rl k8s ns) = ns"
  by (simp_all add: build_sync_maps_def)

lemma set_extra_routes:
  "range_order ord \<Longrightarrow> go_map_ok (sm_k8s m) \<Longrightarrow>
     set (extra_routes m ord) =
       {g. go_get (sm_k8s m) g \<noteq> None \<and> go_get (sm_routes m) g = None}"
  by (force simp: extra_routes_def go_range_set)

lemma map_of_map_filter:
  "distinct (map fst ps) \<Longrightarrow>
     map_of (filter (\<lambda>p. P (fst p)) ps) k = (if P k then map_of ps k else None)"
  by (induction ps) (auto simp: map_of_eq_None_iff)

text \<open>
  The routes handed to the second loop, as pairs, are the visited pairs without a resource.
\<close>

lemma missing_pairs:
  assumes run: "sync_existing kc m [] ok (go_range ord (sm_routes m)) w = (Returns (missing, ok'), w')"
    and ord: "range_order ord" and maps: "go_map_ok (sm_routes m)"
    and guids: "\<And>g r. go_get (sm_routes m) g = Some r \<Longrightarrow> route_guid r = g"
  shows "map (\<lambda>r. (route_guid r, r)) missing =
      filter (\<lambda>p. go_get (sm_k8s m) (fst p) = None) (go_range ord (sm_routes m))"
  unfolding sync_existing_missing [OF run] using guids ord maps
  by (auto simp: go_range_set intro!: map_idI)

lemma missing_guids_distinct:
  assumes "map (\<lambda>r. (route_guid r, r)) missing = filter P ps" and "distinct (map fst ps)"
  shows "distinct (map route_guid missing)"
proof -
  have "map route_guid missing = map fst (filter P ps)"
    unfolding assms(1) [symmetric] by simp
  then show ?thesis using assms(2) by (simp add: distinct_map_filter)
qed

text \<open>What the second loop visits are the CF routes without a resource.\<close>

lemma missing_route:
  assumes "sync_existing kc m [] ok (go_range ord (sm_routes m)) w = (Returns (missing, ok'), w')"
    and "range_order ord" and "go_map_ok (sm_routes m)" and "r \<in> set missing"
  obtains g where "go_get (sm_routes m) g = Some r" and "go_get (sm_k8s m) g = None"
proof -
  have "r \<in> snd ` {p \<in> set (go_range ord (sm_routes m)). go_get (sm_k8s m) (fst p) = None}"
    using assms(4) sync_existing_missing [OF assms(1)] by simp
  then show ?thesis using assms(2,3) by (auto simp: go_range_set intro: that)
qed

text \<open>A run whose first two loops return has met no route without its space and domain.\<close>

lemma sync_routes_desired:
  assumes run1: "sync_existing kc m [] ok (go_range ord (sm_routes m)) w = (Returns (missing, ok'), w1)"
    and run2: "fst (sync_missing kc m ok'' missing w1) = Returns x"
    and ord: "range_order ord" and maps: "go_map_ok (sm_routes m)"
    and r: "go_get (sm_routes m) g = Some r"
  shows "\<exists>cr. desired_route m r = Returns cr"
proof (cases "go_get (sm_k8s m) g")
  case None
  then have "r \<in> set missing"
    using r ord maps by (force simp: sync_existing_missing [OF run1] go_range_set)
  then show ?thesis using sync_missing_no_panic [OF run2] by blast
next
  case (Some old)
  have "(g, r) \<in> set (go_range ord (sm_routes m))"
    using r ord maps by (simp add: go_range_set)
  then show ?thesis
    using sync_existing_no_panic [of kc m "[]" ok "go_range ord (sm_routes m)" w "(missing, ok')" g r]
      run1 Some by simp
qed

text \<open>
  The refinement: whatever order the maps are ranged in, a run of the three loops that reports
  success leaves exactly the target of the abstract specification.
\<close>

lemma sync_routes_view:
  assumes laws: "route_write_laws kc (sm_namespace m) view"
    and ord: "range_order ord1" "range_order ord2"
    and maps: "go_map_ok (sm_routes m)" "go_map_ok (sm_k8s m)"
    and guids: "\<And>g r. go_get (sm_routes m) g = Some r \<Longrightarrow> route_guid r = g"
    and names: "\<And>g old. go_get (sm_k8s m) g = Some old \<Longrightarrow> rcr_name old = g \<and> view w g = Some old"
    and run: "sync_routes kc m ord1 ord2 w = (Returns True, w')"
  shows "view w' = sync_target m (view w)"
proof
  fix g
  let ?ps = "go_range ord1 (sm_routes m)"
  obtain missing ok w1 ok2 w2 where
    run1: "sync_existing kc m [] True ?ps w = (Returns (missing, ok), w1)"
    and run2: "sync_missing kc m ok missing w1 = (Returns ok2, w2)"
    and run3: "sync_extra kc m ok2 (extra_routes m ord2) w2 = (True, w')"
    using run by (auto simp: sync_routes_def split: prod.splits outcome.splits)
  have ok2: "ok2"
    using run3 by (rule sync_extra_ok)
  have ok: "ok"
    using run2 sync_missing_ok ok2 by (cases ok2) auto
  have dps: "distinct (map fst ?ps)" and mps: "map_of ?ps = go_get (sm_routes m)"
    using ord maps by (simp_all add: go_range_distinct go_range_map_of)
  note pairs = missing_pairs [OF run1 ord(1) maps(1) guids]
  have v1: "view w1 = (\<lambda>g. if go_get (sm_k8s m) g = None then view w g
                          else updated_resource m (go_get (sm_routes m) g) (view w g))"
    using sync_existing_view [OF laws, of m "[]" True ?ps w missing w1] run1 ok ok2 dps mps names by auto
  have mof: "map_of (filter (\<lambda>p. go_get (sm_k8s m) (fst p) = None) ?ps) g =
      (if go_get (sm_k8s m) g = None then go_get (sm_routes m) g else None)" for g
    using map_of_map_filter [OF dps, of "\<lambda>g. go_get (sm_k8s m) g = None" g] mps by simp
  have v2: "view w2 = (\<lambda>g. case (if go_get (sm_k8s m) g = None then go_get (sm_routes m) g else None) of
                     None \<Rightarrow> view w1 g
                   | Some r \<Rightarrow> (case desired_route m r of Returns cr \<Rightarrow> Some cr | Panics _ \<Rightarrow> None))"
    using sync_missing_view [OF laws, of m ok missing w1 w2] run2 ok ok2
      missing_guids_distinct [OF pairs dps]
    by (simp add: pairs mof)
  have v3: "view w' = (\<lambda>g. if g \<in> set (extra_routes m ord2) then None else view w2 g)"
    using sync_extra_view [OF laws] run3 by blast
  show "view w' g = sync_target m (view w) g"
  proof (cases "go_get (sm_routes m) g")
    case None
    then show ?thesis
      using ord maps by (simp add: v3 v2 v1 set_extra_routes sync_target_def updated_resource_def)
  next
    case (Some r)
    moreover have "fst (sync_missing kc m ok missing w1) = Returns ok2"
      using run2 by simp
    ultimately obtain cr where "desired_route m r = Returns cr"
      using sync_routes_desired [OF run1 _ ord(1) maps(1)] by blast
    then show ?thesis
      using Some ord maps names
      by (auto simp: v3 v2 v1 set_extra_routes sync_target_def updated_resource_def
          split: option.splits)
  qed
qed

section \<open>Every run, successful or not\<close>

lemma sync_existing_touches:
  assumes laws: "route_write_laws kc ns view"
    and names: "\<And>g old. go_get (sm_k8s m) g = Some old \<Longrightarrow> rcr_name old = g"
  shows "sync_existing kc m missing ok ps w = (res, w') \<Longrightarrow>
     view w' g = view w g \<or>
     (\<exists>r cr old. (g, r) \<in> set ps \<and> go_get (sm_k8s m) g = Some old \<and>
        desired_route m r = Returns cr \<and> view w' g = Some (old\<lparr>rcr_spec := rcr_spec cr\<rparr>))"
proof (induction ps arbitrary: missing ok w)
  case Nil
  then show ?case by simp
next
  case (Cons p ps)
  obtain g' r where p: "p = (g', r)" by (cases p)
  show ?case
  proof (cases "go_get (sm_k8s m) g'")
    case None
    then show ?thesis using Cons p by fastforce
  next
    case (Some old)
    note k = Some
    show ?thesis
    proof (cases "desired_route m r")
      case (Panics e)
      then show ?thesis using Cons.prems p k by simp
    next
      case (Returns cr)
      let ?new = "old\<lparr>rcr_spec := rcr_spec cr\<rparr>"
      obtain e w1 where up: "sc_update kc ?new w = (e, w1)" by (cases "sc_update kc ?new w")
      have v1: "view w1 = view w \<or> view w1 = (view w)(g' \<mapsto> ?new)"
        using laws up names [OF k] unfolding route_write_laws_def by fastforce
      obtain missing1 ok1 where
        "sync_existing kc m missing1 ok1 ps (if compare_routes cr old then w else w1) = (res, w')"
        using Cons.prems p k Returns up by (cases e) (auto split: if_splits)
      then show ?thesis
        using Cons.IH [of missing1 ok1] v1 p k Returns by (fastforce split: if_splits)
    qed
  qed
qed

lemma sync_missing_touches:
  assumes laws: "route_write_laws kc ns view"
  shows "sync_missing kc m ok rs w = (res, w') \<Longrightarrow>
     view w' g = view w g \<or>
     (\<exists>r \<in> set rs. \<exists>cr. route_guid r = g \<and> desired_route m r = Returns cr \<and> view w' g = Some cr)"
proof (induction rs arbitrary: ok w)
  case Nil
  then show ?case by simp
next
  case (Cons r rs)
  show ?case
  proof (cases "desired_route m r")
    case (Panics e)
    then show ?thesis using Cons.prems by simp
  next
    case (Returns cr)
    obtain e w1 where cre: "sc_create kc cr w = (e, w1)" by (cases "sc_create kc cr w")
    have v1: "view w1 = view w \<or> view w1 = (view w)(route_guid r \<mapsto> cr)"
      using laws cre desired_route_name [OF Returns] unfolding route_write_laws_def by fastforce
    obtain ok1 where "sync_missing kc m ok1 rs w1 = (res, w')"
      using Cons.prems Returns cre by (cases e) auto
    then show ?thesis
      using Cons.IH [of ok1] v1 Returns by (fastforce split: if_splits)
  qed
qed

lemma sync_extra_touches:
  assumes laws: "route_write_laws kc (sm_namespace m) view"
  shows "sync_extra kc m ok gs w = (res, w') \<Longrightarrow>
     view w' g = view w g \<or> (g \<in> set gs \<and> view w' g = None)"
proof (induction gs arbitrary: ok w)
  case Nil
  then show ?case by simp
next
  case (Cons n gs)
  obtain e w1 where del: "sc_delete kc (sm_namespace m) n w = (e, w1)"
    by (cases "sc_delete kc (sm_namespace m) n w")
  have v1: "view w1 = view w \<or> view w1 = (view w)(n := None)"
    using laws del unfolding route_write_laws_def by fastforce
  obtain ok1 where "sync_extra kc m ok1 gs w1 = (res, w')"
    using Cons.prems del by (auto split: option.splits if_splits)
  then show ?case
    using Cons.IH [of ok1] v1 by (fastforce split: if_splits)
qed

lemma sync_target_missing:
  "go_get (sm_routes m) g = Some r \<Longrightarrow> go_get (sm_k8s m) g = None \<Longrightarrow> desired_route m r = Returns cr \<Longrightarrow>
     sync_target m v g = Some cr"
  by (simp add: sync_target_def)

text \<open>
  Whatever happens, failing calls and a panic included, each resource of the namespace is left
  as it was or is exactly what the target says.
\<close>

lemma sync_routes_touches:
  assumes laws: "route_write_laws kc (sm_namespace m) view"
    and ord: "range_order ord1" "range_order ord2"
    and maps: "go_map_ok (sm_routes m)" "go_map_ok (sm_k8s m)"
    and guids: "\<And>g r. go_get (sm_routes m) g = Some r \<Longrightarrow> route_guid r = g"
    and names: "\<And>g old. go_get (sm_k8s m) g = Some old \<Longrightarrow> rcr_name old = g"
    and run: "sync_routes kc m ord1 ord2 w = (res, w')"
  shows "view w' g = view w g \<or> view w' g = sync_target m (view w) g"
proof -
  let ?ps = "go_range ord1 (sm_routes m)"
  have target_existing: "sync_target m (view w) g = Some (old\<lparr>rcr_spec := rcr_spec cr\<rparr>)"
    if "(g, r) \<in> set ?ps" "go_get (sm_k8s m) g = Some old" "desired_route m r = Returns cr" for r cr old
    using that ord maps by (simp add: go_range_set sync_target_def)
  obtain r1 w1 where run1: "sync_existing kc m [] True ?ps w = (r1, w1)"
    by (cases "sync_existing kc m [] True ?ps w")
  have t1: "view w1 g = view w g \<or> view w1 g = sync_target m (view w) g"
    using sync_existing_touches [OF laws names run1] target_existing by metis
  show ?thesis
  proof (cases r1)
    case (Panics p)
    then show ?thesis using run run1 t1 by (simp add: sync_routes_def)
  next
    case (Returns mo)
    obtain missing ok where mo: "mo = (missing, ok)" by (cases mo)
    note run1' = run1 [unfolded Returns mo]
    obtain r2 w2 where run2: "sync_missing kc m ok missing w1 = (r2, w2)"
      by (cases "sync_missing kc m ok missing w1")
    have target_missing: "sync_target m (view w) g = Some cr"
      if "r \<in> set missing" "route_guid r = g" "desired_route m r = Returns cr" for r cr
      using missing_route [OF run1' ord(1) maps(1) that(1)] that(2,3) guids by (metis sync_target_missing)
    have t2: "view w2 g = view w g \<or> view w2 g = sync_target m (view w) g"
      using sync_missing_touches [OF laws run2, of g] target_missing t1 by metis
    show ?thesis
    proof (cases r2)
      case (Panics p)
      then show ?thesis using run run1' run2 t2 by (simp add: sync_routes_def)
    next
      case (Returns ok2)
      obtain ok3 w3 where run3: "sync_extra kc m ok2 (extra_routes m ord2) w2 = (ok3, w3)"
        by (cases "sync_extra kc m ok2 (extra_routes m ord2) w2")
      then have "w' = w3"
        using run run1' run2 Returns by (simp add: sync_routes_def)
      moreover have "sync_target m (view w) g = None" if "g \<in> set (extra_routes m ord2)"
        using that ord maps by (auto simp: set_extra_routes sync_target_def)
      ultimately show ?thesis
        using sync_extra_touches [OF laws run3, of g] t2 by metis
    qed
  qed
qed

text \<open>The maps of a listed state: keyed by the resources' own names, agreeing with the view.\<close>

lemma k8s_map_view:
  assumes "route_list_law kc ns view"
    and "sc_label_selector kc [(kube_managed_by_label, ''cloudfoundry'')] = Inr sel"
    and "sc_list kc ns sel w = (Inr k8s, w')"
  shows "go_get (index_by rcr_name (\<lambda>r. r) k8s) g =
     (case view w g of Some r \<Rightarrow> if managed_route r then Some r else None | None \<Rightarrow> None)"
proof -
  have law: "view w' = view w" "distinct (map rcr_name k8s)"
    "set k8s = {r. \<exists>n. view w n = Some r \<and> rcr_name r = n \<and> managed_route r}"
    "\<forall>n r. view w n = Some r \<longrightarrow> rcr_name r = n"
    using assms unfolding route_list_law_def by blast+
  show ?thesis
  proof (cases "\<exists>r. view w g = Some r \<and> managed_route r")
    case True
    then obtain r where r: "view w g = Some r" "managed_route r" by blast
    then have "r \<in> set k8s" "rcr_name r = g" using law by auto
    then show ?thesis
      using index_by_unique [OF law(2), of r "\<lambda>r. r"] r by simp
  next
    case False
    then have "g \<notin> rcr_name ` set k8s" using law(3,4) by auto
    then show ?thesis using False by (auto simp: index_by_None split: option.splits)
  qed
qed

lemma routes_map_guid:
  "go_get (index_by route_guid (\<lambda>r. r) rs) g = Some r \<Longrightarrow> route_guid r = g"
  using index_by_Some by fastforce

text \<open>The loops panic exactly when a CF route has no translation.\<close>

lemma sync_routes_panics_iff:
  assumes ord: "range_order ord1" "range_order ord2" and maps: "go_map_ok (sm_routes m)"
  shows "(\<exists>p. fst (sync_routes kc m ord1 ord2 w) = Panics p) \<longleftrightarrow>
     (\<exists>g r. go_get (sm_routes m) g = Some r \<and> (\<exists>p. desired_route m r = Panics p))"
    (is "?run \<longleftrightarrow> ?bad")
proof -
  let ?ps = "go_range ord1 (sm_routes m)"
  obtain r1 w1 where run1: "sync_existing kc m [] True ?ps w = (r1, w1)"
    by (cases "sync_existing kc m [] True ?ps w")
  show ?thesis
  proof (cases r1)
    case (Panics p)
    then have "?bad"
      using sync_existing_panics [of kc m "[]" True ?ps w p] run1 ord maps
      by (auto simp: go_range_set)
    moreover have ?run using Panics run1 by (simp add: sync_routes_def)
    ultimately show ?thesis by blast
  next
    case (Returns mo)
    obtain missing ok where mo: "mo = (missing, ok)" by (cases mo)
    note run1' = run1 [unfolded Returns mo]
    obtain r2 w2 where run2: "sync_missing kc m ok missing w1 = (r2, w2)"
      by (cases "sync_missing kc m ok missing w1")
    show ?thesis
    proof (cases r2)
      case (Panics p)
      then obtain r where r: "r \<in> set missing" "desired_route m r = Panics p"
        using sync_missing_panics [of kc m ok missing w1 p] run2 by auto
      have "?bad" using missing_route [OF run1' ord(1) maps r(1)] r(2) by metis
      moreover have ?run using Panics run1' run2 by (simp add: sync_routes_def)
      ultimately show ?thesis by blast
    next
      case (Returns ok2)
      then have "fst (sync_missing kc m ok missing w1) = Returns ok2" using run2 by simp
      then have "\<not> ?bad"
        using sync_routes_desired [OF run1' _ ord(1) maps] by fastforce
      moreover have "\<not> ?run"
        using Returns run1' run2 by (auto simp: sync_routes_def split: prod.splits)
      ultimately show ?thesis by blast
    qed
  qed
qed

text \<open>When every CF route has an equal resource and no resource is extra, nothing is called.\<close>

lemma sync_existing_noop:
  "(\<And>g r. (g, r) \<in> set ps \<Longrightarrow>
      \<exists>cr old. desired_route m r = Returns cr \<and> go_get (sm_k8s m) g = Some old \<and> compare_routes cr old) \<Longrightarrow>
   sync_existing kc m missing ok ps w = (Returns (missing, ok), w)"
proof (induction ps)
  case Nil
  then show ?case by simp
next
  case (Cons p ps)
  obtain cr old where "desired_route m (snd p) = Returns cr" "go_get (sm_k8s m) (fst p) = Some old"
    "compare_routes cr old"
    using Cons.prems [of "fst p" "snd p"] by auto
  then show ?case using Cons by simp
qed

lemma sync_routes_noop:
  assumes ord: "range_order ord1" "range_order ord2"
    and maps: "go_map_ok (sm_routes m)" "go_map_ok (sm_k8s m)"
    and present: "\<And>g r. go_get (sm_routes m) g = Some r \<Longrightarrow>
      \<exists>cr old. desired_route m r = Returns cr \<and> go_get (sm_k8s m) g = Some old \<and> compare_routes cr old"
    and no_extra: "\<And>g. go_get (sm_k8s m) g \<noteq> None \<Longrightarrow> go_get (sm_routes m) g \<noteq> None"
  shows "sync_routes kc m ord1 ord2 w = (Returns True, w)"
proof -
  have "sync_existing kc m [] True (go_range ord1 (sm_routes m)) w = (Returns ([], True), w)"
    by (rule sync_existing_noop) (use present ord maps in \<open>auto simp: go_range_set\<close>)
  moreover have "extra_routes m ord2 = []"
    using set_extra_routes [OF ord(2) maps(2)] no_extra by (metis (mono_tags, lifting) empty_Collect_eq set_empty)
  ultimately show ?thesis by (simp add: sync_routes_def)
qed

end
