(* ===== verification/PeriodicSyncProperties.thy ===== *)
theory PeriodicSyncProperties
  imports PeriodicSyncController
begin

text \<open>
  What a reconciliation of a PeriodicSync achieves: the abstract specification of a sync over
  the CF API's list, the theorems that the controller implements it, and a small concrete API
  on which the hypotheses hold.
\<close>

section \<open>The specification over the CF API's answer\<close>

definition sync_spec ::
  "route_list \<Rightarrow> string \<Rightarrow> (string \<rightharpoonup> int route_cr) \<Rightarrow> (string \<rightharpoonup> int route_cr)" where
  "sync_spec rl ns v g =
     (let m = build_sync_maps rl [] ns;
          old = (case v g of Some r \<Rightarrow> if managed_route r then Some r else None | None \<Rightarrow> None)
      in case go_get (sm_routes m) g of
           Some r \<Rightarrow>
             (case desired_route m r of
                Returns cr \<Rightarrow> Some (case old of Some res \<Rightarrow> res\<lparr>rcr_spec := rcr_spec cr\<rparr> | None \<Rightarrow> cr)
              | Panics _ \<Rightarrow> v g)
         | None \<Rightarrow> if old = None then v g else None)"

lemma desired_route_k8s:
  "desired_route (build_sync_maps rl k8s ns) r = desired_route (build_sync_maps rl [] ns) r"
  by (simp add: desired_route_def build_sync_maps_def)

lemma sync_target_spec:
  assumes "route_list_law kc ns view"
    and "sc_label_selector kc [(kube_managed_by_label, ''cloudfoundry'')] = Inr sel"
    and "sc_list kc ns sel w = (Inr k8s, w')"
  shows "sync_target (build_sync_maps rl k8s ns) (view w) = sync_spec rl ns (view w)"
proof
  fix g
  show "sync_target (build_sync_maps rl k8s ns) (view w) g = sync_spec rl ns (view w) g"
    by (simp add: sync_target_def sync_spec_def Let_def k8s_map_view [OF assms]
        desired_route_k8s [of rl k8s]
        split: option.splits outcome.splits)
qed

text \<open>The calls before the loops, taken apart.\<close>

lemma reconcile_listed:
  assumes "sc_get kc req w = ((ps, None), w1)" and "list_routes w1 = (Inr rl, w2)"
  shows "periodic_sync_reconcile kc list_routes ns ord1 ord2 req w =
     (case sc_label_selector kc [(kube_managed_by_label, ''cloudfoundry'')] of
        Inl e \<Rightarrow>
          (Returns (zero_result, Some (WrappedError ''error converting label selector: '' e [])),
           snd (update_sync_status_failure kc ps (error_text e) w2))
      | Inr selector \<Rightarrow>
     (case sc_list kc ns selector w2 of
        (Inl e, w3) \<Rightarrow>
          (Returns (zero_result, Some (WrappedError ''error listing routes from kubernetes API: '' e [])),
           snd (update_sync_status_failure kc ps (error_text e) w3))
      | (Inr k8s, w3) \<Rightarrow>
     (case sync_routes kc (build_sync_maps rl k8s ns) ord1 ord2 w3 of
        (Panics p, w4) \<Rightarrow> (Panics p, w4)
      | (Returns False, w4) \<Rightarrow>
          (let e = ErrorText ''failed to reconcile at least one route''
           in (Returns (zero_result, Some e),
               snd (update_sync_status_failure kc ps (error_text e) w4)))
      | (Returns True, w4) \<Rightarrow>
          (case update_sync_status_success kc ps w4 of
             ((ps', Some e), w5) \<Rightarrow> (Returns (zero_result, Some e), w5)
           | ((ps', None), w5) \<Rightarrow>
               (Returns (\<lparr>requeue = False, requeue_after = requeue_period (ps_period_seconds ps')\<rparr>,
                         None), w5)))))"
  using assms by (simp add: periodic_sync_reconcile_def)

lemma frame_lawsD:
  assumes "route_frame_laws kc list_routes view"
  shows "sc_get kc req w = (a, w') \<Longrightarrow> view w' = view w"
    and "list_routes w = (b, w') \<Longrightarrow> view w' = view w"
    and "view (snd (update_sync_status_success kc ps w)) = view w"
    and "view (snd (update_sync_status_failure kc ps msg w)) = view w"
  using assms
  unfolding route_frame_laws_def update_sync_status_success_def update_sync_status_failure_def
  by (metis snd_conv)+

lemma list_lawD:
  assumes "route_list_law kc ns view"
  shows "sc_label_selector kc [(kube_managed_by_label, ''cloudfoundry'')] = Inr sel \<Longrightarrow>
      sc_list kc ns sel w = (Inr k8s, w') \<Longrightarrow> view w' = view w"
    and "sc_list kc ns sel w = (Inl e, w') \<Longrightarrow> view w' = view w"
  using assms unfolding route_list_law_def by blast+

section \<open>A concrete API\<close>

text \<open>
  An in-memory API whose world is the stored resources by name. It answers a list only for a
  well-formed store, refuses to create a name twice, and reports a missing one as not found.
\<close>

definition store_ok :: "(string, int route_cr) go_map \<Rightarrow> bool" where
  "store_ok s \<longleftrightarrow> go_map_ok s \<and> list_all (\<lambda>(n, r). rcr_name r = n) s"

definition store_client :: "periodic_sync \<Rightarrow> ((string, int route_cr) go_map, unit) sync_client" where
  "store_client ps =
     \<lparr>sc_get = (\<lambda>_ s. ((ps, None), s)),
      sc_label_selector = (\<lambda>_. Inr ()),
      sc_list = (\<lambda>_ _ s. (if store_ok s then Inr (filter managed_route (map snd s))
                          else Inl (ErrorText ''bad store''), s)),
      sc_update = (\<lambda>r s. (None, go_put (rcr_name r) r s)),
      sc_create = (\<lambda>r s. if go_get s (rcr_name r) = None then (None, go_put (rcr_name r) r s)
                         else (Some (ForeignError (ApiStatus ''AlreadyExists'') ''exists''), s)),
      sc_delete = (\<lambda>_ n s. if go_get s n = None then (Some (ForeignError (ApiStatus ''NotFound'') ''gone''), s)
                           else (None, filter (\<lambda>p. fst p \<noteq> n) s)),
      sc_status_update = (\<lambda>p s. ((p, None), s)),
      sc_is_not_found = (\<lambda>e. case e of ForeignError (ApiStatus r) _ \<Rightarrow> r = ''NotFound'' | _ \<Rightarrow> False),
      sc_ignore_not_found = (\<lambda>e. case e of ForeignError (ApiStatus r) _ \<Rightarrow>
                                   if r = ''NotFound'' then None else Some e | _ \<Rightarrow> Some e),
      sc_now = (\<lambda>_. 0)\<rparr>"

lemma go_get_filter_neq: "go_get (filter (\<lambda>p. fst p \<noteq> n) s) = (go_get s)(n := None)"
proof
  fix k
  show "go_get (filter (\<lambda>p. fst p \<noteq> n) s) k = ((go_get s)(n := None)) k"
    by (induction s) (auto simp: go_get_def)
qed

lemma store_write_laws: "route_write_laws (store_client ps) ns go_get"
proof -
  have put: "go_get (go_put k v s) = (go_get s)(k \<mapsto> v)" for k and v :: "int route_cr" and s
    by (auto simp: go_get_def go_put_def update_conv)
  have "(go_get s)(n := None) = go_get s" if "go_get s n = None" for s n
    using that by auto
  then show ?thesis
    by (auto simp: route_write_laws_def store_client_def put go_get_filter_neq split: if_splits)
qed

lemma store_mem:
  "store_ok s \<Longrightarrow> go_get s n = Some r \<longleftrightarrow> (n, r) \<in> set s"
  by (auto simp: go_get_def store_ok_def go_map_ok_def map_of_eq_Some_iff)

lemma store_keyed: "store_ok s \<Longrightarrow> (n, r) \<in> set s \<Longrightarrow> rcr_name r = n"
  by (auto simp: store_ok_def list_all_iff)

lemma store_listed_distinct:
  assumes "store_ok s"
  shows "distinct (map rcr_name (filter managed_route (map snd s)))"
proof -
  have "map rcr_name (map snd s) = map fst s"
    using assms by (auto simp: store_ok_def list_all_iff)
  then show ?thesis
    using assms by (metis distinct_map_filter store_ok_def go_map_ok_def)
qed

lemma store_listed_set:
  assumes "store_ok s"
  shows "set (filter managed_route (map snd s)) = {r. \<exists>n. go_get s n = Some r \<and> rcr_name r = n \<and> managed_route r}"
proof (rule set_eqI)
  fix r
  have "r \<in> snd ` set s \<longleftrightarrow> (\<exists>n. (n, r) \<in> set s)"
    by force
  also have "\<dots> \<longleftrightarrow> (\<exists>n. (n, r) \<in> set s \<and> rcr_name r = n)"
    using store_keyed [OF assms] by blast
  finally show "r \<in> set (filter managed_route (map snd s)) \<longleftrightarrow>
      r \<in> {r. \<exists>n. go_get s n = Some r \<and> rcr_name r = n \<and> managed_route r}"
    by (auto simp: store_mem [OF assms])
qed

lemma store_list_law: "route_list_law (store_client ps) ns go_get"
proof -
  have listed: "store_ok s \<and> rs = filter managed_route (map snd s) \<and> s' = s"
    if "sc_list (store_client ps) ns sel s = (Inr rs, s')" for sel s rs s'
    using that by (auto simp: store_client_def split: if_splits)
  have ok: "\<forall>n r. go_get s n = Some r \<longrightarrow> rcr_name r = n" if "store_ok s" for s
    using store_keyed [OF that] by (simp add: store_mem [OF that])
  show ?thesis
    unfolding route_list_law_def
  proof (intro conjI allI impI)
    fix sel w e w'
    assume "sc_list (store_client ps) ns sel w = (Inl e, w')"
    then show "go_get w' = go_get w" by (simp add: store_client_def split: if_splits)
  qed (use listed ok store_listed_distinct store_listed_set in blast)+
qed

lemma store_frame_laws: "route_frame_laws (store_client ps) (\<lambda>s. (x, s)) go_get"
  by (simp add: route_frame_laws_def store_client_def)

lemmas store_laws = store_write_laws store_list_law store_frame_laws

text \<open>The CF API's answer with the example route, and a cluster with one stale managed route.\<close>

definition example_list :: "int \<Rightarrow> route_list" where
  "example_list pages =
     \<lparr>rl_total_pages = pages, rl_resources = [example_route],
      rl_included = \<lparr>incl_spaces = [example_space], incl_domains = [example_domain]\<rparr>\<rparr>"

definition example_stale :: "int route_cr" where
  "example_stale =
     \<lparr>rcr_name = ''old'', rcr_namespace = ''ns'', rcr_labels = [kube_managed_by_label \<mapsto> ''cloudfoundry''],
      rcr_spec = rcr_spec (route_cr_with (\<lambda>_. 1) example_route example_space example_domain ''ns'')\<rparr>"

definition example_sync :: periodic_sync where
  "example_sync = \<lparr>ps_name = ''sync'', ps_namespace = ''ns'', ps_period_seconds = 30, ps_conditions = None\<rparr>"

lemmas example_defs =
  example_relationships_def example_route_def example_space_def example_domain_def
  example_list_def example_stale_def example_sync_def

lemma example_desired:
  "desired_route (build_sync_maps (example_list p) k8s ns) example_route =
     Returns (route_cr_with (\<lambda>_. 9090) example_route example_space example_domain ns)"
  by (simp add: desired_route_def build_sync_maps_def example_defs index_by_def go_put_def go_get_def
      translated_route_Some last_port_def example_destination_def relationship_guid_def)

text \<open>The calls of a reconciliation of the example, and its result.\<close>

definition example_cr :: "int route_cr" where
  "example_cr = route_cr_with (\<lambda>_. 9090) example_route example_space example_domain ''ns''"

lemma example_calls:
  "sc_get (store_client ps) req s = ((ps, None), s)"
  "sc_label_selector (store_client ps) l = Inr ()"
  "sc_list (store_client ps) ns u [(''old'', example_stale)] = (Inr [example_stale], [(''old'', example_stale)])"
  by (simp_all add: store_client_def store_ok_def go_map_ok_def example_stale_def managed_route_def)

lemma example_maps:
  "index_by route_guid (\<lambda>r. r) (rl_resources (example_list p)) = [(''r1'', example_route)]"
  "index_by rcr_name (\<lambda>r. r) [example_stale] = [(''old'', example_stale)]"
  by (simp_all add: index_by_def go_put_def example_list_def example_route_def example_stale_def)

lemma store_calls:
  "sc_create (store_client ps) r s =
     (if go_get s (rcr_name r) = None then (None, go_put (rcr_name r) r s)
      else (Some (ForeignError (ApiStatus ''AlreadyExists'') ''exists''), s))"
  "sc_delete (store_client ps) ns n s =
     (if go_get s n = None then (Some (ForeignError (ApiStatus ''NotFound'') ''gone''), s)
      else (None, filter (\<lambda>p. fst p \<noteq> n) s))"
  by (simp_all add: store_client_def)

lemma example_sync_routes:
  "sync_routes (store_client example_sync) (build_sync_maps (example_list p) [example_stale] ''ns'')
     (\<lambda>ks. ks) rev [(''old'', example_stale)] = (Returns True, [(''r1'', example_cr)])"
proof -
  let ?m = "build_sync_maps (example_list p) [example_stale] ''ns''"
  have name: "rcr_name example_cr = ''r1''"
    by (simp add: example_cr_def route_cr_with_def example_route_def)
  have desired: "desired_route ?m example_route = Returns example_cr"
    by (simp add: example_desired example_cr_def)
  have range: "go_range (\<lambda>ks. ks) (sm_routes ?m) = [(''r1'', example_route)]"
    by (simp add: example_maps go_range_def go_keys_def go_get_def)
  have extra: "extra_routes ?m rev = [''old'']"
    by (simp add: example_maps go_range_def go_keys_def go_get_def extra_routes_def)
  have "go_get (sm_k8s ?m) ''r1'' = None"
    by (simp add: example_maps go_get_def)
  then show ?thesis
    unfolding sync_routes_def range extra
    by (simp add: desired store_calls name go_get_def go_put_def)
qed

lemma example_run:
  "periodic_sync_reconcile (store_client example_sync) (\<lambda>s. (Inr (example_list p), s)) ''ns''
     (\<lambda>ks. ks) rev (''ns'', ''sync'') [(''old'', example_stale)] =
   (Returns (\<lparr>requeue = False, requeue_after = requeue_period 30\<rparr>, None), [(''r1'', example_cr)])"
  by (simp add: periodic_sync_reconcile_def example_calls example_sync_routes
      update_sync_status_success_def)
    (simp add: store_client_def set_sync_status_def example_sync_def)

section \<open>Properties\<close>

lemma reconcile_success_view:
  assumes "route_list_law kc ns view" and "route_write_laws kc ns view"
    and "route_frame_laws kc list_routes view"
    and "range_order ord1" and "range_order ord2"
    and "sc_get kc req w = ((ps, None), w1)" and "list_routes w1 = (Inr rl, w2)"
    and "periodic_sync_reconcile kc list_routes ns ord1 ord2 req w = (Returns (res, None), w')"
  shows "view w' = sync_spec rl ns (view w)"
proof -
  obtain sel k8s w3 w4 where
    sel: "sc_label_selector kc [(kube_managed_by_label, ''cloudfoundry'')] = Inr sel"
    and list: "sc_list kc ns sel w2 = (Inr k8s, w3)"
    and run: "sync_routes kc (build_sync_maps rl k8s ns) ord1 ord2 w3 = (Returns True, w4)"
    and w': "w' = snd (update_sync_status_success kc ps w4)"
    using assms(8) unfolding reconcile_listed [where list_routes = list_routes, OF assms(6,7)]
    by (auto simp: Let_def split: sum.splits prod.splits outcome.splits bool.splits option.splits)
  note v2 = frame_lawsD(1) [OF assms(3,6)] frame_lawsD(2) [OF assms(3,7)]
  note v3 = list_lawD(1) [OF assms(1) sel list]
  have names: "rcr_name old = g \<and> view w3 g = Some old"
    if "go_get (index_by rcr_name (\<lambda>r. r) k8s) g = Some old" for g old
    using that index_by_Some [OF that] v3
    by (auto simp: k8s_map_view [OF assms(1) sel list] split: option.splits if_splits)
  have "view w4 = sync_target (build_sync_maps rl k8s ns) (view w3)"
    by (rule sync_routes_view [OF _ assms(4,5) _ _ _ _ run])
      (use assms(2) names routes_map_guid in auto)
  then show ?thesis
    using sync_target_spec [OF assms(1) sel list] v2 v3 frame_lawsD(3) [OF assms(3)] w' by simp
qed

text \<open>C1: A reconciliation that reports success has brought the namespace to the specified state:
every route of the CF API's answer has its Route resource, with the spec the translator gives it
(an existing managed resource keeps its labels), every managed resource without a CF route is
gone, and nothing else has changed. This holds for every order in which Go ranges over the maps.\<close>

theorem periodic_sync_reaches_spec:
  assumes "route_list_law kc ns view" and "route_write_laws kc ns view"
    and "route_frame_laws kc list_routes view"
    and "range_order ord1" and "range_order ord2"
    and "sc_get kc req w = ((ps, None), w1)" and "list_routes w1 = (Inr rl, w2)"
    and "periodic_sync_reconcile kc list_routes ns ord1 ord2 req w = (Returns (res, None), w')"
  shows "view w' = sync_spec rl ns (view w)"
  by (rule reconcile_success_view [OF assms])

theorem periodic_sync_reaches_spec_witness:
  "go_get [(''r1'', example_cr)] = sync_spec (example_list 1) ''ns'' (go_get [(''old'', example_stale)])"
  by (rule periodic_sync_reaches_spec
        [OF store_list_law store_write_laws store_frame_laws range_order_id range_order_rev _ _ example_run])
    (simp_all add: example_calls)

text \<open>The same for a single resource, whatever the outcome.\<close>

lemma reconcile_touches:
  assumes "route_list_law kc ns view" and "route_write_laws kc ns view"
    and "route_frame_laws kc list_routes view"
    and "range_order ord1" and "range_order ord2"
    and "sc_get kc req w = ((ps, None), w1)" and "list_routes w1 = (Inr rl, w2)"
    and "periodic_sync_reconcile kc list_routes ns ord1 ord2 req w = (out, w')"
  shows "view w' g = view w g \<or> view w' g = sync_spec rl ns (view w) g"
proof -
  note v2 = frame_lawsD(1) [OF assms(3,6)] frame_lawsD(2) [OF assms(3,7)]
  note run = assms(8) [unfolded reconcile_listed [where list_routes = list_routes, OF assms(6,7)]]
  show ?thesis
  proof (cases "sc_label_selector kc [(kube_managed_by_label, ''cloudfoundry'')]")
    case (Inl e)
    then show ?thesis using run v2 frame_lawsD(4) [OF assms(3)] by auto
  next
    case (Inr sel)
    note sel = Inr
    obtain l w3 where list: "sc_list kc ns sel w2 = (l, w3)" by (cases "sc_list kc ns sel w2")
    show ?thesis
    proof (cases l)
      case (Inl e)
      then show ?thesis
        using run sel list list_lawD(2) [OF assms(1)] v2 frame_lawsD(4) [OF assms(3)] by auto
    next
      case (Inr k8s)
      note list = list [unfolded Inr]
      note v3 = list_lawD(1) [OF assms(1) sel list]
      obtain r4 w4 where sync: "sync_routes kc (build_sync_maps rl k8s ns) ord1 ord2 w3 = (r4, w4)"
        by (cases "sync_routes kc (build_sync_maps rl k8s ns) ord1 ord2 w3")
      have "view w' = view w4"
        using run sel list sync frame_lawsD(3,4) [OF assms(3)]
        by (auto simp: Let_def split: outcome.splits bool.splits prod.splits option.splits)
          (metis snd_conv)+
      moreover have "rcr_name old = g"
        if "go_get (index_by rcr_name (\<lambda>r. r) k8s) g = Some old" for g old
        using index_by_Some [OF that] by auto
      then have "view w4 g = view w3 g \<or>
          view w4 g = sync_target (build_sync_maps rl k8s ns) (view w3) g"
        by (intro sync_routes_touches [OF _ assms(4,5) _ _ _ _ sync])
          (use assms(2) routes_map_guid in auto)
      ultimately show ?thesis
        using sync_target_spec [OF assms(1) sel list] v2 v3 by simp
    qed
  qed
qed

text \<open>The list of routes a reconciliation gets to see, if it gets one.\<close>

definition answered ::
  "('w, 'sel) sync_client \<Rightarrow> ('w, go_error + route_list) effect \<Rightarrow> string \<times> string \<Rightarrow> 'w \<Rightarrow> route_list list" where
  "answered kc list_routes req w =
     (case sc_get kc req w of
        ((ps, Some e), w1) \<Rightarrow> []
      | ((ps, None), w1) \<Rightarrow> (case list_routes w1 of (Inl e, w2) \<Rightarrow> [] | (Inr rl, w2) \<Rightarrow> [rl]))"

text \<open>A reconciliation that gets no list from the CF API changes no resource.\<close>

lemma unanswered_view:
  assumes "route_frame_laws kc list_routes view" and "answered kc list_routes req w = []"
    and "periodic_sync_reconcile kc list_routes ns ord1 ord2 req w = (out, w')"
  shows "view w' = view w"
proof -
  obtain ps e w1 where get: "sc_get kc req w = ((ps, e), w1)" by (metis surj_pair)
  note v1 = frame_lawsD(1) [OF assms(1) get]
  show ?thesis
  proof (cases e)
    case (Some err)
    then show ?thesis
      using assms(3) get v1 frame_lawsD(4) [OF assms(1)] by (auto simp: periodic_sync_reconcile_def split: if_splits)
  next
    case None
    obtain l w2 where l: "list_routes w1 = (l, w2)" by fastforce
    then obtain err where "l = Inl err"
      using assms(2) get None by (cases l) (auto simp: answered_def)
    then show ?thesis
      using assms(3) get None l v1 frame_lawsD(2) [OF assms(1) l] frame_lawsD(4) [OF assms(1)]
      by (auto simp: periodic_sync_reconcile_def)
  qed
qed

lemma answered_view:
  assumes "route_list_law kc ns view" and "route_write_laws kc ns view"
    and "route_frame_laws kc list_routes view" and "range_order ord1" and "range_order ord2"
    and "answered kc list_routes req w = [rl]"
    and "periodic_sync_reconcile kc list_routes ns ord1 ord2 req w = (out, w')"
  shows "view w' g = view w g \<or> view w' g = sync_spec rl ns (view w) g"
proof -
  obtain ps e w1 where get: "sc_get kc req w = ((ps, e), w1)" by (metis surj_pair)
  obtain l w2 where "list_routes w1 = (l, w2)" by fastforce
  then have "e = None" "list_routes w1 = (Inr rl, w2)"
    using assms(6) get by (auto simp: answered_def split: option.splits sum.splits)
  then show ?thesis
    using reconcile_touches [OF assms(1-5) _ _ assms(7), of ps w1 rl w2] get by simp
qed

lemma answered_cases: "answered kc list_routes req w = [] \<or> (\<exists>rl. answered kc list_routes req w = [rl])"
  by (auto simp: answered_def split: prod.splits option.splits sum.splits)

text \<open>C2: A reconciliation that fails, whatever call fails, and one that panics, corrupt nothing. If it got no
list from the CF API, because the fetch of its resource or \<open>ListRoutes\<close> failed, the namespace is as
it was: an unreachable CF API never empties it. If it got one, each Route resource is as it was or
exactly as the specification has it. A write may also be carried out and its response lost.\<close>

theorem periodic_sync_never_corrupts:
  assumes "route_list_law kc ns view" and "route_write_laws kc ns view"
    and "route_frame_laws kc list_routes view"
    and "range_order ord1" and "range_order ord2"
    and "periodic_sync_reconcile kc list_routes ns ord1 ord2 req w = (out, w')"
  shows "case sc_get kc req w of
       ((ps, Some e), w1) \<Rightarrow> view w' = view w
     | ((ps, None), w1) \<Rightarrow>
         (case list_routes w1 of
            (Inl e, w2) \<Rightarrow> view w' = view w
          | (Inr rl, w2) \<Rightarrow> view w' g = view w g \<or> view w' g = sync_spec rl ns (view w) g)"
proof -
  obtain ps e w1 where get: "sc_get kc req w = ((ps, e), w1)" by (metis surj_pair)
  obtain l w2 where l: "list_routes w1 = (l, w2)" by fastforce
  show ?thesis
    using get l unanswered_view [OF assms(3) _ assms(6)] answered_view [OF assms(1-5) _ assms(6), of _ g]
    by (cases e; cases l) (simp_all add: answered_def)
qed

theorem periodic_sync_never_corrupts_witness:
  "go_get (snd (periodic_sync_reconcile (store_client example_sync) (\<lambda>s. (Inl (ErrorText ''down''), s)) ''ns''
      (\<lambda>ks. ks) rev (''ns'', ''sync'') [(''old'', example_stale)])) = go_get [(''old'', example_stale)] \<and>
   (go_get [(''r1'', example_cr)] ''old'' = go_get [(''old'', example_stale)] ''old'' \<or>
    go_get [(''r1'', example_cr)] ''old'' =
      sync_spec (example_list 1) ''ns'' (go_get [(''old'', example_stale)]) ''old'')"
proof
  let ?run = "periodic_sync_reconcile (store_client example_sync) (\<lambda>s. (Inl (ErrorText ''down''), s)) ''ns''
      (\<lambda>ks. ks) rev (''ns'', ''sync'') [(''old'', example_stale)]"
  note laws = store_list_law store_write_laws store_frame_laws range_order_id range_order_rev
  have "?run = (fst ?run, snd ?run)" by simp
  from periodic_sync_never_corrupts [OF laws this]
  show "go_get (snd ?run) = go_get [(''old'', example_stale)]" by (simp add: example_calls)
  from periodic_sync_never_corrupts [OF laws example_run [of 1], of "''old''"]
  show "go_get [(''r1'', example_cr)] ''old'' = go_get [(''old'', example_stale)] ''old'' \<or>
      go_get [(''r1'', example_cr)] ''old'' =
        sync_spec (example_list 1) ''ns'' (go_get [(''old'', example_stale)]) ''old''"
    by (simp add: example_calls)
qed

text \<open>When the CF API cannot be listed, no Route resource is created, changed or deleted, and
the reconciliation reports the error: an unreachable CF API never empties the cluster.\<close>

theorem periodic_sync_list_failure_safe:
  assumes "route_frame_laws kc list_routes view"
    and "sc_get kc req w = ((ps, None), w1)" and "list_routes w1 = (Inl e, w2)"
  shows "\<exists>w'. periodic_sync_reconcile kc list_routes ns ord1 ord2 req w =
             (Returns (zero_result, Some (WrappedError ''error listing routes from CF API: '' e [])), w') \<and>
           view w' = view w"
  using assms frame_lawsD [OF assms(1)]
  by (simp add: periodic_sync_reconcile_def)

theorem periodic_sync_list_failure_safe_witness:
  "\<exists>w'. periodic_sync_reconcile (store_client example_sync) (\<lambda>s. (Inl (ErrorText ''down''), s)) ''ns''
          (\<lambda>ks. ks) rev (''ns'', ''sync'') [(''old'', example_stale)] =
        (Returns (zero_result,
           Some (WrappedError ''error listing routes from CF API: '' (ErrorText ''down'') [])), w') \<and>
      go_get w' = go_get [(''old'', example_stale)]"
  by (rule periodic_sync_list_failure_safe [OF store_frame_laws]) (simp_all add: example_calls)

text \<open>C5: The controller crashes on a nil pointer exactly when some route it holds under a GUID
names, in its relationships, a space or a domain that the CF API's answer does not include. Any
other answer of the CF API is processed without a panic.\<close>

theorem periodic_sync_panics_iff:
  assumes "range_order ord1" and "range_order ord2"
    and "sc_get kc req w = ((ps, None), w1)" and "list_routes w1 = (Inr rl, w2)"
    and "sc_label_selector kc [(kube_managed_by_label, ''cloudfoundry'')] = Inr sel"
    and "sc_list kc ns sel w2 = (Inr k8s, w3)"
  shows "(\<exists>p w'. periodic_sync_reconcile kc list_routes ns ord1 ord2 req w = (Panics p, w')) \<longleftrightarrow>
     (\<exists>g r. go_get (index_by route_guid (\<lambda>r. r) (rl_resources rl)) g = Some r \<and>
        (relationship_guid (route_relationships r) ''space'' \<notin> space_guid ` set (incl_spaces (rl_included rl)) \<or>
         relationship_guid (route_relationships r) ''domain'' \<notin> domain_guid ` set (incl_domains (rl_included rl))))"
proof -
  let ?m = "build_sync_maps rl k8s ns"
  have d: "(\<exists>p. desired_route ?m r = Panics p) \<longleftrightarrow>
      (relationship_guid (route_relationships r) ''space'' \<notin> space_guid ` set (incl_spaces (rl_included rl)) \<or>
       relationship_guid (route_relationships r) ''domain'' \<notin> domain_guid ` set (incl_domains (rl_included rl)))" for r
    by (auto simp: desired_route_def build_sync_maps_def translated_route_Some index_by_get)
  have "(\<exists>p w'. periodic_sync_reconcile kc list_routes ns ord1 ord2 req w = (Panics p, w')) \<longleftrightarrow>
      (\<exists>p. fst (sync_routes kc ?m ord1 ord2 w3) = Panics p)"
    unfolding reconcile_listed [where list_routes = list_routes, OF assms(3,4)]
    by (auto simp: assms(5,6) Let_def split: prod.splits outcome.splits bool.splits option.splits)
  then show ?thesis
    using sync_routes_panics_iff [OF assms(1,2), of ?m kc w3] d by auto
qed

theorem periodic_sync_panics_iff_witness:
  "\<exists>p w'. periodic_sync_reconcile (store_client example_sync)
        (\<lambda>s. (Inr (example_list 1 \<lparr>rl_included := \<lparr>incl_spaces = [], incl_domains = [example_domain]\<rparr>\<rparr>), s))
        ''ns'' (\<lambda>ks. ks) rev (''ns'', ''sync'') [(''old'', example_stale)] = (Panics p, w')"
proof -
  let ?rl = "example_list 1 \<lparr>rl_included := \<lparr>incl_spaces = [], incl_domains = [example_domain]\<rparr>\<rparr>"
  have "go_get (index_by route_guid (\<lambda>r. r) (rl_resources ?rl)) ''r1'' = Some example_route"
    by (simp add: index_by_def go_get_def go_put_def example_list_def example_route_def)
  then show ?thesis
    by (subst periodic_sync_panics_iff [where rl = ?rl and k8s = "[example_stale]"])
      (auto simp: example_calls example_list_def)
qed

text \<open>Where the specification changes nothing, every CF route has the resource it asks for.\<close>

lemma unchanged_spec:
  assumes "old = old\<lparr>rcr_spec := rcr_spec cr\<rparr>"
  shows "compare_routes cr old"
proof -
  have "rcr_spec old = rcr_spec (old\<lparr>rcr_spec := rcr_spec cr\<rparr>)" using assms by (rule arg_cong)
  then show ?thesis by (simp add: compare_routes_def)
qed

lemma in_sync_present:
  assumes "route_list_law kc ns view"
    and "sc_label_selector kc [(kube_managed_by_label, ''cloudfoundry'')] = Inr sel"
    and "sc_list kc ns sel w2 = (Inr k8s, w3)"
    and "m = build_sync_maps rl k8s ns" and "sync_target m (view w2) = view w2"
    and "go_get (sm_routes m) g = Some r" and "desired_route m r = Returns cr"
  shows "\<exists>old. go_get (sm_k8s m) g = Some old \<and> compare_routes cr old"
proof -
  note k8s = k8s_map_view [OF assms(1-3)]
  note fixed = fun_cong [OF assms(5), of g]
  show ?thesis
  proof (cases "go_get (sm_k8s m) g")
    case None
    then have "view w2 g = Some cr"
      using fixed assms(6,7) by (simp add: sync_target_def)
    then have "go_get (sm_k8s m) g = Some cr"
      using desired_route_managed [OF assms(7)] by (simp add: k8s assms(4))
    with None show ?thesis by simp
  next
    case (Some old)
    then have "view w2 g = Some old" by (auto simp: k8s assms(4) split: option.splits if_splits)
    moreover have "view w2 g = Some (old\<lparr>rcr_spec := rcr_spec cr\<rparr>)"
      using fixed assms(6,7) Some by (simp add: sync_target_def)
    ultimately show ?thesis using Some unchanged_spec by simp
  qed
qed

text \<open>C6: A cluster that already is as the specification says is left alone: the reconciliation
makes no create, update or delete call, and its only effect after the lists is the status update.
So a reconciliation right after a successful one changes nothing.\<close>

theorem periodic_sync_idempotent:
  assumes "route_list_law kc ns view" and "range_order ord1" and "range_order ord2"
    and "sc_get kc req w = ((ps, None), w1)" and "list_routes w1 = (Inr rl, w2)"
    and "sc_label_selector kc [(kube_managed_by_label, ''cloudfoundry'')] = Inr sel"
    and "sc_list kc ns sel w2 = (Inr k8s, w3)"
    and "sync_spec rl ns (view w2) = view w2"
    and "\<And>g r. go_get (index_by route_guid (\<lambda>r. r) (rl_resources rl)) g = Some r \<Longrightarrow>
           \<exists>cr. desired_route (build_sync_maps rl [] ns) r = Returns cr"
  shows "snd (periodic_sync_reconcile kc list_routes ns ord1 ord2 req w) =
     snd (update_sync_status_success kc ps w3)"
proof -
  let ?m = "build_sync_maps rl k8s ns"
  have fixed: "sync_target ?m (view w2) = view w2"
    using sync_target_spec [OF assms(1,6,7), of rl] assms(8) by simp
  have present: "\<exists>cr old. desired_route ?m r = Returns cr \<and> go_get (sm_k8s ?m) g = Some old \<and> compare_routes cr old"
    if r: "go_get (sm_routes ?m) g = Some r" for g r
  proof -
    obtain cr where cr: "desired_route ?m r = Returns cr"
      using assms(9) [of g r] r desired_route_k8s [of rl k8s ns r] by auto
    then show ?thesis using in_sync_present [OF assms(1,6,7) refl fixed r] by blast
  qed
  have no_extra: "go_get (sm_routes ?m) g \<noteq> None" if "go_get (sm_k8s ?m) g \<noteq> None" for g
  proof
    assume "go_get (sm_routes ?m) g = None"
    then have "view w2 g = None" using fun_cong [OF fixed, of g] that by (simp add: sync_target_def)
    then show False using that by (simp add: k8s_map_view [OF assms(1,6,7)])
  qed
  have "sync_routes kc ?m ord1 ord2 w3 = (Returns True, w3)"
    by (rule sync_routes_noop [OF assms(2,3)]) (use present no_extra in auto)
  then show ?thesis
    unfolding reconcile_listed [where list_routes = list_routes, OF assms(4,5)]
    by (simp add: assms(6,7) split: prod.splits option.splits)
qed

lemma example_in_sync:
  "sync_spec (example_list 1) ''ns'' (go_get [(''r1'', example_cr)]) = go_get [(''r1'', example_cr)]"
proof
  fix g
  have routes: "sm_routes (build_sync_maps (example_list 1) [] ''ns'') = [(''r1'', example_route)]"
    by (simp add: example_maps)
  have cr: "desired_route (build_sync_maps (example_list 1) [] ''ns'') example_route = Returns example_cr"
    by (simp add: example_desired example_cr_def)
  have "managed_route example_cr"
    using cr by (rule desired_route_managed)
  then show "sync_spec (example_list 1) ''ns'' (go_get [(''r1'', example_cr)]) g = go_get [(''r1'', example_cr)] g"
    by (cases "g = ''r1''") (simp_all only: sync_spec_def Let_def routes, simp_all add: go_get_def cr)
qed

theorem periodic_sync_idempotent_witness:
  "snd (periodic_sync_reconcile (store_client example_sync) (\<lambda>s. (Inr (example_list 1), s)) ''ns''
      (\<lambda>ks. ks) rev (''ns'', ''sync'') [(''r1'', example_cr)]) =
   snd (update_sync_status_success (store_client example_sync) example_sync [(''r1'', example_cr)])"
proof -
  have list: "sc_list (store_client ps) ns u [(''r1'', example_cr)] = (Inr [example_cr], [(''r1'', example_cr)])"
    for ps ns u
    by (simp add: store_client_def store_ok_def go_map_ok_def example_cr_def route_cr_with_def
        example_route_def managed_route_def route_label_defs)
  show ?thesis
    by (rule periodic_sync_idempotent [where rl = "example_list 1" and k8s = "[example_cr]" and sel = "()",
          OF store_list_law range_order_id range_order_rev])
      (auto simp: example_calls list example_in_sync example_maps go_get_def example_desired split: if_splits)
qed

text \<open>C10: The period until the next sync is the resource's \<open>period_seconds\<close> in nanoseconds, for
every 32-bit value, negative ones included: the int64 product never overflows.\<close>

theorem requeue_period_no_overflow:
  "sint (requeue_period seconds) = sint seconds * 1000000000"
proof -
  have r: "- (2 ^ 31) \<le> sint seconds" "sint seconds < 2 ^ 31"
    using sint_greater_eq [of seconds] sint_less [of seconds] by simp_all
  have "requeue_period seconds = of_int (sint seconds) * of_int 1000000000"
    by (simp add: requeue_period_def)
  then have "sint (requeue_period seconds) = sint (word_of_int (sint seconds * 1000000000) :: 64 word)"
    by (simp only: of_int_mult)
  also have "\<dots> = signed_take_bit 63 (sint seconds * 1000000000)"
    by (simp only: sint_sbintrunc') simp
  also have "\<dots> = sint seconds * 1000000000"
    using r by (intro signed_take_bit_int_eq_self) simp_all
  finally show ?thesis .
qed

end
