(* ===== verification/GoHttp.thy ===== *)
theory GoHttp
  imports GoStrings
begin

text \<open>
  The part of \<open>net/http\<close> the programs use, both ways: requests the clients send, with the
  transport as a parameter, and the response a handler writes. Bodies are strings read in full.
\<close>

section \<open>Clients\<close>

record http_request =
  rq_method :: string
  rq_url :: string
  rq_headers :: "(string \<times> string) list"
  rq_body :: string

record http_response =
  rs_status :: int
  rs_body :: string

text \<open>\<open>Header.Add\<close> and \<open>Header.Set\<close>, on canonical names.\<close>

definition header_add :: "string \<Rightarrow> string \<Rightarrow> http_request \<Rightarrow> http_request" where
  "header_add k v r = r\<lparr>rq_headers := rq_headers r @ [(k, v)]\<rparr>"

definition header_set :: "string \<Rightarrow> string \<Rightarrow> http_request \<Rightarrow> http_request" where
  "header_set k v r = r\<lparr>rq_headers := filter (\<lambda>p. fst p \<noteq> k) (rq_headers r) @ [(k, v)]\<rparr>"

text \<open>
  What the client calls: \<open>url.Parse\<close> (a request of a bad URL is not made), the HTTP transport,
  the token source of the UAA library.
\<close>

record 'w http_env =
  he_url_error :: "string \<Rightarrow> go_error option"
  he_do :: "http_request \<Rightarrow> ('w, go_error + http_response) effect"

definition new_request :: "'w http_env \<Rightarrow> string \<Rightarrow> string \<Rightarrow> string \<Rightarrow> go_error + http_request" where
  "new_request env method url body =
     (case he_url_error env url of
        Some e \<Rightarrow> Inl e
      | None \<Rightarrow> Inr \<lparr>rq_method = method, rq_url = url, rq_headers = [], rq_body = body\<rparr>)"

section \<open>Handlers\<close>

text \<open>
  A response being written. \<open>WriteHeader\<close> fixes the status once; the first \<open>Write\<close> fixes it to
  200; a handler that returns without either has answered 200. A later \<open>WriteHeader\<close> is ignored
  with a log line.
\<close>

record response_writer =
  rw_status :: "int option"
  rw_body :: string

definition fresh_response :: response_writer where
  "fresh_response = \<lparr>rw_status = None, rw_body = []\<rparr>"

definition write_header :: "int \<Rightarrow> response_writer \<Rightarrow> response_writer" where
  "write_header code rw = (case rw_status rw of None \<Rightarrow> rw\<lparr>rw_status := Some code\<rparr> | Some _ \<Rightarrow> rw)"

definition write_body :: "string \<Rightarrow> response_writer \<Rightarrow> response_writer" where
  "write_body s rw =
     (let rw' = write_header 200 rw in rw'\<lparr>rw_body := rw_body rw' @ s\<rparr>)"

definition final_response :: "response_writer \<Rightarrow> http_response" where
  "final_response rw =
     \<lparr>rs_status = (case rw_status rw of None \<Rightarrow> 200 | Some c \<Rightarrow> c), rs_body = rw_body rw\<rparr>"

end
