(* ===== verification/GoJson.thy ===== *)
theory GoJson
  imports GoStrings
begin

text \<open>
  The part of \<open>encoding/json\<close> the sources use: JSON values, the compact text \<open>Marshal\<close> and
  \<open>Encoder\<close> write, the reader behind \<open>Unmarshal\<close> and \<open>Decoder\<close>, and the rules by which a value
  fills a Go variable. Strings are byte lists: the escapes of ASCII bytes are Go's, bytes from
  128 on (UTF-8 sequences) are copied; integers are integers, other numbers keep their text.
  Object members keep their order. All decoding errors are the one value \<open>json_error\<close>: no
  source looks into one.
\<close>

datatype json =
    JNull
  | JBool bool
  | JNum int
  | JFloat string
  | JStr string
  | JArr "json list"
  | JObj "(string \<times> json) list"

definition json_error :: go_error where
  "json_error = ErrorText ''json: cannot decode''"

section \<open>Writing\<close>

definition hex_char :: "nat \<Rightarrow> char" where
  "hex_char d = (if d < 10 then char_of (48 + d) else char_of (87 + d))"

definition json_escape :: "char \<Rightarrow> string" where
  "json_escape c =
     (let n = of_char c :: nat
      in if c = CHR 0x22 \<or> c = CHR 0x5C then [CHR 0x5C, c]
         else if c = CHR 0x0A then [CHR 0x5C, CHR ''n'']
         else if c = CHR 0x0D then [CHR 0x5C, CHR ''r'']
         else if c = CHR 0x09 then [CHR 0x5C, CHR ''t'']
         else if n < 32 \<or> c = CHR ''<'' \<or> c = CHR ''>'' \<or> c = CHR ''&''
         then [CHR 0x5C, CHR ''u'', CHR ''0'', CHR ''0'', hex_char (n div 16), hex_char (n mod 16)]
         else [c])"

definition json_quote :: "string \<Rightarrow> string" where
  "json_quote s = CHR 0x22 # concat (map json_escape s) @ [CHR 0x22]"

fun json_text :: "json \<Rightarrow> string"
  and json_elems_text :: "json list \<Rightarrow> string"
  and json_members_text :: "(string \<times> json) list \<Rightarrow> string" where
  "json_text JNull = ''null''"
| "json_text (JBool b) = (if b then ''true'' else ''false'')"
| "json_text (JNum i) = go_itoa i"
| "json_text (JFloat s) = s"
| "json_text (JStr s) = json_quote s"
| "json_text (JArr xs) = CHR ''['' # json_elems_text xs @ '']''"
| "json_text (JObj ms) = CHR ''{'' # json_members_text ms @ ''}''"
| "json_elems_text [] = []"
| "json_elems_text [x] = json_text x"
| "json_elems_text (x # y # ys) = json_text x @ '','' @ json_elems_text (y # ys)"
| "json_members_text [] = []"
| "json_members_text [(k, v)] = json_quote k @ '':'' @ json_text v"
| "json_members_text ((k, v) # m # ms) =
     json_quote k @ '':'' @ json_text v @ '','' @ json_members_text (m # ms)"

section \<open>Reading\<close>

definition is_space :: "char \<Rightarrow> bool" where
  "is_space c \<longleftrightarrow> c = CHR '' '' \<or> c = CHR 0x09 \<or> c = CHR 0x0A \<or> c = CHR 0x0D"

definition skip_space :: "string \<Rightarrow> string" where
  "skip_space s = dropWhile is_space s"

definition hex_val :: "char \<Rightarrow> nat option" where
  "hex_val c =
     (let n = of_char c :: nat
      in if 48 \<le> n \<and> n \<le> 57 then Some (n - 48)
         else if 97 \<le> n \<and> n \<le> 102 then Some (n - 87)
         else if 65 \<le> n \<and> n \<le> 70 then Some (n - 55)
         else None)"

definition hex4 :: "char \<Rightarrow> char \<Rightarrow> char \<Rightarrow> char \<Rightarrow> nat option" where
  "hex4 a b c d =
     (case (hex_val a, hex_val b, hex_val c, hex_val d) of
        (Some w, Some x, Some y, Some z) \<Rightarrow> Some (4096 * w + 256 * x + 16 * y + z)
      | _ \<Rightarrow> None)"

text \<open>The UTF-8 bytes of a code point.\<close>

definition utf8 :: "nat \<Rightarrow> string" where
  "utf8 n =
     (if n < 128 then [char_of n]
      else if n < 2048 then [char_of (192 + n div 64), char_of (128 + n mod 64)]
      else if n < 65536 then
        [char_of (224 + n div 4096), char_of (128 + n div 64 mod 64), char_of (128 + n mod 64)]
      else
        [char_of (240 + n div 262144), char_of (128 + n div 4096 mod 64),
         char_of (128 + n div 64 mod 64), char_of (128 + n mod 64)])"

definition simple_escape :: "char \<Rightarrow> char option" where
  "simple_escape c =
     (if c = CHR 0x22 \<or> c = CHR 0x5C \<or> c = CHR ''/'' then Some c
      else if c = CHR ''b'' then Some (CHR 0x08)
      else if c = CHR ''f'' then Some (CHR 0x0C)
      else if c = CHR ''n'' then Some (CHR 0x0A)
      else if c = CHR ''r'' then Some (CHR 0x0D)
      else if c = CHR ''t'' then Some (CHR 0x09)
      else None)"

text \<open>
  The characters of a string literal up to its closing quote, and the rest of the input. A
  \<open>u\<close> escape gives the bytes of its code point; a surrogate pair gives one code point, and a
  lone surrogate the replacement character.
\<close>

fun read_string :: "string \<Rightarrow> (string \<times> string) option" where
  "read_string [] = None"
| "read_string (c # cs) =
     (if c = CHR 0x22 then Some ([], cs)
      else if (of_char c :: nat) < 32 then None
      else if c \<noteq> CHR 0x5C then map_option (\<lambda>(s, r). (c # s, r)) (read_string cs)
      else (case cs of
        [] \<Rightarrow> None
      | e # es \<Rightarrow>
          if e \<noteq> CHR ''u'' then
            (case simple_escape e of
               None \<Rightarrow> None
             | Some x \<Rightarrow> map_option (\<lambda>(s, r). (x # s, r)) (read_string es))
          else (case es of
            h1 # h2 # h3 # h4 # rest \<Rightarrow>
              (case hex4 h1 h2 h3 h4 of
                 None \<Rightarrow> None
               | Some u \<Rightarrow>
                   if u < 55296 \<or> 57344 \<le> u
                   then map_option (\<lambda>(s, r). (utf8 u @ s, r)) (read_string rest)
                   else (case rest of
                     b # v # l1 # l2 # l3 # l4 # rest2 \<Rightarrow>
                       (case hex4 l1 l2 l3 l4 of
                          Some lo \<Rightarrow>
                            if b = CHR 0x5C \<and> v = CHR ''u'' \<and> u < 56320 \<and> 56320 \<le> lo \<and> lo < 57344
                            then map_option (\<lambda>(s, r). (utf8 (65536 + 1024 * (u - 55296) + (lo - 56320)) @ s, r))
                                   (read_string rest2)
                            else map_option (\<lambda>(s, r). (utf8 65533 @ s, r)) (read_string rest)
                        | None \<Rightarrow> map_option (\<lambda>(s, r). (utf8 65533 @ s, r)) (read_string rest))
                   | _ \<Rightarrow> map_option (\<lambda>(s, r). (utf8 65533 @ s, r)) (read_string rest)))
          | _ \<Rightarrow> None)))"

text \<open>Numbers: an integer without leading zeros, optionally a fraction and an exponent.\<close>

definition is_number_char :: "char \<Rightarrow> bool" where
  "is_number_char c \<longleftrightarrow> is_digit c \<or> c \<in> set ''+-.eE''"

definition strip_minus :: "string \<Rightarrow> string" where
  "strip_minus s = (case s of c # cs \<Rightarrow> if c = CHR ''-'' then cs else s | [] \<Rightarrow> [])"

definition int_part_ok :: "string \<Rightarrow> bool" where
  "int_part_ok s \<longleftrightarrow> s \<noteq> [] \<and> list_all is_digit s \<and> (hd s = CHR ''0'' \<longrightarrow> tl s = [])"

definition exponent_ok :: "string \<Rightarrow> bool" where
  "exponent_ok s \<longleftrightarrow>
     (case s of
        [] \<Rightarrow> True
      | e # es \<Rightarrow>
          let ds = (case es of c # cs \<Rightarrow> if c = CHR ''+'' \<or> c = CHR ''-'' then cs else es | [] \<Rightarrow> [])
          in (e = CHR ''e'' \<or> e = CHR ''E'') \<and> ds \<noteq> [] \<and> list_all is_digit ds)"

definition fraction_ok :: "string \<Rightarrow> bool" where
  "fraction_ok s \<longleftrightarrow>
     (case s of
        c # cs \<Rightarrow>
          if c = CHR ''.''
          then takeWhile is_digit cs \<noteq> [] \<and> exponent_ok (dropWhile is_digit cs)
          else exponent_ok s
      | [] \<Rightarrow> True)"

definition read_number :: "string \<Rightarrow> json option" where
  "read_number s =
     (let body = strip_minus s
      in if int_part_ok body
         then Some (JNum (if body = s then int (digits_nat body) else - int (digits_nat body)))
         else if int_part_ok (takeWhile is_digit body) \<and> fraction_ok (dropWhile is_digit body)
         then Some (JFloat s)
         else None)"

text \<open>
  Values by recursive descent. Every call spends a unit of fuel; \<open>Fuel_Out\<close> is running out,
  which \<open>json_read\<close>'s fuel excludes (\<open>read_value_fuel\<close>).
\<close>

datatype 'a reading = Read 'a string | Bad | Fuel_Out

fun read_value :: "nat \<Rightarrow> string \<Rightarrow> json reading"
  and read_elems :: "nat \<Rightarrow> string \<Rightarrow> json list reading"
  and read_members :: "nat \<Rightarrow> string \<Rightarrow> (string \<times> json) list reading" where
  "read_value 0 s = Fuel_Out"
| "read_value (Suc n) s =
     (case skip_space s of
        [] \<Rightarrow> Bad
      | c # cs \<Rightarrow>
          if c = CHR ''{'' then
            (if take 1 (skip_space cs) = ''}'' then Read (JObj []) (drop 1 (skip_space cs))
             else (case read_members n cs of
                     Read ms r \<Rightarrow> Read (JObj ms) r | Bad \<Rightarrow> Bad | Fuel_Out \<Rightarrow> Fuel_Out))
          else if c = CHR ''['' then
            (if take 1 (skip_space cs) = '']'' then Read (JArr []) (drop 1 (skip_space cs))
             else (case read_elems n cs of
                     Read xs r \<Rightarrow> Read (JArr xs) r | Bad \<Rightarrow> Bad | Fuel_Out \<Rightarrow> Fuel_Out))
          else if c = CHR 0x22 then
            (case read_string cs of None \<Rightarrow> Bad | Some (x, r) \<Rightarrow> Read (JStr x) r)
          else if take 4 (c # cs) = ''null'' then Read JNull (drop 4 (c # cs))
          else if take 4 (c # cs) = ''true'' then Read (JBool True) (drop 4 (c # cs))
          else if take 5 (c # cs) = ''false'' then Read (JBool False) (drop 5 (c # cs))
          else (case read_number (takeWhile is_number_char (c # cs)) of
                  None \<Rightarrow> Bad
                | Some v \<Rightarrow> Read v (dropWhile is_number_char (c # cs))))"
| "read_elems 0 s = Fuel_Out"
| "read_elems (Suc n) s =
     (case read_value n s of
        Read v r \<Rightarrow>
          (case skip_space r of
             [] \<Rightarrow> Bad
           | c # cs \<Rightarrow>
               if c = CHR '']'' then Read [v] cs
               else if c = CHR '','' then
                 (case read_elems n cs of
                    Read vs r' \<Rightarrow> Read (v # vs) r' | Bad \<Rightarrow> Bad | Fuel_Out \<Rightarrow> Fuel_Out)
               else Bad)
      | Bad \<Rightarrow> Bad
      | Fuel_Out \<Rightarrow> Fuel_Out)"
| "read_members 0 s = Fuel_Out"
| "read_members (Suc n) s =
     (case skip_space s of
        [] \<Rightarrow> Bad
      | q # qs \<Rightarrow>
          if q \<noteq> CHR 0x22 then Bad
          else (case read_string qs of
             None \<Rightarrow> Bad
           | Some (k, r) \<Rightarrow>
               (case skip_space r of
                  [] \<Rightarrow> Bad
                | d # ds \<Rightarrow>
                    if d \<noteq> CHR '':'' then Bad
                    else (case read_value n ds of
                       Read v r2 \<Rightarrow>
                         (case skip_space r2 of
                            [] \<Rightarrow> Bad
                          | c # cs \<Rightarrow>
                              if c = CHR ''}'' then Read [(k, v)] cs
                              else if c = CHR '','' then
                                (case read_members n cs of
                                   Read ms r' \<Rightarrow> Read ((k, v) # ms) r'
                                 | Bad \<Rightarrow> Bad | Fuel_Out \<Rightarrow> Fuel_Out)
                              else Bad)
                     | Bad \<Rightarrow> Bad
                     | Fuel_Out \<Rightarrow> Fuel_Out))))"

text \<open>\<open>Decoder.Decode\<close> reads one value and leaves what follows; \<open>Unmarshal\<close> wants nothing after.\<close>

definition json_read :: "string \<Rightarrow> (json \<times> string) option" where
  "json_read s =
     (case read_value (2 * length s + 1) s of Read v r \<Rightarrow> Some (v, r) | _ \<Rightarrow> None)"

definition json_decode :: "string \<Rightarrow> json option" where
  "json_decode s = map_option fst (json_read s)"

definition json_unmarshal :: "string \<Rightarrow> json option" where
  "json_unmarshal s =
     (case json_read s of Some (v, r) \<Rightarrow> if skip_space r = [] then Some v else None | None \<Rightarrow> None)"

section \<open>Filling Go variables\<close>

text \<open>
  A key matches a field of a struct up to the case of ASCII letters. A \<open>null\<close> leaves a scalar
  or a struct as it is, and makes a slice, a map or a pointer nil; a value of the wrong kind is
  an error. Members are taken in order, so a repeated key fills the field again.
\<close>

definition lower :: "char \<Rightarrow> char" where
  "lower c = (if 65 \<le> (of_char c :: nat) \<and> (of_char c :: nat) \<le> 90 then char_of ((of_char c :: nat) + 32) else c)"

definition eq_fold :: "string \<Rightarrow> string \<Rightarrow> bool" where
  "eq_fold a b \<longleftrightarrow> map lower a = map lower b"

definition dec_string :: "json \<Rightarrow> string \<Rightarrow> string option" where
  "dec_string j cur = (case j of JStr s \<Rightarrow> Some s | JNull \<Rightarrow> Some cur | _ \<Rightarrow> None)"

definition dec_int :: "json \<Rightarrow> int \<Rightarrow> int option" where
  "dec_int j cur =
     (case j of
        JNum i \<Rightarrow> if - (2 ^ 63) \<le> i \<and> i < 2 ^ 63 then Some i else None
      | JNull \<Rightarrow> Some cur
      | _ \<Rightarrow> None)"

definition dec_bool :: "json \<Rightarrow> bool \<Rightarrow> bool option" where
  "dec_bool j cur = (case j of JBool b \<Rightarrow> Some b | JNull \<Rightarrow> Some cur | _ \<Rightarrow> None)"

definition dec_int_ptr :: "json \<Rightarrow> int option option" where
  "dec_int_ptr j = (case j of JNull \<Rightarrow> Some None | _ \<Rightarrow> map_option Some (dec_int j 0))"

fun dec_fields :: "(string \<Rightarrow> json \<Rightarrow> 's \<Rightarrow> 's option) \<Rightarrow> (string \<times> json) list \<Rightarrow> 's \<Rightarrow> 's option" where
  "dec_fields f [] s = Some s"
| "dec_fields f ((k, v) # ms) s = (case f k v s of None \<Rightarrow> None | Some s' \<Rightarrow> dec_fields f ms s')"

definition dec_struct :: "(string \<Rightarrow> json \<Rightarrow> 's \<Rightarrow> 's option) \<Rightarrow> json \<Rightarrow> 's \<Rightarrow> 's option" where
  "dec_struct f j s = (case j of JObj ms \<Rightarrow> dec_fields f ms s | JNull \<Rightarrow> Some s | _ \<Rightarrow> None)"

text \<open>
  The elements of an array go into the elements the slice already has (from an earlier occurrence
  of its key), then into zero values. A nil slice is \<open>None\<close>.
\<close>

fun dec_elems_into :: "(json \<Rightarrow> 'a \<Rightarrow> 'a option) \<Rightarrow> 'a \<Rightarrow> json list \<Rightarrow> 'a list \<Rightarrow> 'a list option" where
  "dec_elems_into f z [] cur = Some []"
| "dec_elems_into f z (j # js) cur =
     (case f j (case cur of [] \<Rightarrow> z | c # cs \<Rightarrow> c) of
        None \<Rightarrow> None
      | Some x \<Rightarrow> map_option (Cons x) (dec_elems_into f z js (drop 1 cur)))"

definition dec_slice_into ::
  "(json \<Rightarrow> 'a \<Rightarrow> 'a option) \<Rightarrow> 'a \<Rightarrow> json \<Rightarrow> 'a list option \<Rightarrow> 'a list option option" where
  "dec_slice_into f z j cur =
     (case j of
        JArr js \<Rightarrow> map_option Some (dec_elems_into f z js (case cur of None \<Rightarrow> [] | Some xs \<Rightarrow> xs))
      | JNull \<Rightarrow> Some None
      | _ \<Rightarrow> None)"

fun dec_entries :: "(json \<Rightarrow> 'a option) \<Rightarrow> (string \<times> json) list \<Rightarrow> (string \<rightharpoonup> 'a) \<Rightarrow> (string \<rightharpoonup> 'a) option" where
  "dec_entries f [] m = Some m"
| "dec_entries f ((k, v) # ms) m =
     (case f v of None \<Rightarrow> None | Some a \<Rightarrow> dec_entries f ms (m(k \<mapsto> a)))"

text \<open>A map that is only looked up: the nil map reads like the empty one.\<close>

definition dec_lookup_map :: "(json \<Rightarrow> 'a option) \<Rightarrow> json \<Rightarrow> (string \<rightharpoonup> 'a) \<Rightarrow> (string \<rightharpoonup> 'a) option" where
  "dec_lookup_map f j m =
     (case j of JObj ms \<Rightarrow> dec_entries f ms m | JNull \<Rightarrow> Some Map.empty | _ \<Rightarrow> None)"

end
