(* ===== verification/GoJsonFacts.thy ===== *)
theory GoJsonFacts
  imports GoJson
begin

text \<open>
  Facts about JSON texts: the reader never runs out of the fuel \<open>json_read\<close> gives it, and
  reading back what was written gives the value, whatever follows it.
\<close>

section \<open>Fuel\<close>

declare read_string.simps [simp del]

lemma skip_space_length: "length (skip_space s) \<le> length s"
  by (simp add: skip_space_def length_dropWhile_le)

lemma skip_space_Cons: "skip_space s = c # cs \<Longrightarrow> length cs < length s"
  using skip_space_length [of s] by simp

lemma read_string_length: "read_string s = Some (x, r) \<Longrightarrow> length r < length s"
proof (induction "length s" arbitrary: s x r rule: less_induct)
  case less
  show ?case
  proof (cases s)
    case Nil
    then show ?thesis using less.prems by (simp add: read_string.simps)
  next
    case (Cons c cs)
    have step: "length r' < length s" if "read_string t = Some (y, r')" "length t < length s" for t y r'
      using less.hyps [OF that(2) that(1)] that(2) by simp
    show ?thesis
      using less.prems unfolding Cons
      by (subst (asm) read_string.simps)
        (auto split: if_splits list.splits option.splits dest!: step simp: Cons)
  qed
qed

lemma read_number_Nil [simp]: "read_number [] = None"
  by (simp add: read_number_def strip_minus_def int_part_ok_def)

lemma read_number_length:
  assumes "read_number (takeWhile is_number_char (c # cs)) = Some v"
  shows "length (dropWhile is_number_char (c # cs)) < length (c # cs)"
proof (cases "is_number_char c")
  case True
  then show ?thesis using length_dropWhile_le [of is_number_char cs] by simp
next
  case False
  then show ?thesis using assms by simp
qed

lemma read_shrinks:
  "read_value n s = Read v r \<Longrightarrow> length r < length s"
  "read_elems n s = Read vs r \<Longrightarrow> length r < length s"
  "read_members n s = Read ms r \<Longrightarrow> length r < length s"
proof (induction n s and n s and n s arbitrary: v r and vs r and ms r
    rule: read_value_read_elems_read_members.induct)
  case (2 n s)
  note sk = skip_space_length skip_space_Cons
  show ?case
  proof (cases "skip_space s")
    case Nil
    then show ?thesis using 2 by simp
  next
    case (Cons c cs)
    have l: "length cs < length s" using Cons by (rule skip_space_Cons)
    have e: "length (skip_space cs) \<le> length cs" by (rule skip_space_length)
    have d: "length (drop k (c # cs)) < length s" if "0 < k" for k
      using l that by simp
    note IH = 2(1) [OF Cons] 2(2) [OF Cons]
    show ?thesis
      using 2(3) l e IH d [of 4] d [of 5] read_number_length [of c cs]
      by (auto simp: Cons simp del: drop_Suc_Cons dropWhile.simps takeWhile.simps take_Suc_Cons
          split: if_splits reading.splits option.splits prod.splits
          dest!: read_string_length)
  qed
next
  case (4 n s)
  then show ?case
    by (fastforce split: if_splits reading.splits list.splits dest: skip_space_Cons)
next
  case (6 n s)
  then show ?case
    by (fastforce split: if_splits reading.splits list.splits option.splits prod.splits
        dest: skip_space_Cons read_string_length)
qed simp_all

text \<open>A reader runs out of fuel only when a reader it calls does.\<close>

lemma read_value_in_time:
  assumes "\<And>cs. skip_space s = CHR ''{'' # cs \<Longrightarrow> take 1 (skip_space cs) \<noteq> ''}'' \<Longrightarrow> read_members n cs \<noteq> Fuel_Out"
    and "\<And>cs. skip_space s = CHR ''['' # cs \<Longrightarrow> take 1 (skip_space cs) \<noteq> '']'' \<Longrightarrow> read_elems n cs \<noteq> Fuel_Out"
  shows "read_value (Suc n) s \<noteq> Fuel_Out"
proof (cases "skip_space s")
  case Nil
  then show ?thesis by simp
next
  case (Cons c cs)
  consider "c = CHR ''{''" | "c = CHR ''[''" | "c \<noteq> CHR ''{''" "c \<noteq> CHR ''[''" by blast
  then show ?thesis
  proof cases
    case 1
    then show ?thesis using assms(1) Cons by (auto split: reading.splits)
  next
    case 2
    then show ?thesis using assms(2) Cons by (auto split: reading.splits)
  next
    case 3
    then show ?thesis by (simp add: Cons split: option.splits prod.splits)
  qed
qed

lemma member_value_length:
  assumes "skip_space s = q # qs" and "read_string qs = Some (k, r)" and "skip_space r = d # ds"
  shows "length ds + 1 < length s"
  using skip_space_Cons [OF assms(1)] read_string_length [OF assms(2)] skip_space_Cons [OF assms(3)] by simp

lemma read_fuel:
  "2 * length s < n \<Longrightarrow> read_value n s \<noteq> Fuel_Out"
  "2 * length s + 1 < n \<Longrightarrow> read_elems n s \<noteq> Fuel_Out"
  "2 * length s + 1 < n \<Longrightarrow> read_members n s \<noteq> Fuel_Out"
proof (induction n s and n s and n s rule: read_value_read_elems_read_members.induct)
  case (2 n s)
  have k: "2 * length cs + 1 < n" if "skip_space s = c # cs" for c cs
    using 2(3) skip_space_Cons [OF that] by simp
  show ?case
    using 2(1) [OF _ refl] 2(2) [OF _ _ refl] k by (intro read_value_in_time) simp_all
next
  case (4 n s)
  have v: "read_value n s \<noteq> Fuel_Out" using 4(1,3) by simp
  have e: "read_elems n cs \<noteq> Fuel_Out"
    if "read_value n s = Read v r" "skip_space r = c # cs" "c \<noteq> CHR '']''" "c = CHR '',''" for v r c cs
    using 4(2) [OF that] 4(3) read_shrinks(1) [OF that(1)] skip_space_Cons [OF that(2)] by simp
  show ?case
    using v e by (auto split: if_splits reading.splits list.splits)
next
  case (6 n s)
  note l = member_value_length
  have v: "read_value n ds \<noteq> Fuel_Out"
    if "skip_space s = q # qs" "\<not> q \<noteq> CHR 0x22" "read_string qs = Some (k, r)" "skip_space r = d # ds"
      "\<not> d \<noteq> CHR '':''" for q qs k r d ds
    using 6(1) [OF that(1,2,3) refl that(4,5)] 6(3) l [OF that(1,3,4)] by simp
  have e: "read_members n cs \<noteq> Fuel_Out"
    if "skip_space s = q # qs" "\<not> q \<noteq> CHR 0x22" "read_string qs = Some (k, r)" "skip_space r = d # ds"
      "\<not> d \<noteq> CHR '':''" "read_value n ds = Read x r2" "skip_space r2 = c # cs" "c \<noteq> CHR ''}''"
      "c = CHR '',''" for q qs k r d ds x r2 c cs
    using 6(2) [OF that(1,2,3) refl that(4,5,6,7,8,9)] 6(3) l [OF that(1,3,4)]
      read_shrinks(1) [OF that(6)] skip_space_Cons [OF that(7)] by simp
  show ?case
    using v e by (auto split: if_splits reading.splits list.splits option.splits prod.splits)
qed simp_all

lemma read_value_fuel: "read_value (2 * length s + 1) s \<noteq> Fuel_Out"
  by (rule read_fuel(1)) simp

section \<open>Reading back a string or a number\<close>

lemma hex_val_hex_char: "d < 16 \<Longrightarrow> hex_val (hex_char d) = Some d"
  by (auto simp: hex_val_def hex_char_def Let_def)

lemma hex_val_zero: "hex_val (CHR ''0'') = Some 0"
  by (simp add: hex_val_def)

lemma char_of_code: "char_of (of_char c :: nat) = c"
  by simp

lemma read_escape:
  "read_string (json_escape c @ t) = map_option (\<lambda>(s, r). (c # s, r)) (read_string t)"
proof -
  define n where "n = (of_char c :: nat)"
  have c: "c = char_of n" and n: "n < 256" by (auto simp: n_def)
  have h: "hex4 (CHR ''0'') (CHR ''0'') (hex_char (n div 16)) (hex_char (n mod 16)) = Some n"
    if "n < 128"
    using that by (simp add: hex4_def hex_val_zero hex_val_hex_char)
  have s: "n < 128" if "c = CHR ''<'' \<or> c = CHR ''>'' \<or> c = CHR ''&''"
    using that by (auto simp: n_def)
  show ?thesis
    using h s
    by (auto simp: json_escape_def Let_def read_string.simps(2) simple_escape_def utf8_def
        n_def [symmetric] c [symmetric])
qed

lemma read_quoted: "read_string (concat (map json_escape s) @ CHR 0x22 # t) = Some (s, t)"
proof (induction s)
  case Nil
  then show ?case by (simp add: read_string.simps)
next
  case (Cons c s)
  then show ?case by (simp add: read_escape)
qed

lemma digit_char_zero: "d < 10 \<Longrightarrow> digit_char d = CHR ''0'' \<longleftrightarrow> d = 0"
proof
  assume d: "d < 10" and "digit_char d = CHR ''0''"
  then have "(of_char (digit_char d) :: nat) = 48" by simp
  then show "d = 0" using d by (simp add: of_char_digit)
qed (simp add: digit_char_def char_of_eq_iff)

lemma nat_digits_no_zero: "0 < n \<Longrightarrow> hd (nat_digits n) \<noteq> CHR ''0''"
proof (induction n rule: nat_digits.induct)
  case (1 n)
  then show ?case by (subst nat_digits.simps) (auto simp: digit_char_zero hd_append)
qed

lemma nat_digits_int_part: "int_part_ok (nat_digits n)"
proof (cases "n < 10")
  case True
  then show ?thesis by (subst nat_digits.simps) (simp add: int_part_ok_def)
next
  case False
  then show ?thesis
    using nat_digits_no_zero [of n] nat_digits_all [of n] by (simp add: int_part_ok_def)
qed

lemma strip_minus_digits: "strip_minus (nat_digits n) = nat_digits n"
  using nat_digits_hd [of n] is_digit_not_sign
  by (cases "nat_digits n") (auto simp: strip_minus_def)

lemma nat_digits_not_minus: "nat_digits n \<noteq> CHR ''-'' # t"
  using nat_digits_hd [of n] by (auto simp: is_digit_def)

lemma read_itoa: "read_number (go_itoa i) = Some (JNum i)"
  by (auto simp: read_number_def go_itoa_def strip_minus_digits nat_digits_int_part Let_def)
    (auto simp: strip_minus_def nat_digits_int_part)

lemma itoa_number_chars: "list_all is_number_char (go_itoa i)"
  using nat_digits_all [of "nat i"] nat_digits_all [of "nat (- i)"]
  by (auto simp: go_itoa_def is_number_char_def list_all_iff)

section \<open>Reading back a value\<close>

text \<open>Values as the sources write them: no number kept as text.\<close>

fun json_plain :: "json \<Rightarrow> bool" where
  "json_plain (JFloat s) = False"
| "json_plain (JArr xs) = list_all json_plain xs"
| "json_plain (JObj ms) = list_all (\<lambda>(k, v). json_plain v) ms"
| "json_plain j = True"

definition no_number_follows :: "string \<Rightarrow> bool" where
  "no_number_follows r = (case r of [] \<Rightarrow> True | c # cs \<Rightarrow> \<not> is_number_char c)"

definition value_start :: "char \<Rightarrow> bool" where
  "value_start c \<longleftrightarrow> \<not> is_space c \<and> c \<noteq> CHR '']'' \<and> c \<noteq> CHR ''}''"

lemma itoa_Cons: "\<exists>c cs. go_itoa i = c # cs \<and> is_number_char c"
  using itoa_number_chars [of i] by (cases "go_itoa i") (auto simp: go_itoa_def split: if_splits)

lemma number_char_start:
  assumes "is_number_char c"
  shows "value_start c \<and> c \<notin> set ''{[ntf'' \<and> c \<noteq> CHR 0x22"
proof -
  have "c \<in> set ''0123456789'' \<or> c \<in> set ''+-.eE''"
  proof (cases "is_digit c")
    case True
    then obtain n where n: "48 \<le> n" "n \<le> 57" "c = char_of (n :: nat)"
      by (intro that [of "of_char c"]) (auto simp: is_digit_def)
    then have "n \<in> {48..57}" by simp
    then have "n \<in> set [48, 49, 50, 51, 52, 53, 54, 55, 56, 57]"
      by (simp, presburger)
    then show ?thesis unfolding n(3) by (auto simp: char_of_eq_iff)
  qed (use assms in \<open>simp add: is_number_char_def\<close>)
  then show ?thesis by (auto simp: value_start_def is_space_def)
qed

lemma json_text_start: "json_plain j \<Longrightarrow> \<exists>c cs. json_text j = c # cs \<and> value_start c"
proof (cases j)
  case (JNum i)
  then show ?thesis using itoa_Cons [of i] number_char_start by auto
qed (auto simp: value_start_def is_space_def json_quote_def)

lemma read_itoa_value:
  assumes "no_number_follows r"
  shows "read_value (Suc n) (go_itoa i @ r) = Read (JNum i) r"
proof -
  obtain c cs where cs: "go_itoa i = c # cs" and c: "is_number_char c"
    using itoa_Cons by blast
  have "takeWhile is_number_char (go_itoa i @ r) = go_itoa i"
    and "dropWhile is_number_char (go_itoa i @ r) = r"
    using itoa_number_chars [of i] assms
    by (auto simp: list_all_iff takeWhile_append dropWhile_append no_number_follows_def split: list.splits)
  then have "takeWhile is_number_char (c # cs @ r) = c # cs" and "dropWhile is_number_char (c # cs @ r) = r"
    by (simp_all add: cs)
  moreover have "skip_space (c # cs @ r) = c # cs @ r"
    using number_char_start [OF c] by (simp add: skip_space_def value_start_def)
  ultimately show ?thesis
    using number_char_start [OF c] read_itoa [of i]
    by (simp add: cs del: takeWhile.simps dropWhile.simps)
qed

lemma skip_start: "value_start c \<Longrightarrow> skip_space (c # cs) = c # cs"
  by (simp add: skip_space_def value_start_def)

lemma skip_char [simp]: "\<not> is_space c \<Longrightarrow> skip_space (c # cs) = c # cs"
  by (simp add: skip_space_def)

lemma spaces [simp]:
  "\<not> is_space (CHR ''{'')" "\<not> is_space (CHR ''}'')" "\<not> is_space (CHR ''['')" "\<not> is_space (CHR '']'')"
  "\<not> is_space (CHR '','')" "\<not> is_space (CHR '':'')" "\<not> is_space (CHR 0x22)" "\<not> is_space (CHR ''n'')"
  "\<not> is_space (CHR ''t'')" "\<not> is_space (CHR ''f'')"
  by (simp_all add: is_space_def)

lemma number_stops [simp]:
  "no_number_follows []" "no_number_follows (CHR '','' # t)" "no_number_follows (CHR '']'' # t)"
  "no_number_follows (CHR ''}'' # t)"
  by (simp_all add: no_number_follows_def is_number_char_def is_digit_def)

lemma elems_text_start:
  "list_all json_plain xs \<Longrightarrow> xs \<noteq> [] \<Longrightarrow> \<exists>c cs. json_elems_text xs = c # cs \<and> value_start c"
  using json_text_start by (cases xs rule: json_elems_text.cases) fastforce+

lemma members_text_start: "ms \<noteq> [] \<Longrightarrow> \<exists>cs. json_members_text ms = CHR 0x22 # cs"
  by (cases ms rule: json_members_text.cases) (auto simp: json_quote_def)

lemma read_arr_text:
  assumes "list_all json_plain xs"
    and "xs \<noteq> [] \<Longrightarrow> read_elems m (json_elems_text xs @ CHR '']'' # r) = Read xs r"
  shows "read_value (Suc m) (json_text (JArr xs) @ r) = Read (JArr xs) r"
proof (cases "xs = []")
  case False
  then obtain c cs where "json_elems_text xs = c # cs" "value_start c"
    using elems_text_start [OF assms(1)] by blast
  then show ?thesis using assms(2) [OF False] by (auto simp: value_start_def)
qed simp

lemma read_obj_text:
  assumes "ms \<noteq> [] \<Longrightarrow> read_members m (json_members_text ms @ CHR ''}'' # r) = Read ms r"
  shows "read_value (Suc m) (json_text (JObj ms) @ r) = Read (JObj ms) r"
proof (cases "ms = []")
  case False
  then obtain cs where "json_members_text ms = CHR 0x22 # cs"
    using members_text_start by blast
  then show ?thesis using assms [OF False] by auto
qed simp

text \<open>Twice the length of a text is enough fuel to read it back.\<close>

lemma read_text:
  "json_plain j \<Longrightarrow> 2 * length (json_text j) < n \<Longrightarrow> no_number_follows r \<Longrightarrow>
     read_value n (json_text j @ r) = Read j r"
  "list_all json_plain xs \<Longrightarrow> xs \<noteq> [] \<Longrightarrow> 2 * length (json_elems_text xs) + 1 < n \<Longrightarrow>
     read_elems n (json_elems_text xs @ CHR '']'' # r) = Read xs r"
  "list_all (\<lambda>(k, v). json_plain v) ms \<Longrightarrow> ms \<noteq> [] \<Longrightarrow> 2 * length (json_members_text ms) + 1 < n \<Longrightarrow>
     read_members n (json_members_text ms @ CHR ''}'' # r) = Read ms r"
proof (induction j and xs and ms arbitrary: n r and n r and n r
    rule: json_text_json_elems_text_json_members_text.induct)
  case (3 i)
  then obtain m where "n = Suc m" by (cases n) auto
  then show ?case using 3 read_itoa_value by simp
next
  case (5 s)
  then obtain m where "n = Suc m" by (cases n) auto
  then show ?case by (simp add: json_quote_def read_quoted)
next
  case (6 xs)
  then obtain m where m: "n = Suc m" by (cases n) auto
  show ?case
    unfolding m using 6 by (intro read_arr_text) (simp_all add: m)
next
  case (7 ms)
  then obtain m where m: "n = Suc m" by (cases n) auto
  show ?case
    unfolding m using 7 by (intro read_obj_text) (simp_all add: m)
next
  case (9 x)
  then obtain m where m: "n = Suc m" by (cases n) auto
  then show ?case using 9 by simp
next
  case (10 x y ys)
  then obtain m where m: "n = Suc m" by (cases n) auto
  have "read_value m (json_text x @ CHR '','' # json_elems_text (y # ys) @ CHR '']'' # r) =
      Read x (CHR '','' # json_elems_text (y # ys) @ CHR '']'' # r)"
    using 10 by (intro 10(1)) (simp_all add: m)
  moreover have "read_elems m (json_elems_text (y # ys) @ CHR '']'' # r) = Read (y # ys) r"
    using 10 by (intro 10(2)) (simp_all add: m)
  ultimately show ?case by (simp add: m)
next
  case (12 k v)
  then obtain m where m: "n = Suc m" by (cases n) auto
  have "read_value m (json_text v @ CHR ''}'' # r) = Read v (CHR ''}'' # r)"
    using 12 by (intro 12(1)) (simp_all add: m json_quote_def)
  then show ?case by (simp add: m json_quote_def read_quoted)
next
  case (13 k v p ps)
  then obtain m where m: "n = Suc m" by (cases n) auto
  have "read_value m (json_text v @ CHR '','' # json_members_text (p # ps) @ CHR ''}'' # r) =
      Read v (CHR '','' # json_members_text (p # ps) @ CHR ''}'' # r)"
    using 13 by (intro 13(1)) (simp_all add: m json_quote_def)
  moreover have "read_members m (json_members_text (p # ps) @ CHR ''}'' # r) = Read (p # ps) r"
    using 13 by (intro 13(2)) (simp_all add: m json_quote_def)
  ultimately show ?case by (simp add: m json_quote_def read_quoted)
next
  case 1
  then obtain m where "n = Suc m" by (cases n) auto
  then show ?case by simp
next
  case (2 b)
  then obtain m where "n = Suc m" by (cases n) auto
  then show ?case by simp
qed simp_all

lemma json_read_text: "json_plain j \<Longrightarrow> no_number_follows r \<Longrightarrow> json_read (json_text j @ r) = Some (j, r)"
  using read_text(1) [of j "2 * length (json_text j @ r) + 1" r]
  by (simp add: json_read_def del: read_value.simps)

lemma json_decode_text: "json_plain j \<Longrightarrow> no_number_follows r \<Longrightarrow> json_decode (json_text j @ r) = Some j"
  by (simp add: json_decode_def json_read_text)

lemma json_unmarshal_text: "json_plain j \<Longrightarrow> json_unmarshal (json_text j) = Some j"
  using json_read_text [of j "[]"] by (simp add: json_unmarshal_def skip_space_def)

section \<open>Keys\<close>

lemma eq_fold_same [simp]: "eq_fold k k"
  by (simp add: eq_fold_def)

lemma eq_fold_length: "length a \<noteq> length b \<Longrightarrow> \<not> eq_fold a b"
  by (metis eq_fold_def length_map)

end
