(* ===== verification/CfClient.thy ===== *)
theory CfClient
  imports CfModel GoHttp GoJsonFacts "HOL-Library.List_Lexorder" "HOL-Library.Char_ord"
begin

text \<open>
  \<open>cf/rest_client.go\<close>, \<open>cf/client.go\<close> and \<open>cf/auth/uaa.go\<close>: the requests the controllers send
  to the CF API. The network, the URL parser and the UAA library are parameters; the requests,
  their JSON bodies and the reading of the answers are the code's.
\<close>

section \<open>JSON forms of the CF resources\<close>

text \<open>\<open>Marshal\<close> writes the fields in order and the entries of a map sorted by key; a nil map is null.\<close>

definition string_map_json :: "(string, string) go_map option \<Rightarrow> json" where
  "string_map_json m =
     (case m of None \<Rightarrow> JNull | Some es \<Rightarrow> JObj (map (\<lambda>(k, v). (k, JStr v)) (sort_key fst es)))"

definition lifecycle_data_json :: "lifecycle_data \<Rightarrow> json" where
  "lifecycle_data_json d =
     JObj [(''image'', JStr (ld_image d)), (''processTypes'', string_map_json (ld_process_types d))]"

definition lifecycle_json :: "lifecycle \<Rightarrow> json" where
  "lifecycle_json l =
     JObj [(''type'', JStr (lc_type l)), (''data'', lifecycle_data_json (lc_data l))]"

definition build_json :: "cf_build \<Rightarrow> json" where
  "build_json b =
     JObj [(''state'', JStr (build_state b)), (''error'', JStr (build_error b)),
           (''lifecycle'', lifecycle_json (build_lifecycle b))]"

definition droplet_json :: "droplet \<Rightarrow> json" where
  "droplet_json d = JObj [(''image'', JStr (droplet_image d))]"

text \<open>The fields \<open>Decode\<close> fills in each struct, by the names of the JSON tags.\<close>

definition dec_relationship_data :: "json \<Rightarrow> relationship_data \<Rightarrow> relationship_data option" where
  "dec_relationship_data = dec_struct (\<lambda>k v s.
     if eq_fold k ''guid'' then map_option (\<lambda>x. s\<lparr>rdata_guid := x\<rparr>) (dec_string v (rdata_guid s))
     else Some s)"

definition dec_relationship :: "json \<Rightarrow> relationship option" where
  "dec_relationship j = dec_struct (\<lambda>k v s.
     if eq_fold k ''data'' then map_option (\<lambda>x. s\<lparr>rel_data := x\<rparr>) (dec_relationship_data v (rel_data s))
     else Some s) j \<lparr>rel_data = \<lparr>rdata_guid = []\<rparr>\<rparr>"

definition dec_destination_process :: "json \<Rightarrow> destination_process \<Rightarrow> destination_process option" where
  "dec_destination_process = dec_struct (\<lambda>k v s.
     if eq_fold k ''type'' then map_option (\<lambda>x. s\<lparr>dproc_type := x\<rparr>) (dec_string v (dproc_type s))
     else Some s)"

definition dec_destination_app :: "json \<Rightarrow> destination_app \<Rightarrow> destination_app option" where
  "dec_destination_app = dec_struct (\<lambda>k v s.
     if eq_fold k ''guid'' then map_option (\<lambda>x. s\<lparr>dapp_guid := x\<rparr>) (dec_string v (dapp_guid s))
     else if eq_fold k ''process''
     then map_option (\<lambda>x. s\<lparr>dapp_process := x\<rparr>) (dec_destination_process v (dapp_process s))
     else Some s)"

definition zero_destination :: destination where
  "zero_destination =
     \<lparr>dest_guid = [], dest_app = \<lparr>dapp_guid = [], dapp_process = \<lparr>dproc_type = []\<rparr>\<rparr>,
      dest_weight = None, dest_port = 0\<rparr>"

definition dec_destination :: "json \<Rightarrow> destination \<Rightarrow> destination option" where
  "dec_destination = dec_struct (\<lambda>k v s.
     if eq_fold k ''guid'' then map_option (\<lambda>x. s\<lparr>dest_guid := x\<rparr>) (dec_string v (dest_guid s))
     else if eq_fold k ''app'' then map_option (\<lambda>x. s\<lparr>dest_app := x\<rparr>) (dec_destination_app v (dest_app s))
     else if eq_fold k ''weight'' then map_option (\<lambda>x. s\<lparr>dest_weight := x\<rparr>) (dec_int_ptr v)
     else if eq_fold k ''port'' then map_option (\<lambda>x. s\<lparr>dest_port := x\<rparr>) (dec_int v (dest_port s))
     else Some s)"

text \<open>A slice the code only ranges over: nil reads like the empty slice.\<close>

definition dec_list :: "(json \<Rightarrow> 'a \<Rightarrow> 'a option) \<Rightarrow> 'a \<Rightarrow> json \<Rightarrow> 'a list \<Rightarrow> 'a list option" where
  "dec_list f z j cur =
     map_option (\<lambda>s. case s of None \<Rightarrow> [] | Some xs \<Rightarrow> xs) (dec_slice_into f z j (Some cur))"

definition zero_route :: route where
  "zero_route =
     \<lparr>route_guid = [], route_host = [], route_path = [], route_url = [], route_destinations = [],
      route_relationships = Map.empty\<rparr>"

definition dec_route :: "json \<Rightarrow> route \<Rightarrow> route option" where
  "dec_route = dec_struct (\<lambda>k v s.
     if eq_fold k ''guid'' then map_option (\<lambda>x. s\<lparr>route_guid := x\<rparr>) (dec_string v (route_guid s))
     else if eq_fold k ''host'' then map_option (\<lambda>x. s\<lparr>route_host := x\<rparr>) (dec_string v (route_host s))
     else if eq_fold k ''path'' then map_option (\<lambda>x. s\<lparr>route_path := x\<rparr>) (dec_string v (route_path s))
     else if eq_fold k ''url'' then map_option (\<lambda>x. s\<lparr>route_url := x\<rparr>) (dec_string v (route_url s))
     else if eq_fold k ''destinations''
     then map_option (\<lambda>x. s\<lparr>route_destinations := x\<rparr>) (dec_list dec_destination zero_destination v (route_destinations s))
     else if eq_fold k ''relationships''
     then map_option (\<lambda>x. s\<lparr>route_relationships := x\<rparr>) (dec_lookup_map dec_relationship v (route_relationships s))
     else Some s)"

definition dec_space :: "json \<Rightarrow> space \<Rightarrow> space option" where
  "dec_space = dec_struct (\<lambda>k v s.
     if eq_fold k ''guid'' then map_option (\<lambda>x. s\<lparr>space_guid := x\<rparr>) (dec_string v (space_guid s))
     else if eq_fold k ''name'' then map_option (\<lambda>x. s\<lparr>space_name := x\<rparr>) (dec_string v (space_name s))
     else if eq_fold k ''relationships''
     then map_option (\<lambda>x. s\<lparr>space_relationships := x\<rparr>) (dec_lookup_map dec_relationship v (space_relationships s))
     else Some s)"

definition dec_domain :: "json \<Rightarrow> domain \<Rightarrow> domain option" where
  "dec_domain = dec_struct (\<lambda>k v s.
     if eq_fold k ''guid'' then map_option (\<lambda>x. s\<lparr>domain_guid := x\<rparr>) (dec_string v (domain_guid s))
     else if eq_fold k ''name'' then map_option (\<lambda>x. s\<lparr>domain_name := x\<rparr>) (dec_string v (domain_name s))
     else if eq_fold k ''internal'' then map_option (\<lambda>x. s\<lparr>domain_internal := x\<rparr>) (dec_bool v (domain_internal s))
     else Some s)"

definition dec_included :: "json \<Rightarrow> route_list_included \<Rightarrow> route_list_included option" where
  "dec_included = dec_struct (\<lambda>k v s.
     if eq_fold k ''spaces'' then map_option (\<lambda>x. s\<lparr>incl_spaces := x\<rparr>) (dec_list dec_space \<lparr>space_guid = [], space_name = [], space_relationships = Map.empty\<rparr> v
       (incl_spaces s))
     else if eq_fold k ''domains'' then map_option (\<lambda>x. s\<lparr>incl_domains := x\<rparr>) (dec_list dec_domain \<lparr>domain_guid = [], domain_name = [], domain_internal = False\<rparr> v
       (incl_domains s))
     else Some s)"

definition dec_total_pages :: "json \<Rightarrow> int \<Rightarrow> int option" where
  "dec_total_pages = dec_struct (\<lambda>k v n. if eq_fold k ''total_pages'' then dec_int v n else Some n)"

definition dec_route_list :: "json \<Rightarrow> route_list option" where
  "dec_route_list j = dec_struct (\<lambda>k v s.
     if eq_fold k ''Pagination''
     then map_option (\<lambda>x. s\<lparr>rl_total_pages := x\<rparr>) (dec_total_pages v (rl_total_pages s))
     else if eq_fold k ''resources'' then map_option (\<lambda>x. s\<lparr>rl_resources := x\<rparr>) (dec_list dec_route zero_route v (rl_resources s))
     else if eq_fold k ''included''
     then map_option (\<lambda>x. s\<lparr>rl_included := x\<rparr>) (dec_included v (rl_included s))
     else Some s) j empty_route_list"

section \<open>Requests\<close>

text \<open>\<open>RestClient.Patch\<close>.\<close>

definition rest_patch ::
  "'w http_env \<Rightarrow> string \<Rightarrow> string \<Rightarrow> string \<Rightarrow> ('w, go_error + http_response) effect" where
  "rest_patch env url auth_token body w =
     (case new_request env ''PATCH'' url body of
        Inl e \<Rightarrow> (Inl e, w)
      | Inr req \<Rightarrow>
          he_do env (header_add ''Authorization'' (''Bearer '' @ auth_token)
                       (header_add ''Content-Type'' ''application/json'' req)) w)"

text \<open>\<open>UAAClient\<close>: the library's token, of which \<open>Fetch\<close> hands on the access token.\<close>

record oauth_token =
  tok_access :: string

definition new_uaa_client ::
  "(string \<Rightarrow> string \<Rightarrow> string \<Rightarrow> bool \<Rightarrow> go_error + ('w, go_error + oauth_token) effect)
    \<Rightarrow> string \<Rightarrow> string \<Rightarrow> string \<Rightarrow> ('w, go_error + oauth_token) effect outcome" where
  "new_uaa_client uaa_new endpoint client_name client_secret =
     (case uaa_new endpoint client_name client_secret True of
        Inl e \<Rightarrow> Panics (PanicWith e)
      | Inr api \<Rightarrow> Returns api)"

definition uaa_fetch :: "('w, go_error + oauth_token) effect \<Rightarrow> ('w, go_error + string) effect" where
  "uaa_fetch token w =
     (case token w of
        (Inl e, w') \<Rightarrow> (Inl e, w')
      | (Inr t, w') \<Rightarrow> (Inr (tok_access t), w'))"

section \<open>The client\<close>

text \<open>\<open>Client\<close>, with the \<open>Rest\<close> and \<open>TokenFetcher\<close> interfaces it is given.\<close>

record 'w cf_client =
  cl_host :: string
  cl_patch :: "string \<Rightarrow> string \<Rightarrow> string \<Rightarrow> ('w, go_error + http_response) effect"
  cl_fetch :: "('w, go_error + string) effect"
  cl_http :: "'w http_env"

definition new_client ::
  "'w http_env \<Rightarrow> string \<Rightarrow> (string \<Rightarrow> string \<Rightarrow> string \<Rightarrow> ('w, go_error + http_response) effect)
    \<Rightarrow> ('w, go_error + string) effect \<Rightarrow> 'w cf_client" where
  "new_client env host patch fetch =
     \<lparr>cl_host = host, cl_patch = patch, cl_fetch = fetch, cl_http = env\<rparr>"

definition max_results_per_page :: int where
  "max_results_per_page = 5000"

definition update_build :: "'w cf_client \<Rightarrow> string \<Rightarrow> cf_build \<Rightarrow> ('w, go_error option) effect" where
  "update_build c build_guid build w =
     (case cl_fetch c w of
        (Inl e, w1) \<Rightarrow> (Some e, w1)
      | (Inr token, w1) \<Rightarrow>
          (case cl_patch c (cl_host c @ ''/v3/builds/'' @ build_guid) token (json_text (build_json build)) w1 of
             (Inl e, w2) \<Rightarrow> (Some e, w2)
           | (Inr resp, w2) \<Rightarrow>
               if rs_status resp \<noteq> 200
               then (Some (ErrorText (''failed to patch build, received status '' @ go_itoa (rs_status resp))), w2)
               else (None, w2)))"

definition update_droplet :: "'w cf_client \<Rightarrow> string \<Rightarrow> droplet \<Rightarrow> ('w, go_error option) effect" where
  "update_droplet c droplet_guid payload w =
     (case cl_fetch c w of
        (Inl e, w1) \<Rightarrow> (Some e, w1)
      | (Inr token, w1) \<Rightarrow>
          (case cl_patch c (cl_host c @ ''/v3/droplets/'' @ droplet_guid) token (json_text (droplet_json payload)) w1 of
             (Inl e, w2) \<Rightarrow> (Some e, w2)
           | (Inr resp, w2) \<Rightarrow>
               if rs_status resp \<noteq> 200
               then (Some (ErrorText (''failed to patch droplet, received status '' @ go_itoa (rs_status resp))), w2)
               else (None, w2)))"

definition list_routes_url :: "string \<Rightarrow> string" where
  "list_routes_url host =
     host @ ''/v3/routes?per_page='' @ go_itoa max_results_per_page @ ''&include=space,domain''"

definition list_routes :: "'w cf_client \<Rightarrow> ('w, go_error + route_list) effect" where
  "list_routes c w =
     (case cl_fetch c w of
        (Inl e, w1) \<Rightarrow> (Inl e, w1)
      | (Inr token, w1) \<Rightarrow>
          (case new_request (cl_http c) ''GET'' (list_routes_url (cl_host c)) [] of
             Inl e \<Rightarrow> (Inl e, w1)
           | Inr req \<Rightarrow>
               (case he_do (cl_http c) (header_set ''Authorization'' (''bearer '' @ token) req) w1 of
                  (Inl e, w2) \<Rightarrow> (Inl (WrappedError ''failed to list routes, HTTP error: '' e []), w2)
                | (Inr resp, w2) \<Rightarrow>
                    if rs_status resp \<noteq> 200
                    then (Inl (ErrorText (''failed to list routes, received status: '' @ go_itoa (rs_status resp))), w2)
                    else (case json_decode (rs_body resp) of
                            None \<Rightarrow> (Inl (WrappedError ''failed to deserialize response from CF API: '' json_error []), w2)
                          | Some j \<Rightarrow>
                              (case dec_route_list j of
                                 None \<Rightarrow> (Inl (WrappedError ''failed to deserialize response from CF API: '' json_error []), w2)
                               | Some rl \<Rightarrow> (Inr rl, w2))))))"

section \<open>What the CF API receives\<close>

text \<open>
  A network as a log of the requests sent, beside any other state \<open>'k\<close>. The answers, and the
  tokens, are an arbitrary function of both.
\<close>

type_synonym 'k net_world = "http_request list \<times> 'k"

type_synonym 'k answers = "http_request list \<Rightarrow> 'k \<Rightarrow> http_request \<Rightarrow> (go_error + http_response) \<times> 'k"

definition net_do :: "'k answers \<Rightarrow> http_request \<Rightarrow> ('k net_world, go_error + http_response) effect" where
  "net_do ans req w = (let (a, k) = ans (fst w) (snd w) req in (a, (fst w @ [req], k)))"

definition net_token ::
  "(http_request list \<Rightarrow> 'k \<Rightarrow> (go_error + oauth_token) \<times> 'k) \<Rightarrow> ('k net_world, go_error + oauth_token) effect" where
  "net_token tok w = (let (t, k) = tok (fst w) (snd w) in (t, (fst w, k)))"

definition net_env :: "(string \<Rightarrow> go_error option) \<Rightarrow> 'k answers \<Rightarrow> 'k net_world http_env" where
  "net_env url_error ans = \<lparr>he_url_error = url_error, he_do = net_do ans\<rparr>"

definition net_client ::
  "(string \<Rightarrow> go_error option) \<Rightarrow> 'k answers \<Rightarrow> (http_request list \<Rightarrow> 'k \<Rightarrow> (go_error + oauth_token) \<times> 'k)
    \<Rightarrow> string \<Rightarrow> 'k net_world cf_client" where
  "net_client url_error ans tok host =
     new_client (net_env url_error ans) host (rest_patch (net_env url_error ans)) (uaa_fetch (net_token tok))"

text \<open>The build and droplet payloads among the requests, by GUID.\<close>

definition patch_of :: "string \<Rightarrow> http_request \<Rightarrow> (string \<times> json) option" where
  "patch_of prefix req =
     (if rq_method req = ''PATCH'' \<and> go_has_prefix (rq_url req) prefix
      then map_option (Pair (drop (length prefix) (rq_url req))) (json_unmarshal (rq_body req))
      else None)"

definition patches :: "string \<Rightarrow> 'k net_world \<Rightarrow> (string \<times> json) list" where
  "patches prefix w = List.map_filter (patch_of prefix) (fst w)"

definition build_patches :: "string \<Rightarrow> 'k net_world \<Rightarrow> (string \<times> json) list" where
  "build_patches host = patches (host @ ''/v3/builds/'')"

definition droplet_patches :: "string \<Rightarrow> 'k net_world \<Rightarrow> (string \<times> json) list" where
  "droplet_patches host = patches (host @ ''/v3/droplets/'')"

section \<open>The interface the controllers rely on\<close>

text \<open>
  An updater sends each payload at most once, and exactly once when it reports success.
\<close>

locale cf_updater =
  fixes update :: "string \<Rightarrow> 'b \<Rightarrow> ('w, go_error option) effect"
    and payload :: "'b \<Rightarrow> json"
    and received :: "'w \<Rightarrow> (string \<times> json) list"
  assumes update_ok: "update g b w = (None, w') \<Longrightarrow> received w' = received w @ [(g, payload b)]"
    and update_failed: "update g b w = (Some e, w') \<Longrightarrow>
      received w' = received w \<or> received w' = received w @ [(g, payload b)]"
begin

lemma update_at_most_once:
  "received (snd (update g b w)) = received w \<or> received (snd (update g b w)) = received w @ [(g, payload b)]"
  using update_ok update_failed by (metis option.exhaust prod.collapse)

end

lemma build_json_plain: "json_plain (build_json b)"
  by (auto simp: build_json_def lifecycle_json_def lifecycle_data_json_def string_map_json_def
      list_all_iff split: option.splits)

lemma droplet_json_plain: "json_plain (droplet_json d)"
  by (simp add: droplet_json_def)

lemma patches_snoc:
  "fst w' = fst w @ [r] \<Longrightarrow>
     patches p w' = patches p w @ (case patch_of p r of None \<Rightarrow> [] | Some x \<Rightarrow> [x])"
  by (simp add: patches_def List.map_filter_def split: option.splits)

lemma patches_log: "fst w' = fst w \<Longrightarrow> patches p w' = patches p w"
  by (simp add: patches_def)

lemma patch_of_patch:
  assumes "json_plain j"
  shows "patch_of p (header_add h1 v1 (header_add h2 v2
           \<lparr>rq_method = ''PATCH'', rq_url = p @ g, rq_headers = [], rq_body = json_text j\<rparr>)) = Some (g, j)"
  using assms by (simp add: patch_of_def header_add_def json_unmarshal_text)

lemmas client_defs =
  net_client_def new_client_def rest_patch_def uaa_fetch_def net_token_def net_env_def new_request_def
  net_do_def

text \<open>What one \<open>Patch\<close> of the networked client leaves in the log.\<close>

text \<open>An effect on the rest of the world leaves the log alone.\<close>

definition on_cluster :: "('k, 'a) effect \<Rightarrow> ('k net_world, 'a) effect" where
  "on_cluster f w = (let (a, k) = f (snd w) in (a, (fst w, k)))"

lemma on_cluster_patches: "patches p (snd (on_cluster f w)) = patches p w"
  by (simp add: on_cluster_def patches_def split: prod.splits)

lemma net_do_log: "net_do ans req w = (res, w') \<Longrightarrow> fst w' = fst w @ [req]"
  by (auto simp: net_do_def split: prod.splits)

lemma rest_patch_patches:
  assumes "rest_patch (net_env url_error ans) (p @ g) tok (json_text j) w = (res, w')" and "json_plain j"
  shows "patches p w' = patches p w @ [(g, j)] \<or> (\<exists>e. res = Inl e) \<and> patches p w' = patches p w"
proof (cases "url_error (p @ g)")
  case (Some e)
  then show ?thesis using assms(1) by (auto simp: rest_patch_def new_request_def net_env_def)
next
  case None
  then have "fst w' = fst w @ [header_add ''Authorization'' (''Bearer '' @ tok)
      (header_add ''Content-Type'' ''application/json''
        \<lparr>rq_method = ''PATCH'', rq_url = p @ g, rq_headers = [], rq_body = json_text j\<rparr>)]"
    using assms(1) by (simp add: rest_patch_def new_request_def net_env_def net_do_log)
  from patches_snoc [OF this, of p] show ?thesis
    by (simp add: patch_of_patch [OF assms(2)])
qed

lemma uaa_fetch_log: "uaa_fetch (net_token tok) w = (t, w') \<Longrightarrow> fst w' = fst w"
  by (auto simp: uaa_fetch_def net_token_def split: prod.splits sum.splits)

lemmas uaa_fetch_patches = uaa_fetch_log [THEN patches_log]

lemma net_update_build:
  assumes "update_build (net_client url_error ans tok host) g b w = (e, w')"
  shows "build_patches host w' = build_patches host w @ [(g, build_json b)] \<or>
     e \<noteq> None \<and> build_patches host w' = build_patches host w"
proof -
  obtain t w1 where t: "uaa_fetch (net_token tok) w = (t, w1)" by (cases "uaa_fetch (net_token tok) w")
  note t' = uaa_fetch_patches [OF t]
  show ?thesis
  proof (cases t)
    case (Inl e)
    then show ?thesis
      using assms t t' by (auto simp: update_build_def net_client_def new_client_def build_patches_def)
  next
    case (Inr tk)
    obtain res w2 where r:
      "rest_patch (net_env url_error ans) ((host @ ''/v3/builds/'') @ g) tk (json_text (build_json b)) w1 = (res, w2)"
      by (cases "rest_patch (net_env url_error ans) ((host @ ''/v3/builds/'') @ g) tk (json_text (build_json b)) w1")
    show ?thesis
      using assms t t' Inr r rest_patch_patches [OF r build_json_plain]
      by (auto simp: update_build_def net_client_def new_client_def build_patches_def
          split: sum.splits if_splits)
  qed
qed

lemma net_update_droplet:
  assumes "update_droplet (net_client url_error ans tok host) g d w = (e, w')"
  shows "droplet_patches host w' = droplet_patches host w @ [(g, droplet_json d)] \<or>
     e \<noteq> None \<and> droplet_patches host w' = droplet_patches host w"
proof -
  obtain t w1 where t: "uaa_fetch (net_token tok) w = (t, w1)" by (cases "uaa_fetch (net_token tok) w")
  note t' = uaa_fetch_patches [OF t]
  show ?thesis
  proof (cases t)
    case (Inl e)
    then show ?thesis
      using assms t t' by (auto simp: update_droplet_def net_client_def new_client_def droplet_patches_def)
  next
    case (Inr tk)
    obtain res w2 where r:
      "rest_patch (net_env url_error ans) ((host @ ''/v3/droplets/'') @ g) tk (json_text (droplet_json d)) w1 = (res, w2)"
      by (cases "rest_patch (net_env url_error ans) ((host @ ''/v3/droplets/'') @ g) tk (json_text (droplet_json d)) w1")
    show ?thesis
      using assms t t' Inr r rest_patch_patches [OF r droplet_json_plain]
      by (auto simp: update_droplet_def net_client_def new_client_def droplet_patches_def
          split: sum.splits if_splits)
  qed
qed

interpretation net_builds: cf_updater "update_build (net_client url_error ans tok host)" build_json
  "build_patches host"
  by unfold_locales (use net_update_build in fastforce)+

interpretation net_droplets: cf_updater "update_droplet (net_client url_error ans tok host)" droplet_json
  "droplet_patches host"
  by unfold_locales (use net_update_droplet in fastforce)+

section \<open>Reading a payload back\<close>

text \<open>The struct tags read the other way: the build a receiver with the same types gets.\<close>

definition dec_string_map :: "json \<Rightarrow> (string, string) go_map option \<Rightarrow> (string, string) go_map option option" where
  "dec_string_map j m =
     (case j of
        JNull \<Rightarrow> Some None
      | JObj ms \<Rightarrow>
          map_option Some
            (fold (\<lambda>(k, v) acc. case (acc, dec_string v []) of
                      (Some es, Some s) \<Rightarrow> Some (go_put k s es) | _ \<Rightarrow> None)
               ms (Some (case m of None \<Rightarrow> [] | Some es \<Rightarrow> es)))
      | _ \<Rightarrow> None)"

definition dec_lifecycle_data :: "json \<Rightarrow> lifecycle_data \<Rightarrow> lifecycle_data option" where
  "dec_lifecycle_data = dec_struct (\<lambda>k v s.
     if eq_fold k ''image'' then map_option (\<lambda>x. s\<lparr>ld_image := x\<rparr>) (dec_string v (ld_image s))
     else if eq_fold k ''processTypes''
     then map_option (\<lambda>x. s\<lparr>ld_process_types := x\<rparr>) (dec_string_map v (ld_process_types s))
     else Some s)"

definition dec_lifecycle :: "json \<Rightarrow> lifecycle \<Rightarrow> lifecycle option" where
  "dec_lifecycle = dec_struct (\<lambda>k v s.
     if eq_fold k ''type'' then map_option (\<lambda>x. s\<lparr>lc_type := x\<rparr>) (dec_string v (lc_type s))
     else if eq_fold k ''data'' then map_option (\<lambda>x. s\<lparr>lc_data := x\<rparr>) (dec_lifecycle_data v (lc_data s))
     else Some s)"

definition dec_build :: "json \<Rightarrow> cf_build option" where
  "dec_build j = dec_struct (\<lambda>k v s.
     if eq_fold k ''state'' then map_option (\<lambda>x. s\<lparr>build_state := x\<rparr>) (dec_string v (build_state s))
     else if eq_fold k ''error'' then map_option (\<lambda>x. s\<lparr>build_error := x\<rparr>) (dec_string v (build_error s))
     else if eq_fold k ''lifecycle''
     then map_option (\<lambda>x. s\<lparr>build_lifecycle := x\<rparr>) (dec_lifecycle v (build_lifecycle s))
     else Some s) j
     \<lparr>build_state = [], build_error = [], build_lifecycle = zero_lifecycle\<rparr>"

text \<open>The same build with its process types listed by name.\<close>

definition canonical_build :: "cf_build \<Rightarrow> cf_build" where
  "canonical_build b =
     b\<lparr>build_lifecycle := (build_lifecycle b)\<lparr>lc_data := (lc_data (build_lifecycle b))\<lparr>
         ld_process_types := map_option (sort_key fst) (ld_process_types (lc_data (build_lifecycle b)))\<rparr>\<rparr>\<rparr>"

lemma fold_put_entries:
  "distinct (map fst (acc @ es)) \<Longrightarrow>
     fold (\<lambda>(k, v) a. case (a, dec_string v []) of (Some xs, Some s) \<Rightarrow> Some (go_put k s xs) | _ \<Rightarrow> None)
       (map (\<lambda>(k, v). (k, JStr v)) es) (Some acc) = Some (acc @ es)"
proof (induction es arbitrary: acc)
  case Nil
  then show ?case by simp
next
  case (Cons e es)
  obtain k v where e: "e = (k, v)" by (cases e)
  have "go_put k v acc = acc @ [(k, v)]"
    using Cons.prems by (induction acc) (auto simp: go_put_def e)
  then show ?case
    using Cons.IH [of "acc @ [(k, v)]"] Cons.prems by (simp add: e dec_string_def)
qed

lemma dec_string_map_json:
  assumes "\<And>es. m = Some es \<Longrightarrow> go_map_ok es"
  shows "dec_string_map (string_map_json m) None = Some (map_option (sort_key fst) m)"
proof (cases m)
  case None
  then show ?thesis by (simp add: dec_string_map_def string_map_json_def)
next
  case (Some es)
  then have "distinct (map fst (sort_key fst es))"
    using assms by (simp add: go_map_ok_def distinct_map)
  then show ?thesis
    using fold_put_entries [of "[]" "sort_key fst es"]
    by (simp add: dec_string_map_def string_map_json_def Some)
qed

lemma eq_fold_tags: "\<not> eq_fold ''data'' ''type''" "\<not> eq_fold ''error'' ''state''"
  by (simp_all add: eq_fold_def lower_def)

lemma dec_build_json:
  assumes "\<And>es. ld_process_types (lc_data (build_lifecycle b)) = Some es \<Longrightarrow> go_map_ok es"
  shows "dec_build (build_json b) = Some (canonical_build b)"
proof -
  obtain st er ty im pt where b: "b = \<lparr>build_state = st, build_error = er,
      build_lifecycle = \<lparr>lc_type = ty, lc_data = \<lparr>ld_image = im, ld_process_types = pt\<rparr>\<rparr>\<rparr>"
    by (metis cf_build.surjective lifecycle.surjective lifecycle_data.surjective old.unit.exhaust)
  have "dec_string_map (string_map_json pt) None = Some (map_option (sort_key fst) pt)"
    using assms by (intro dec_string_map_json) (simp add: b)
  then show ?thesis
    by (simp add: b dec_build_def build_json_def dec_struct_def eq_fold_length eq_fold_tags dec_string_def
        dec_lifecycle_def lifecycle_json_def dec_lifecycle_data_def lifecycle_data_json_def
        zero_lifecycle_def canonical_build_def)
qed

section \<open>Properties\<close>

text \<open>The requests, in full.\<close>

definition patch_request :: "string \<Rightarrow> string \<Rightarrow> json \<Rightarrow> http_request" where
  "patch_request url token j =
     \<lparr>rq_method = ''PATCH'', rq_url = url,
      rq_headers = [(''Content-Type'', ''application/json''), (''Authorization'', ''Bearer '' @ token)],
      rq_body = json_text j\<rparr>"

definition routes_request :: "string \<Rightarrow> string \<Rightarrow> http_request" where
  "routes_request host token =
     \<lparr>rq_method = ''GET'', rq_url = host @ ''/v3/routes?per_page=5000&include=space,domain'',
      rq_headers = [(''Authorization'', ''bearer '' @ token)], rq_body = []\<rparr>"

lemmas client_run_defs =
  net_client_def new_client_def rest_patch_def uaa_fetch_def net_token_def net_env_def new_request_def
  net_do_def header_add_def header_set_def

lemma go_itoa_5000: "go_itoa 5000 = ''5000''"
  by (simp add: go_itoa_def nat_digits.simps digit_char_def char_of_eq_iff)

lemma update_build_run:
  assumes "tok log k = (Inr t, k1)" and "url_error (host @ ''/v3/builds/'' @ g) = None"
    and "ans log k1 (patch_request (host @ ''/v3/builds/'' @ g) (tok_access t) (build_json b)) = (Inr resp, k2)"
  shows "update_build (net_client url_error ans tok host) g b (log, k) =
     (if rs_status resp = 200 then None
      else Some (ErrorText (''failed to patch build, received status '' @ go_itoa (rs_status resp))),
      (log @ [patch_request (host @ ''/v3/builds/'' @ g) (tok_access t) (build_json b)], k2))"
  using assms by (simp add: update_build_def client_run_defs patch_request_def)

lemma update_droplet_run:
  assumes "tok log k = (Inr t, k1)" and "url_error (host @ ''/v3/droplets/'' @ g) = None"
    and "ans log k1 (patch_request (host @ ''/v3/droplets/'' @ g) (tok_access t) (droplet_json b)) = (Inr resp, k2)"
  shows "update_droplet (net_client url_error ans tok host) g b (log, k) =
     (if rs_status resp = 200 then None
      else Some (ErrorText (''failed to patch droplet, received status '' @ go_itoa (rs_status resp))),
      (log @ [patch_request (host @ ''/v3/droplets/'' @ g) (tok_access t) (droplet_json b)], k2))"
  using assms by (simp add: update_droplet_def client_run_defs patch_request_def)

text \<open>\<open>UpdateBuild\<close> reports success exactly when the token was fetched, the URL is valid and
the answer to its request has status 200; then the one request it sent is a PATCH of the build's
resource with the bearer token and the JSON text of the build as its body.\<close>

theorem update_build_success_iff:
  "update_build (net_client url_error ans tok host) g b w = (None, w') \<longleftrightarrow>
     (\<exists>t k1 resp k2.
        tok (fst w) (snd w) = (Inr t, k1) \<and> url_error (host @ ''/v3/builds/'' @ g) = None \<and>
        ans (fst w) k1 (patch_request (host @ ''/v3/builds/'' @ g) (tok_access t) (build_json b)) = (Inr resp, k2) \<and>
        rs_status resp = 200 \<and>
        w' = (fst w @ [patch_request (host @ ''/v3/builds/'' @ g) (tok_access t) (build_json b)], k2))"
  by (auto simp: update_build_def client_run_defs patch_request_def split: prod.splits sum.splits option.splits if_splits)

text \<open>The same for \<open>UpdateDroplet\<close>.\<close>

theorem update_droplet_success_iff:
  "update_droplet (net_client url_error ans tok host) g d w = (None, w') \<longleftrightarrow>
     (\<exists>t k1 resp k2.
        tok (fst w) (snd w) = (Inr t, k1) \<and> url_error (host @ ''/v3/droplets/'' @ g) = None \<and>
        ans (fst w) k1 (patch_request (host @ ''/v3/droplets/'' @ g) (tok_access t) (droplet_json d)) = (Inr resp, k2) \<and>
        rs_status resp = 200 \<and>
        w' = (fst w @ [patch_request (host @ ''/v3/droplets/'' @ g) (tok_access t) (droplet_json d)], k2))"
  by (auto simp: update_droplet_def client_run_defs patch_request_def split: prod.splits sum.splits option.splits if_splits)

text \<open>What \<open>UpdateBuild\<close> puts into its request can be read back: decoding the body into a
\<open>Build\<close> gives the build, its process types the same map (listed by name), a nil map nil.\<close>

theorem update_build_payload_roundtrip:
  assumes "\<And>es. ld_process_types (lc_data (build_lifecycle b)) = Some es \<Longrightarrow> go_map_ok es"
  shows "Option.bind (json_unmarshal (rq_body (patch_request url token (build_json b)))) dec_build =
           Some (canonical_build b)"
  using dec_build_json [OF assms] by (simp add: patch_request_def json_unmarshal_text build_json_plain)

theorem update_build_payload_roundtrip_witness:
  "Option.bind (json_unmarshal (rq_body (patch_request ''u'' ''t'' (build_json (failed_build [CHR 0x22, CHR 0x0A])))))
     dec_build = Some (canonical_build (failed_build [CHR 0x22, CHR 0x0A]))"
  by (rule update_build_payload_roundtrip) (simp add: failed_build_def zero_lifecycle_def)

text \<open>\<open>ListRoutes\<close> answers from exactly one request, for the first page of at most 5000
routes, whatever number of pages the answer announces.\<close>

theorem list_routes_single_page:
  "list_routes (net_client url_error ans tok host) w = (Inr rl, w') \<longleftrightarrow>
     (\<exists>t k1 resp k2 j.
        tok (fst w) (snd w) = (Inr t, k1) \<and>
        url_error (host @ ''/v3/routes?per_page=5000&include=space,domain'') = None \<and>
        ans (fst w) k1 (routes_request host (tok_access t)) = (Inr resp, k2) \<and>
        rs_status resp = 200 \<and> json_decode (rs_body resp) = Some j \<and> dec_route_list j = Some rl \<and>
        w' = (fst w @ [routes_request host (tok_access t)], k2))"
  by (auto simp: list_routes_def client_run_defs routes_request_def list_routes_url_def
      max_results_per_page_def go_itoa_5000 split: prod.splits sum.splits option.splits if_splits)

end
