(* ===== verification/SyncEndToEnd.thy ===== *)
theory SyncEndToEnd
  imports PeriodicSyncProperties CfClient
begin

text \<open>
  The PeriodicSync controller wired to the CF client of \<open>cf/client.go\<close>: what becomes of routes
  the CF API lists on a later page.
\<close>

section \<open>The Kubernetes API beside the request log\<close>

definition net_sync_client :: "('k, 'sel) sync_client \<Rightarrow> ('k net_world, 'sel) sync_client" where
  "net_sync_client kc =
     \<lparr>sc_get = (\<lambda>req. on_cluster (sc_get kc req)),
      sc_label_selector = sc_label_selector kc,
      sc_list = (\<lambda>ns sel. on_cluster (sc_list kc ns sel)),
      sc_update = (\<lambda>r. on_cluster (sc_update kc r)),
      sc_create = (\<lambda>r. on_cluster (sc_create kc r)),
      sc_delete = (\<lambda>ns n. on_cluster (sc_delete kc ns n)),
      sc_status_update = (\<lambda>ps. on_cluster (sc_status_update kc ps)),
      sc_is_not_found = sc_is_not_found kc,
      sc_ignore_not_found = sc_ignore_not_found kc,
      sc_now = (\<lambda>w. sc_now kc (snd w))\<rparr>"

lemma net_sync_client_sel [simp]:
  "sc_get (net_sync_client kc) req = on_cluster (sc_get kc req)"
  "sc_label_selector (net_sync_client kc) = sc_label_selector kc"
  "sc_list (net_sync_client kc) ns sel = on_cluster (sc_list kc ns sel)"
  "sc_update (net_sync_client kc) r = on_cluster (sc_update kc r)"
  "sc_create (net_sync_client kc) r = on_cluster (sc_create kc r)"
  "sc_delete (net_sync_client kc) ns n = on_cluster (sc_delete kc ns n)"
  "sc_status_update (net_sync_client kc) ps = on_cluster (sc_status_update kc ps)"
  "sc_is_not_found (net_sync_client kc) = sc_is_not_found kc"
  "sc_ignore_not_found (net_sync_client kc) = sc_ignore_not_found kc"
  "sc_now (net_sync_client kc) w = sc_now kc (snd w)"
  by (simp_all add: net_sync_client_def)

lemma on_cluster_eq: "on_cluster f w = (a, w') \<longleftrightarrow> f (snd w) = (a, snd w') \<and> fst w' = fst w"
  by (cases w; cases w') (auto simp: on_cluster_def split: prod.splits)

lemma on_cluster_snd: "snd (snd (on_cluster f w)) = snd (f (snd w))"
  by (simp add: on_cluster_def split: prod.splits)

lemma net_list_law:
  assumes "route_list_law kc ns view"
  shows "route_list_law (net_sync_client kc) ns (\<lambda>w. view (snd w))"
proof -
  note l = assms [unfolded route_list_law_def]
  note l1 = l [THEN conjunct1, rule_format] and l2 = l [THEN conjunct2, rule_format]
  show ?thesis
    unfolding route_list_law_def net_sync_client_sel on_cluster_eq
    by (intro conjI allI impI; (elim conjE)?) (rule l1 l2 [THEN conjunct1] l2 [THEN conjunct2, THEN conjunct1]
        l2 [THEN conjunct2, THEN conjunct2, THEN conjunct1]
        l2 [THEN conjunct2, THEN conjunct2, THEN conjunct2, rule_format]; assumption)+
qed

lemma net_write_laws:
  assumes "route_write_laws kc ns view"
  shows "route_write_laws (net_sync_client kc) ns (\<lambda>w. view (snd w))"
proof -
  note l = assms [unfolded route_write_laws_def]
  note u = l [THEN conjunct1, rule_format] and c = l [THEN conjunct2, THEN conjunct1, rule_format]
    and d = l [THEN conjunct2, THEN conjunct2, rule_format]
  show ?thesis
    unfolding route_write_laws_def net_sync_client_sel on_cluster_eq
    by (intro conjI allI impI; elim conjE) (rule u c d; assumption)+
qed

lemma net_frame_laws:
  assumes "route_frame_laws kc (\<lambda>s. (x, s)) view"
    and "\<And>w. view (snd (snd (lr w))) = view (snd w)"
  shows "route_frame_laws (net_sync_client kc) lr (\<lambda>w. view (snd w))"
  using assms by (simp add: route_frame_laws_def on_cluster_snd)

text \<open>The loops run on the cluster.\<close>

lemma net_sync_existing:
  "sync_existing (net_sync_client kc) m missing ok ps w = on_cluster (sync_existing kc m missing ok ps) w"
proof (induction ps arbitrary: missing ok w)
  case Nil
  then show ?case by (simp add: on_cluster_def)
next
  case (Cons p ps)
  obtain g r where p: "p = (g, r)" by (cases p)
  show ?case
    by (cases "go_get (sm_k8s m) g"; cases "desired_route m r")
      (auto simp: p Cons.IH on_cluster_def split: prod.splits option.splits)
qed

lemma net_sync_missing:
  "sync_missing (net_sync_client kc) m ok rs w = on_cluster (sync_missing kc m ok rs) w"
proof (induction rs arbitrary: ok w)
  case Nil
  then show ?case by (simp add: on_cluster_def)
next
  case (Cons r rs)
  show ?case
    by (cases "desired_route m r") (auto simp: Cons.IH on_cluster_def split: prod.splits option.splits)
qed

lemma net_sync_extra:
  "sync_extra (net_sync_client kc) m ok gs w = on_cluster (sync_extra kc m ok gs) w"
proof (induction gs arbitrary: ok w)
  case Nil
  then show ?case by (simp add: on_cluster_def)
next
  case (Cons g gs)
  show ?case
    by (auto simp: Cons.IH on_cluster_def split: prod.splits option.splits)
qed

lemma net_sync_routes:
  "sync_routes (net_sync_client kc) m ord1 ord2 w = on_cluster (sync_routes kc m ord1 ord2) w"
  by (auto simp: sync_routes_def net_sync_existing net_sync_missing net_sync_extra on_cluster_def
      split: prod.splits outcome.splits)

lemma net_reconcile_log:
  assumes "sc_get kc req (snd w) = ((ps, None), k1)"
  shows "fst (snd (periodic_sync_reconcile (net_sync_client kc) lr ns ord1 ord2 req w)) = fst (snd (lr (fst w, k1)))"
proof -
  have get: "sc_get (net_sync_client kc) req w = ((ps, None), (fst w, k1))"
    using assms by (simp add: on_cluster_def)
  have status: "fst (snd (update_sync_status_failure (net_sync_client kc) ps m x)) = fst x"
    "fst (snd (update_sync_status_success (net_sync_client kc) ps x)) = fst x" for m x
    by (simp_all add: update_sync_status_failure_def update_sync_status_success_def on_cluster_def split: prod.splits)
  obtain l w2 where l: "lr (fst w, k1) = (l, w2)" by (cases "lr (fst w, k1)")
  show ?thesis
  proof (cases l)
    case (Inl e)
    then show ?thesis using get l status by (simp add: periodic_sync_reconcile_def)
  next
    case (Inr rl)
    note run = reconcile_listed [where list_routes = lr, OF get l [unfolded Inr], of ns ord1 ord2]
    have "fst w5 = fst w4" if "update_sync_status_success (net_sync_client kc) ps w4 = (p, w5)" for p w4 w5
      using status(2) [of w4] that by simp
    then show ?thesis
      unfolding run net_sync_routes net_sync_client_sel
      by (auto simp: l Let_def status on_cluster_eq split: sum.splits prod.splits outcome.splits bool.splits option.splits)
  qed
qed

section \<open>The CF API's pages\<close>

text \<open>
  The documented pagination of the CF API: the parameter \<open>page\<close> selects a page, counted from 1 and the
  first one without it; each page names the number of all, and no route is on two. An answer may
  also be an error of any status.
\<close>

definition page_url :: "string \<Rightarrow> nat \<Rightarrow> string" where
  "page_url host i = host @ ''/v3/routes?per_page=5000&include=space,domain&page='' @ go_itoa (int (Suc i))"

definition asks_page :: "string \<Rightarrow> nat \<Rightarrow> http_request \<Rightarrow> bool" where
  "asks_page host i r \<longleftrightarrow> rq_method r = ''GET'' \<and>
     (rq_url r = page_url host i \<or> i = 0 \<and> rq_url r = host @ ''/v3/routes?per_page=5000&include=space,domain'')"

definition paginated :: "string \<Rightarrow> route_list list \<Rightarrow> 'k answers \<Rightarrow> bool" where
  "paginated host pages ans \<longleftrightarrow>
     (\<forall>log k r resp k' i. i < length pages \<longrightarrow> asks_page host i r \<longrightarrow> ans log k r = (Inr resp, k') \<longrightarrow>
        rs_status resp = 200 \<longrightarrow> Option.bind (json_decode (rs_body resp)) dec_route_list = Some (pages ! i)) \<and>
     (\<forall>p \<in> set pages. rl_total_pages p = int (length pages)) \<and>
     distinct (concat (map (map route_guid \<circ> rl_resources) pages))"

text \<open>The client asks once, for the first page.\<close>

lemma list_routes_first_page:
  assumes "paginated host pages ans" and "pages \<noteq> []"
    and "list_routes (net_client url_error ans tok host) w = (Inr rl, w')"
  shows "rl = pages ! 0 \<and> (\<exists>t. fst w' = fst w @ [routes_request host t])"
proof -
  obtain t k1 resp k2 j where a: "ans (fst w) k1 (routes_request host t) = (Inr resp, k2)" "rs_status resp = 200"
    "json_decode (rs_body resp) = Some j" "dec_route_list j = Some rl" "w' = (fst w @ [routes_request host t], k2)"
    using assms(3) unfolding list_routes_single_page by blast
  have "asks_page host 0 (routes_request host t)"
    by (simp add: asks_page_def routes_request_def)
  then have "Option.bind (json_decode (rs_body resp)) dec_route_list = Some (pages ! 0)"
    using assms(1,2) a(1,2) unfolding paginated_def by blast
  then show ?thesis using a by auto
qed

lemma other_page_guid:
  assumes "distinct (concat (map (map route_guid \<circ> rl_resources) pages))"
    and "0 < i" and "i < length pages" and "r \<in> set (rl_resources (pages ! i))"
  shows "route_guid r \<notin> route_guid ` set (rl_resources (pages ! 0))"
proof
  assume "route_guid r \<in> route_guid ` set (rl_resources (pages ! 0))"
  moreover obtain p ps where p: "pages = p # ps" using assms(3) by (cases pages) auto
  then have "pages ! i \<in> set ps" using assms(2,3) by (cases i) auto
  ultimately show False using assms(1,4) p by force
qed

section \<open>An example\<close>

text \<open>A CF API with two pages of routes; on the first is the example's route, on the second one called \<open>old\<close>.\<close>

definition route_page :: "string \<Rightarrow> json" where
  "route_page guid =
     JObj [(''pagination'', JObj [(''total_results'', JNum 2), (''total_pages'', JNum 2)]),
       (''resources'', JArr [JObj
          [(''guid'', JStr guid), (''host'', JStr ''host''), (''path'', JStr ''/p''), (''url'', JStr ''host.dom/p''),
           (''destinations'', JArr
              [JObj [(''guid'', JStr ''a''), (''app'', JObj [(''guid'', JStr ''app''), (''process'', JObj [(''type'', JStr ''web'')])]),
                     (''weight'', JNull), (''port'', JNum 8080)],
               JObj [(''guid'', JStr ''b''), (''app'', JObj [(''guid'', JStr ''app''), (''process'', JObj [(''type'', JStr ''web'')])]),
                     (''weight'', JNull), (''port'', JNum 9090)]]),
           (''relationships'', JObj [(''space'', JObj [(''data'', JObj [(''guid'', JStr ''s1'')])]),
              (''domain'', JObj [(''data'', JObj [(''guid'', JStr ''d1'')])])])]]),
       (''included'', JObj
          [(''spaces'', JArr [JObj [(''guid'', JStr ''s1''), (''name'', JStr ''sp''), (''relationships'', JNull)]]),
           (''domains'', JArr [JObj [(''guid'', JStr ''d1''), (''name'', JStr ''dom''), (''internal'', JBool False)]])])]"

definition second_page :: route_list where
  "second_page = (example_list 2)\<lparr>rl_resources := [example_route\<lparr>route_guid := ''old''\<rparr>]\<rparr>"

definition paged_answers :: "'k answers" where
  "paged_answers log k r =
     (Inr \<lparr>rs_status = 200, rs_body =
        json_text (route_page (if rq_url r = page_url ''h'' 1 then ''old'' else ''r1'')) @ [CHR 0x0A]\<rparr>, k)"

definition example_cf :: "('k net_world) cf_client" where
  "example_cf =
     net_client (\<lambda>u. None) paged_answers (\<lambda>log k. (Inr \<lparr>tok_access = ''t''\<rparr>, k)) ''h''"

lemma dec_struct_simps [simp]:
  "dec_struct f (JObj ms) s = dec_fields f ms s" "dec_struct f JNull s = Some s"
  by (simp_all add: dec_struct_def)

lemmas dec_route_list_defs =
  dec_route_list_def dec_total_pages_def dec_included_def dec_list_def dec_slice_into_def dec_route_def
  dec_space_def dec_domain_def dec_destination_def dec_destination_app_def dec_destination_process_def
  dec_lookup_map_def dec_relationship_def dec_relationship_data_def dec_string_def dec_int_def
  dec_bool_def dec_int_ptr_def zero_route_def zero_destination_def

lemma eq_char_of_iff: "c = char_of n \<longleftrightarrow> take_bit 8 n = (of_char c :: nat)"
  using char_of_eq_iff [of n c] by auto

lemma route_page_decodes:
  "dec_route_list (route_page guid) =
     Some ((example_list 2)\<lparr>rl_resources := [example_route\<lparr>route_guid := guid\<rparr>]\<rparr>)"
  by (simp add: dec_route_list_defs route_page_def eq_fold_def lower_def eq_char_of_iff empty_route_list_def
      example_list_def example_route_def example_space_def example_domain_def example_destination_def
      example_relationships_def)

lemma route_page_text: "json_decode (json_text (route_page guid) @ [CHR 0x0A]) = Some (route_page guid)"
  by (rule json_decode_text)
    (simp_all add: route_page_def no_number_follows_def is_number_char_def is_digit_def)

lemma page_numbers: "go_itoa 1 = ''1''" "go_itoa 2 = ''2''"
  by (simp_all add: go_itoa_def nat_digits.simps digit_char_def char_of_eq_iff)

lemma first_page_is: "(example_list 2)\<lparr>rl_resources := [example_route\<lparr>route_guid := ''r1''\<rparr>]\<rparr> = example_list 2"
  by (simp add: example_list_def example_route_def)

lemma example_list_routes:
  "list_routes example_cf (log, k) =
     (Inr (example_list 2), (log @ [routes_request ''h'' ''t''], k))"
proof -
  have "paged_answers log k (routes_request ''h'' ''t'') =
      (Inr \<lparr>rs_status = 200, rs_body = json_text (route_page ''r1'') @ [CHR 0x0A]\<rparr>, k)"
    by (simp add: paged_answers_def routes_request_def page_url_def page_numbers)
  then show ?thesis
    unfolding example_cf_def list_routes_single_page
    by (simp add: route_page_text route_page_decodes first_page_is)
qed

lemma net_list_routes_view:
  assumes "\<And>log k r. view (snd (ans log k r)) = view k" and "\<And>log k. view (snd (tok log k)) = view k"
  shows "view (snd (snd (list_routes (net_client url_error ans tok host) w))) = view (snd w)"
proof -
  have a: "view k' = view k" if "ans log k r = (x, k')" for log k r x k'
    using assms(1) [of log k r] that by simp
  have t: "view k' = view k" if "tok log k = (x, k')" for log k x k'
    using assms(2) [of log k] that by simp
  show ?thesis
    by (auto simp: list_routes_def client_run_defs split: prod.splits sum.splits option.splits dest!: a t)
qed

lemma example_net_run:
  "periodic_sync_reconcile (net_sync_client (store_client example_sync)) (list_routes example_cf) ''ns''
     (\<lambda>ks. ks) rev (''ns'', ''sync'') ([], [(''old'', example_stale)]) =
   (Returns (\<lparr>requeue = False, requeue_after = requeue_period 30\<rparr>, None),
    ([routes_request ''h'' ''t''], [(''r1'', example_cr)]))"
  by (simp add: periodic_sync_reconcile_def on_cluster_def example_calls example_list_routes
      net_sync_routes example_sync_routes update_sync_status_success_def)
    (simp add: store_client_def set_sync_status_def example_sync_def)

section \<open>Properties\<close>

text \<open>C12: With a CF API that paginates its routes, a reconciliation that reports success has asked for the
first page only, and has deleted the Route resources of all CF routes on the later pages, although
the answer told it the number of pages.\<close>

theorem periodic_sync_deletes_later_pages:
  assumes "route_list_law kc ns view" and "route_write_laws kc ns view"
    and "route_frame_laws kc (\<lambda>s. (x, s)) view"
    and "range_order ord1" and "range_order ord2"
    and "\<And>log k r. view (snd (ans log k r)) = view k" and "\<And>log k. view (snd (tok log k)) = view k"
    and "paginated host pages ans"
    and "sc_get kc req (snd w) = ((ps, None), k1)"
    and "periodic_sync_reconcile (net_sync_client kc) (list_routes (net_client url_error ans tok host)) ns
        ord1 ord2 req w = (Returns (res, None), w')"
    and "0 < i" and "i < length pages" and "r \<in> set (rl_resources (pages ! i))"
    and "view (snd w) (route_guid r) = Some old" and "managed_route old"
  shows "view (snd w') (route_guid r) = None \<and> rl_total_pages (pages ! 0) = int (length pages) \<and>
     (\<exists>t. fst w' = fst w @ [routes_request host t])"
proof -
  let ?lr = "list_routes (net_client url_error ans tok host)"
  have get: "sc_get (net_sync_client kc) req w = ((ps, None), (fst w, k1))"
    using assms(9) by (simp add: on_cluster_def)
  obtain l w2 where l: "?lr (fst w, k1) = (l, w2)" by (cases "?lr (fst w, k1)")
  then obtain rl where rl: "l = Inr rl"
    using assms(10) get by (cases l) (auto simp: periodic_sync_reconcile_def)
  note l = l [unfolded rl]
  have "pages \<noteq> []" using assms(12) by (metis less_zeroE list.size(3))
  then have first: "rl = pages ! 0" "\<exists>t. fst w2 = fst w @ [routes_request host t]"
    using list_routes_first_page [OF assms(8) _ l] by simp_all
  have "view (snd w') = sync_spec rl ns (view (snd w))"
    by (rule reconcile_success_view
        [OF net_list_law [OF assms(1)] net_write_laws [OF assms(2)]
          net_frame_laws [OF assms(3) net_list_routes_view [OF assms(6,7)]] assms(4,5) get l assms(10)])
  moreover have "go_get (index_by route_guid (\<lambda>r. r) (rl_resources rl)) (route_guid r) = None"
    using other_page_guid [OF _ assms(11-13)] assms(8) by (simp add: paginated_def index_by_None first(1))
  ultimately have "view (snd w') (route_guid r) = None"
    using assms(14,15) by (simp add: sync_spec_def build_sync_maps_def)
  moreover have "fst w' = fst w2"
    using net_reconcile_log [OF assms(9), of ?lr ns ord1 ord2] assms(10) l by simp
  moreover have "pages ! 0 \<in> set pages"
    by (rule nth_mem) (use assms(12) in linarith)
  ultimately show ?thesis using first(2) assms(8) by (simp add: paginated_def)
qed

lemma paged_answers_paginated: "paginated ''h'' [example_list 2, second_page] paged_answers"
proof -
  have url: "(rq_url r = page_url ''h'' 1) = (i = 1)" if "asks_page ''h'' i r" "i = 0 \<or> i = 1" for i r
    using that by (auto simp: asks_page_def page_url_def page_numbers)
  show ?thesis
    unfolding paginated_def
  proof (intro conjI allI impI)
    fix log k r resp k' i
    assume i: "i < length [example_list 2, second_page]" "asks_page ''h'' i r" "paged_answers log k r = (Inr resp, k')"
    have c: "i = 0 \<or> i = 1" using i(1) by auto
    have "rs_body resp = json_text (route_page (if i = 1 then ''old'' else ''r1'')) @ [CHR 0x0A]"
      using i(3) url [OF i(2) c] by (auto simp: paged_answers_def)
    then show "Option.bind (json_decode (rs_body resp)) dec_route_list = Some ([example_list 2, second_page] ! i)"
      using c by (auto simp: route_page_text route_page_decodes first_page_is second_page_def)
  qed (auto simp: example_list_def second_page_def example_route_def)
qed

theorem periodic_sync_deletes_later_pages_witness:
  "go_get [(''r1'', example_cr)] ''old'' = None"
  using periodic_sync_deletes_later_pages
      [where view = go_get and i = 1 and r = "example_route\<lparr>route_guid := ''old''\<rparr>",
        OF store_list_law store_write_laws store_frame_laws range_order_id range_order_rev _ _ paged_answers_paginated _
          example_net_run [unfolded example_cf_def]]
  by (simp add: example_calls example_stale_def managed_route_def go_get_def second_page_def paged_answers_def)

end
