(* ===== verification/SyncSystem.thy ===== *)
theory SyncSystem
  imports PeriodicSyncProperties
begin

text \<open>
  The controller over time: the manager calls \<open>Reconcile\<close> again and again, with whatever outcome,
  while other clients of the API server change resources in between. A step relation over runs,
  the provenance of every managed resource, and the stability of a synchronised namespace.
\<close>

section \<open>Runs\<close>

text \<open>
  \<open>sync_steps kc list_routes ns others w rls w'\<close>: reconciliations of the namespace \<open>ns\<close> and steps
  of \<open>others\<close> lead from \<open>w\<close> to \<open>w'\<close>, and the CF API has answered with the lists \<open>rls\<close>.
\<close>

inductive sync_steps ::
  "('w, 'sel) sync_client \<Rightarrow> ('w, go_error + route_list) effect \<Rightarrow> string \<Rightarrow> ('w \<Rightarrow> 'w \<Rightarrow> bool) \<Rightarrow>
     'w \<Rightarrow> route_list list \<Rightarrow> 'w \<Rightarrow> bool"
  for kc list_routes ns others w where
  start: "sync_steps kc list_routes ns others w [] w"
| reconcile: "sync_steps kc list_routes ns others w rls w1 \<Longrightarrow> range_order ord1 \<Longrightarrow> range_order ord2 \<Longrightarrow>
    periodic_sync_reconcile kc list_routes ns ord1 ord2 req w1 = (out, w2) \<Longrightarrow>
    sync_steps kc list_routes ns others w (rls @ answered kc list_routes req w1) w2"
| other: "sync_steps kc list_routes ns others w rls w1 \<Longrightarrow> others w1 w2 \<Longrightarrow>
    sync_steps kc list_routes ns others w rls w2"

text \<open>
  What the others are held to: they leave the label of the controller alone, so they may delete
  any resource and write resources without the label.
\<close>

definition others_law :: "('w \<Rightarrow> 'w \<Rightarrow> bool) \<Rightarrow> ('w \<Rightarrow> string \<rightharpoonup> int route_cr) \<Rightarrow> bool" where
  "others_law others view \<longleftrightarrow>
     (\<forall>w w' g r. others w w' \<longrightarrow> view w' g = Some r \<longrightarrow> managed_route r \<longrightarrow> view w g = Some r)"

section \<open>The specification is a fixed point\<close>

lemma sync_spec_idempotent: "sync_spec rl ns (sync_spec rl ns v) = sync_spec rl ns v"
proof
  fix g
  show "sync_spec rl ns (sync_spec rl ns v) g = sync_spec rl ns v g"
    using desired_route_managed [of "build_sync_maps rl [] ns"]
    by (auto simp: sync_spec_def Let_def managed_route_def split: option.splits outcome.splits)
qed

text \<open>A resource that a sync of the list \<open>rl\<close> may have written under the name \<open>g\<close>.\<close>

definition written_for :: "route_list \<Rightarrow> string \<Rightarrow> string \<Rightarrow> int route_cr \<Rightarrow> bool" where
  "written_for rl ns g cr =
     (case go_get (index_by route_guid (\<lambda>r. r) (rl_resources rl)) g of
        None \<Rightarrow> False
      | Some r \<Rightarrow>
          (case desired_route (build_sync_maps rl [] ns) r of
             Panics p \<Rightarrow> False
           | Returns want \<Rightarrow> rcr_spec cr = rcr_spec want))"

lemma sync_spec_written:
  "sync_spec rl ns v g = Some cr \<Longrightarrow> v g = Some cr \<or> written_for rl ns g cr"
  by (auto simp: sync_spec_def written_for_def Let_def build_sync_maps_def
      split: option.splits outcome.splits if_splits)

lemma example_cr_managed: "managed_route example_cr"
  using example_desired [of 1 "[]" "''ns''"] by (intro desired_route_managed) (simp add: example_cr_def)

section \<open>Properties\<close>

text \<open>C3: However often the controller runs, with whatever failures, panics and interference by other
clients, every managed Route resource is one that was there at the start or has exactly the spec
that the translator gives to the route of its name in a list the CF API really answered with.\<close>

theorem sync_provenance:
  assumes "route_list_law kc ns view" and "route_write_laws kc ns view"
    and "route_frame_laws kc list_routes view" and "others_law others view"
    and "sync_steps kc list_routes ns others w rls w'"
    and "view w' g = Some cr" and "managed_route cr"
  shows "view w g = Some cr \<or> list_ex (\<lambda>rl. written_for rl ns g cr) rls"
  using assms(5,6)
proof (induction rule: sync_steps.induct)
  case start
  then show ?case by simp
next
  case (reconcile rls w1 ord1 ord2 req out w2)
  show ?case
  proof (cases "answered kc list_routes req w1 = []")
    case True
    have "view w2 = view w1"
      by (rule unanswered_view [OF assms(3) True reconcile.hyps(4)])
    then show ?thesis using reconcile.IH reconcile.prems by auto
  next
    case False
    then obtain rl where rl: "answered kc list_routes req w1 = [rl]"
      using answered_cases [of kc list_routes req w1] by blast
    have "view w1 g = Some cr \<or> written_for rl ns g cr"
      using answered_view [OF assms(1-3) reconcile.hyps(2,3) rl reconcile.hyps(4), of g] reconcile.prems
        sync_spec_written [of rl ns "view w1" g cr] by auto
    then show ?thesis using reconcile.IH rl by auto
  qed
next
  case (other rls w1 w2)
  then have "view w1 g = Some cr"
    using assms(4,7) unfolding others_law_def by blast
  then show ?case by (rule other.IH)
qed

theorem sync_provenance_witness:
  "go_get [(''old'', example_stale)] ''r1'' = Some example_cr \<or> written_for (example_list 1) ''ns'' ''r1'' example_cr"
proof -
  have "sync_steps (store_client example_sync) (\<lambda>s. (Inr (example_list 1), s)) ''ns'' (\<lambda>s s'. False)
      [(''old'', example_stale)] [example_list 1] [(''r1'', example_cr)]"
    using sync_steps.reconcile [OF sync_steps.start range_order_id range_order_rev example_run]
    by (simp add: answered_def example_calls)
  from sync_provenance [OF store_list_law store_write_laws store_frame_laws _ this, of "''r1''" example_cr]
  show ?thesis
    by (simp add: others_law_def go_get_def example_cr_managed)
qed

text \<open>C4: A synchronised namespace stays synchronised: after a reconciliation that reported success,
any number of further ones, failing, panicking or not, leave every Route resource as it is as long
as the CF API keeps answering with the same list and no other client writes.\<close>

theorem sync_stays:
  assumes "route_list_law kc ns view" and "route_write_laws kc ns view"
    and "route_frame_laws kc list_routes view"
    and "range_order ord1" and "range_order ord2" and "answered kc list_routes req w = [rl]"
    and "periodic_sync_reconcile kc list_routes ns ord1 ord2 req w = (Returns (res, None), w1)"
    and "sync_steps kc list_routes ns (\<lambda>s s'. False) w1 rls w'" and "set rls \<subseteq> {rl}"
  shows "view w' = sync_spec rl ns (view w)"
  using assms(8,9)
proof (induction rule: sync_steps.induct)
  case start
  obtain ps e w2 where get: "sc_get kc req w = ((ps, e), w2)" by (metis surj_pair)
  obtain l w3 where "list_routes w2 = (l, w3)" by fastforce
  then have "e = None" "list_routes w2 = (Inr rl, w3)"
    using assms(6) get by (auto simp: answered_def split: option.splits sum.splits)
  then show ?case
    using reconcile_success_view [OF assms(1-5) _ _ assms(7), of ps w2 rl w3] get by simp
next
  case (reconcile rls w2 ord1 ord2 req out w3)
  have IH: "view w2 = sync_spec rl ns (view w)"
    using reconcile.IH reconcile.prems by simp
  show ?case
  proof (cases "answered kc list_routes req w2 = []")
    case True
    show ?thesis
      using unanswered_view [OF assms(3) True reconcile.hyps(4)] IH by simp
  next
    case False
    then have rl: "answered kc list_routes req w2 = [rl]"
      using answered_cases [of kc list_routes req w2] reconcile.prems by auto
    show ?thesis
      using answered_view [OF assms(1-3) reconcile.hyps(2,3) rl reconcile.hyps(4)]
      by (auto simp: IH sync_spec_idempotent)
  qed
qed simp

theorem sync_stays_witness:
  "go_get (snd (periodic_sync_reconcile (store_client example_sync) (\<lambda>s. (Inr (example_list 1), s)) ''ns''
      (\<lambda>ks. ks) rev (''ns'', ''sync'') [(''r1'', example_cr)])) =
   sync_spec (example_list 1) ''ns'' (go_get [(''old'', example_stale)])"
  by (rule sync_stays [OF store_list_law store_write_laws store_frame_laws range_order_id range_order_rev _
        example_run sync_steps.reconcile [OF sync_steps.start range_order_id range_order_rev surjective_pairing]])
    (simp_all add: answered_def example_calls)

end
