(* ===== verification/SyncStatus.thy ===== *)
theory SyncStatus
  imports PeriodicSyncProperties
begin

text \<open>
  The status a reconciliation writes: the same run over a client that notes which calls fail, and
  the Synced condition as a function of these notes.
\<close>

section \<open>A client that notes failed calls\<close>

text \<open>
  The same client, with a note of each failed call of a run: those that end the loops' preparation,
  and the writes. A delete that finds nothing is no failure.
\<close>

datatype failed_call = Setup go_error | Write go_error

definition noted :: "(go_error \<Rightarrow> failed_call option) \<Rightarrow> ('w, go_error option) effect \<Rightarrow>
    ('w \<times> failed_call list, go_error option) effect" where
  "noted note f x =
     (case f (fst x) of
        (None, w) \<Rightarrow> (None, (w, snd x))
      | (Some e, w) \<Rightarrow> (Some e, (w, snd x @ (case note e of None \<Rightarrow> [] | Some c \<Rightarrow> [c]))))"

definition noted_list :: "('w, go_error + 'a) effect \<Rightarrow> ('w \<times> failed_call list, go_error + 'a) effect" where
  "noted_list f x =
     (case f (fst x) of
        (Inl e, w) \<Rightarrow> (Inl e, (w, snd x @ [Setup e]))
      | (Inr a, w) \<Rightarrow> (Inr a, (w, snd x)))"

definition unnoted :: "('w, 'a) effect \<Rightarrow> ('w \<times> failed_call list, 'a) effect" where
  "unnoted f x = (let (a, w) = f (fst x) in (a, (w, snd x)))"

definition noting :: "('w, 'sel) sync_client \<Rightarrow> ('w \<times> failed_call list, 'sel) sync_client" where
  "noting kc =
     \<lparr>sc_get = (\<lambda>req. unnoted (sc_get kc req)),
      sc_label_selector = sc_label_selector kc,
      sc_list = (\<lambda>ns sel. noted_list (sc_list kc ns sel)),
      sc_update = (\<lambda>r. noted (\<lambda>e. Some (Write e)) (sc_update kc r)),
      sc_create = (\<lambda>r. noted (\<lambda>e. Some (Write e)) (sc_create kc r)),
      sc_delete = (\<lambda>ns n. noted (\<lambda>e. if sc_is_not_found kc e then None else Some (Write e)) (sc_delete kc ns n)),
      sc_status_update = (\<lambda>ps. unnoted (sc_status_update kc ps)),
      sc_is_not_found = sc_is_not_found kc,
      sc_ignore_not_found = sc_ignore_not_found kc,
      sc_now = (\<lambda>x. sc_now kc (fst x))\<rparr>"

lemma noting_sel [simp]:
  "sc_get (noting kc) req = unnoted (sc_get kc req)"
  "sc_label_selector (noting kc) = sc_label_selector kc"
  "sc_list (noting kc) ns sel = noted_list (sc_list kc ns sel)"
  "sc_update (noting kc) r = noted (\<lambda>e. Some (Write e)) (sc_update kc r)"
  "sc_create (noting kc) r = noted (\<lambda>e. Some (Write e)) (sc_create kc r)"
  "sc_delete (noting kc) ns n =
     noted (\<lambda>e. if sc_is_not_found kc e then None else Some (Write e)) (sc_delete kc ns n)"
  "sc_status_update (noting kc) ps = unnoted (sc_status_update kc ps)"
  "sc_is_not_found (noting kc) = sc_is_not_found kc"
  "sc_ignore_not_found (noting kc) = sc_ignore_not_found kc"
  "sc_now (noting kc) x = sc_now kc (fst x)"
  by (simp_all add: noting_def)

lemmas noting_defs = noted_def noted_list_def unnoted_def

text \<open>The notes change nothing else, and \<open>ok\<close> is that there are none of a write.\<close>

definition writes_only :: "failed_call list \<Rightarrow> bool" where
  "writes_only cs \<longleftrightarrow> list_all (\<lambda>c. \<exists>e. c = Write e) cs"

lemma noting_existing:
  "sync_existing kc m missing (cs = []) ps w = (r, w') \<Longrightarrow> writes_only cs \<Longrightarrow>
     \<exists>cs'. sync_existing (noting kc) m missing (cs = []) ps (w, cs) = (r, (w', cs')) \<and> writes_only cs' \<and>
       (\<forall>missing' ok. r = Returns (missing', ok) \<longrightarrow> ok = (cs' = []))"
proof (induction ps arbitrary: missing cs w)
  case Nil
  then show ?case by auto
next
  case (Cons p ps)
  show ?case
  proof (cases "go_get (sm_k8s m) (fst p)")
    case None
    then show ?thesis using Cons by simp
  next
    case (Some old)
    show ?thesis
    proof (cases "desired_route m (snd p)")
      case (Panics e)
      then show ?thesis using Some Cons.prems by auto
    next
      case (Returns cr)
      obtain e w1 where up: "sc_update kc (old\<lparr>rcr_spec := rcr_spec cr\<rparr>) w = (e, w1)" by fastforce
      have "writes_only (cs @ [Write x])" for x
        using Cons.prems(2) by (simp add: writes_only_def)
      then show ?thesis
        using Some Returns up Cons.prems Cons.IH [of missing cs w] Cons.IH [of missing cs w1]
          Cons.IH [of missing "cs @ [Write (the e)]" w1]
        by (cases e) (auto simp: noted_def split: if_splits)
    qed
  qed
qed

lemma noting_missing:
  "sync_missing kc m (cs = []) rs w = (r, w') \<Longrightarrow> writes_only cs \<Longrightarrow>
     \<exists>cs'. sync_missing (noting kc) m (cs = []) rs (w, cs) = (r, (w', cs')) \<and> writes_only cs' \<and>
       (\<forall>ok. r = Returns ok \<longrightarrow> ok = (cs' = []))"
proof (induction rs arbitrary: cs w)
  case Nil
  then show ?case by auto
next
  case (Cons x rs)
  show ?case
  proof (cases "desired_route m x")
    case (Panics e)
    then show ?thesis using Cons.prems by auto
  next
    case (Returns cr)
    obtain e w1 where cre: "sc_create kc cr w = (e, w1)" by fastforce
    have "writes_only (cs @ [Write x])" for x
      using Cons.prems(2) by (simp add: writes_only_def)
    then show ?thesis
      using Returns cre Cons.prems Cons.IH [of cs w1] Cons.IH [of "cs @ [Write (the e)]" w1]
      by (cases e) (auto simp: noted_def)
  qed
qed

lemma noting_extra:
  "sync_extra kc m (cs = []) gs w = (ok, w') \<Longrightarrow> writes_only cs \<Longrightarrow>
     \<exists>cs'. sync_extra (noting kc) m (cs = []) gs (w, cs) = (ok, (w', cs')) \<and> writes_only cs' \<and> ok = (cs' = [])"
proof (induction gs arbitrary: cs w)
  case Nil
  then show ?case by auto
next
  case (Cons g gs)
  obtain e w1 where del: "sc_delete kc (sm_namespace m) g w = (e, w1)" by fastforce
  have "writes_only (cs @ [Write x])" for x
    using Cons.prems(2) by (simp add: writes_only_def)
  then show ?case
    using del Cons.prems Cons.IH [of cs w1] Cons.IH [of "cs @ [Write (the e)]" w1]
    by (cases e) (auto simp: noted_def split: if_splits)
qed

lemma noting_routes:
  assumes "sync_routes kc m ord1 ord2 w = (Returns ok, w')"
  shows "\<exists>cs. sync_routes (noting kc) m ord1 ord2 (w, []) = (Returns ok, (w', cs)) \<and> writes_only cs \<and> ok = (cs = [])"
proof -
  obtain missing ok1 w1 ok2 w2 where
    run1: "sync_existing kc m [] True (go_range ord1 (sm_routes m)) w = (Returns (missing, ok1), w1)"
    and run2: "sync_missing kc m ok1 missing w1 = (Returns ok2, w2)"
    and run3: "sync_extra kc m ok2 (extra_routes m ord2) w2 = (ok, w')"
    using assms by (auto simp: sync_routes_def split: prod.splits outcome.splits)
  obtain cs1 where 1: "sync_existing (noting kc) m [] True (go_range ord1 (sm_routes m)) (w, []) =
      (Returns (missing, ok1), (w1, cs1))" "writes_only cs1" "ok1 = (cs1 = [])"
    using noting_existing [where cs = "[]" and missing = "[]", simplified, OF run1] by (auto simp: writes_only_def)
  obtain cs2 where 2: "sync_missing (noting kc) m ok1 missing (w1, cs1) = (Returns ok2, (w2, cs2))"
      "writes_only cs2" "ok2 = (cs2 = [])"
    using noting_missing [of kc m cs1 missing w1] run2 1(2,3) by auto
  obtain cs3 where 3: "sync_extra (noting kc) m ok2 (extra_routes m ord2) (w2, cs2) = (ok, (w', cs3))"
      "writes_only cs3" "ok = (cs3 = [])"
    using noting_extra [of kc m cs2 "extra_routes m ord2" w2] run3 2(2,3) by auto
  show ?thesis using 1(1) 2(1) 3 by (auto simp: sync_routes_def)
qed

text \<open>The condition a run leaves, and the text of a failure.\<close>

definition write_synced ::
  "('w, 'sel) sync_client \<Rightarrow> periodic_sync \<Rightarrow> string \<Rightarrow> string \<Rightarrow> string \<Rightarrow> ('w, periodic_sync \<times> go_error option) effect" where
  "write_synced kc ps status reason message w =
     sc_status_update kc
       (ps\<lparr>ps_conditions := Some [\<lparr>cond_type = ''Synced'', cond_status = status, cond_last_transition = sc_now kc w,
          cond_reason = reason, cond_message = message\<rparr>]\<rparr>) w"

fun failure_text :: "failed_call list \<Rightarrow> string" where
  "failure_text (Setup e # cs) = error_text e"
| "failure_text cs = ''failed to reconcile at least one route''"

lemma failure_text_writes: "writes_only cs \<Longrightarrow> failure_text cs = ''failed to reconcile at least one route''"
  by (cases cs rule: failure_text.cases) (auto simp: writes_only_def)

lemma status_writes:
  "update_sync_status_failure kc ps msg w = write_synced kc ps ''False'' ''Failed'' msg w"
  "update_sync_status_success kc ps w = write_synced kc ps ''True'' ''Completed'' [] w"
  by (simp_all add: update_sync_status_failure_def update_sync_status_success_def write_synced_def
      set_sync_status_def synced_condition_type_def false_condition_status_def true_condition_status_def
      failed_condition_reason_def completed_condition_reason_def)

lemma noting_write: "write_synced (noting kc) ps st reason msg x = unnoted (write_synced kc ps st reason msg) x"
  by (simp add: write_synced_def unnoted_def)

text \<open>What a run that returned has written.\<close>

definition selector_failure :: "('w, 'sel) sync_client \<Rightarrow> failed_call list" where
  "selector_failure kc =
     (case sc_label_selector kc [(kube_managed_by_label, ''cloudfoundry'')] of Inl e \<Rightarrow> [Setup e] | Inr sel \<Rightarrow> [])"

definition status_as_failed ::
  "('w, 'sel) sync_client \<Rightarrow> periodic_sync \<Rightarrow> failed_call list \<Rightarrow> 'w \<Rightarrow> ctrl_result \<times> go_error option \<Rightarrow> 'w \<Rightarrow> bool" where
  "status_as_failed kc ps failed w4 out w' \<longleftrightarrow>
     (if failed = []
      then (\<exists>ps'. write_synced kc ps ''True'' ''Completed'' [] w4 = ((ps', snd out), w') \<and>
        fst out = (if snd out = None then \<lparr>requeue = False, requeue_after = requeue_period (ps_period_seconds ps')\<rparr>
               else zero_result))
      else w' = snd (write_synced kc ps ''False'' ''Failed'' (failure_text failed) w4) \<and>
        snd out \<noteq> None \<and> fst out = zero_result)"

lemma failed_run:
  "failed \<noteq> [] \<Longrightarrow> failure_text failed = msg \<Longrightarrow> err \<noteq> None \<Longrightarrow>
     status_as_failed kc ps failed w4 (zero_result, err) (snd (write_synced kc ps ''False'' ''Failed'' msg w4))"
  by (simp add: status_as_failed_def)

lemma noting_listed_run:
  assumes "sc_get kc req w = ((ps, None), w1)" and "list_routes w1 = (Inr rl, w2)"
    and "periodic_sync_reconcile kc list_routes ns ord1 ord2 req w = (Returns out, w')"
  shows "\<exists>cs w4. periodic_sync_reconcile (noting kc) (noted_list list_routes) ns ord1 ord2 req (w, []) =
       (Returns out, (w', cs)) \<and> status_as_failed kc ps (cs @ selector_failure kc) w4 out w'"
proof -
  note run = assms(3) [unfolded reconcile_listed [where list_routes = list_routes, OF assms(1,2)] status_writes]
  have get: "sc_get (noting kc) req (w, []) = ((ps, None), (w1, []))"
    using assms(1) by (simp add: unnoted_def)
  have listed: "noted_list list_routes (w1, []) = (Inr rl, (w2, []))"
    using assms(2) by (simp add: noted_list_def)
  note run' = reconcile_listed [where list_routes = "noted_list list_routes", OF get listed, of ns ord1 ord2, unfolded status_writes]
  show ?thesis
  proof (cases "sc_label_selector kc [(kube_managed_by_label, ''cloudfoundry'')]")
    case (Inl e)
    then show ?thesis
      using run by (auto simp: run' selector_failure_def noting_write unnoted_def split: prod.split intro!: exI [of _ w2] failed_run)
  next
    case (Inr sel)
    note sel = Inr
    obtain l w3 where l: "sc_list kc ns sel w2 = (l, w3)" by fastforce
    show ?thesis
    proof (cases l)
      case (Inl e)
      then show ?thesis
        using run sel l
        by (auto simp: run' selector_failure_def noted_list_def noting_write unnoted_def split: prod.split intro!: exI [of _ w3] failed_run)
    next
      case (Inr k8s)
      obtain ok w4 where sync: "sync_routes kc (build_sync_maps rl k8s ns) ord1 ord2 w3 = (Returns ok, w4)"
        using run sel l Inr by (auto split: prod.splits outcome.splits)
      obtain cs where cs: "sync_routes (noting kc) (build_sync_maps rl k8s ns) ord1 ord2 (w3, []) = (Returns ok, (w4, cs))"
        "writes_only cs" "ok = (cs = [])"
        using noting_routes [OF sync] by blast
      show ?thesis
      proof (cases "cs = []")
        case True
        then show ?thesis
          using run sel l Inr sync cs
          by (auto simp: run' selector_failure_def noted_list_def noting_write unnoted_def status_as_failed_def
              split: prod.splits option.splits intro!: exI [of _ w4])
      next
        case False
        then show ?thesis
          using run sel l Inr sync cs
          by (auto simp: run' selector_failure_def noted_list_def noting_write unnoted_def Let_def failure_text_writes
              split: prod.splits intro!: exI [of _ w4] failed_run)
      qed
    qed
  qed
qed

lemma noting_run:
  assumes "sc_get kc req w = ((ps, None), w1)"
    and "periodic_sync_reconcile kc list_routes ns ord1 ord2 req w = (Returns out, w')"
  shows "\<exists>cs w4. periodic_sync_reconcile (noting kc) (noted_list list_routes) ns ord1 ord2 req (w, []) =
       (Returns out, (w', cs)) \<and> status_as_failed kc ps (cs @ selector_failure kc) w4 out w'"
proof (cases "list_routes w1")
  case (Pair l w2)
  show ?thesis
  proof (cases l)
    case (Inl e)
    then show ?thesis
      using assms Pair
      by (auto simp: periodic_sync_reconcile_def status_writes noting_write noted_list_def unnoted_def
          split: prod.splits intro!: exI [of _ w2] failed_run)
  next
    case (Inr rl)
    then show ?thesis using noting_listed_run [OF assms(1) _ assms(2)] Pair by simp
  qed
qed

section \<open>Properties\<close>

text \<open>C7: A reconciliation that fetched its resource and returned ends by writing the Synced condition to it,
by what has failed in it: without a failed call the status is True with reason Completed, and it is
rescheduled after its period if that write succeeds; otherwise the status is False with reason Failed,
and it returns an error. The message is the text of the error when a list or the selector failed,
and that of a failed write otherwise.\<close>

theorem periodic_sync_reports_status:
  assumes "sc_get kc req w = ((ps, None), w1)"
    and "periodic_sync_reconcile kc list_routes ns ord1 ord2 req w = (Returns (res, err), w')"
  shows "\<exists>cs w4. periodic_sync_reconcile (noting kc) (noted_list list_routes) ns ord1 ord2 req (w, []) =
       (Returns (res, err), (w', cs)) \<and>
     (let failed = cs @ (case sc_label_selector kc [(''app.kubernetes.io/managed-by'', ''cloudfoundry'')] of
                           Inl e \<Rightarrow> [Setup e] | Inr sel \<Rightarrow> [])
      in if failed = []
         then (\<exists>ps'. write_synced kc ps ''True'' ''Completed'' [] w4 = ((ps', err), w') \<and>
           res = (if err = None then \<lparr>requeue = False, requeue_after = requeue_period (ps_period_seconds ps')\<rparr>
                  else zero_result))
         else w' = snd (write_synced kc ps ''False'' ''Failed'' (failure_text failed) w4) \<and>
           err \<noteq> None \<and> res = zero_result)"
proof -
  obtain w4 cs where "periodic_sync_reconcile (noting kc) (noted_list list_routes) ns ord1 ord2 req (w, []) =
       (Returns (res, err), (w', cs))"
    and "status_as_failed kc ps (cs @ selector_failure kc) w4 (res, err) w'"
    using noting_run [OF assms] by blast
  then show ?thesis
    unfolding status_as_failed_def selector_failure_def kube_managed_by_label_def Let_def fst_conv snd_conv by blast
qed

theorem periodic_sync_reports_status_witness:
  "\<exists>cs w4. snd (periodic_sync_reconcile (noting (store_client example_sync)) (noted_list (\<lambda>s. (Inl (ErrorText ''down''), s)))
        ''ns'' (\<lambda>ks. ks) rev (''ns'', ''sync'') ([(''old'', example_stale)], [])) = ([(''old'', example_stale)], cs) \<and>
      cs = [Setup (ErrorText ''down'')] \<and>
      [(''old'', example_stale)] = snd (write_synced (store_client example_sync) example_sync ''False'' ''Failed'' ''down'' w4)"
proof -
  have upd: "sc_status_update (store_client example_sync) p x = ((p, None), x)" for p x
    by (simp add: store_client_def)
  have run: "periodic_sync_reconcile (store_client example_sync) (\<lambda>s. (Inl (ErrorText ''down''), s)) ''ns''
      (\<lambda>ks. ks) rev (''ns'', ''sync'') [(''old'', example_stale)] =
      (Returns (zero_result, Some (WrappedError ''error listing routes from CF API: '' (ErrorText ''down'') [])),
       [(''old'', example_stale)])"
    by (simp add: periodic_sync_reconcile_def example_calls update_sync_status_failure_def upd)
  have sel: "sc_label_selector (store_client example_sync) x = Inr ()" for x
    by (simp add: store_client_def)
  have "periodic_sync_reconcile (noting (store_client example_sync)) (noted_list (\<lambda>s. (Inl (ErrorText ''down''), s)))
        ''ns'' (\<lambda>ks. ks) rev (''ns'', ''sync'') ([(''old'', example_stale)], []) =
      (Returns (zero_result, Some (WrappedError ''error listing routes from CF API: '' (ErrorText ''down'') [])),
       ([(''old'', example_stale)], [Setup (ErrorText ''down'')]))"
    by (simp add: periodic_sync_reconcile_def example_calls noted_list_def unnoted_def
        update_sync_status_failure_def upd)
  then show ?thesis
    using periodic_sync_reports_status [OF example_calls(1) run] by (auto simp: sel)
qed

end
