(* ===== verification/ImageConfigFetcher.thy ===== *)
theory ImageConfigFetcher
  imports GoPrelude
begin

text \<open>
  \<open>image_registry/image_config_fetcher.go\<close>: the configuration of a built image. Reference
  parsing, key chains and the registry are libraries, parameters of the fetcher.
\<close>

record image_config =
  ic_labels :: "string \<rightharpoonup> string"

record ('w, 'ref, 'kc, 'img) registry_api =
  ra_parse_reference :: "string \<Rightarrow> go_error + 'ref"
  ra_keychain :: "string \<Rightarrow> string \<Rightarrow> ('w, go_error + 'kc) effect"
  ra_image :: "'ref \<Rightarrow> 'kc \<Rightarrow> ('w, go_error + 'img) effect"
  ra_config_file :: "'img \<Rightarrow> ('w, go_error + image_config option) effect"

text \<open>
  \<open>FetchImageConfig\<close>. \<open>ConfigFile\<close> gives a pointer, and \<open>&cfgFile.Config\<close> of a nil pointer
  panics.
\<close>

definition fetch_image_config ::
  "('w, 'ref, 'kc, 'img) registry_api \<Rightarrow> string \<Rightarrow> string \<Rightarrow> string
    \<Rightarrow> ('w, (go_error + image_config) outcome) effect" where
  "fetch_image_config ra image_reference service_account namespace w =
     (case ra_parse_reference ra image_reference of
        Inl e \<Rightarrow> (Returns (Inl e), w)
      | Inr ref \<Rightarrow>
     (case ra_keychain ra service_account namespace w of
        (Inl e, w1) \<Rightarrow> (Returns (Inl e), w1)
      | (Inr kc, w1) \<Rightarrow>
     (case ra_image ra ref kc w1 of
        (Inl e, w2) \<Rightarrow> (Returns (Inl e), w2)
      | (Inr img, w2) \<Rightarrow>
     (case ra_config_file ra img w2 of
        (Inl e, w3) \<Rightarrow> (Returns (Inl e), w3)
      | (Inr None, w3) \<Rightarrow> (Panics NilDeref, w3)
      | (Inr (Some cfg), w3) \<Rightarrow> (Returns (Inr cfg), w3)))))"

text \<open>The one panic: the registry has the image, and its config file is nil without an error.\<close>

definition nil_config_file ::
  "('w, 'ref, 'kc, 'img) registry_api \<Rightarrow> string \<Rightarrow> string \<Rightarrow> string \<Rightarrow> 'w \<Rightarrow> bool" where
  "nil_config_file ra image_reference service_account namespace w \<longleftrightarrow>
     (\<exists>ref kc img w1 w2 w3. ra_parse_reference ra image_reference = Inr ref \<and>
        ra_keychain ra service_account namespace w = (Inr kc, w1) \<and>
        ra_image ra ref kc w1 = (Inr img, w2) \<and> ra_config_file ra img w2 = (Inr None, w3))"

lemma fetch_image_config_panics:
  "(\<exists>p w'. fetch_image_config ra i sa ns w = (Panics p, w')) \<longleftrightarrow> nil_config_file ra i sa ns w"
  by (auto simp: fetch_image_config_def nil_config_file_def split: sum.splits prod.splits option.splits)

lemma fetch_image_config_bad_reference:
  "ra_parse_reference ra ref = Inl e \<Longrightarrow> fetch_image_config ra ref sa ns w = (Returns (Inl e), w)"
  by (simp add: fetch_image_config_def)

end
