(* ===== verification/BuildController.thy ===== *)
theory BuildController
  imports CfClient ControllerRuntime ImageConfigFetcher
begin

text \<open>
  \<open>controllers/build_controller.go\<close>: a finished kpack build is reported to the CF API as staged
  or failed. The controller-runtime client, kpack's condition methods, the lifecycle library's
  metadata type and the CF client (the interface \<open>CfBuildUpdater\<close>) are fields of a parameter.
\<close>

section \<open>The build resource\<close>

record terminated_state =
  ts_exit_code :: "32 word"
  ts_reason :: string
  ts_message :: string

record container_state =
  cs_terminated :: "terminated_state option"

record kpack_build =
  kb_namespace :: string
  kb_labels :: "string \<rightharpoonup> string"
  kb_annotations :: "string \<rightharpoonup> string"
  kb_service_account :: string
  kb_conditions :: "core_condition list"
  kb_step_states :: "container_state list"
  kb_latest_image :: string

record launch_process =
  lp_type :: string
  lp_command :: string
  lp_args :: "string list"

definition build_guid_label :: string where
  "build_guid_label = ''cloudfoundry.org/build_guid''"
definition build_reason_annotation :: string where
  "build_reason_annotation = ''image.kpack.io/reason''"
definition stack_update_build_reason :: string where
  "stack_update_build_reason = ''STACK''"

text \<open>
  The parameter: \<open>Get\<close>, the image config fetcher, the parser of the build metadata (the
  processes it lists), the updater.
\<close>

record 'w build_env =
  be_get :: "string \<times> string \<Rightarrow> ('w, go_error + kpack_build) effect"
  be_is_not_found :: "go_error \<Rightarrow> bool"
  be_conditions :: condition_api
  be_fetch_config :: "string \<Rightarrow> string \<Rightarrow> string \<Rightarrow> ('w, (go_error + image_config) outcome) effect"
  be_metadata_label :: string
  be_unmarshal_metadata :: "string \<Rightarrow> go_error + launch_process list"
  be_update_build :: "string \<Rightarrow> cf_build \<Rightarrow> ('w, go_error option) effect"

text \<open>Reading a key of a map of strings: an absent key gives the empty string.\<close>

definition label_value :: "(string \<rightharpoonup> string) \<Rightarrow> string \<Rightarrow> string" where
  "label_value m k = (case m k of None \<Rightarrow> [] | Some v \<Rightarrow> v)"

section \<open>The event filter\<close>

definition build_filter :: "condition_api \<Rightarrow> kpack_build runtime_object \<Rightarrow> bool" where
  "build_filter ca e =
     (case e of
        OtherObject \<Rightarrow> False
      | Watched b \<Rightarrow>
          if kb_labels b build_guid_label = None then False
          else (case kb_annotations b build_reason_annotation of
                  None \<Rightarrow> False
                | Some reason \<Rightarrow>
                    if reason = stack_update_build_reason then False
                    else if ca_is_unknown ca (ca_get ca (kb_conditions b) (ca_succeeded ca)) then False
                    else True))"

definition build_event_filter :: "condition_api \<Rightarrow> kpack_build watch_event \<Rightarrow> bool" where
  "build_event_filter ca = event_filter (build_filter ca)"

section \<open>Process types\<close>

definition extract_full_command :: "launch_process \<Rightarrow> string" where
  "extract_full_command p = go_join ([lp_command p] @ lp_args p) '' ''"

definition process_types_of :: "launch_process list \<Rightarrow> (string, string) go_map" where
  "process_types_of ps = index_by lp_type extract_full_command ps"

definition extract_process_types ::
  "'w build_env \<Rightarrow> kpack_build \<Rightarrow> ('w, (go_error + (string, string) go_map) outcome) effect" where
  "extract_process_types env b w =
     (case be_fetch_config env (kb_latest_image b) (kb_service_account b) (kb_namespace b) w of
        (Panics p, w') \<Rightarrow> (Panics p, w')
      | (Returns (Inl e), w') \<Rightarrow> (Returns (Inl e), w')
      | (Returns (Inr cfg), w') \<Rightarrow>
          (case be_unmarshal_metadata env (label_value (ic_labels cfg) (be_metadata_label env)) of
             Inl e \<Rightarrow> (Returns (Inl e), w')
           | Inr ps \<Rightarrow> (Returns (Inr (process_types_of ps)), w')))"

section \<open>Reconciliation\<close>

definition reconcile_failed_build ::
  "'w build_env \<Rightarrow> kpack_build \<Rightarrow> string \<Rightarrow> ('w, ctrl_result \<times> go_error option) effect" where
  "reconcile_failed_build env b message w =
     (case be_update_build env (label_value (kb_labels b) build_guid_label) (failed_build message) w of
        (Some e, w') \<Rightarrow> ((requeue_result, Some e), w')
      | (None, w') \<Rightarrow> ((zero_result, None), w'))"

definition staged_build :: "kpack_build \<Rightarrow> (string, string) go_map \<Rightarrow> cf_build" where
  "staged_build b process_types =
     (let request = new_build_from_kpack_build (kb_latest_image b)
      in request\<lparr>build_lifecycle := (build_lifecycle request)\<lparr>
           lc_data := (lc_data (build_lifecycle request))\<lparr>ld_process_types := Some process_types\<rparr>\<rparr>\<rparr>)"

definition reconcile_successful_build ::
  "'w build_env \<Rightarrow> kpack_build \<Rightarrow> ('w, (ctrl_result \<times> go_error option) outcome) effect" where
  "reconcile_successful_build env b w =
     (case extract_process_types env b w of
        (Panics p, w1) \<Rightarrow> (Panics p, w1)
      | (Returns (Inl e), w1) \<Rightarrow>
          (let (r, w2) = reconcile_failed_build env b (''Failed to handle successful kpack build: '' @ error_text e) w1
           in (Returns r, w2))
      | (Returns (Inr process_types), w1) \<Rightarrow>
          (case be_update_build env (label_value (kb_labels b) build_guid_label) (staged_build b process_types) w1 of
             (Some e, w2) \<Rightarrow> (Returns (requeue_result, Some e), w2)
           | (None, w2) \<Rightarrow> (Returns (zero_result, None), w2)))"

text \<open>The first container that has terminated with a non-zero exit code.\<close>

fun find_any_failed_container_state :: "container_state list \<Rightarrow> terminated_state option" where
  "find_any_failed_container_state [] = None"
| "find_any_failed_container_state (c # cs) =
     (case cs_terminated c of
        Some t \<Rightarrow> if ts_exit_code t \<noteq> 0 then Some t else find_any_failed_container_state cs
      | None \<Rightarrow> find_any_failed_container_state cs)"

definition build_failure_message :: "core_condition \<Rightarrow> string" where
  "build_failure_message c =
     ''Kpack build unsuccessful: Build failure reason: '' @ [CHR 0x27] @ cc_reason c @
     [CHR 0x27] @ '', message: '' @ [CHR 0x27] @ cc_message c @ [CHR 0x27] @ ''.''"

definition step_failure_message :: "terminated_state \<Rightarrow> string" where
  "step_failure_message t =
     ''Kpack build failed during container execution: Step failure reason: '' @ [CHR 0x27] @ ts_reason t @
     [CHR 0x27] @ '', message: '' @ [CHR 0x27] @ ts_message t @ [CHR 0x27] @ ''.''"

text \<open>\<open>Reconcile\<close>. The condition is a pointer, and its fields are read unless it is true.\<close>

definition build_reconcile ::
  "'w build_env \<Rightarrow> string \<times> string \<Rightarrow> ('w, (ctrl_result \<times> go_error option) outcome) effect" where
  "build_reconcile env req w =
     (case be_get env req w of
        (Inl e, w1) \<Rightarrow>
          if be_is_not_found env e then (Returns (zero_result, None), w1)
          else (Returns (zero_result, Some e), w1)
      | (Inr b, w1) \<Rightarrow>
          (let condition = ca_get (be_conditions env) (kb_conditions b) (ca_succeeded (be_conditions env))
           in if ca_is_true (be_conditions env) condition then reconcile_successful_build env b w1
              else (case condition of
                      None \<Rightarrow> (Panics NilDeref, w1)
                    | Some c \<Rightarrow>
                        (let message =
                           (case find_any_failed_container_state (kb_step_states b) of
                              None \<Rightarrow> build_failure_message c
                            | Some t \<Rightarrow> step_failure_message t);
                           (r, w2) = reconcile_failed_build env b message w1
                         in (Returns r, w2)))))"

end
