(* ===== verification/BuildProperties.thy ===== *)
theory BuildProperties
  imports BuildController
begin

text \<open>
  What a reconciliation of a build promises: one report per reconciliation, the right one, and
  a retry when the CF API did not take it. The facts are proved for any updater with the laws of
  \<open>cf_updater\<close> and carried over to the client of \<open>cf/client.go\<close> by interpretation.
\<close>

section \<open>The report a build deserves\<close>

definition build_guid_of :: "kpack_build \<Rightarrow> string" where
  "build_guid_of b = label_value (kb_labels b) build_guid_label"

definition build_condition :: "'w build_env \<Rightarrow> kpack_build \<Rightarrow> core_condition option" where
  "build_condition env b = ca_get (be_conditions env) (kb_conditions b) (ca_succeeded (be_conditions env))"

definition failure_report :: "kpack_build \<Rightarrow> core_condition \<Rightarrow> cf_build" where
  "failure_report b c =
     failed_build (case find_any_failed_container_state (kb_step_states b) of
                     None \<Rightarrow> build_failure_message c
                   | Some t \<Rightarrow> step_failure_message t)"

definition success_report :: "kpack_build \<Rightarrow> go_error + (string, string) go_map \<Rightarrow> cf_build" where
  "success_report b pt =
     (case pt of
        Inl e \<Rightarrow> failed_build (''Failed to handle successful kpack build: '' @ error_text e)
      | Inr m \<Rightarrow> staged_build b m)"

text \<open>\<open>reports env b w r\<close>: in the state \<open>w\<close>, the report of the build \<open>b\<close> is \<open>r\<close>.\<close>

definition reports :: "'w build_env \<Rightarrow> kpack_build \<Rightarrow> 'w \<Rightarrow> cf_build \<Rightarrow> bool" where
  "reports env b w r \<longleftrightarrow>
     (if ca_is_true (be_conditions env) (build_condition env b)
      then (\<exists>pt w2. extract_process_types env b w = (Returns pt, w2) \<and> r = success_report b pt)
      else (\<exists>c. build_condition env b = Some c \<and> r = failure_report b c))"

lemma reconcile_failed_build_conv:
  "reconcile_failed_build env b message w =
     (case be_update_build env (build_guid_of b) (failed_build message) w of
        (Some e, w') \<Rightarrow> ((requeue_result, Some e), w') | (None, w') \<Rightarrow> ((zero_result, None), w'))"
  by (simp add: reconcile_failed_build_def build_guid_of_def)

text \<open>A reconciliation is the fetch of the build, then one update with its report.\<close>

lemma build_reconcile_update:
  assumes "be_get env req w = (Inr b, w1)"
    and "build_reconcile env req w = (Returns (res, err), w')"
  shows "\<exists>r w2. reports env b w1 r \<and> be_update_build env (build_guid_of b) r w2 = (err, w') \<and>
     (w2 = w1 \<or> (\<exists>pt. extract_process_types env b w1 = (Returns pt, w2))) \<and>
     res = (if err = None then zero_result else requeue_result)"
proof (cases "ca_is_true (be_conditions env) (build_condition env b)")
  case True
  then have run: "reconcile_successful_build env b w1 = (Returns (res, err), w')"
    using assms by (simp add: build_reconcile_def build_condition_def)
  obtain pt w2 where x: "extract_process_types env b w1 = (Returns pt, w2)"
    using run by (auto simp: reconcile_successful_build_def split: prod.splits outcome.splits)
  then have "be_update_build env (build_guid_of b) (success_report b pt) w2 = (err, w') \<and>
      res = (if err = None then zero_result else requeue_result)"
    using run
    by (auto simp: reconcile_successful_build_def reconcile_failed_build_conv success_report_def
        build_guid_of_def [symmetric] split: sum.splits prod.splits option.splits)
  then show ?thesis
    using True x by (auto simp: reports_def)
next
  case False
  then obtain c where c: "build_condition env b = Some c"
    using assms by (auto simp: build_reconcile_def build_condition_def split: option.splits)
  then have "be_update_build env (build_guid_of b) (failure_report b c) w1 = (err, w') \<and>
      res = (if err = None then zero_result else requeue_result)"
    using False assms
    by (auto simp: build_reconcile_def build_condition_def failure_report_def reconcile_failed_build_conv
        Let_def split: prod.splits option.splits)
  then show ?thesis
    using False c by (auto simp: reports_def)
qed

section \<open>Reports received by the CF API\<close>

locale build_reporter = cf_updater "be_update_build env" build_json received
  for env :: "'w build_env" and received :: "'w \<Rightarrow> (string \<times> json) list" +
  assumes get_frame: "received (snd (be_get env req w)) = received w"
    and fetch_frame: "received (snd (be_fetch_config env i s n w)) = received w"
begin

lemma extract_frame: "extract_process_types env b w = (r, w') \<Longrightarrow> received w' = received w"
  using fetch_frame [of "kb_latest_image b" "kb_service_account b" "kb_namespace b" w]
  by (auto simp: extract_process_types_def split: prod.splits outcome.splits sum.splits)

lemma reconcile_received:
  assumes get: "be_get env req w = (Inr b, w1)"
    and run: "build_reconcile env req w = (Returns (res, err), w')"
  shows "\<exists>r. reports env b w1 r \<and>
     (if err = None
      then res = zero_result \<and> received w' = received w @ [(build_guid_of b, build_json r)]
      else res = requeue_result \<and>
        (received w' = received w \<or> received w' = received w @ [(build_guid_of b, build_json r)]))"
proof -
  obtain r w2 where r: "reports env b w1 r"
    and up: "be_update_build env (build_guid_of b) r w2 = (err, w')"
    and w2: "w2 = w1 \<or> (\<exists>pt. extract_process_types env b w1 = (Returns pt, w2))"
    and res: "res = (if err = None then zero_result else requeue_result)"
    using build_reconcile_update [OF get run] by blast
  have "received w1 = received w"
    using get_frame [of req w] get by simp
  then have "received w2 = received w"
    using w2 extract_frame by auto
  then show ?thesis
    using r res update_ok [of "build_guid_of b" r w2 w'] update_failed [of "build_guid_of b" r w2 _ w'] up
    by (cases err) auto
qed

lemma reconcile_no_build:
  assumes "be_get env req w = (Inl e, w1)"
  shows "received (snd (build_reconcile env req w)) = received w"
  using assms get_frame [of req w] by (simp add: build_reconcile_def)

text \<open>Whatever the outcome, a panic included, at most the report is added to what was received.\<close>

lemma reconcile_extends:
  "\<exists>sent. received (snd (build_reconcile env req w)) = received w @ sent \<and>
     (sent = [] \<or> (\<exists>b w1 r. reports env b w1 r \<and> sent = [(build_guid_of b, build_json r)]))"
proof (cases "be_get env req w")
  case (Pair x w1)
  show ?thesis
  proof (cases x)
    case (Inl e)
    then show ?thesis using Pair reconcile_no_build by simp
  next
    case (Inr b)
    have w1: "received w1 = received w" using get_frame [of req w] Pair by simp
    obtain o' w' where run: "build_reconcile env req w = (o', w')" by fastforce
    show ?thesis
    proof (cases o')
      case (Returns y)
      then show ?thesis
        using reconcile_received [of req w b w1 "fst y" "snd y" w'] Pair Inr run
        by (auto split: if_splits)
    next
      case (Panics p)
      then have "received w' = received w"
        using run Pair Inr w1
        by (auto simp: build_reconcile_def reconcile_successful_build_def Let_def
            split: if_splits option.splits prod.splits outcome.splits sum.splits dest: extract_frame)
      then show ?thesis by (simp add: run)
    qed
  qed
qed

lemma reconcile_at_most_one:
  "length (received (snd (build_reconcile env req w))) \<le> Suc (length (received w))"
  using reconcile_extends [of req w] by auto

lemma reconcile_keeps:
  assumes "\<And>b w1 r. reports env b w1 r \<Longrightarrow> P (build_json r)" and "list_all (P \<circ> snd) (received w)"
  shows "list_all (P \<circ> snd) (received (snd (build_reconcile env req w)))"
  using reconcile_extends [of req w] assms by auto

end

section \<open>On the networked client\<close>

text \<open>
  The reconciler wired to the client of \<open>cf/client.go\<close>, in a world of a request log and a
  cluster; the cluster's \<open>Get\<close> and the image registry are arbitrary effects on the cluster.
\<close>

definition net_build_env ::
  "'k build_env \<Rightarrow> 'k net_world cf_client \<Rightarrow> 'k net_world build_env" where
  "net_build_env kenv client =
     \<lparr>be_get = (\<lambda>req. on_cluster (be_get kenv req)),
      be_is_not_found = be_is_not_found kenv,
      be_conditions = be_conditions kenv,
      be_fetch_config = (\<lambda>i s n. on_cluster (be_fetch_config kenv i s n)),
      be_metadata_label = be_metadata_label kenv,
      be_unmarshal_metadata = be_unmarshal_metadata kenv,
      be_update_build = update_build client\<rparr>"

interpretation net_reporter: build_reporter
  "net_build_env kenv (net_client url_error ans tok host)" "build_patches host"
proof (unfold_locales, goal_cases)
  case (1 g b w w')
  then show ?case using net_update_build [of url_error ans tok host g b w None w']
    by (simp add: net_build_env_def)
next
  case (2 g b w e w')
  then show ?case using net_update_build [of url_error ans tok host g b w "Some e" w']
    by (auto simp: net_build_env_def)
qed (simp_all add: net_build_env_def build_patches_def on_cluster_patches)

lemma report_states [simp]:
  "build_state (staged_build b m) = build_staged_state"
  "build_state (failed_build s) \<noteq> build_staged_state"
  by (simp_all add: staged_build_def new_build_from_kpack_build_def Let_def failed_build_def
      build_staged_state_def build_failed_state_def)

section \<open>An example\<close>

definition example_condition_api :: condition_api where
  "example_condition_api =
     \<lparr>ca_get = (\<lambda>cs t. find (\<lambda>c. cc_type c = t) cs),
      ca_is_true = (\<lambda>c. case c of None \<Rightarrow> False | Some c' \<Rightarrow> cc_status c' = ''True''),
      ca_is_unknown = (\<lambda>c. case c of None \<Rightarrow> True | Some c' \<Rightarrow> cc_status c' \<notin> {''True'', ''False''}),
      ca_succeeded = ''Succeeded'', ca_ready = ''Ready''\<rparr>"

definition example_build :: "core_condition list \<Rightarrow> kpack_build" where
  "example_build cs =
     \<lparr>kb_namespace = ''ns'', kb_labels = [build_guid_label \<mapsto> ''b1''],
      kb_annotations = [build_reason_annotation \<mapsto> ''CONFIG''], kb_service_account = ''sa'',
      kb_conditions = cs, kb_step_states = [\<lparr>cs_terminated = None\<rparr>], kb_latest_image = ''img''\<rparr>"

definition succeeded :: "string \<Rightarrow> core_condition list" where
  "succeeded st = [\<lparr>cc_type = ''Succeeded'', cc_status = st, cc_reason = ''r'', cc_message = ''m''\<rparr>]"

definition example_processes :: "launch_process list" where
  "example_processes =
     [\<lparr>lp_type = ''web'', lp_command = ''old'', lp_args = []\<rparr>,
      \<lparr>lp_type = ''web'', lp_command = ''run'', lp_args = [''-p'', ''80'']\<rparr>]"

definition example_kenv :: "kpack_build \<Rightarrow> unit build_env" where
  "example_kenv b =
     \<lparr>be_get = (\<lambda>req k. (Inr b, k)), be_is_not_found = (\<lambda>e. False),
      be_conditions = example_condition_api,
      be_fetch_config = (\<lambda>i s n k. (Returns (Inr \<lparr>ic_labels = [''meta'' \<mapsto> ''{}'']\<rparr>), k)),
      be_metadata_label = ''meta'', be_unmarshal_metadata = (\<lambda>s. Inr example_processes),
      be_update_build = (\<lambda>g r k. (None, k))\<rparr>"

definition example_net :: "int \<Rightarrow> unit net_world cf_client" where
  "example_net st =
     net_client (\<lambda>u. None) (\<lambda>log k r. (Inr \<lparr>rs_status = st, rs_body = []\<rparr>, k))
       (\<lambda>log k. (Inr \<lparr>tok_access = ''t''\<rparr>, k)) ''h''"

lemmas example_build_defs =
  example_condition_api_def example_build_def succeeded_def example_kenv_def net_build_env_def
  on_cluster_def

lemma example_get: "be_get (net_build_env (example_kenv b) c) req w = (Inr b, w)"
  by (cases w) (simp add: net_build_env_def example_kenv_def on_cluster_def)

lemma example_guid [simp]: "label_value (kb_labels (example_build cs)) build_guid_label = ''b1''"
  by (simp add: example_build_def label_value_def)

lemma example_reconcile_failed:
  "build_reconcile (net_build_env (example_kenv (example_build (succeeded ''False''))) (example_net 200)) req ([], ()) =
     (Returns (zero_result, None),
      ([patch_request ''h/v3/builds/b1'' ''t'' (build_json (failed_build (build_failure_message (hd (succeeded ''False'')))))], ()))"
proof -
  have "update_build (example_net 200) ''b1'' r ([], ()) =
      (None, ([patch_request ''h/v3/builds/b1'' ''t'' (build_json r)], ()))" for r
    unfolding example_net_def
    by (subst update_build_run [where t = "\<lparr>tok_access = ''t''\<rparr>" and resp = "\<lparr>rs_status = 200, rs_body = []\<rparr>"])
      simp_all
  then show ?thesis
    by (simp add: build_reconcile_def example_build_defs reconcile_failed_build_def label_value_def)
qed

section \<open>Well-formed payloads\<close>

text \<open>
  What Cloud Controller may find in the body of a build update: a staged build with an image's
  lifecycle, whose process types are an object and not null, or a failed one whose lifecycle is
  the zero value.
\<close>

definition build_payload_ok :: "cf_build \<Rightarrow> bool" where
  "build_payload_ok r \<longleftrightarrow>
     (if build_state r = build_staged_state
      then build_error r = [] \<and> lc_type (build_lifecycle r) = kpack_lifecycle_type \<and>
        (case ld_process_types (lc_data (build_lifecycle r)) of None \<Rightarrow> False | Some m \<Rightarrow> go_map_ok m)
      else build_state r = build_failed_state \<and> build_lifecycle r = zero_lifecycle)"

definition build_body_ok :: "json \<Rightarrow> bool" where
  "build_body_ok j = (case dec_build j of None \<Rightarrow> False | Some r \<Rightarrow> build_payload_ok r)"

lemma staged_payload_ok: "go_map_ok m \<Longrightarrow> build_payload_ok (staged_build b m)"
  by (simp add: build_payload_ok_def staged_build_def new_build_from_kpack_build_def Let_def)

lemma failed_payload_ok: "build_payload_ok (failed_build msg)"
  by (simp add: build_payload_ok_def failed_build_def build_staged_state_def build_failed_state_def)

lemma extract_process_types_ok:
  "extract_process_types env b w = (Returns (Inr m), w') \<Longrightarrow> go_map_ok m"
  by (auto simp: extract_process_types_def process_types_of_def split: prod.splits outcome.splits sum.splits)

lemma failure_report_ok: "build_payload_ok (failure_report b c)"
  by (simp add: failure_report_def failed_payload_ok)

lemma success_report_ok:
  "extract_process_types env b w = (Returns pt, w') \<Longrightarrow> build_payload_ok (success_report b pt)"
  by (cases pt) (auto simp: success_report_def failed_payload_ok intro: staged_payload_ok extract_process_types_ok)

lemma report_payload_ok: "reports env b w r \<Longrightarrow> build_payload_ok r"
  unfolding reports_def by (auto simp: failure_report_ok intro: success_report_ok split: if_splits)

text \<open>The encoder keeps the types: what is decoded from the JSON of a payload is again one.\<close>

lemma build_body_ok_json:
  assumes "build_payload_ok r"
  shows "build_body_ok (build_json r)"
proof -
  have "dec_build (build_json r) = Some (canonical_build r)"
    using assms by (intro dec_build_json)
      (auto simp: build_payload_ok_def zero_lifecycle_def split: if_splits option.splits)
  moreover have "build_payload_ok (canonical_build r)"
    using assms by (auto simp: build_payload_ok_def canonical_build_def zero_lifecycle_def go_map_ok_def
        distinct_map split: option.splits)
  ultimately show ?thesis by (simp add: build_body_ok_def)
qed

text \<open>The controller works through a queue of requests, one after the other.\<close>

fun reconcile_builds :: "'w build_env \<Rightarrow> (string \<times> string) list \<Rightarrow> 'w \<Rightarrow> 'w" where
  "reconcile_builds env [] w = w"
| "reconcile_builds env (req # reqs) w = reconcile_builds env reqs (snd (build_reconcile env req w))"

section \<open>What a received report says\<close>

lemma canonical_fields [simp]:
  "build_state (canonical_build r) = build_state r" "build_error (canonical_build r) = build_error r"
  "lc_type (build_lifecycle (canonical_build r)) = lc_type (build_lifecycle r)"
  "ld_image (lc_data (build_lifecycle (canonical_build r))) = ld_image (lc_data (build_lifecycle r))"
  by (simp_all add: canonical_build_def)

lemma dec_build_payload: "build_payload_ok r \<Longrightarrow> dec_build (build_json r) = Some (canonical_build r)"
  by (intro dec_build_json) (auto simp: build_payload_ok_def zero_lifecycle_def split: if_splits option.splits)

lemma go_get_sort: "go_map_ok m \<Longrightarrow> go_get (sort_key fst m) = go_get m"
  unfolding go_get_def go_map_ok_def
  by (rule map_of_inject_set [THEN iffD2]) (simp_all add: distinct_map)

text \<open>A report in full: staged with the image and its process types, or failed with the reason.\<close>

definition staged_body :: "kpack_build \<Rightarrow> (string, string) go_map \<Rightarrow> cf_build \<Rightarrow> bool" where
  "staged_body b m r \<longleftrightarrow>
     build_state r = ''STAGED'' \<and> build_error r = [] \<and> lc_type (build_lifecycle r) = ''kpack'' \<and>
     ld_image (lc_data (build_lifecycle r)) = kb_latest_image b \<and>
     (case ld_process_types (lc_data (build_lifecycle r)) of None \<Rightarrow> False | Some m' \<Rightarrow> go_get m' = go_get m)"

definition failed_body :: "string \<Rightarrow> cf_build \<Rightarrow> bool" where
  "failed_body msg r \<longleftrightarrow> build_state r = ''FAILED'' \<and> build_error r = msg"

lemma staged_body_canonical: "go_map_ok m \<Longrightarrow> staged_body b m (canonical_build (staged_build b m))"
  by (simp add: staged_body_def staged_build_def new_build_from_kpack_build_def Let_def canonical_build_def
      build_staged_state_def kpack_lifecycle_type_def go_get_sort)

lemma failed_body_canonical: "failed_body msg (canonical_build (failed_build msg))"
  by (simp add: failed_body_def failed_build_def build_failed_state_def canonical_build_def)

text \<open>The outcome of a reconciliation with the fetcher of \<open>image_registry/\<close>.\<close>

lemma build_reconcile_panics:
  assumes "condition_laws (be_conditions env)" and "be_fetch_config env = fetch_image_config ra"
    and "be_get env req w = (Inr b, w1)"
  shows "(\<exists>p w'. build_reconcile env req w = (Panics p, w')) \<longleftrightarrow>
     build_condition env b = None \<or>
     ca_is_true (be_conditions env) (build_condition env b) \<and>
       nil_config_file ra (kb_latest_image b) (kb_service_account b) (kb_namespace b) w1"
proof (cases "ca_is_true (be_conditions env) (build_condition env b)")
  case True
  have "(\<exists>p w'. reconcile_successful_build env b w1 = (Panics p, w')) \<longleftrightarrow>
      (\<exists>p w'. extract_process_types env b w1 = (Panics p, w'))"
    by (auto simp: reconcile_successful_build_def Let_def split: prod.splits outcome.splits sum.splits option.splits)
  also have "\<dots> \<longleftrightarrow> (\<exists>p w'. be_fetch_config env (kb_latest_image b) (kb_service_account b) (kb_namespace b) w1 = (Panics p, w'))"
    by (auto simp: extract_process_types_def split: prod.splits outcome.splits sum.splits)
  also have "\<dots> \<longleftrightarrow> nil_config_file ra (kb_latest_image b) (kb_service_account b) (kb_namespace b) w1"
    unfolding assms(2) by (rule fetch_image_config_panics)
  finally show ?thesis
    using True assms(1,3) by (auto simp: build_reconcile_def build_condition_def condition_laws_def Let_def)
next
  case False
  then show ?thesis
    using assms(3)
    by (auto simp: build_reconcile_def build_condition_def Let_def split: option.splits prod.splits)
qed

section \<open>Properties\<close>

text \<open>C11: A reconciliation that found its build and returned has sent the report the build
deserves: exactly one, after which it is done, when it reports success; when the CF API fails it
asks to be requeued with the error, having sent the report at most once. A failed condition is
reported with its reason and message or those of the first failed step, a succeeded one as staged
with the image and its process types, or as failed with the reason these could not be read.\<close>

theorem build_reconcile_reports:
  assumes "be_get (net_build_env kenv (net_client url_error ans tok host)) req w = (Inr b, w1)"
    and "build_reconcile (net_build_env kenv (net_client url_error ans tok host)) req w = (Returns (res, err), w')"
  shows "\<exists>r. reports (net_build_env kenv (net_client url_error ans tok host)) b w1 r \<and>
     (if err = None
      then res = zero_result \<and>
        build_patches host w' = build_patches host w @ [(label_value (kb_labels b) build_guid_label, build_json r)]
      else res = requeue_result \<and>
        (build_patches host w' = build_patches host w \<or>
         build_patches host w' = build_patches host w @ [(label_value (kb_labels b) build_guid_label, build_json r)]))"
  using net_reporter.reconcile_received [OF assms] unfolding build_guid_of_def .

theorem build_reconcile_reports_witness:
  "\<exists>r. reports (net_build_env (example_kenv (example_build (succeeded ''False''))) (example_net 200))
           (example_build (succeeded ''False'')) ([], ()) r \<and>
     build_patches ''h'' ([patch_request ''h/v3/builds/b1'' ''t''
         (build_json (failed_build (build_failure_message (hd (succeeded ''False'')))))], ()) =
       build_patches ''h'' ([], ()) @ [(''b1'', build_json r)]"
  using build_reconcile_reports [OF example_get example_reconcile_failed [unfolded example_net_def]]
  unfolding example_net_def by auto


text \<open>Whatever a reconciliation does, the CF API receives at most one build payload from it.\<close>

theorem build_reported_at_most_once:
  "length (build_patches host (snd (build_reconcile
       (net_build_env kenv (net_client url_error ans tok host)) req w)))
     \<le> Suc (length (build_patches host w))"
  by (rule net_reporter.reconcile_at_most_one)

text \<open>C13: The build update that a reconciliation without error has sent decodes to a staged build exactly when
the Succeeded condition is true and the process types could be read from the image: it then names
the image and these process types. Otherwise it decodes to a failed one, with the reason why the
types could not be read, or with the first failed step or the condition's reason and message.\<close>

theorem build_staged_iff_succeeded:
  assumes "be_get (net_build_env kenv (net_client url_error ans tok host)) req w = (Inr b, w1)"
    and "build_reconcile (net_build_env kenv (net_client url_error ans tok host)) req w = (Returns (res, None), w')"
  shows "\<exists>body r. build_patches host w' =
       build_patches host w @ [(label_value (kb_labels b) ''cloudfoundry.org/build_guid'', body)] \<and>
     dec_build body = Some r \<and>
     (if ca_is_true (be_conditions kenv)
           (ca_get (be_conditions kenv) (kb_conditions b) (ca_succeeded (be_conditions kenv)))
      then (case fst (extract_process_types (net_build_env kenv (net_client url_error ans tok host)) b w1) of
              Panics p \<Rightarrow> False
            | Returns (Inl e) \<Rightarrow> failed_body (''Failed to handle successful kpack build: '' @ error_text e) r
            | Returns (Inr m) \<Rightarrow> staged_body b m r)
      else (case ca_get (be_conditions kenv) (kb_conditions b) (ca_succeeded (be_conditions kenv)) of
              None \<Rightarrow> False
            | Some c \<Rightarrow>
                failed_body (case find_any_failed_container_state (kb_step_states b) of
                               None \<Rightarrow> build_failure_message c | Some t \<Rightarrow> step_failure_message t) r))"
proof -
  let ?env = "net_build_env kenv (net_client url_error ans tok host)"
  let ?c = "ca_get (be_conditions kenv) (kb_conditions b) (ca_succeeded (be_conditions kenv))"
  have ca: "be_conditions ?env = be_conditions kenv" by (simp add: net_build_env_def)
  obtain r where r: "reports ?env b w1 r"
    and p: "build_patches host w' = build_patches host w @ [(build_guid_of b, build_json r)]"
    using net_reporter.reconcile_received [OF assms] by auto
  have d: "dec_build (build_json r) = Some (canonical_build r)"
    by (rule dec_build_payload [OF report_payload_ok [OF r]])
  note [simp] = failed_body_canonical
  have "if ca_is_true (be_conditions kenv) ?c
      then (case fst (extract_process_types ?env b w1) of
              Panics p \<Rightarrow> False
            | Returns (Inl e) \<Rightarrow> failed_body (''Failed to handle successful kpack build: '' @ error_text e) (canonical_build r)
            | Returns (Inr m) \<Rightarrow> staged_body b m (canonical_build r))
      else (case ?c of
              None \<Rightarrow> False
            | Some c \<Rightarrow>
                failed_body (case find_any_failed_container_state (kb_step_states b) of
                    None \<Rightarrow> build_failure_message c | Some t \<Rightarrow> step_failure_message t) (canonical_build r))"
  proof (cases "ca_is_true (be_conditions kenv) ?c")
    case True
    then obtain pt w2 where x: "extract_process_types ?env b w1 = (Returns pt, w2)" "r = success_report b pt"
      using r by (auto simp: reports_def build_condition_def ca)
    then show ?thesis
      using True staged_body_canonical extract_process_types_ok [of ?env b w1 _ w2]
      by (cases pt) (auto simp: success_report_def)
  next
    case False
    then show ?thesis using r by (auto simp: reports_def build_condition_def ca failure_report_def)
  qed
  then show ?thesis
    using p d unfolding build_guid_of_def build_guid_label_def by blast
qed

theorem build_staged_iff_succeeded_witness:
  "dec_build (build_json (failed_build (build_failure_message (hd (succeeded ''False''))))) =
     Some \<lparr>build_state = ''FAILED'', build_error = build_failure_message (hd (succeeded ''False'')),
       build_lifecycle = zero_lifecycle\<rparr> \<and>
   build_patches ''h'' ([patch_request ''h/v3/builds/b1'' ''t''
     (build_json (failed_build (build_failure_message (hd (succeeded ''False'')))))], ()) \<noteq> []"
proof
  show "dec_build (build_json (failed_build (build_failure_message (hd (succeeded ''False''))))) =
      Some \<lparr>build_state = ''FAILED'', build_error = build_failure_message (hd (succeeded ''False'')),
        build_lifecycle = zero_lifecycle\<rparr>"
    using dec_build_payload [OF failed_payload_ok]
    by (simp add: failed_build_def build_failed_state_def canonical_build_def zero_lifecycle_def)
  show "build_patches ''h'' ([patch_request ''h/v3/builds/b1'' ''t''
      (build_json (failed_build (build_failure_message (hd (succeeded ''False'')))))], ()) \<noteq> []"
    using build_staged_iff_succeeded [OF example_get example_reconcile_failed [unfolded example_net_def]] by auto
qed

text \<open>C14: With the fetcher of \<open>image_registry/\<close>, a reconciliation panics exactly when it fetched a build that
has no Succeeded condition, whose reason it reads through a nil pointer, or one that succeeded whose
image the registry has with a config file that is nil although there was no error.\<close>

theorem build_reconcile_panics_iff:
  assumes "condition_laws (be_conditions env)" and "be_fetch_config env = fetch_image_config ra"
  shows "(\<exists>p w'. build_reconcile env req w = (Panics p, w')) \<longleftrightarrow>
     (\<exists>b w1. be_get env req w = (Inr b, w1) \<and>
        (ca_get (be_conditions env) (kb_conditions b) (ca_succeeded (be_conditions env)) = None \<or>
         ca_is_true (be_conditions env)
           (ca_get (be_conditions env) (kb_conditions b) (ca_succeeded (be_conditions env))) \<and>
         (\<exists>ref kc img w2 w3 w4. ra_parse_reference ra (kb_latest_image b) = Inr ref \<and>
            ra_keychain ra (kb_service_account b) (kb_namespace b) w1 = (Inr kc, w2) \<and>
            ra_image ra ref kc w2 = (Inr img, w3) \<and> ra_config_file ra img w3 = (Inr None, w4))))"
proof (cases "be_get env req w")
  case (Pair r w1)
  show ?thesis
  proof (cases r)
    case (Inl e)
    then show ?thesis using Pair by (simp add: build_reconcile_def)
  next
    case (Inr b)
    then show ?thesis
      using build_reconcile_panics [OF assms, of req w b w1] Pair
      by (simp add: build_condition_def nil_config_file_def)
  qed
qed

definition example_registry :: "image_config option \<Rightarrow> (unit, unit, unit, unit) registry_api" where
  "example_registry cfg =
     \<lparr>ra_parse_reference = (\<lambda>s. Inr ()), ra_keychain = (\<lambda>a n w. (Inr (), w)), ra_image = (\<lambda>r k w. (Inr (), w)),
      ra_config_file = (\<lambda>i w. (Inr cfg, w))\<rparr>"

definition example_fetching :: "image_config option \<Rightarrow> string \<Rightarrow> unit build_env" where
  "example_fetching cfg st =
     (example_kenv (example_build (succeeded st)))\<lparr>be_fetch_config := fetch_image_config (example_registry cfg)\<rparr>"

lemma example_fetching_laws:
  "condition_laws (be_conditions (example_fetching cfg st))"
  "be_fetch_config (example_fetching cfg st) = fetch_image_config (example_registry cfg)"
  "be_get (example_fetching cfg st) req w = (Inr (example_build (succeeded st)), w)"
  by (simp_all add: example_fetching_def example_kenv_def example_condition_api_def condition_laws_def)

theorem build_reconcile_panics_iff_witness:
  "(\<exists>p w'. build_reconcile (example_fetching None ''True'') (''ns'', ''b'') () = (Panics p, w')) \<and>
   (\<nexists>p w'. build_reconcile (example_fetching (Some \<lparr>ic_labels = Map.empty\<rparr>) ''True'') (''ns'', ''b'') () = (Panics p, w'))"
  unfolding build_reconcile_panics_iff [OF example_fetching_laws(1,2)]
  by (simp add: example_fetching_laws(3)) (simp add: example_fetching_def example_registry_def example_build_defs)

text \<open>C15: An event the filter lets through creates or updates a build that has a GUID, a reason other than a
stack update and a decided Succeeded condition. A reconciliation that finds that build as it was in
the event panics on nothing but a nil config file of a succeeded image.\<close>

theorem build_filtered_event_safe:
  assumes "condition_laws (be_conditions env)" and "be_fetch_config env = fetch_image_config ra"
    and "build_event_filter (be_conditions env) e"
  shows "\<exists>b guid reason. (e = CreateEvent (Watched b) \<or> (\<exists>old. e = UpdateEvent old (Watched b))) \<and>
     kb_labels b ''cloudfoundry.org/build_guid'' = Some guid \<and>
     kb_annotations b ''image.kpack.io/reason'' = Some reason \<and> reason \<noteq> ''STACK'' \<and>
     \<not> ca_is_unknown (be_conditions env) (ca_get (be_conditions env) (kb_conditions b) (ca_succeeded (be_conditions env))) \<and>
     (\<forall>req w w1. be_get env req w = (Inr b, w1) \<longrightarrow>
        (\<exists>res err w'. build_reconcile env req w = (Returns (res, err), w')) \<or>
        ca_is_true (be_conditions env) (ca_get (be_conditions env) (kb_conditions b) (ca_succeeded (be_conditions env))) \<and>
        nil_config_file ra (kb_latest_image b) (kb_service_account b) (kb_namespace b) w1)"
proof -
  obtain b where b: "e = CreateEvent (Watched b) \<or> (\<exists>old. e = UpdateEvent old (Watched b))"
    and f: "build_filter (be_conditions env) (Watched b)"
    using assms(3) by (cases e) (auto simp: build_event_filter_def build_filter_def split: runtime_object.splits)
  have known: "\<not> ca_is_unknown (be_conditions env) (build_condition env b)"
    and labels: "kb_labels b build_guid_label \<noteq> None"
      "\<exists>reason. kb_annotations b build_reason_annotation = Some reason \<and> reason \<noteq> stack_update_build_reason"
    using f by (auto simp: build_filter_def build_condition_def split: if_splits option.splits)
  have "(\<exists>res err w'. build_reconcile env req w = (Returns (res, err), w')) \<or>
      ca_is_true (be_conditions env) (build_condition env b) \<and>
      nil_config_file ra (kb_latest_image b) (kb_service_account b) (kb_namespace b) w1"
    if "be_get env req w = (Inr b, w1)" for req w w1
  proof -
    have "build_condition env b \<noteq> None"
      using known assms(1) unfolding condition_laws_def by metis
    then show ?thesis
      using build_reconcile_panics [OF assms(1,2) that]
      by (cases "build_reconcile env req w"; cases "fst (build_reconcile env req w)") auto
  qed
  then show ?thesis
    using b known labels
    by (auto simp: build_condition_def build_guid_label_def build_reason_annotation_def stack_update_build_reason_def)
qed

theorem build_filtered_event_safe_witness:
  "\<exists>res err w'. build_reconcile (example_fetching (Some \<lparr>ic_labels = Map.empty\<rparr>) ''True'') (''ns'', ''b'') () =
     (Returns (res, err), w')"
proof -
  let ?env = "example_fetching (Some \<lparr>ic_labels = Map.empty\<rparr>) ''True''"
  have "build_event_filter (be_conditions ?env) (CreateEvent (Watched (example_build (succeeded ''True''))))"
    by (simp add: example_fetching_def example_build_defs build_event_filter_def build_filter_def stack_update_build_reason_def)
  from build_filtered_event_safe [OF example_fetching_laws(1,2) this]
  show ?thesis
    by (auto simp: example_fetching_laws(3) nil_config_file_def example_registry_def)
qed

text \<open>C18: The bodies of the build updates stay well formed whatever builds are reconciled and
whatever fails or panics: decoded into a \<open>Build\<close>, each is \<open>STAGED\<close> with an empty error, the kpack
lifecycle and an object of process types, or \<open>FAILED\<close> with the zero lifecycle.\<close>

theorem build_bodies_well_formed:
  assumes "list_all (build_body_ok \<circ> snd) (build_patches host w)"
  shows "list_all (build_body_ok \<circ> snd) (build_patches host
     (reconcile_builds (net_build_env kenv (net_client url_error ans tok host)) reqs w))"
  using assms
proof (induction reqs arbitrary: w)
  case Nil
  then show ?case by simp
next
  case (Cons req reqs)
  have "list_all (build_body_ok \<circ> snd) (build_patches host
      (snd (build_reconcile (net_build_env kenv (net_client url_error ans tok host)) req w)))"
    by (rule net_reporter.reconcile_keeps [OF build_body_ok_json [OF report_payload_ok] Cons.prems])
  from Cons.IH [OF this] show ?case by simp
qed

theorem build_bodies_well_formed_witness:
  "build_body_ok (build_json (failed_build (build_failure_message (hd (succeeded ''False'')))))"
proof -
  have "list_all (build_body_ok \<circ> snd) (build_patches ''h'' ([], ()))"
    by (simp add: build_patches_def patches_def List.map_filter_simps)
  from build_bodies_well_formed [OF this, of "example_kenv (example_build (succeeded ''False''))" "\<lambda>u. None"
      "\<lambda>log k r. (Inr \<lparr>rs_status = 200, rs_body = []\<rparr>, k)" "\<lambda>log k. (Inr \<lparr>tok_access = ''t''\<rparr>, k)" "[req]"]
  show ?thesis
    using example_reconcile_failed
    by (simp add: example_net_def build_patches_def patches_def List.map_filter_simps patch_of_def
        patch_request_def go_has_prefix_def json_unmarshal_text build_json_plain)
qed

text \<open>The process types read from an image map each type to the command line of the last
process of that type the metadata lists: its command and arguments, separated by spaces.\<close>

theorem process_types_last_wins:
  assumes "extract_process_types env b w = (Returns (Inr m), w')"
  shows "\<exists>cfg ps. be_fetch_config env (kb_latest_image b) (kb_service_account b) (kb_namespace b) w = (Returns (Inr cfg), w') \<and>
     be_unmarshal_metadata env (label_value (ic_labels cfg) (be_metadata_label env)) = Inr ps \<and> go_map_ok m \<and>
     go_get m t = (if t \<in> lp_type ` set ps
       then (let p = last (filter (\<lambda>p. lp_type p = t) ps)
             in Some (lp_command p @ concat (map (\<lambda>a. '' '' @ a) (lp_args p))))
       else None)"
proof -
  obtain cfg ps where
    f: "be_fetch_config env (kb_latest_image b) (kb_service_account b) (kb_namespace b) w = (Returns (Inr cfg), w')"
    and u: "be_unmarshal_metadata env (label_value (ic_labels cfg) (be_metadata_label env)) = Inr ps"
    and m: "m = process_types_of ps"
    using assms by (auto simp: extract_process_types_def split: prod.splits outcome.splits sum.splits)
  have "go_map_ok m" and "go_get m t = (if t \<in> lp_type ` set ps
       then (let p = last (filter (\<lambda>p. lp_type p = t) ps)
             in Some (lp_command p @ concat (map (\<lambda>a. '' '' @ a) (lp_args p))))
       else None)"
    by (simp_all add: m process_types_of_def index_by_get extract_full_command_def Let_def go_join_Cons)
  then show ?thesis using f u by blast
qed

theorem process_types_last_wins_witness:
  "\<exists>m. go_get m ''web'' = Some ''run -p 80'' \<and> go_map_ok m"
proof -
  have "extract_process_types (example_kenv (example_build [])) (example_build []) () =
      (Returns (Inr (process_types_of example_processes)), ())"
    by (simp add: extract_process_types_def example_kenv_def example_build_def label_value_def)
  from process_types_last_wins [OF this, of "''web''"] show ?thesis
    by (auto simp: example_kenv_def example_build_def example_processes_def)
qed

end
