(* ===== verification/ImageController.thy ===== *)
theory ImageController
  imports BuildProperties
begin

text \<open>
  \<open>controllers/image_controller.go\<close>: after a stack update rebased an app's image, the app's
  StatefulSet and its droplet get the new image.
\<close>

section \<open>Resources\<close>

record container =
  ct_name :: string
  ct_image :: string

text \<open>A StatefulSet: the containers of its pod template, and everything else as \<open>'x\<close>.\<close>

record 'x stateful_set =
  ss_name :: string
  ss_containers :: "container list"
  ss_rest :: 'x

record kpack_image =
  ki_labels :: "string \<rightharpoonup> string"
  ki_conditions :: "core_condition list"
  ki_latest_build_reason :: string
  ki_latest_image :: string

definition app_guid_label :: string where
  "app_guid_label = ''cloudfoundry.org/app_guid''"
definition droplet_guid_label :: string where
  "droplet_guid_label = ''cloudfoundry.org/droplet_guid''"

text \<open>\<open>labels.Set.String\<close> and the StatefulSets client are library code.\<close>

record ('w, 'x) image_env =
  ie_get :: "string \<times> string \<Rightarrow> ('w, go_error + kpack_image) effect"
  ie_conditions :: condition_api
  ie_label_string :: "(string \<times> string) list \<Rightarrow> string"
  ie_namespace :: string
  ie_list :: "string \<Rightarrow> string \<Rightarrow> ('w, go_error + 'x stateful_set list) effect"
  ie_update :: "string \<Rightarrow> 'x stateful_set \<Rightarrow> ('w, go_error option) effect"
  ie_update_droplet :: "string \<Rightarrow> droplet \<Rightarrow> ('w, go_error option) effect"

section \<open>Operations\<close>

definition image_filter :: "condition_api \<Rightarrow> kpack_image runtime_object \<Rightarrow> bool" where
  "image_filter ca e =
     (case e of
        OtherObject \<Rightarrow> False
      | Watched i \<Rightarrow>
          if ki_labels i app_guid_label = None then False
          else \<not> ca_is_unknown ca (ca_get ca (ki_conditions i) (ca_ready ca)))"

definition image_event_filter :: "condition_api \<Rightarrow> kpack_image watch_event \<Rightarrow> bool" where
  "image_event_filter ca = event_filter (image_filter ca)"

text \<open>
  The loop over the containers. \<open>todo\<close> are the containers from index \<open>i\<close> on; the assignment
  goes to the backing array, so it shows in the StatefulSet that is sent.
\<close>

fun rebase_containers ::
  "('w, 'x) image_env \<Rightarrow> kpack_image \<Rightarrow> 'x stateful_set \<Rightarrow> nat \<Rightarrow> container list
    \<Rightarrow> ('w, go_error option) effect" where
  "rebase_containers env img ss i [] w = (None, w)"
| "rebase_containers env img ss i (c # todo) w =
     (if ct_name c \<noteq> ''opi'' then rebase_containers env img ss (Suc i) todo w
      else
        (let ss' = ss\<lparr>ss_containers := (ss_containers ss)[i := (ss_containers ss ! i)\<lparr>ct_image := ki_latest_image img\<rparr>]\<rparr>
         in case ie_update env (ie_namespace env) ss' w of
              (Some e, w1) \<Rightarrow> (Some e, w1)
            | (None, w1) \<Rightarrow>
                (case ie_update_droplet env (label_value (ki_labels img) droplet_guid_label)
                        \<lparr>droplet_image = ki_latest_image img\<rparr> w1 of
                   (Some e, w2) \<Rightarrow> (Some e, w2)
                 | (None, w2) \<Rightarrow> rebase_containers env img ss' (Suc i) todo w2)))"

definition handle_rebased_image ::
  "('w, 'x) image_env \<Rightarrow> kpack_image \<Rightarrow> ('w, ctrl_result \<times> go_error option) effect" where
  "handle_rebased_image env img w =
     (case ie_list env (ie_namespace env)
             (ie_label_string env [(app_guid_label, label_value (ki_labels img) app_guid_label)]) w of
        (Inl e, w1) \<Rightarrow> ((zero_result, Some e), w1)
      | (Inr sets, w1) \<Rightarrow>
          (case sets of
             [] \<Rightarrow> ((zero_result, None), w1)
           | [ss] \<Rightarrow>
               (case rebase_containers env img ss 0 (ss_containers ss) w1 of
                  (Some e, w2) \<Rightarrow> ((zero_result, Some e), w2)
                | (None, w2) \<Rightarrow> ((zero_result, None), w2))
           | _ \<Rightarrow> ((requeue_result, None), w1)))"

definition image_reconcile ::
  "('w, 'x) image_env \<Rightarrow> string \<times> string \<Rightarrow> ('w, ctrl_result \<times> go_error option) effect" where
  "image_reconcile env req w =
     (case ie_get env req w of
        (Inl e, w1) \<Rightarrow> ((zero_result, Some e), w1)
      | (Inr img, w1) \<Rightarrow>
          if ca_is_true (ie_conditions env) (ca_get (ie_conditions env) (ki_conditions img) (ca_ready (ie_conditions env)))
             \<and> ki_latest_build_reason img = ''STACK''
          then handle_rebased_image env img w1
          else ((zero_result, None), w1))"

section \<open>The abstract effect\<close>

text \<open>Every container named \<open>opi\<close> runs the new image, everything else is as it was.\<close>

definition rebased :: "string \<Rightarrow> 'x stateful_set \<Rightarrow> 'x stateful_set" where
  "rebased latest ss =
     ss\<lparr>ss_containers := map (\<lambda>c. if ct_name c = ''opi'' then c\<lparr>ct_image := latest\<rparr> else c) (ss_containers ss)\<rparr>"

definition opi_containers :: "'x stateful_set \<Rightarrow> nat" where
  "opi_containers ss = length (filter (\<lambda>c. ct_name c = ''opi'') (ss_containers ss))"

definition droplet_report :: "kpack_image \<Rightarrow> string \<times> json" where
  "droplet_report img =
     (label_value (ki_labels img) droplet_guid_label, droplet_json \<lparr>droplet_image = ki_latest_image img\<rparr>)"

text \<open>
  The interface of the rebase: an updater of droplets and a store of StatefulSets. A view of the
  cluster gives the StatefulSets by name; a successful update stores one.
\<close>

locale rebaser = cf_updater "ie_update_droplet env" droplet_json received
  for env :: "('w, 'x) image_env" and received :: "'w \<Rightarrow> (string \<times> json) list" +
  fixes view :: "'w \<Rightarrow> string \<rightharpoonup> 'x stateful_set"
  assumes update_view: "ie_update env (ie_namespace env) ss w = (e, w') \<Longrightarrow>
      view w' = (if e = None then (view w)(ss_name ss \<mapsto> ss) else view w)"
    and update_received: "received (snd (ie_update env ns ss w)) = received w"
    and droplet_view: "view (snd (ie_update_droplet env g d w)) = view w"
    and get_view: "view (snd (ie_get env req w)) = view w"
    and get_received: "received (snd (ie_get env req w)) = received w"
    and list_view: "view (snd (ie_list env ns sel w)) = view w"
    and list_received: "received (snd (ie_list env ns sel w)) = received w"
begin

text \<open>A container named \<open>opi\<close> costs an update of the StatefulSet and one of the droplet.\<close>

lemma rebase_one:
  assumes "rebase_containers env img ss i (c # todo) w = (None, w')" and "ct_name c = ''opi''"
    and "ss' = ss\<lparr>ss_containers := (ss_containers ss)[i := (ss_containers ss ! i)\<lparr>ct_image := ki_latest_image img\<rparr>]\<rparr>"
  obtains w2 where "rebase_containers env img ss' (Suc i) todo w2 = (None, w')"
    and "view w2 = (view w)(ss_name ss \<mapsto> ss')" and "received w2 = received w @ [droplet_report img]"
proof -
  let ?g = "label_value (ki_labels img) droplet_guid_label" and ?d = "\<lparr>droplet_image = ki_latest_image img\<rparr>"
  obtain w1 where u: "ie_update env (ie_namespace env) ss' w = (None, w1)"
    using assms by (auto simp: Let_def split: prod.splits option.splits)
  obtain w2 where d: "ie_update_droplet env ?g ?d w1 = (None, w2)"
    using assms u by (auto simp: Let_def split: prod.splits option.splits)
  have "rebase_containers env img ss' (Suc i) todo w2 = (None, w')"
    using assms u d by (simp add: Let_def)
  moreover have "view w2 = (view w)(ss_name ss \<mapsto> ss')"
    using update_view [OF u] droplet_view [of ?g ?d w1] d assms(3) by simp
  moreover have "received w2 = received w @ [droplet_report img]"
    using update_received [of "ie_namespace env" ss' w] u update_ok [OF d] by (simp add: droplet_report_def)
  ultimately show ?thesis by (rule that)
qed

lemma none_to_rebase:
  assumes "filter (\<lambda>c. ct_name c = ''opi'') todo = []" and "i < length cs" and "drop (Suc i) cs = todo"
  shows "take i cs @ c # map (\<lambda>c. if ct_name c = ''opi'' then c\<lparr>ct_image := latest\<rparr> else c) todo = cs[i := c]"
proof -
  have "map (\<lambda>c. if ct_name c = ''opi'' then c\<lparr>ct_image := latest\<rparr> else c) todo = todo"
    using assms(1) by (auto simp: filter_empty_conv intro: map_idI)
  then show ?thesis using assms(2,3) by (simp add: upd_conv_take_nth_drop)
qed

lemma rebase_containers_ok:
  assumes "rebase_containers env img ss i todo w = (None, w')"
    and "drop i (ss_containers ss) = todo"
  shows "received w' = received w @ replicate (length (filter (\<lambda>c. ct_name c = ''opi'') todo)) (droplet_report img)
    \<and> view w' = (if filter (\<lambda>c. ct_name c = ''opi'') todo = [] then view w
        else (view w)(ss_name ss \<mapsto> ss\<lparr>ss_containers := take i (ss_containers ss) @
          map (\<lambda>c. if ct_name c = ''opi'' then c\<lparr>ct_image := ki_latest_image img\<rparr> else c) todo\<rparr>))"
  using assms
proof (induction todo arbitrary: ss i w)
  case Nil
  then show ?case by simp
next
  case (Cons c todo)
  have i: "i < length (ss_containers ss)"
    using Cons.prems(2) by (cases "i < length (ss_containers ss)") simp_all
  then have ci: "ss_containers ss ! i = c" and rest: "drop (Suc i) (ss_containers ss) = todo"
    using Cons.prems(2) by (simp_all add: Cons_nth_drop_Suc [symmetric])
  show ?case
  proof (cases "ct_name c = ''opi''")
    case False
    then show ?thesis
      using Cons.IH [of ss "Suc i" w] Cons.prems(1) rest i ci by (simp add: take_Suc_conv_app_nth split: if_splits)
  next
    case True
    let ?ss = "ss\<lparr>ss_containers := (ss_containers ss)[i := (ss_containers ss ! i)\<lparr>ct_image := ki_latest_image img\<rparr>]\<rparr>"
    obtain w2 where w2: "rebase_containers env img ?ss (Suc i) todo w2 = (None, w')"
      "view w2 = (view w)(ss_name ss \<mapsto> ?ss)" "received w2 = received w @ [droplet_report img]"
      by (rule rebase_one [OF Cons.prems(1) True refl])
    have "drop (Suc i) (ss_containers ?ss) = todo"
      "take (Suc i) (ss_containers ?ss) = take i (ss_containers ss) @ [c\<lparr>ct_image := ki_latest_image img\<rparr>]"
      using i rest ci by (simp_all add: take_Suc_conv_app_nth take_update_swap list_update_append)
    then show ?thesis
      using Cons.IH [OF w2(1)] True w2(2,3) none_to_rebase [OF _ i rest] ci by auto
  qed
qed

lemma handle_ok:
  assumes list: "ie_list env (ie_namespace env)
      (ie_label_string env [(app_guid_label, label_value (ki_labels img) app_guid_label)]) w = (Inr [ss], w1)"
    and run: "handle_rebased_image env img w = ((res, None), w')"
  shows "received w' = received w @ replicate (opi_containers ss) (droplet_report img) \<and>
    view w' = (if opi_containers ss = 0 then view w else (view w)(ss_name ss \<mapsto> rebased (ki_latest_image img) ss)) \<and>
    res = zero_result"
proof -
  have w1: "view w1 = view w" "received w1 = received w"
    using list_view [of "ie_namespace env" _ w] list_received [of "ie_namespace env" _ w] list by (metis snd_conv)+
  have r: "rebase_containers env img ss 0 (ss_containers ss) w1 = (None, w') \<and> res = zero_result"
    using run list by (auto simp: handle_rebased_image_def split: prod.splits option.splits)
  then show ?thesis
    using rebase_containers_ok [of img ss 0 "ss_containers ss" w1 w'] w1
    by (simp add: opi_containers_def rebased_def)
qed

lemma rebase_containers_refused:
  assumes "\<And>ss w. fst (ie_update env (ie_namespace env) ss w) \<noteq> None"
  shows "received (snd (rebase_containers env img ss i todo w)) = received w"
proof (induction todo arbitrary: i)
  case Nil
  then show ?case by simp
next
  case (Cons c todo)
  define ss' where "ss' = ss\<lparr>ss_containers := (ss_containers ss)[i := (ss_containers ss ! i)\<lparr>ct_image := ki_latest_image img\<rparr>]\<rparr>"
  obtain e w1 where u: "ie_update env (ie_namespace env) ss' w = (Some e, w1)"
    using assms [of ss' w] by (cases "ie_update env (ie_namespace env) ss' w") auto
  have "received w1 = received w"
    using update_received [of "ie_namespace env" ss' w] u by simp
  then show ?case
    using Cons.IH [of "Suc i"] u by (simp add: ss'_def [symmetric] Let_def)
qed

lemma reconcile_refused:
  assumes "\<And>ss w. fst (ie_update env (ie_namespace env) ss w) \<noteq> None"
  shows "received (snd (image_reconcile env req w)) = received w"
proof -
  have h: "received (snd (handle_rebased_image env img w1)) = received w1" for img w1
  proof -
    obtain r w2 where l: "ie_list env (ie_namespace env)
        (ie_label_string env [(app_guid_label, label_value (ki_labels img) app_guid_label)]) w1 = (r, w2)"
      by fastforce
    have "received w2 = received w1"
      using list_received [of "ie_namespace env" _ w1] l by (metis snd_conv)
    then have w2: "received (snd (rebase_containers env img ss i todo w2)) = received w1" for ss i todo
      using rebase_containers_refused [OF assms, of img] by simp
    show ?thesis
    proof (cases r)
      case (Inl e)
      then show ?thesis using l \<open>received w2 = received w1\<close> by (simp add: handle_rebased_image_def)
    next
      case (Inr sets)
      then show ?thesis
        using l \<open>received w2 = received w1\<close> w2 [of "hd sets" 0 "ss_containers (hd sets)"]
        by (auto simp: handle_rebased_image_def split: list.splits prod.splits option.splits)
    qed
  qed
  show ?thesis
    using h get_received [of req w] by (auto simp: image_reconcile_def split: prod.splits sum.splits)
qed

end

section \<open>On the networked client\<close>

text \<open>
  A cluster that holds the StatefulSets by name beside other state \<open>'o\<close>, on which the API server
  and the CF API decide their answers in any way.
\<close>

type_synonym ('o, 'x) image_world = "((string \<rightharpoonup> 'x stateful_set) \<times> 'o) net_world"

record ('o, 'x) image_cluster =
  ic_get :: "string \<times> string \<Rightarrow> ('o, go_error + kpack_image) effect"
  ic_list :: "(string \<rightharpoonup> 'x stateful_set) \<Rightarrow> string \<Rightarrow> string \<Rightarrow> ('o, go_error + 'x stateful_set list) effect"
  ic_accepts :: "'x stateful_set \<Rightarrow> ('o, go_error option) effect"
  ic_token :: "http_request list \<Rightarrow> ('o, go_error + oauth_token) effect"
  ic_answer :: "http_request list \<Rightarrow> http_request \<Rightarrow> ('o, go_error + http_response) effect"

definition keep_store :: "('o, 'a) effect \<Rightarrow> ('s \<times> 'o, 'a) effect" where
  "keep_store f k = (let (a, x) = f (snd k) in (a, (fst k, x)))"

definition image_client ::
  "('o, 'x) image_cluster \<Rightarrow> (string \<Rightarrow> go_error option) \<Rightarrow> string \<Rightarrow> ('o, 'x) image_world cf_client" where
  "image_client cl url_error host =
     net_client url_error (\<lambda>log k req. keep_store (ic_answer cl log req) k) (\<lambda>log. keep_store (ic_token cl log)) host"

definition store_set :: "('o, 'x) image_cluster \<Rightarrow> 'x stateful_set \<Rightarrow> ((string \<rightharpoonup> 'x stateful_set) \<times> 'o, go_error option) effect" where
  "store_set cl ss k =
     (case ic_accepts cl ss (snd k) of
        (Some e, x) \<Rightarrow> (Some e, (fst k, x))
      | (None, x) \<Rightarrow> (None, ((fst k)(ss_name ss \<mapsto> ss), x)))"

definition net_image_env ::
  "('o, 'x) image_cluster \<Rightarrow> condition_api \<Rightarrow> ((string \<times> string) list \<Rightarrow> string) \<Rightarrow> string
    \<Rightarrow> (string \<Rightarrow> go_error option) \<Rightarrow> string \<Rightarrow> (('o, 'x) image_world, 'x) image_env" where
  "net_image_env cl ca label_string ns url_error host =
     \<lparr>ie_get = (\<lambda>req. on_cluster (keep_store (ic_get cl req))),
      ie_conditions = ca, ie_label_string = label_string, ie_namespace = ns,
      ie_list = (\<lambda>n sel. on_cluster (\<lambda>k. keep_store (ic_list cl (fst k) n sel) k)),
      ie_update = (\<lambda>n ss. on_cluster (store_set cl ss)),
      ie_update_droplet = update_droplet (image_client cl url_error host)\<rparr>"

definition stored_sets :: "('o, 'x) image_world \<Rightarrow> string \<rightharpoonup> 'x stateful_set" where
  "stored_sets w = fst (snd w)"

lemma keep_store_fst [simp]: "fst (snd (keep_store f k)) = fst k"
  by (simp add: keep_store_def split: prod.splits)

lemma image_client_store:
  "stored_sets (snd (update_droplet (image_client cl url_error host) g d w)) = stored_sets w"
proof -
  have t: "fst k' = fst k" if "keep_store f k = (a, k')" for f a and k k' :: "'s \<times> 'o"
    using keep_store_fst [of f k] that by simp
  show ?thesis
    by (auto simp: update_droplet_def image_client_def client_run_defs stored_sets_def
        split: prod.splits sum.splits option.splits dest!: t)
qed

lemma on_cluster_view:
  "stored_sets (snd (on_cluster f w)) = fst (snd (f (snd w)))"
  by (simp add: on_cluster_def stored_sets_def split: prod.splits)

interpretation net_rebaser: rebaser "net_image_env cl ca label_string ns url_error host"
  "droplet_patches host" stored_sets
proof (unfold_locales, goal_cases)
  case (1 g d w w')
  then show ?case
    using net_update_droplet [of url_error _ _ host g d w None w']
    by (force simp: net_image_env_def image_client_def)
next
  case (2 g d w e w')
  then show ?case
    using net_update_droplet [of url_error _ _ host g d w "Some e" w']
    by (force simp: net_image_env_def image_client_def)
next
  case (3 ss w e w')
  then show ?case
    by (auto simp: net_image_env_def on_cluster_def store_set_def stored_sets_def
        split: prod.splits option.splits)
qed (simp_all add: net_image_env_def droplet_patches_def on_cluster_patches image_client_store on_cluster_view
    stored_sets_def [symmetric])

section \<open>An example\<close>

definition example_set :: "unit stateful_set" where
  "example_set =
     \<lparr>ss_name = ''app'', ss_containers =
        [\<lparr>ct_name = ''sidecar'', ct_image = ''s''\<rparr>, \<lparr>ct_name = ''opi'', ct_image = ''old''\<rparr>], ss_rest = ()\<rparr>"

definition example_image :: kpack_image where
  "example_image =
     \<lparr>ki_labels = [app_guid_label \<mapsto> ''a1'', droplet_guid_label \<mapsto> ''d1''],
      ki_conditions = [\<lparr>cc_type = ''Ready'', cc_status = ''True'', cc_reason = [], cc_message = []\<rparr>],
      ki_latest_build_reason = ''STACK'', ki_latest_image = ''new''\<rparr>"

definition example_image_cluster :: "go_error option \<Rightarrow> unit stateful_set list \<Rightarrow> (unit, unit) image_cluster" where
  "example_image_cluster verdict sets =
     \<lparr>ic_get = (\<lambda>req k. (Inr example_image, k)), ic_list = (\<lambda>store n sel k. (Inr sets, k)),
      ic_accepts = (\<lambda>ss k. (verdict, k)), ic_token = (\<lambda>log k. (Inr \<lparr>tok_access = ''t''\<rparr>, k)),
      ic_answer = (\<lambda>log req k. (Inr \<lparr>rs_status = 200, rs_body = []\<rparr>, k))\<rparr>"

abbreviation example_image_env ::
  "go_error option \<Rightarrow> unit stateful_set list \<Rightarrow> ((unit, unit) image_world, unit) image_env" where
  "example_image_env verdict sets \<equiv>
     net_image_env (example_image_cluster verdict sets) example_condition_api (\<lambda>l. []) ''ns'' (\<lambda>u. None) ''h''"

definition example_image_log :: "http_request list" where
  "example_image_log = [patch_request ''h/v3/droplets/d1'' ''t'' (droplet_json \<lparr>droplet_image = ''new''\<rparr>)]"

lemma example_update_droplet:
  "update_droplet (image_client (example_image_cluster verdict sets) (\<lambda>u. None) ''h'') ''d1'' \<lparr>droplet_image = ''new''\<rparr> ([], k) =
     (None, (example_image_log, k))"
  unfolding image_client_def
  by (subst update_droplet_run [where t = "\<lparr>tok_access = ''t''\<rparr>" and resp = "\<lparr>rs_status = 200, rs_body = []\<rparr>"
        and ?k1.0 = k and ?k2.0 = k])
    (cases k; simp add: example_image_cluster_def keep_store_def example_image_log_def)+

lemma example_list:
  "ie_list (example_image_env verdict sets) n sel w = (Inr sets, w)"
  by (cases w) (simp add: net_image_env_def on_cluster_def keep_store_def example_image_cluster_def)

lemma example_handle:
  "handle_rebased_image (example_image_env None [example_set]) example_image ([], (Map.empty, ())) =
     ((zero_result, None), (example_image_log, ([''app'' \<mapsto> rebased ''new'' example_set], ())))"
proof -
  have d: "ie_update_droplet (example_image_env v sets) ''d1'' \<lparr>droplet_image = ''new''\<rparr> ([], k) =
      (None, (example_image_log, k))" for k v sets
    using example_update_droplet by (simp add: net_image_env_def)
  have u: "ie_update (example_image_env None sets) n ss ([], (m, ())) =
      (None, ([], (m(ss_name ss \<mapsto> ss), ())))" for n ss m sets
    by (simp add: net_image_env_def on_cluster_def store_set_def example_image_cluster_def)
  have i: "label_value (ki_labels example_image) droplet_guid_label = ''d1''" "ki_latest_image example_image = ''new''"
    by (simp_all add: example_image_def label_value_def droplet_guid_label_def app_guid_label_def)
  show ?thesis
    by (simp add: handle_rebased_image_def example_list u d i Let_def example_set_def rebased_def)
qed

section \<open>Properties\<close>

text \<open>C16: When the rebase of an app with one StatefulSet reports no error, the stored StatefulSet has
the new image in each of its opi containers and is otherwise as it was listed, the droplet has been
patched with that image once for each of these containers, and nothing else has been written.\<close>

theorem image_rebase_complete:
  assumes "ie_list (net_image_env cl ca lbl ns url_error host) ns
      (lbl [(app_guid_label, label_value (ki_labels img) app_guid_label)]) w = (Inr [ss], w1)"
    and "handle_rebased_image (net_image_env cl ca lbl ns url_error host) img w = ((res, None), w')"
  shows "stored_sets w' = (if opi_containers ss = 0 then stored_sets w
       else (stored_sets w)(ss_name ss \<mapsto> rebased (ki_latest_image img) ss)) \<and>
     droplet_patches host w' = droplet_patches host w @ replicate (opi_containers ss)
       (label_value (ki_labels img) droplet_guid_label, droplet_json \<lparr>droplet_image = ki_latest_image img\<rparr>) \<and>
     res = zero_result"
proof -
  have "ie_list (net_image_env cl ca lbl ns url_error host) (ie_namespace (net_image_env cl ca lbl ns url_error host))
      (ie_label_string (net_image_env cl ca lbl ns url_error host)
        [(app_guid_label, label_value (ki_labels img) app_guid_label)]) w = (Inr [ss], w1)"
    using assms(1) by (simp add: net_image_env_def)
  from net_rebaser.handle_ok [OF this assms(2)] show ?thesis
    by (simp add: droplet_report_def)
qed

theorem image_rebase_complete_witness:
  "stored_sets (example_image_log, ([''app'' \<mapsto> rebased ''new'' example_set], ())) ''app'' =
     Some (rebased ''new'' example_set) \<and>
   droplet_patches ''h'' (example_image_log, ([''app'' \<mapsto> rebased ''new'' example_set], ())) =
     [(''d1'', droplet_json \<lparr>droplet_image = ''new''\<rparr>)]"
  using image_rebase_complete [OF example_list example_handle]
  by (simp add: example_set_def opi_containers_def example_image_def label_value_def droplet_patches_def
      patches_def List.map_filter_def droplet_guid_label_def app_guid_label_def)

text \<open>Unless exactly one StatefulSet belongs to the app, the rebase writes nothing; it asks to be
requeued when there are several and gives up, without an error, when there is none.\<close>

theorem image_rebase_needs_one_set:
  assumes "ie_list env (ie_namespace env)
      (ie_label_string env [(app_guid_label, label_value (ki_labels img) app_guid_label)]) w = (Inr sets, w1)"
    and "length sets \<noteq> 1"
  shows "handle_rebased_image env img w = ((\<lparr>requeue = (2 \<le> length sets), requeue_after = 0\<rparr>, None), w1)"
  using assms by (auto simp: handle_rebased_image_def zero_result_def requeue_result_def split: list.splits)

theorem image_rebase_needs_one_set_witness:
  "handle_rebased_image (example_image_env None [example_set, example_set]) example_image ([], (Map.empty, ())) =
     ((\<lparr>requeue = True, requeue_after = 0\<rparr>, None), ([], (Map.empty, ())))"
  using image_rebase_needs_one_set [OF example_list] by simp

text \<open>C17: The droplet never runs ahead of the app: as long as the API server refuses the updates of
StatefulSets, no reconciliation of an image patches a droplet.\<close>

theorem image_droplet_not_ahead:
  assumes "\<And>ss k. fst (ic_accepts cl ss k) \<noteq> None"
  shows "droplet_patches host (snd (image_reconcile (net_image_env cl ca lbl ns url_error host) req w)) =
     droplet_patches host w"
proof (rule net_rebaser.reconcile_refused)
  fix ss w
  show "fst (ie_update (net_image_env cl ca lbl ns url_error host)
      (ie_namespace (net_image_env cl ca lbl ns url_error host)) ss w) \<noteq> None"
    using assms [of ss "snd (snd w)"]
    by (auto simp: net_image_env_def on_cluster_def store_set_def split: prod.splits option.splits)
qed

theorem image_droplet_not_ahead_witness:
  "droplet_patches ''h'' (snd (image_reconcile (example_image_env (Some json_error) [example_set]) (''ns'', ''i'') ([], (Map.empty, ())))) =
     droplet_patches ''h'' ([], (Map.empty :: string \<rightharpoonup> unit stateful_set, ()))"
  by (rule image_droplet_not_ahead) (simp add: example_image_cluster_def)

end
