(* ===== verification/ControllersMain.thy ===== *)
theory ControllersMain
  imports ImageController PeriodicSyncController "HOL-Library.Sublist"
begin

text \<open>
  cf-api-controllers' \<open>config.go\<close> and \<open>main.go\<close>: the settings from the environment, and the program
  that makes the CF clients and registers the three reconcilers with the manager. The
  controller-runtime manager, the Kubernetes clients, the registry and UAA libraries and what the
  flag package leaves in the two flags are parameters.
\<close>

section \<open>Configuration\<close>

record ctrl_config =
  cg_cf_api_host :: string
  cg_uaa_endpoint :: string
  cg_uaa_client_name :: string
  cg_uaa_client_secret :: string
  cg_workloads_namespace :: string

definition env_not_set_err :: "string \<Rightarrow> go_error" where
  "env_not_set_err e = ErrorText (CHR 0x60 # e @ CHR 0x60 # '' environment variable must be set'')"

text \<open>\<open>os.Getenv\<close> gives the empty string for a variable that is not set.\<close>

definition fetch_uaa_client_secret ::
  "(string \<Rightarrow> string) \<Rightarrow> (string \<Rightarrow> go_error + string) \<Rightarrow> go_error + string" where
  "fetch_uaa_client_secret getenv read_file =
     (let secret_file = getenv ''UAA_CLIENT_SECRET_FILE''
      in if secret_file = [] then
           (let secret_env = getenv ''UAA_CLIENT_SECRET''
            in if secret_env = []
               then Inl (ErrorText (CHR 0x60 # ''UAA_CLIENT_SECRET_FILE'' @ CHR 0x60 # '' or '' @ CHR 0x60 #
                      ''UAA_CLIENT_SECRET'' @ CHR 0x60 # '' environment variable must be set''))
               else Inr secret_env)
         else read_file secret_file)"

definition load_ctrl_config ::
  "(string \<Rightarrow> string) \<Rightarrow> (string \<Rightarrow> go_error + string) \<Rightarrow> go_error + ctrl_config" where
  "load_ctrl_config getenv read_file =
     (if getenv ''CF_API_HOST'' = [] then Inl (env_not_set_err ''CF_API_HOST'')
      else if getenv ''UAA_ENDPOINT'' = [] then Inl (env_not_set_err ''UAA_ENDPOINT'')
      else if getenv ''UAA_CLIENT_NAME'' = [] then Inl (env_not_set_err ''UAA_CLIENT_NAME'')
      else if getenv ''WORKLOADS_NAMESPACE'' = [] then Inl (env_not_set_err ''WORKLOADS_NAMESPACE'')
      else case fetch_uaa_client_secret getenv read_file of
             Inl e \<Rightarrow> Inl e
           | Inr secret \<Rightarrow>
               Inr \<lparr>cg_cf_api_host = getenv ''CF_API_HOST'', cg_uaa_endpoint = getenv ''UAA_ENDPOINT'',
                 cg_uaa_client_name = getenv ''UAA_CLIENT_NAME'', cg_uaa_client_secret = secret,
                 cg_workloads_namespace = getenv ''WORKLOADS_NAMESPACE''\<rparr>)"

section \<open>The program\<close>

record main_flags =
  fl_metrics_addr :: string
  fl_enable_leader_election :: bool

definition default_flags :: main_flags where
  "default_flags = \<lparr>fl_metrics_addr = '':8080'', fl_enable_leader_election = False\<rparr>"

record manager_options =
  mo_metrics_bind_address :: string
  mo_port :: int
  mo_leader_election :: bool
  mo_leader_election_id :: string

definition manager_options_of :: "main_flags \<Rightarrow> manager_options" where
  "manager_options_of fl =
     \<lparr>mo_metrics_bind_address = fl_metrics_addr fl, mo_port = 9443,
      mo_leader_election = fl_enable_leader_election fl, mo_leader_election_id = ''7cba68d7.kpack.io''\<rparr>"

text \<open>The three reconcilers, by what their handlers are given.\<close>

datatype ('w, 'x, 'sel) reconciler =
    BuildReconciler "'w build_env"
  | ImageReconciler "('w, 'x) image_env"
  | PeriodicSyncReconciler "('w, 'sel) sync_client" "'w cf_client" string

text \<open>
  The libraries: \<open>GetConfigOrDie\<close> (no value when it ends the process), the manager, the clients
  (\<open>NewForConfigOrDie\<close> panics), the key chains, UAA, HTTP over a transport that skips
  certificate checks (\<open>True\<close>) or not, and the parts of the reconcilers' parameters that come from the manager.
\<close>

record ('w, 'rc, 'mgr, 'kube, 'kf, 'apps, 'ref, 'kc, 'img, 'x, 'sel) manager_env =
  me_rest_config :: "('w, 'rc option) effect"
  me_new_manager :: "'rc \<Rightarrow> manager_options \<Rightarrow> ('w, go_error + 'mgr) effect"
  me_kube_client :: "'mgr \<Rightarrow> 'kube outcome"
  me_keychain_factory :: "'kube \<Rightarrow> go_error + 'kf"
  me_uaa_new :: "string \<Rightarrow> string \<Rightarrow> string \<Rightarrow> bool \<Rightarrow> go_error + ('w, go_error + oauth_token) effect"
  me_http :: "bool \<Rightarrow> 'w http_env"
  me_registry :: "'kf \<Rightarrow> ('w, 'ref, 'kc, 'img) registry_api"
  me_build_base :: "'mgr \<Rightarrow> 'w build_env"
  me_apps_client :: "'mgr \<Rightarrow> go_error + 'apps"
  me_image_base :: "'mgr \<Rightarrow> 'apps \<Rightarrow> ('w, 'x) image_env"
  me_sync_client :: "'mgr \<Rightarrow> ('w, 'sel) sync_client"
  me_setup :: "'mgr \<Rightarrow> ('w, 'x, 'sel) reconciler \<Rightarrow> ('w, go_error option) effect"
  me_start :: "'mgr \<Rightarrow> ('w, go_error option) effect"

text \<open>
  The client each reconciler gets. The \<open>RestClient\<close> is given an HTTP client that skips certificate
  checks; \<open>cf.NewClient\<close> makes one of its own for \<open>ListRoutes\<close>, which checks them.
\<close>

definition main_cf_client ::
  "(bool \<Rightarrow> 'w http_env) \<Rightarrow> ctrl_config \<Rightarrow> ('w, go_error + oauth_token) effect \<Rightarrow> 'w cf_client" where
  "main_cf_client http cfg uaa_client =
     new_client (http False) (cg_cf_api_host cfg) (rest_patch (http True)) (uaa_fetch uaa_client)"

definition main_build_reconciler where
  "main_build_reconciler me cfg mgr kf client =
     BuildReconciler ((me_build_base me mgr)
       \<lparr>be_fetch_config := fetch_image_config (me_registry me kf), be_update_build := update_build client\<rparr>)"

definition main_image_reconciler where
  "main_image_reconciler me cfg mgr apps client =
     ImageReconciler ((me_image_base me mgr apps)
       \<lparr>ie_namespace := cg_workloads_namespace cfg, ie_update_droplet := update_droplet client\<rparr>)"

definition main_sync_reconciler where
  "main_sync_reconciler me cfg mgr client =
     PeriodicSyncReconciler (me_sync_client me mgr) client (cg_workloads_namespace cfg)"

text \<open>
  The end of \<open>main\<close>: an exit code, or a panic. Returning from \<open>main\<close> is code 0.
\<close>

definition controllers_main ::
  "('w, 'rc, 'mgr, 'kube, 'kf, 'apps, 'ref, 'kc, 'img, 'x, 'sel) manager_env \<Rightarrow> main_flags \<Rightarrow> (string \<Rightarrow> string)
    \<Rightarrow> (string \<Rightarrow> go_error + string) \<Rightarrow> ('w, int outcome) effect" where
  "controllers_main me fl getenv read_file w =
     (case load_ctrl_config getenv read_file of
        Inl e \<Rightarrow> (Returns 1, w)
      | Inr cfg \<Rightarrow>
     (case me_rest_config me w of
        (None, w1) \<Rightarrow> (Returns 1, w1)
      | (Some rc, w1) \<Rightarrow>
     (case me_new_manager me rc (manager_options_of fl) w1 of
        (Inl e, w2) \<Rightarrow> (Returns 1, w2)
      | (Inr mgr, w2) \<Rightarrow>
     (case me_kube_client me mgr of
        Panics p \<Rightarrow> (Panics p, w2)
      | Returns kube \<Rightarrow>
     (case me_keychain_factory me kube of
        Inl e \<Rightarrow> (Panics (PanicWith e), w2)
      | Inr kf \<Rightarrow>
     (case new_uaa_client (me_uaa_new me) (cg_uaa_endpoint cfg) (cg_uaa_client_name cfg) (cg_uaa_client_secret cfg) of
        Panics p \<Rightarrow> (Panics p, w2)
      | Returns uaa_client \<Rightarrow>
     (let client = main_cf_client (me_http me) cfg uaa_client
      in case me_setup me mgr (main_build_reconciler me cfg mgr kf client) w2 of
           (Some e, w3) \<Rightarrow> (Returns 1, w3)
         | (None, w3) \<Rightarrow>
     (case me_apps_client me mgr of
        Inl e \<Rightarrow> (Panics (PanicWith e), w3)
      | Inr apps \<Rightarrow>
     (case me_setup me mgr (main_image_reconciler me cfg mgr apps client) w3 of
        (Some e, w4) \<Rightarrow> (Returns 1, w4)
      | (None, w4) \<Rightarrow>
     (case me_setup me mgr (main_sync_reconciler me cfg mgr client) w4 of
        (Some e, w5) \<Rightarrow> (Returns 1, w5)
      | (None, w5) \<Rightarrow>
     (case me_start me mgr w5 of
        (Some e, w6) \<Rightarrow> (Returns 1, w6)
      | (None, w6) \<Rightarrow> (Returns 0, w6))))))))))))"

section \<open>The calls on the manager\<close>

text \<open>
  A world with the log of the registrations and starts, beside anything else. Every other call
  leaves the log alone.
\<close>

datatype main_event = SetUp string string | Started

fun setup_event :: "('w, 'x, 'sel) reconciler \<Rightarrow> main_event" where
  "setup_event (BuildReconciler env) = SetUp ''Build'' []"
| "setup_event (ImageReconciler env) = SetUp ''Image'' (ie_namespace env)"
| "setup_event (PeriodicSyncReconciler kc client ns) = SetUp ''PeriodicSync'' ns"

definition keep_log :: "('k \<times> main_event list, 'a) effect \<Rightarrow> ('k \<times> main_event list, 'a) effect" where
  "keep_log f w = (let (a, w') = f w in (a, (fst w', snd w)))"

definition log_call :: "main_event \<Rightarrow> ('k \<times> main_event list, 'a) effect \<Rightarrow> ('k \<times> main_event list, 'a) effect" where
  "log_call e f w = (let (a, w') = f w in (a, (fst w', snd w @ [e])))"

definition logged_manager where
  "logged_manager me = me
     \<lparr>me_rest_config := keep_log (me_rest_config me),
      me_new_manager := (\<lambda>rc opt. keep_log (me_new_manager me rc opt)),
      me_setup := (\<lambda>mgr r. log_call (setup_event r) (me_setup me mgr r)),
      me_start := (\<lambda>mgr. log_call Started (me_start me mgr))\<rparr>"

definition main_events :: "string \<Rightarrow> main_event list" where
  "main_events ns = [SetUp ''Build'' [], SetUp ''Image'' ns, SetUp ''PeriodicSync'' ns, Started]"

lemma setup_events:
  "setup_event (main_build_reconciler me cfg mgr kf client) = SetUp ''Build'' []"
  "setup_event (main_image_reconciler me cfg mgr apps client) = SetUp ''Image'' (cg_workloads_namespace cfg)"
  "setup_event (main_sync_reconciler me cfg mgr client) = SetUp ''PeriodicSync'' (cg_workloads_namespace cfg)"
  by (simp_all add: main_build_reconciler_def main_image_reconciler_def main_sync_reconciler_def)

lemma keep_log_same: "keep_log f (k, log) = (a, (k', log')) \<Longrightarrow> log' = log"
  by (auto simp: keep_log_def split: prod.splits)

lemma log_call_adds: "log_call e f (k, log) = (a, (k', log')) \<Longrightarrow> log' = log @ [e]"
  by (auto simp: log_call_def split: prod.splits)

lemma logged_manager_calls:
  "me_rest_config (logged_manager me) = keep_log (me_rest_config me)"
  "me_new_manager (logged_manager me) rc opt = keep_log (me_new_manager me rc opt)"
  "me_setup (logged_manager me) mgr r = log_call (setup_event r) (me_setup me mgr r)"
  "me_start (logged_manager me) mgr = log_call Started (me_start me mgr)"
  by (simp_all add: logged_manager_def)

lemma load_ctrl_config_namespace:
  "load_ctrl_config getenv read_file = Inr cfg \<Longrightarrow> cg_workloads_namespace cfg = getenv ''WORKLOADS_NAMESPACE''"
  by (auto simp: load_ctrl_config_def split: sum.splits if_splits)

section \<open>Properties\<close>

text \<open>\<open>LoadConfig\<close> succeeds exactly when the four plain variables are not empty and the secret can be had:
from the file that UAA_CLIENT_SECRET_FILE names, whatever UAA_CLIENT_SECRET is, and from that
variable only when no file is named; the values are taken as they are.\<close>

theorem load_ctrl_config_iff:
  "load_ctrl_config getenv read_file = Inr cfg \<longleftrightarrow>
     cg_cf_api_host cfg = getenv ''CF_API_HOST'' \<and> cg_uaa_endpoint cfg = getenv ''UAA_ENDPOINT'' \<and>
     cg_uaa_client_name cfg = getenv ''UAA_CLIENT_NAME'' \<and>
     cg_workloads_namespace cfg = getenv ''WORKLOADS_NAMESPACE'' \<and>
     [] \<notin> {cg_cf_api_host cfg, cg_uaa_endpoint cfg, cg_uaa_client_name cfg, cg_workloads_namespace cfg} \<and>
     (if getenv ''UAA_CLIENT_SECRET_FILE'' = []
      then cg_uaa_client_secret cfg = getenv ''UAA_CLIENT_SECRET'' \<and> getenv ''UAA_CLIENT_SECRET'' \<noteq> []
      else read_file (getenv ''UAA_CLIENT_SECRET_FILE'') = Inr (cg_uaa_client_secret cfg))"
  by (cases cfg) (auto simp: load_ctrl_config_def fetch_uaa_client_secret_def Let_def split: sum.splits if_splits)

text \<open>C37: The program registers its controllers in the order Build, Image, PeriodicSync, the latter two for the
configured namespace, stops at the first that cannot be registered, starts the manager only after
all three, and exits with 0 only if it did so with a complete configuration.\<close>

theorem main_registers_in_order:
  assumes "controllers_main (logged_manager me) fl getenv read_file (k, log) = (r, (k', log'))"
  shows "\<exists>evs. log' = log @ evs \<and> prefix evs (main_events (getenv ''WORKLOADS_NAMESPACE'')) \<and>
     (r = Returns 0 \<longrightarrow> evs = main_events (getenv ''WORKLOADS_NAMESPACE'')) \<and>
     (evs \<noteq> [] \<longrightarrow> (\<exists>cfg. load_ctrl_config getenv read_file = Inr cfg))"
proof (cases "load_ctrl_config getenv read_file")
  case (Inl e)
  then show ?thesis using assms by (auto simp: controllers_main_def)
next
  case (Inr cfg)
  show ?thesis
    using assms Inr load_ctrl_config_namespace [OF Inr]
    by (auto simp: controllers_main_def logged_manager_calls main_events_def setup_events Let_def
        dest!: keep_log_same log_call_adds split: option.splits sum.splits outcome.splits prod.splits)
qed

text \<open>A manager of a cluster with nothing in it, for the witness; a setup fails for the given kinds.\<close>

definition empty_library :: "('k, go_error + 'a) effect" where
  "empty_library w = (Inl (ErrorText ''not found''), w)"

definition example_manager ::
  "string \<Rightarrow> (string \<times> main_event list, unit, unit, unit, unit, unit, unit, unit, unit, unit, unit) manager_env" where
  "example_manager broken =
     \<lparr>me_rest_config = Pair (Some ()), me_new_manager = (\<lambda>rc opt. Pair (Inr ())),
      me_kube_client = (\<lambda>m. Returns ()), me_keychain_factory = (\<lambda>k. Inr ()),
      me_uaa_new = (\<lambda>e n s v. Inr (Pair (Inr \<lparr>tok_access = ''t''\<rparr>))),
      me_http = (\<lambda>v. \<lparr>he_url_error = (\<lambda>u. None), he_do = (\<lambda>r. empty_library)\<rparr>),
      me_registry = (\<lambda>k. \<lparr>ra_parse_reference = (\<lambda>s. Inr ()), ra_keychain = (\<lambda>a n. Pair (Inr ())),
        ra_image = (\<lambda>r k. empty_library), ra_config_file = (\<lambda>i. Pair (Inr None))\<rparr>),
      me_build_base = (\<lambda>m. \<lparr>be_get = (\<lambda>r. empty_library), be_is_not_found = (\<lambda>e. True),
        be_conditions = example_condition_api, be_fetch_config = (\<lambda>r a n. Pair (Panics NilDeref)),
        be_metadata_label = [], be_unmarshal_metadata = (\<lambda>s. Inr []), be_update_build = (\<lambda>g b. Pair None)\<rparr>),
      me_apps_client = (\<lambda>m. Inr ()),
      me_image_base = (\<lambda>m a. \<lparr>ie_get = (\<lambda>r. empty_library), ie_conditions = example_condition_api,
        ie_label_string = (\<lambda>l. []), ie_namespace = [], ie_list = (\<lambda>n s. empty_library),
        ie_update = (\<lambda>n s. Pair None), ie_update_droplet = (\<lambda>g d. Pair None)\<rparr>),
      me_sync_client = (\<lambda>m. \<lparr>sc_get = (\<lambda>r w. ((\<lparr>ps_name = [], ps_namespace = [], ps_period_seconds = 0,
          ps_conditions = None\<rparr>, Some (ErrorText ''not found'')), w)), sc_label_selector = (\<lambda>l. Inr ()),
        sc_list = (\<lambda>n s. empty_library), sc_update = (\<lambda>r. Pair None), sc_create = (\<lambda>r. Pair None),
        sc_delete = (\<lambda>n s. Pair None), sc_status_update = (\<lambda>p w. ((p, None), w)), sc_is_not_found = (\<lambda>e. True),
        sc_ignore_not_found = (\<lambda>e. None), sc_now = (\<lambda>w. 0)\<rparr>),
      me_setup = (\<lambda>m r. Pair (if setup_event r = SetUp broken ''ns'' then Some (ErrorText ''broken'') else None)),
      me_start = (\<lambda>m. Pair None)\<rparr>"

definition example_getenv :: "string \<Rightarrow> string" where
  "example_getenv v =
     (if v = ''WORKLOADS_NAMESPACE'' then ''ns'' else if v = ''UAA_CLIENT_SECRET_FILE'' then [] else ''x'')"

lemma example_main_run:
  "controllers_main (logged_manager (example_manager broken)) default_flags example_getenv (\<lambda>f. Inr []) (k, []) =
     (if broken = ''Image'' then (Returns 1, (k, [SetUp ''Build'' [], SetUp ''Image'' ''ns'']))
      else if broken = ''PeriodicSync'' then (Returns 1, (k, [SetUp ''Build'' [], SetUp ''Image'' ''ns'', SetUp ''PeriodicSync'' ''ns'']))
      else (Returns 0, (k, main_events ''ns'')))"
  by (simp add: controllers_main_def load_ctrl_config_def fetch_uaa_client_secret_def example_getenv_def
      logged_manager_def example_manager_def keep_log_def log_call_def new_uaa_client_def setup_events Let_def
      main_events_def)

lemma example_main_broken:
  "controllers_main (logged_manager (example_manager ''Image'')) default_flags example_getenv (\<lambda>f. Inr []) ([], []) =
     (Returns 1, ([], [SetUp ''Build'' [], SetUp ''Image'' ''ns'']))"
  by (simp add: example_main_run)

theorem main_registers_in_order_witness:
  "\<exists>cfg. load_ctrl_config example_getenv (\<lambda>f. Inr []) = Inr cfg \<and>
     prefix [SetUp ''Build'' [], SetUp ''Image'' ''ns''] (main_events (example_getenv ''WORKLOADS_NAMESPACE''))"
  using main_registers_in_order [OF example_main_broken] by auto

end
