(* ===== verification/Watches.thy ===== *)
theory Watches
  imports ControllersMain
begin

text \<open>
  The types the manager knows and what each controller watches: the \<open>init\<close> functions of
  \<open>main.go\<close> and of the PeriodicSync types, \<open>groupversion_info.go\<close>, and the three
  \<open>SetupWithManager\<close>. Schemes and their builders are the API machinery's: what \<open>AddToScheme\<close> of a
  library or of a builder does to a scheme is a parameter.
\<close>

section \<open>The scheme\<close>

record group_version =
  gv_group :: string
  gv_version :: string

record scheme_builder =
  sb_group_version :: group_version
  sb_types :: "string list"

definition apps_group_version :: group_version where
  "apps_group_version = \<lparr>gv_group = ''apps.cloudfoundry.org'', gv_version = ''v1alpha1''\<rparr>"

definition apps_scheme_builder :: scheme_builder where
  "apps_scheme_builder = \<lparr>sb_group_version = apps_group_version, sb_types = []\<rparr>"

text \<open>\<open>Register\<close> adds the types of its arguments, which are given by name.\<close>

definition register_types :: "string list \<Rightarrow> scheme_builder \<Rightarrow> scheme_builder" where
  "register_types ts b = b\<lparr>sb_types := sb_types b @ ts\<rparr>"

text \<open>\<open>init\<close> of the types, which runs before that of \<open>main\<close>.\<close>

definition periodic_sync_init :: "scheme_builder \<Rightarrow> scheme_builder" where
  "periodic_sync_init = register_types [''PeriodicSync'', ''PeriodicSyncList'']"

record 's scheme_libs =
  sl_client_go :: "('s, go_error option) effect"
  sl_networking :: "('s, go_error option) effect"
  sl_kpack :: "('s, go_error option) effect"
  sl_builder :: "scheme_builder \<Rightarrow> ('s, go_error option) effect"

definition apps_add_to_scheme :: "'s scheme_libs \<Rightarrow> ('s, go_error option) effect" where
  "apps_add_to_scheme libs = sl_builder libs (periodic_sync_init apps_scheme_builder)"

text \<open>\<open>init\<close> of \<open>main\<close>: the errors are dropped.\<close>

definition main_init :: "'s scheme_libs \<Rightarrow> 's \<Rightarrow> 's" where
  "main_init libs s =
     (let (e1, s1) = sl_client_go libs s;
          (e2, s2) = sl_networking libs s1;
          (e3, s3) = apps_add_to_scheme libs s2;
          (e4, s4) = sl_kpack libs s3
      in s4)"

section \<open>The watches\<close>

text \<open>The type given to \<open>For\<close>, by its Go name, and the predicate over events, all without one.\<close>

record 'o watch =
  wt_type :: string
  wt_filter :: "'o watch_event \<Rightarrow> bool"

definition build_watch :: "condition_api \<Rightarrow> kpack_build watch" where
  "build_watch ca = \<lparr>wt_type = ''Build'', wt_filter = build_event_filter ca\<rparr>"

definition image_watch :: "condition_api \<Rightarrow> kpack_image watch" where
  "image_watch ca = \<lparr>wt_type = ''Image'', wt_filter = image_event_filter ca\<rparr>"

definition sync_watch :: "periodic_sync watch" where
  "sync_watch = \<lparr>wt_type = ''PeriodicSync'', wt_filter = (\<lambda>e. True)\<rparr>"

section \<open>What the manager can watch\<close>

text \<open>
  A library adds its types to what a scheme knows and forgets none; \<open>known\<close> is the set of type
  names of a scheme.
\<close>

locale scheme_laws =
  fixes libs :: "'s scheme_libs" and known :: "'s \<Rightarrow> string set"
  assumes client_go_adds: "known s \<subseteq> known (snd (sl_client_go libs s))"
    and networking_adds: "known s \<union> {''Route'', ''RouteList''} \<subseteq> known (snd (sl_networking libs s))"
    and kpack_adds: "known s \<union> {''Build'', ''Image''} \<subseteq> known (snd (sl_kpack libs s))"
    and builder_adds: "known s \<union> set (sb_types b) \<subseteq> known (snd (sl_builder libs b s))"
begin

text \<open>Every type a controller watches, lists or writes is known when \<open>main\<close> begins.\<close>

lemma main_init_knows:
  "known s \<union> {wt_type (build_watch ca), wt_type (image_watch ca), wt_type sync_watch, ''Route'', ''RouteList''}
     \<subseteq> known (main_init libs s)"
  using client_go_adds [of s] networking_adds [of "snd (sl_client_go libs s)"]
    builder_adds [of "snd (sl_networking libs (snd (sl_client_go libs s)))" "periodic_sync_init apps_scheme_builder"]
    kpack_adds [of "snd (apps_add_to_scheme libs (snd (sl_networking libs (snd (sl_client_go libs s)))))"]
  by (auto simp: main_init_def apps_add_to_scheme_def Let_def split_beta build_watch_def image_watch_def sync_watch_def
      periodic_sync_init_def register_types_def apps_scheme_builder_def)

end

text \<open>Schemes as lists of type names, with the libraries' parts as the repository uses them.\<close>

definition list_libs :: "string list scheme_libs" where
  "list_libs =
     \<lparr>sl_client_go = (\<lambda>s. (None, ''StatefulSet'' # s)), sl_networking = (\<lambda>s. (None, [''Route'', ''RouteList''] @ s)),
      sl_kpack = (\<lambda>s. (None, [''Build'', ''Image''] @ s)), sl_builder = (\<lambda>b s. (None, sb_types b @ s))\<rparr>"

interpretation list_scheme: scheme_laws list_libs set
  by unfold_locales (auto simp: list_libs_def)

section \<open>Which events lead to a reconciliation\<close>

text \<open>
  The kpack controllers react to nothing but a create or update whose new object is of the watched
  type and carries the label of a CF resource; PeriodicSync reacts to everything.
\<close>

lemma build_watch_needs_guid:
  "wt_filter (build_watch ca) e \<Longrightarrow>
     \<exists>b. (e = CreateEvent (Watched b) \<or> (\<exists>old. e = UpdateEvent old (Watched b))) \<and> kb_labels b build_guid_label \<noteq> None"
  by (cases e) (auto simp: build_watch_def build_event_filter_def build_filter_def split: runtime_object.splits if_splits)

lemma image_watch_needs_guid:
  "wt_filter (image_watch ca) e \<Longrightarrow>
     \<exists>i. (e = CreateEvent (Watched i) \<or> (\<exists>old. e = UpdateEvent old (Watched i))) \<and> ki_labels i app_guid_label \<noteq> None"
  by (cases e) (auto simp: image_watch_def image_event_filter_def image_filter_def split: runtime_object.splits if_splits)

end
