(* ===== verification/DeepCopy.thy ===== *)
theory DeepCopy
  imports PeriodicSyncController
begin

text \<open>
  \<open>zz_generated.deepcopy.go\<close>: the deep copies of the PeriodicSync types, which the cache of the
  manager hands out so that a reconciler may write into the object it got. Slices refer to arrays
  in a store; the copies of the Kubernetes metadata are parameters. A pointer to a struct is the
  struct or nil: the code makes a new struct for each copy.
\<close>

section \<open>Objects with shared arrays\<close>

record 'm sync_object =
  so_type_meta :: string
  so_object_meta :: 'm
  so_period_seconds :: "32 word"
  so_conditions :: "nat option"

record 'm sync_object_list =
  sl_type_meta :: string
  sl_list_meta :: 'm
  sl_items :: "nat option"

text \<open>The arrays behind slices, by address; addresses from \<open>ar_next\<close> on are free.\<close>

record 'm arrays =
  ar_conditions :: "nat \<Rightarrow> condition list"
  ar_items :: "nat \<Rightarrow> 'm sync_object list"
  ar_next :: nat

type_synonym ('m, 'a) copying = "('m arrays, 'a) effect"

section \<open>The copies\<close>

text \<open>A condition holds strings and a time only: \<open>*out = *in\<close> copies all of it.\<close>

definition copy_condition :: "condition \<Rightarrow> condition" where
  "copy_condition c = c"

definition copy_status :: "nat option \<Rightarrow> ('m, nat option) copying" where
  "copy_status conditions h =
     (case conditions of
        None \<Rightarrow> (None, h)
      | Some a \<Rightarrow>
          (Some (ar_next h),
           h\<lparr>ar_conditions := (ar_conditions h)(ar_next h := map copy_condition (ar_conditions h a)),
             ar_next := ar_next h + 1\<rparr>))"

definition copy_spec :: "32 word \<Rightarrow> 32 word" where
  "copy_spec period_seconds = period_seconds"

definition copy_sync_into :: "('m \<Rightarrow> 'm) \<Rightarrow> 'm sync_object \<Rightarrow> ('m, 'm sync_object) copying" where
  "copy_sync_into copy_meta x h =
     (let (conditions, h') = copy_status (so_conditions x) h
      in (\<lparr>so_type_meta = so_type_meta x, so_object_meta = copy_meta (so_object_meta x),
           so_period_seconds = copy_spec (so_period_seconds x), so_conditions = conditions\<rparr>, h'))"

text \<open>The loop over the items; the array of the copies is filled as it goes.\<close>

fun copy_items :: "('m \<Rightarrow> 'm) \<Rightarrow> 'm sync_object list \<Rightarrow> ('m, 'm sync_object list) copying" where
  "copy_items copy_meta [] h = ([], h)"
| "copy_items copy_meta (x # xs) h =
     (let (y, h1) = copy_sync_into copy_meta x h;
          (ys, h2) = copy_items copy_meta xs h1
      in (y # ys, h2))"

definition copy_list_into :: "('m \<Rightarrow> 'm) \<Rightarrow> 'm sync_object_list \<Rightarrow> ('m, 'm sync_object_list) copying" where
  "copy_list_into copy_meta l h =
     (case sl_items l of
        None \<Rightarrow> (l\<lparr>sl_list_meta := copy_meta (sl_list_meta l)\<rparr>, h)
      | Some a \<Rightarrow>
          (let b = ar_next h;
               (ys, h1) = copy_items copy_meta (ar_items h a) (h\<lparr>ar_next := b + 1\<rparr>)
           in (l\<lparr>sl_list_meta := copy_meta (sl_list_meta l), sl_items := Some b\<rparr>,
               h1\<lparr>ar_items := (ar_items h1)(b := ys)\<rparr>)))"

text \<open>\<open>DeepCopy\<close> of each type gives nil for nil; \<open>DeepCopyObject\<close> turns that into a nil interface.\<close>

definition deep_copy :: "('a \<Rightarrow> ('m, 'a) copying) \<Rightarrow> 'a option \<Rightarrow> ('m, 'a option) copying" where
  "deep_copy copy_into x h =
     (case x of None \<Rightarrow> (None, h) | Some v \<Rightarrow> (let (v', h') = copy_into v h in (Some v', h')))"

definition deep_copy_object :: "('a \<Rightarrow> ('m, 'a) copying) \<Rightarrow> 'a option \<Rightarrow> ('m, 'a option) copying" where
  "deep_copy_object copy_into x h =
     (case deep_copy copy_into x h of (Some c, h') \<Rightarrow> (Some c, h') | (None, h') \<Rightarrow> (None, h'))"

definition condition_deep_copy :: "condition option \<Rightarrow> ('m, condition option) copying" where
  "condition_deep_copy = deep_copy (\<lambda>c h. (copy_condition c, h))"

definition spec_deep_copy :: "32 word option \<Rightarrow> ('m, 32 word option) copying" where
  "spec_deep_copy = deep_copy (\<lambda>s h. (copy_spec s, h))"

definition status_deep_copy :: "nat option option \<Rightarrow> ('m, nat option option) copying" where
  "status_deep_copy = deep_copy copy_status"

definition sync_deep_copy :: "('m \<Rightarrow> 'm) \<Rightarrow> 'm sync_object option \<Rightarrow> ('m, 'm sync_object option) copying" where
  "sync_deep_copy copy_meta = deep_copy (copy_sync_into copy_meta)"

definition sync_deep_copy_object :: "('m \<Rightarrow> 'm) \<Rightarrow> 'm sync_object option \<Rightarrow> ('m, 'm sync_object option) copying" where
  "sync_deep_copy_object copy_meta = deep_copy_object (copy_sync_into copy_meta)"

definition list_deep_copy ::
  "('m \<Rightarrow> 'm) \<Rightarrow> 'm sync_object_list option \<Rightarrow> ('m, 'm sync_object_list option) copying" where
  "list_deep_copy copy_meta = deep_copy (copy_list_into copy_meta)"

definition list_deep_copy_object ::
  "('m \<Rightarrow> 'm) \<Rightarrow> 'm sync_object_list option \<Rightarrow> ('m, 'm sync_object_list option) copying" where
  "list_deep_copy_object copy_meta = deep_copy_object (copy_list_into copy_meta)"

section \<open>What an object says\<close>

text \<open>The object as \<open>PeriodicSyncController\<close> has it, with its slice read out.\<close>

definition object_value :: "'m arrays \<Rightarrow> 'm sync_object \<Rightarrow> string \<times> 'm \<times> 32 word \<times> condition list option" where
  "object_value h x =
     (so_type_meta x, so_object_meta x, so_period_seconds x, map_option (ar_conditions h) (so_conditions x))"

definition list_value where
  "list_value h l =
     (sl_type_meta l, sl_list_meta l, map_option (\<lambda>a. map (object_value h) (ar_items h a)) (sl_items l))"

definition object_ok :: "'m arrays \<Rightarrow> 'm sync_object \<Rightarrow> bool" where
  "object_ok h x \<longleftrightarrow> (\<forall>a \<in> set_option (so_conditions x). a < ar_next h)"

definition list_ok :: "'m arrays \<Rightarrow> 'm sync_object_list \<Rightarrow> bool" where
  "list_ok h l \<longleftrightarrow> (\<forall>a \<in> set_option (sl_items l). a < ar_next h \<and> list_all (object_ok h) (ar_items h a))"

text \<open>One store extends another: what was there is unchanged.\<close>

definition extends :: "'m arrays \<Rightarrow> 'm arrays \<Rightarrow> bool" where
  "extends h h' \<longleftrightarrow> ar_next h \<le> ar_next h' \<and>
     (\<forall>a < ar_next h. ar_conditions h' a = ar_conditions h a \<and> ar_items h' a = ar_items h a)"

lemma extends_refl [simp]: "extends h h"
  by (simp add: extends_def)

lemma extends_trans [trans]: "extends a b \<Longrightarrow> extends b c \<Longrightarrow> extends a c"
  by (auto simp: extends_def)

lemma object_value_extends: "extends h h' \<Longrightarrow> object_ok h x \<Longrightarrow> object_value h' x = object_value h x"
  by (cases "so_conditions x") (auto simp: object_value_def object_ok_def extends_def)

lemma object_ok_extends: "extends h h' \<Longrightarrow> object_ok h x \<Longrightarrow> object_ok h' x"
  by (fastforce simp: object_ok_def extends_def)

lemma map_copy_condition [simp]: "map copy_condition cs = cs"
  by (simp add: copy_condition_def map_idI)

text \<open>The arrays of an object that were made since a store.\<close>

definition object_fresh :: "'m arrays \<Rightarrow> 'm sync_object \<Rightarrow> bool" where
  "object_fresh h x \<longleftrightarrow> (\<forall>a \<in> set_option (so_conditions x). ar_next h \<le> a)"

lemma copy_sync_spec:
  assumes "copy_sync_into cm x h = (y, h')" and "object_ok h x" and "\<forall>m. cm m = m"
  shows "extends h h' \<and> object_ok h' y \<and> object_fresh h y \<and> object_value h' y = object_value h x"
  using assms
  by (cases "so_conditions x")
    (auto simp: copy_sync_into_def copy_status_def copy_spec_def Let_def extends_def
      object_ok_def object_fresh_def object_value_def)

lemma object_fresh_extends: "extends h h' \<Longrightarrow> object_fresh h' x \<Longrightarrow> object_fresh h x"
  by (fastforce simp: object_fresh_def extends_def)

lemma copy_items_spec:
  assumes "copy_items cm xs h = (ys, h')" and "list_all (object_ok h) xs" and "\<forall>m. cm m = m"
  shows "extends h h' \<and> list_all (object_ok h') ys \<and> list_all (object_fresh h) ys \<and>
     map (object_value h') ys = map (object_value h) xs"
  using assms
proof (induction xs arbitrary: ys h h')
  case Nil
  then show ?case by simp
next
  case (Cons x xs)
  obtain y h1 where y: "copy_sync_into cm x h = (y, h1)" by (metis prod.exhaust)
  obtain zs h2 where zs: "copy_items cm xs h1 = (zs, h2)" by (metis prod.exhaust)
  have r: "ys = y # zs" "h' = h2" using Cons.prems(1) y zs by auto
  have 1: "extends h h1" "object_ok h1 y" "object_fresh h y" "object_value h1 y = object_value h x"
    using copy_sync_spec [OF y] Cons.prems by auto
  have ok: "list_all (object_ok h1) xs"
    using Cons.prems(2) object_ok_extends [OF 1(1)] by (auto simp: list_all_iff)
  have 2: "extends h1 h2" "list_all (object_ok h2) zs" "list_all (object_fresh h1) zs"
      "map (object_value h2) zs = map (object_value h1) xs"
    using Cons.IH [OF zs ok Cons.prems(3)] by auto
  have "map (object_value h1) xs = map (object_value h) xs"
    using Cons.prems(2) object_value_extends [OF 1(1)] by (auto simp: list_all_iff)
  then show ?case
    using r 1 2 extends_trans [OF 1(1) 2(1)] object_value_extends [OF 2(1) 1(2)]
      object_ok_extends [OF 2(1) 1(2)] object_fresh_extends [OF 1(1)]
    by (auto simp: list_all_iff)
qed

text \<open>The arrays of a list are its items' one and those of the items.\<close>

definition list_fresh :: "'m arrays \<Rightarrow> 'm arrays \<Rightarrow> 'm sync_object_list \<Rightarrow> bool" where
  "list_fresh h h' l \<longleftrightarrow>
     (\<forall>a \<in> set_option (sl_items l). ar_next h \<le> a \<and> list_all (object_fresh h) (ar_items h' a))"

lemma object_value_write:
  assumes "object_ok h x" and "\<forall>a < ar_next h. ar_conditions h' a = ar_conditions h a"
  shows "object_value h' x = object_value h x"
  using assms by (cases "so_conditions x") (auto simp: object_ok_def object_value_def)

lemma list_value_write:
  assumes "list_ok h l" and "\<forall>a < ar_next h. ar_conditions h' a = ar_conditions h a \<and> ar_items h' a = ar_items h a"
  shows "list_value h' l = list_value h l"
proof (cases "sl_items l")
  case (Some a)
  have "map (object_value h') (ar_items h a) = map (object_value h) (ar_items h a)"
    using assms Some object_value_write [of h _ h'] by (auto simp: list_ok_def list_all_iff)
  then show ?thesis using assms Some by (simp add: list_value_def list_ok_def)
qed (simp add: list_value_def)

section \<open>Properties\<close>

text \<open>C38: A deep copy of a list of PeriodicSync resources says the same as the original and shares no array with
it: every array it refers to, at either level, is new, and whatever is later written into the new
arrays the original says what it said.\<close>

theorem deep_copy_separate:
  assumes "list_deep_copy cm (Some l) h = (Some l', h')" and "list_ok h l" and "\<forall>m. cm m = m"
  shows "list_value h' l' = list_value h l \<and> list_fresh h h' l' \<and>
     (\<forall>h''. (\<forall>a < ar_next h. ar_conditions h'' a = ar_conditions h' a \<and> ar_items h'' a = ar_items h' a) \<longrightarrow>
        list_value h'' l = list_value h l)"
proof (cases "sl_items l")
  case None
  then have "l' = l" "h' = h"
    using assms(1,3) by (auto simp: list_deep_copy_def deep_copy_def copy_list_into_def)
  then show ?thesis using None by (simp add: list_fresh_def list_value_def)
next
  case (Some a)
  let ?h0 = "h\<lparr>ar_next := ar_next h + 1\<rparr>"
  obtain ys h1 where c: "copy_items cm (ar_items h a) ?h0 = (ys, h1)" by (metis prod.exhaust)
  have r: "l' = l\<lparr>sl_items := Some (ar_next h)\<rparr>" "h' = h1\<lparr>ar_items := (ar_items h1)(ar_next h := ys)\<rparr>"
    using assms(1,3) Some c by (auto simp: list_deep_copy_def deep_copy_def copy_list_into_def Let_def)
  have a: "a < ar_next h" "list_all (object_ok h) (ar_items h a)"
    using assms(2) Some by (auto simp: list_ok_def)
  have ok0: "list_all (object_ok ?h0) (ar_items h a)"
    using a(2) by (force simp: list_all_iff object_ok_def)
  have s: "extends ?h0 h1" "list_all (object_fresh ?h0) ys"
      "map (object_value h1) ys = map (object_value ?h0) (ar_items h a)"
    using copy_items_spec [OF c ok0 assms(3)] by auto
  have val: "object_value h' x = object_value h1 x"  for x
    by (simp_all add: object_value_def r)
  have fresh: "list_all (object_fresh h) ys"
    using s(2) by (fastforce simp: list_all_iff object_fresh_def)
  have old: "\<forall>b < ar_next h. ar_conditions h' b = ar_conditions h b \<and> ar_items h' b = ar_items h b"
    using s(1) by (auto simp: r extends_def)
  have "map (object_value h') ys = map (object_value h1) ys"
    by (rule map_cong) (simp_all add: val(1))
  also have "\<dots> = map (object_value ?h0) (ar_items h a)"
    by (rule s(3))
  also have "\<dots> = map (object_value h) (ar_items h a)"
    by (rule map_cong) (simp_all add: object_value_def)
  finally have "map (object_value h') ys = map (object_value h) (ar_items h a)" .
  then have "list_value h' l' = list_value h l"
    using Some by (simp add: list_value_def r)
  moreover have "list_fresh h h' l'"
    using fresh by (simp add: list_fresh_def r)
  moreover have "list_value h'' l = list_value h l"
    if "\<forall>a < ar_next h. ar_conditions h'' a = ar_conditions h' a \<and> ar_items h'' a = ar_items h' a" for h''
    by (rule list_value_write [OF assms(2)]) (use that old in auto)
  ultimately show ?thesis by blast
qed

definition example_object :: "nat option \<Rightarrow> string sync_object" where
  "example_object conditions =
     \<lparr>so_type_meta = ''PeriodicSync'', so_object_meta = ''m'', so_period_seconds = 15, so_conditions = conditions\<rparr>"

definition example_arrays :: "string arrays" where
  "example_arrays =
     \<lparr>ar_conditions = (\<lambda>a. [\<lparr>cond_type = ''Synced'', cond_status = ''True'', cond_last_transition = 0,
        cond_reason = [], cond_message = []\<rparr>]),
      ar_items = (\<lambda>a. [example_object (Some 0), example_object None]), ar_next = 2\<rparr>"

definition example_sync_list :: "string sync_object_list" where
  "example_sync_list = \<lparr>sl_type_meta = ''PeriodicSyncList'', sl_list_meta = ''1'', sl_items = Some 1\<rparr>"

theorem deep_copy_separate_witness:
  "list_fresh example_arrays (snd (list_deep_copy (\<lambda>m. m) (Some example_sync_list) example_arrays))
     (example_sync_list\<lparr>sl_items := Some 2\<rparr>)"
proof -
  obtain h' where r: "list_deep_copy (\<lambda>m. m) (Some example_sync_list) example_arrays =
      (Some (example_sync_list\<lparr>sl_items := Some 2\<rparr>), h')"
    by (simp add: list_deep_copy_def deep_copy_def copy_list_into_def copy_sync_into_def copy_status_def example_sync_list_def
        example_arrays_def example_object_def Let_def)
  have "list_ok example_arrays example_sync_list"
    by (simp add: list_ok_def example_arrays_def example_sync_list_def object_ok_def example_object_def)
  then show ?thesis
    using deep_copy_separate [OF r] unfolding r by simp
qed

text \<open>Copies of nil are nil, also as an object of the interface.\<close>

lemma deep_copy_nil: "deep_copy c None h = (None, h)" "deep_copy_object c None h = (None, h)"
  by (simp_all add: deep_copy_def deep_copy_object_def)

end
