(* ===== verification/DockerhubClient.thy ===== *)
theory DockerhubClient
  imports GoHttp GoJsonFacts
begin

text \<open>
  \<open>dockerhub/client.go\<close>: logging in to Docker Hub and deleting a repository. A body that cannot
  be read in full is a transport error here: the model's responses are complete.
\<close>

record hub_client =
  hub_domain :: string

definition default_domain :: string where
  "default_domain = ''https://hub.docker.com''"

definition new_hub_client :: "string \<Rightarrow> hub_client" where
  "new_hub_client dmn = \<lparr>hub_domain = (if dmn = [] then default_domain else dmn)\<rparr>"

definition authorization_request_json :: "string \<Rightarrow> string \<Rightarrow> json" where
  "authorization_request_json username password =
     JObj [(''username'', JStr username), (''password'', JStr password)]"

text \<open>\<open>authorizationResponseBody\<close>: the token, empty when the answer has none.\<close>

definition dec_authorization_response :: "json \<Rightarrow> string option" where
  "dec_authorization_response j =
     dec_struct (\<lambda>k v s. if eq_fold k ''token'' then dec_string v s else Some s) j []"

definition status_text :: "string \<Rightarrow> http_response \<Rightarrow> string" where
  "status_text what res = what @ '' (status '' @ go_itoa (rs_status res) @ ''): '' @ rs_body res"

definition get_authorization_token ::
  "'w http_env \<Rightarrow> hub_client \<Rightarrow> string \<Rightarrow> string \<Rightarrow> ('w, go_error + string) effect" where
  "get_authorization_token env c username password w =
     (case new_request env ''POST'' (hub_domain c @ ''/v2/users/login/'')
             (json_text (authorization_request_json username password)) of
        Inl e \<Rightarrow> (Inl (WrappedError ''error building authorization request: '' e []), w)
      | Inr req \<Rightarrow>
          (case he_do env (header_add ''Content-Type'' ''application/json'' req) w of
             (Inl e, w') \<Rightarrow> (Inl (WrappedError ''error during authorization request: '' e []), w')
           | (Inr res, w') \<Rightarrow>
               if rs_status res = 401 then (Inl (ErrorText (status_text ''unauthorized request'' res)), w')
               else if rs_status res \<noteq> 200 then (Inl (ErrorText (status_text ''unexpected response'' res)), w')
               else (case Option.bind (json_unmarshal (rs_body res)) dec_authorization_response of
                       None \<Rightarrow>
                         (Inl (WrappedError ''error decoding authorization response: error '' json_error
                                 ('', body '' @ go_quote (rs_body res))), w')
                     | Some token \<Rightarrow> (Inr token, w'))))"

definition delete_repo ::
  "'w http_env \<Rightarrow> hub_client \<Rightarrow> string \<Rightarrow> string \<Rightarrow> ('w, go_error option) effect" where
  "delete_repo env c repo_name token w =
     (case new_request env ''DELETE'' (hub_domain c @ ''/v2/repositories/'' @ repo_name @ ''/'') [] of
        Inl e \<Rightarrow> (Some (WrappedError ''error building delete repository request: '' e []), w)
      | Inr req \<Rightarrow>
          (case he_do env (header_add ''Authorization'' (''JWT '' @ token) req) w of
             (Inl e, w') \<Rightarrow> (Some (WrappedError ''error during delete repository request: '' e []), w')
           | (Inr res, w') \<Rightarrow>
               (if rs_status res = 202 then None
                else if rs_status res = 404 then Some (HubNotFound (ErrorText (status_text ''not found'' res)))
                else if rs_status res = 401 then Some (ErrorText (status_text ''unauthorized request'' res))
                else Some (ErrorText (status_text ''unexpected response'' res)), w')))"

lemma delete_repo_outcome:
  assumes "delete_repo env c repo token w = (e, w')"
  shows "e = None \<Longrightarrow> \<exists>req res. he_do env req w = (Inr res, w') \<and> rs_status res = 202"
    and "e = Some (HubNotFound x) \<Longrightarrow> \<exists>req res. he_do env req w = (Inr res, w') \<and> rs_status res = 404"
  using assms by (auto simp: delete_repo_def split: sum.splits prod.splits if_splits)

end
