(* ===== verification/RegistryServer.thy ===== *)
theory RegistryServer
  imports GoHttp
begin

text \<open>
  registry-buddy's configuration (\<open>config/config.go\<close>) and its server (\<open>main.go\<close>): the routes it
  serves and the order of listening, signal, shutdown and exit.
\<close>

section \<open>Configuration\<close>

record registry_config =
  rc_base_path :: string
  rc_username :: string
  rc_password :: string
  rc_port :: int

text \<open>\<open>Load\<close>, over the environment as \<open>os.LookupEnv\<close> sees it.\<close>

definition config_load :: "(string \<rightharpoonup> string) \<Rightarrow> go_error + registry_config" where
  "config_load env =
     (case env ''REGISTRY_BASE_PATH'' of
        None \<Rightarrow> Inl (ErrorText ''REGISTRY_BASE_PATH not configured'')
      | Some base \<Rightarrow>
     (case env ''REGISTRY_USERNAME'' of
        None \<Rightarrow> Inl (ErrorText ''REGISTRY_USERNAME not configured'')
      | Some user \<Rightarrow>
     (case env ''REGISTRY_PASSWORD'' of
        None \<Rightarrow> Inl (ErrorText ''REGISTRY_PASSWORD not configured'')
      | Some pass \<Rightarrow>
     (case go_atoi (case env ''PORT'' of None \<Rightarrow> ''8080'' | Some p \<Rightarrow> p) of
        None \<Rightarrow> Inl (ErrorText ''PORT must be an integer'')
      | Some port \<Rightarrow>
          Inr \<lparr>rc_base_path = base, rc_username = user, rc_password = pass, rc_port = port\<rparr>))))"

section \<open>The server\<close>

text \<open>
  \<open>newServer\<close>: the address, the three routes and the timeouts in seconds. The router of
  \<open>gorilla/mux\<close> and the type of handlers are parameters.
\<close>

record auth_config =
  au_username :: string
  au_password :: string

record 'h registry_server =
  rv_addr :: string
  rv_routes :: "(string \<times> string \<times> 'h) list"
  rv_read_header_timeout :: nat
  rv_write_timeout :: nat
  rv_idle_timeout :: nat

definition new_server ::
  "(auth_config \<Rightarrow> 'h) \<Rightarrow> (auth_config \<Rightarrow> 'h) \<Rightarrow> (string \<Rightarrow> auth_config \<Rightarrow> 'h) \<Rightarrow> registry_config \<Rightarrow> 'h registry_server" where
  "new_server post_package delete_image health cfg =
     (let auth = \<lparr>au_username = rc_username cfg, au_password = rc_password cfg\<rparr>
      in \<lparr>rv_addr = ''127.0.0.1:'' @ go_itoa (rc_port cfg),
          rv_routes =
            [(''/packages'', ''POST'', post_package auth),
             (''/images'', ''DELETE'', delete_image auth),
             (''/healthz'', ''GET'', health (rc_base_path cfg) auth)],
          rv_read_header_timeout = 5, rv_write_timeout = 60, rv_idle_timeout = 15\<rparr>)"

section \<open>Start and shutdown\<close>

text \<open>
  The two goroutines of \<open>main\<close>: the main one, which serves until \<open>ListenAndServe\<close> returns and
  then waits on \<open>done\<close>, and the shutdown one, which waits for a signal. \<open>Shutdown\<close> closes the
  listener before it waits for the open requests, so \<open>ListenAndServe\<close> can return
  \<open>ErrServerClosed\<close> from then on (\<open>closed\<close>); \<open>logger.Fatalf\<close> ends the process with code 1. The
  open requests are a number; the 25 seconds of the context may end at any time.
\<close>

datatype main_pc = Unconfigured | Serving | Waiting | Exited nat

datatype shutdown_pc = NotStarted | AwaitSignal | Draining | Finished

text \<open>The phases of the shutdown in their order.\<close>

fun shutdown_rank :: "shutdown_pc \<Rightarrow> nat" where
  "shutdown_rank NotStarted = 0"
| "shutdown_rank AwaitSignal = 1"
| "shutdown_rank Draining = 2"
| "shutdown_rank Finished = 3"

lemma shutdown_rank_inj: "shutdown_rank a = shutdown_rank b \<longleftrightarrow> a = b"
  by (cases a; cases b) simp_all

instantiation shutdown_pc :: linorder
begin

definition less_eq_shutdown_pc :: "shutdown_pc \<Rightarrow> shutdown_pc \<Rightarrow> bool" where
  "less_eq_shutdown_pc a b \<longleftrightarrow> shutdown_rank a \<le> shutdown_rank b"

definition less_shutdown_pc :: "shutdown_pc \<Rightarrow> shutdown_pc \<Rightarrow> bool" where
  "less_shutdown_pc a b \<longleftrightarrow> shutdown_rank a < shutdown_rank b"

instance
  by intro_classes (auto simp: less_eq_shutdown_pc_def less_shutdown_pc_def shutdown_rank_inj)

end

record server_state =
  st_main :: main_pc
  st_shutdown :: shutdown_pc
  st_signalled :: bool
  st_listening :: bool
  st_requests :: nat
  st_done_closed :: bool

definition initial_server :: server_state where
  "initial_server =
     \<lparr>st_main = Unconfigured, st_shutdown = NotStarted, st_signalled = False, st_listening = False,
      st_requests = 0, st_done_closed = False\<rparr>"

definition running :: "server_state \<Rightarrow> bool" where
  "running s = (case st_main s of Exited _ \<Rightarrow> False | _ \<Rightarrow> True)"

text \<open>
  \<open>Shutdown\<close> closes the listener and waits for the open requests; on a connection accepted before, a
  request may still begin meanwhile.
\<close>

inductive server_step :: "server_state \<Rightarrow> server_state \<Rightarrow> bool" where
  bad_config: "st_main s = Unconfigured \<Longrightarrow> server_step s (s\<lparr>st_main := Exited 1\<rparr>)"
| start: "st_main s = Unconfigured \<Longrightarrow>
    server_step s (s\<lparr>st_main := Serving, st_shutdown := AwaitSignal, st_listening := True\<rparr>)"
| listen_fails: "st_main s = Serving \<Longrightarrow> st_listening s \<Longrightarrow> server_step s (s\<lparr>st_main := Exited 1\<rparr>)"
| request_begins: "st_main s = Serving \<Longrightarrow> st_listening s \<Longrightarrow>
    server_step s (s\<lparr>st_requests := Suc (st_requests s)\<rparr>)"
| request_begins_late: "running s \<Longrightarrow> st_shutdown s = Draining \<Longrightarrow>
    server_step s (s\<lparr>st_requests := Suc (st_requests s)\<rparr>)"
| request_ends: "running s \<Longrightarrow> st_requests s = Suc n \<Longrightarrow> server_step s (s\<lparr>st_requests := n\<rparr>)"
| signal: "running s \<Longrightarrow> st_main s \<noteq> Unconfigured \<Longrightarrow> server_step s (s\<lparr>st_signalled := True\<rparr>)"
| drain: "running s \<Longrightarrow> st_shutdown s = AwaitSignal \<Longrightarrow> st_signalled s \<Longrightarrow>
    server_step s (s\<lparr>st_shutdown := Draining, st_listening := False\<rparr>)"
| listen_closed: "st_main s = Serving \<Longrightarrow> \<not> st_listening s \<Longrightarrow> server_step s (s\<lparr>st_main := Waiting\<rparr>)"
| drained: "running s \<Longrightarrow> st_shutdown s = Draining \<Longrightarrow> st_requests s = 0 \<Longrightarrow>
    server_step s (s\<lparr>st_shutdown := Finished, st_done_closed := True\<rparr>)"
| drain_timeout: "running s \<Longrightarrow> st_shutdown s = Draining \<Longrightarrow> server_step s (s\<lparr>st_main := Exited 1\<rparr>)"
| stopped: "st_main s = Waiting \<Longrightarrow> st_done_closed s \<Longrightarrow> server_step s (s\<lparr>st_main := Exited 0\<rparr>)"

inductive_cases server_step_cases: "server_step s t"

inductive server_reachable :: "server_state \<Rightarrow> bool" where
  init: "server_reachable initial_server"
| step: "server_reachable s \<Longrightarrow> server_step s t \<Longrightarrow> server_reachable t"

text \<open>What holds in every reachable state.\<close>

definition server_inv :: "server_state \<Rightarrow> bool" where
  "server_inv s \<longleftrightarrow>
     (st_listening s \<longrightarrow> st_shutdown s = AwaitSignal) \<and>
     (st_done_closed s \<longleftrightarrow> st_shutdown s = Finished) \<and>
     (st_done_closed s \<longrightarrow> st_requests s = 0 \<and> st_signalled s) \<and>
     (st_shutdown s = Draining \<longrightarrow> st_signalled s) \<and>
     (st_main s = Waiting \<longrightarrow> st_shutdown s = Draining \<or> st_shutdown s = Finished) \<and>
     (st_main s = Serving \<longrightarrow> st_shutdown s \<noteq> NotStarted \<and> (st_shutdown s = AwaitSignal \<longrightarrow> st_listening s)) \<and>
     (st_main s = Unconfigured \<longrightarrow> st_shutdown s = NotStarted \<and> \<not> st_done_closed s) \<and>
     (st_main s = Exited 0 \<longrightarrow> st_done_closed s)"

lemma server_inv_init: "server_inv initial_server"
  by (simp add: server_inv_def initial_server_def)

lemma server_inv_step:
  assumes "server_step s t" and "server_inv s"
  shows "server_inv t"
  using assms
proof cases
  case (request_ends n)
  then show ?thesis using assms(2) by (auto simp: server_inv_def)
next
  case stopped
  then show ?thesis using assms(2) by (auto simp: server_inv_def)
next
  case drained
  then show ?thesis using assms(2) by (auto simp: server_inv_def running_def)
next
  case drain
  then show ?thesis using assms(2) by (auto simp: server_inv_def running_def)
next
  case start
  then show ?thesis using assms(2) by (auto simp: server_inv_def)
next
  case signal
  then show ?thesis using assms(2) by (auto simp: server_inv_def)
next
  case listen_closed
  then show ?thesis using assms(2) by (cases "st_shutdown s") (auto simp: server_inv_def)
qed (auto simp: server_inv_def)

lemma reachable_inv: "server_reachable s \<Longrightarrow> server_inv s"
  by (induction rule: server_reachable.induct) (auto intro: server_inv_init server_inv_step)

text \<open>After a signal the process can always come to its orderly end, the requests finishing first.\<close>

lemma drain_requests:
  assumes "running s"
  shows "server_step\<^sup>*\<^sup>* s (s\<lparr>st_requests := 0\<rparr>)"
  using assms
proof (induction "st_requests s" arbitrary: s)
  case 0
  then have "s\<lparr>st_requests := 0\<rparr> = s" by simp
  then show ?case by simp
next
  case (Suc n)
  have "server_step s (s\<lparr>st_requests := n\<rparr>)"
    using Suc by (intro request_ends) auto
  moreover have "server_step\<^sup>*\<^sup>* (s\<lparr>st_requests := n\<rparr>) (s\<lparr>st_requests := 0\<rparr>)"
    using Suc.hyps(1) [of "s\<lparr>st_requests := n\<rparr>"] Suc.prems by (simp add: running_def)
  ultimately show ?case by (rule converse_rtranclp_into_rtranclp)
qed

lemma finished_stops:
  assumes "server_inv s" and "running s" and "st_shutdown s = Finished"
  shows "\<exists>t. server_step\<^sup>*\<^sup>* s t \<and> st_main t = Exited 0"
proof (cases "st_main s")
  case Serving
  let ?t = "s\<lparr>st_main := Waiting\<rparr>"
  have "server_step s ?t" using assms Serving by (intro listen_closed) (auto simp: server_inv_def)
  moreover have "server_step ?t (?t\<lparr>st_main := Exited 0\<rparr>)"
    using assms by (intro stopped) (auto simp: server_inv_def)
  ultimately have "server_step\<^sup>*\<^sup>* s (?t\<lparr>st_main := Exited 0\<rparr>)" by simp
  then show ?thesis by (intro exI [of _ "?t\<lparr>st_main := Exited 0\<rparr>"]) simp
next
  case Waiting
  then have "server_step s (s\<lparr>st_main := Exited 0\<rparr>)"
    using assms by (intro stopped) (auto simp: server_inv_def)
  then show ?thesis by (intro exI [of _ "s\<lparr>st_main := Exited 0\<rparr>"]) auto
qed (use assms in \<open>auto simp: server_inv_def running_def\<close>)

lemma draining_stops:
  assumes "server_inv s" and "running s" and "st_shutdown s = Draining"
  shows "\<exists>t. server_step\<^sup>*\<^sup>* s t \<and> st_main t = Exited 0"
proof -
  let ?u = "s\<lparr>st_requests := 0\<rparr>"
  let ?v = "?u\<lparr>st_shutdown := Finished, st_done_closed := True\<rparr>"
  have u: "server_step\<^sup>*\<^sup>* s ?u" by (rule drain_requests [OF assms(2)])
  have v: "server_step ?u ?v" using assms by (intro drained) (auto simp: running_def)
  have "server_inv ?v \<and> running ?v"
    using assms by (auto simp: server_inv_def running_def)
  then obtain t where "server_step\<^sup>*\<^sup>* ?v t" "st_main t = Exited 0"
    using finished_stops [of ?v] by auto
  then show ?thesis using u v by (meson converse_rtranclp_into_rtranclp rtranclp_trans)
qed

text \<open>A shutdown only advances.\<close>

lemma shutdown_advances:
  assumes "server_step s t" and "server_inv s"
  shows "st_shutdown s \<le> st_shutdown t"
  using assms by cases (auto simp: less_eq_shutdown_pc_def server_inv_def)

section \<open>Properties\<close>

text \<open>C23: registry-buddy exits with code 0 only after a signal, with every request finished and the
shutdown completed.\<close>

theorem server_exits_clean:
  assumes "server_reachable s" and "st_main s = Exited 0"
  shows "st_signalled s \<and> st_requests s = 0 \<and> st_shutdown s = Finished"
  using reachable_inv [OF assms(1)] assms(2) by (auto simp: server_inv_def)

definition example_stopped :: server_state where
  "example_stopped =
     \<lparr>st_main = Exited 0, st_shutdown = Finished, st_signalled = True, st_listening = False,
      st_requests = 0, st_done_closed = True\<rparr>"

lemma example_started:
  "server_reachable \<lparr>st_main = Serving, st_shutdown = AwaitSignal, st_signalled = True, st_listening = True,
     st_requests = 0, st_done_closed = False\<rparr>"
  using server_reachable.step [OF server_reachable.step [OF server_reachable.init start] signal]
  by (simp add: initial_server_def running_def)

lemma example_stopped_reachable: "server_reachable example_stopped"
proof -
  have "server_reachable \<lparr>st_main = Serving, st_shutdown = Draining, st_signalled = True, st_listening = False,
     st_requests = 0, st_done_closed = False\<rparr>"
    using server_reachable.step [OF example_started drain] by (simp add: running_def)
  from server_reachable.step [OF this listen_closed]
  have "server_reachable \<lparr>st_main = Waiting, st_shutdown = Draining, st_signalled = True, st_listening = False,
     st_requests = 0, st_done_closed = False\<rparr>"
    by simp
  from server_reachable.step [OF this drained]
  have "server_reachable \<lparr>st_main = Waiting, st_shutdown = Finished, st_signalled = True, st_listening = False,
     st_requests = 0, st_done_closed = True\<rparr>"
    by (simp add: running_def)
  from server_reachable.step [OF this stopped] show ?thesis
    by (simp add: example_stopped_def)
qed

theorem server_exits_clean_witness:
  "st_signalled example_stopped \<and> st_requests example_stopped = 0 \<and> st_shutdown example_stopped = Finished"
  by (rule server_exits_clean [OF example_stopped_reachable]) (simp add: example_stopped_def)

text \<open>C24: Once signalled, a running server is never stuck: from every reachable state it can finish its
requests and exit with code 0.\<close>

theorem server_can_always_stop:
  assumes "server_reachable s" and "running s" and "st_signalled s" and "st_main s \<noteq> Unconfigured"
  shows "\<exists>t. server_step\<^sup>*\<^sup>* s t \<and> st_main t = Exited 0"
proof -
  have inv: "server_inv s" by (rule reachable_inv [OF assms(1)])
  show ?thesis
  proof (cases "st_shutdown s")
    case AwaitSignal
    let ?u = "s\<lparr>st_shutdown := Draining, st_listening := False\<rparr>"
    have s: "server_step s ?u" using assms AwaitSignal by (intro drain)
    have "server_inv ?u" by (rule server_inv_step [OF s inv])
    then obtain t where "server_step\<^sup>*\<^sup>* ?u t" "st_main t = Exited 0"
      using draining_stops [of ?u] assms(2) by (auto simp: running_def)
    then show ?thesis using s by (meson converse_rtranclp_into_rtranclp)
  next
    case NotStarted
    then show ?thesis using inv assms by (cases "st_main s") (auto simp: server_inv_def running_def)
  qed (use draining_stops finished_stops inv assms in auto)
qed

theorem server_can_always_stop_witness:
  "\<exists>t. server_step\<^sup>*\<^sup>* \<lparr>st_main = Serving, st_shutdown = AwaitSignal, st_signalled = True, st_listening = True,
     st_requests = 0, st_done_closed = False\<rparr> t \<and> st_main t = Exited 0"
  by (rule server_can_always_stop [OF example_started]) (simp_all add: running_def)

text \<open>A shutdown that finished is final: the listener stays closed, no request is open and none begins in
any later state.\<close>

theorem finished_stays_quiet:
  assumes "server_reachable s" and "st_shutdown s = Finished" and "server_step\<^sup>*\<^sup>* s t"
  shows "st_shutdown t = Finished \<and> \<not> st_listening t \<and> st_requests t = 0"
proof -
  have "server_inv t \<and> st_shutdown t = Finished"
    using assms(3)
  proof (induction rule: rtranclp_induct)
    case base
    then show ?case using reachable_inv [OF assms(1)] assms(2) by simp
  next
    case (step t u)
    then show ?case
      using server_inv_step [of t u] shutdown_advances [of t u]
      by (cases "st_shutdown u") (auto simp: less_eq_shutdown_pc_def)
  qed
  then show ?thesis by (auto simp: server_inv_def)
qed

theorem finished_stays_quiet_witness:
  "st_shutdown example_stopped = Finished \<and> \<not> st_listening example_stopped \<and> st_requests example_stopped = 0"
  by (rule finished_stays_quiet [OF example_stopped_reachable _ rtranclp.rtrancl_refl])
    (simp add: example_stopped_def)

text \<open>The server listens on the loopback address at the configured port: with the registry's
settings present and \<open>PORT\<close> a printed 64-bit integer, loading the configuration and building the
server give the address with that very number, and 8080 when \<open>PORT\<close> is absent.\<close>

theorem config_port_roundtrip:
  assumes "env ''REGISTRY_BASE_PATH'' = Some base" and "env ''REGISTRY_USERNAME'' = Some user"
    and "env ''REGISTRY_PASSWORD'' = Some pass"
    and "env ''PORT'' = map_option go_itoa p" and "p \<in> insert None (Some ` {- (2 ^ 63) ..< 2 ^ 63})"
  shows "\<exists>cfg. config_load env = Inr cfg \<and> rc_base_path cfg = base \<and> rc_username cfg = user \<and>
     rc_password cfg = pass \<and>
     rv_addr (new_server h1 h2 h3 cfg) = ''127.0.0.1:'' @ go_itoa (case p of None \<Rightarrow> 8080 | Some i \<Rightarrow> i)"
proof (cases p)
  case None
  have "go_itoa 8080 = ''8080''"
    by (simp add: go_itoa_def nat_digits.simps digit_char_def char_of_eq_iff)
  then have "go_atoi ''8080'' = Some 8080"
    using go_atoi_itoa [of 8080] by simp
  then show ?thesis using assms None by (simp add: config_load_def new_server_def Let_def)
next
  case (Some i)
  then have "go_atoi (go_itoa i) = Some i"
    using assms(5) by (intro go_atoi_itoa) auto
  then show ?thesis using assms Some by (simp add: config_load_def new_server_def Let_def)
qed

theorem config_port_roundtrip_witness:
  "\<exists>cfg. config_load [''REGISTRY_BASE_PATH'' \<mapsto> ''r'', ''REGISTRY_USERNAME'' \<mapsto> ''u'', ''REGISTRY_PASSWORD'' \<mapsto> ''p''] = Inr cfg \<and>
     rv_addr (new_server (\<lambda>a. ()) (\<lambda>a. ()) (\<lambda>b a. ()) cfg) = ''127.0.0.1:'' @ go_itoa 8080"
proof -
  have "\<exists>cfg. config_load [''REGISTRY_BASE_PATH'' \<mapsto> ''r'', ''REGISTRY_USERNAME'' \<mapsto> ''u'', ''REGISTRY_PASSWORD'' \<mapsto> ''p''] = Inr cfg \<and>
     rc_base_path cfg = ''r'' \<and> rc_username cfg = ''u'' \<and> rc_password cfg = ''p'' \<and>
     rv_addr (new_server (\<lambda>a. ()) (\<lambda>a. ()) (\<lambda>b a. ()) cfg) =
       ''127.0.0.1:'' @ go_itoa (case (None :: int option) of None \<Rightarrow> 8080 | Some i \<Rightarrow> i)"
    by (rule config_port_roundtrip) simp_all
  then show ?thesis by auto
qed

end
