(* ===== verification/ImageDeleters.thy ===== *)
theory ImageDeleters
  imports DockerhubClient RegistryServer
begin

text \<open>
  \<open>image/*.go\<close>: the three deleters. References and the registry client are the
  go-containerregistry library's: the parsers and accessors of a reference are the record
  \<open>ref_api\<close>, \<open>remote.Get\<close> and \<open>remote.Delete\<close> are parameters, an error of the registry is a
  \<open>ForeignError\<close> with the status and the diagnostic codes of a \<open>transport.Error\<close>.
\<close>

section \<open>Operations\<close>

record 'ref ref_api =
  rf_parse :: "string \<Rightarrow> go_error + 'ref"
  rf_context_name :: "'ref \<Rightarrow> string"
  rf_repository_str :: "'ref \<Rightarrow> string"
  rf_name :: "'ref \<Rightarrow> string"
  rf_is_tag :: "'ref \<Rightarrow> bool"
  rf_unsupported_code :: string

record hash =
  hash_algorithm :: string
  hash_hex :: string

type_synonym ('w, 'ref, 'auth) deleter = "'ref \<Rightarrow> 'auth \<Rightarrow> ('w, go_error option) effect"

fun transport_error :: "go_error \<Rightarrow> (int \<times> string list) option" where
  "transport_error (ForeignError (TransportErr code diags) msg) = Some (code, diags)"
| "transport_error e = None"

definition is_404 :: "go_error \<Rightarrow> bool" where
  "is_404 e = (case transport_error e of Some (code, diags) \<Rightarrow> code = 404 | None \<Rightarrow> False)"

fun error_unsupported :: "'ref ref_api \<Rightarrow> string list \<Rightarrow> bool" where
  "error_unsupported rf [] = False"
| "error_unsupported rf (c # cs) = (if c = rf_unsupported_code rf then True else error_unsupported rf cs)"

definition attempt_delete_by_tag ::
  "'ref ref_api \<Rightarrow> ('w, 'ref, 'auth) deleter \<Rightarrow> 'ref \<Rightarrow> 'auth \<Rightarrow> ('w, go_error option) effect" where
  "attempt_delete_by_tag rf del ref auth w =
     (case del ref auth w of
        (None, w') \<Rightarrow> (None, w')
      | (Some e, w') \<Rightarrow>
          (case transport_error e of
             Some (code, diags) \<Rightarrow>
               if code = 404 then (None, w')
               else if error_unsupported rf diags then (None, w')
               else (Some e, w')
           | None \<Rightarrow> (Some e, w')))"

definition digest_reference :: "'ref ref_api \<Rightarrow> 'ref \<Rightarrow> hash \<Rightarrow> string" where
  "digest_reference rf ref d = rf_context_name rf ref @ ''@'' @ hash_algorithm d @ '':'' @ hash_hex d"

definition generic_deleter ::
  "'ref ref_api \<Rightarrow> ('w, 'ref, 'auth) deleter \<Rightarrow> ('ref \<Rightarrow> 'auth \<Rightarrow> ('w, go_error + hash) effect)
    \<Rightarrow> ('w, 'ref, 'auth) deleter" where
  "generic_deleter rf del get ref auth w =
     (case get ref auth w of
        (Inl e, w1) \<Rightarrow>
          if is_404 e then (None, w1)
          else (Some (WrappedError ''unable to fetch image metadata: '' e []), w1)
      | (Inr d, w1) \<Rightarrow>
     (case rf_parse rf (digest_reference rf ref d) of
        Inl e \<Rightarrow> (Some e, w1)
      | Inr digest_ref \<Rightarrow>
     (case (if rf_is_tag rf ref then attempt_delete_by_tag rf del ref auth w1 else (None, w1)) of
        (Some e, w2) \<Rightarrow> (Some (WrappedError ''error deleting image by tag: '' e []), w2)
      | (None, w2) \<Rightarrow>
     (case del digest_ref auth w2 of
        (None, w3) \<Rightarrow> (None, w3)
      | (Some e, w3) \<Rightarrow>
          if is_404 e then (None, w3)
          else (Some (WrappedError ''error deleting image: '' e []), w3)))))"

text \<open>The interface \<open>DockerhubClient\<close>; a nil client is replaced by the default one.\<close>

record 'w dockerhub_api =
  dh_token :: "string \<Rightarrow> string \<Rightarrow> ('w, go_error + string) effect"
  dh_delete_repo :: "string \<Rightarrow> string \<Rightarrow> ('w, go_error option) effect"

definition hub_api :: "'w http_env \<Rightarrow> hub_client \<Rightarrow> 'w dockerhub_api" where
  "hub_api env c = \<lparr>dh_token = get_authorization_token env c, dh_delete_repo = delete_repo env c\<rparr>"

definition dockerhub_deleter ::
  "'w http_env \<Rightarrow> 'ref ref_api \<Rightarrow> ('auth \<Rightarrow> ('w, go_error + auth_config) effect) \<Rightarrow> 'w dockerhub_api option
    \<Rightarrow> ('w, 'ref, 'auth) deleter" where
  "dockerhub_deleter env rf authorization client ref auth w =
     (let api = (case client of None \<Rightarrow> hub_api env (new_hub_client default_domain) | Some a \<Rightarrow> a)
      in case authorization auth w of
        (Inl e, w1) \<Rightarrow> (Some (WrappedError ''failed fetching authorization information: '' e []), w1)
      | (Inr cfg, w1) \<Rightarrow>
     (case dh_token api (au_username cfg) (au_password cfg) w1 of
        (Inl e, w2) \<Rightarrow> (Some (WrappedError ''failed fetching authorization token from DockerHub: '' e []), w2)
      | (Inr token, w2) \<Rightarrow>
     (case dh_delete_repo api (rf_repository_str rf ref) token w2 of
        (None, w3) \<Rightarrow> (None, w3)
      | (Some e, w3) \<Rightarrow>
          (case e of
             HubNotFound _ \<Rightarrow> (None, w3)
           | _ \<Rightarrow> (Some (WrappedError (''failed deleting repo '' @ go_quote (rf_repository_str rf ref) @
                           '' from DockerHub: '') e []), w3)))))"

definition dynamic_deleter ::
  "'w http_env \<Rightarrow> 'ref ref_api \<Rightarrow> ('auth \<Rightarrow> ('w, go_error + auth_config) effect)
    \<Rightarrow> ('w, 'ref, 'auth) deleter \<Rightarrow> ('ref \<Rightarrow> 'auth \<Rightarrow> ('w, go_error + hash) effect)
    \<Rightarrow> ('w, 'ref, 'auth) deleter" where
  "dynamic_deleter env rf authorization del get ref auth w =
     (if go_has_prefix (rf_context_name rf ref) ''index.docker.io/''
      then dockerhub_deleter env rf authorization (Some (hub_api env (new_hub_client default_domain))) ref auth w
      else generic_deleter rf del get ref auth w)"

lemma error_unsupported_iff: "error_unsupported rf cs \<longleftrightarrow> rf_unsupported_code rf \<in> set cs"
  by (induction cs) auto

section \<open>The contract of a deleter\<close>

text \<open>
  Many registries delete asynchronously: they accept a deletion and carry it out later. So there are
  two views of a registry: \<open>resolve\<close> is the digest a reference resolves to now, \<open>settled\<close> the one it
  will resolve to when the registry, left to itself, has worked off all that it accepted.
  \<open>background\<close> is a step of that work. A registry that deletes at once has \<open>settled = resolve\<close>.
\<close>

locale settling_registry =
  fixes resolve :: "'w \<Rightarrow> 'ref \<Rightarrow> string option"
    and settled :: "'w \<Rightarrow> 'ref \<Rightarrow> string option"
    and background :: "'w \<Rightarrow> 'w"
  assumes settled_below: "settled w r = resolve w r \<or> settled w r = None"
    and settles: "\<exists>n. \<forall>k\<ge>n. resolve ((background ^^ k) w) r = settled w r"
begin

lemma settled_gone:
  assumes "settled w r = None"
  shows "\<exists>n. \<forall>k\<ge>n. resolve ((background ^^ k) w) r = None"
  using settles [of w r] assms by simp

end

text \<open>
  A deleter that reports success leaves its reference without an image once the registry settled,
  and whatever it does it only takes away.
\<close>

locale deleter_contract = settling_registry resolve settled background
  for resolve :: "'w \<Rightarrow> 'ref \<Rightarrow> string option"
    and settled :: "'w \<Rightarrow> 'ref \<Rightarrow> string option"
    and background :: "'w \<Rightarrow> 'w" +
  fixes deleter :: "('w, 'ref, 'auth) deleter"
  assumes deleted: "deleter ref auth w = (None, w') \<Longrightarrow> settled w' ref = None"
    and only_deletes: "deleter ref auth w = (e, w') \<Longrightarrow> resolve w' r = resolve w r \<or> resolve w' r = None"

text \<open>
  What an OCI registry promises of \<open>remote.Get\<close> and \<open>remote.Delete\<close>. While it serves a call it may
  go on with its background work.
\<close>

locale oci_registry = settling_registry resolve settled background
  for resolve :: "'w \<Rightarrow> 'ref \<Rightarrow> string option"
    and settled :: "'w \<Rightarrow> 'ref \<Rightarrow> string option"
    and background :: "'w \<Rightarrow> 'w" +
  fixes rf :: "'ref ref_api"
    and del :: "('w, 'ref, 'auth) deleter"
    and get :: "'ref \<Rightarrow> 'auth \<Rightarrow> ('w, go_error + hash) effect"
  assumes get_keeps: "get ref auth w = (a, w') \<Longrightarrow> settled w' = settled w"
    and get_resolve: "get ref auth w = (a, w') \<Longrightarrow> resolve w' r = resolve w r \<or> resolve w' r = settled w r"
    and get_found: "get ref auth w = (Inr d, w') \<Longrightarrow> resolve w ref = Some (hash_algorithm d @ '':'' @ hash_hex d)"
    and get_404: "get ref auth w = (Inl err, w') \<Longrightarrow> is_404 err \<Longrightarrow> settled w ref = None"
    and del_only_deletes: "del ref auth w = (e, w') \<Longrightarrow> resolve w' r = resolve w r \<or> resolve w' r = None"
    and del_only_settles: "del ref auth w = (e, w') \<Longrightarrow> settled w' r = settled w r \<or> settled w' r = None"
    and del_digest: "rf_parse rf (rf_context_name rf ref @ ''@'' @ dg) = Inr dref \<Longrightarrow>
      del dref auth w = (e, w') \<Longrightarrow> (case e of None \<Rightarrow> True | Some err \<Rightarrow> is_404 err) \<Longrightarrow>
      settled w' ref \<noteq> Some dg"
begin

lemma tag_only_deletes:
  "attempt_delete_by_tag rf del ref auth w = (e, w') \<Longrightarrow> resolve w' r = resolve w r \<or> resolve w' r = None"
  "attempt_delete_by_tag rf del ref auth w = (e, w') \<Longrightarrow> settled w' r = settled w r \<or> settled w' r = None"
  using del_only_deletes [of ref auth w _ _ r] del_only_settles [of ref auth w _ _ r]
  by (auto simp: attempt_delete_by_tag_def split: prod.splits option.splits if_splits)

lemma generic_deletes:
  assumes "generic_deleter rf del get ref auth w = (None, w')"
  shows "settled w' ref = None"
proof -
  obtain a w1 where g: "get ref auth w = (a, w1)" by fastforce
  have k: "settled w1 = settled w" by (rule get_keeps [OF g])
  show ?thesis
  proof (cases a)
    case (Inl e)
    then have "is_404 e \<and> w' = w1"
      using assms g by (auto simp: generic_deleter_def split: if_splits)
    then show ?thesis using get_404 [of ref auth w e w1] g Inl k by simp
  next
    case (Inr d)
    define dg where "dg = hash_algorithm d @ '':'' @ hash_hex d"
    have res: "settled w1 ref = Some dg \<or> settled w1 ref = None"
      using get_found [of ref auth w d w1] g Inr k settled_below [of w ref] by (simp add: dg_def)
    obtain dref where dr: "rf_parse rf (rf_context_name rf ref @ ''@'' @ dg) = Inr dref"
      using assms g Inr by (auto simp: generic_deleter_def digest_reference_def dg_def split: sum.splits)
    obtain w2 where t: "(if rf_is_tag rf ref then attempt_delete_by_tag rf del ref auth w1 else (None, w1)) = (None, w2)"
      and d2: "\<exists>e. del dref auth w2 = (e, w') \<and> (case e of None \<Rightarrow> True | Some err \<Rightarrow> is_404 err)"
      using assms g Inr dr
      by (auto simp: generic_deleter_def digest_reference_def dg_def split: prod.splits option.splits if_splits)
    obtain e where d3: "del dref auth w2 = (e, w')" and ok: "case e of None \<Rightarrow> True | Some err \<Rightarrow> is_404 err"
      using d2 by blast
    have "settled w2 ref = settled w1 ref \<or> settled w2 ref = None"
      using t tag_only_deletes(2) [of ref auth w1 None w2 ref] by (auto split: if_splits)
    moreover have "settled w' ref = settled w2 ref \<or> settled w' ref = None"
      by (rule del_only_settles [OF d3])
    moreover have "settled w' ref \<noteq> Some dg"
      by (rule del_digest [OF dr d3 ok])
    ultimately show ?thesis using res by auto
  qed
qed

lemma generic_only_deletes:
  assumes "generic_deleter rf del get ref auth w = (e, w')"
  shows "resolve w' r = resolve w r \<or> resolve w' r = None"
proof -
  obtain a w1 where g: "get ref auth w = (a, w1)" by fastforce
  have k: "resolve w1 r = resolve w r \<or> resolve w1 r = None"
    using get_resolve [OF g, of r] settled_below [of w r] by auto
  show ?thesis
  proof (cases "a")
    case (Inl x)
    then show ?thesis using assms g k by (auto simp: generic_deleter_def split: if_splits)
  next
    case (Inr d)
    obtain x w2 where t: "(if rf_is_tag rf ref then attempt_delete_by_tag rf del ref auth w1 else (None, w1)) = (x, w2)"
      by fastforce
    have r2: "resolve w2 r = resolve w1 r \<or> resolve w2 r = None"
      using t tag_only_deletes(1) [of ref auth w1 x w2 r] by (auto split: if_splits)
    show ?thesis
    proof (cases "rf_parse rf (digest_reference rf ref d)")
      case (Inl y)
      then show ?thesis using assms g \<open>a = Inr d\<close> k by (simp add: generic_deleter_def)
    next
      case (Inr dref)
      obtain y w3 where d: "del dref auth w2 = (y, w3)" by fastforce
      have r3: "resolve w3 r = resolve w2 r \<or> resolve w3 r = None"
        by (rule del_only_deletes [OF d])
      have "w' = w2 \<or> w' = w3"
        using assms g \<open>a = Inr d\<close> Inr t d by (auto simp: generic_deleter_def split: option.splits if_splits)
      then show ?thesis using r2 r3 k by auto
    qed
  qed
qed

end

sublocale oci_registry \<subseteq> generic: deleter_contract resolve settled background "generic_deleter rf del get"
  by unfold_locales (fact generic_deletes generic_only_deletes)+

text \<open>
  What Docker Hub promises of the client: a repository that was deleted, or not found, holds
  no image once the registry settled; a failing call and a login only take away.
\<close>

locale hub_registry = settling_registry resolve settled background
  for resolve :: "'w \<Rightarrow> 'ref \<Rightarrow> string option"
    and settled :: "'w \<Rightarrow> 'ref \<Rightarrow> string option"
    and background :: "'w \<Rightarrow> 'w" +
  fixes env :: "'w http_env"
    and rf :: "'ref ref_api"
    and authorization :: "'auth \<Rightarrow> ('w, go_error + auth_config) effect"
    and client :: "'w dockerhub_api option"
    and api :: "'w dockerhub_api"
  assumes client: "api = (case client of None \<Rightarrow> hub_api env (new_hub_client default_domain) | Some a \<Rightarrow> a)"
    and auth_keeps: "authorization auth w = (a, w') \<Longrightarrow> resolve w' r = resolve w r \<or> resolve w' r = None"
    and token_keeps: "dh_token api user pass w = (t, w') \<Longrightarrow> resolve w' r = resolve w r \<or> resolve w' r = None"
    and repo_only_deletes: "dh_delete_repo api repo tk w = (e, w') \<Longrightarrow> resolve w' r = resolve w r \<or> resolve w' r = None"
    and repo_deleted: "dh_delete_repo api (rf_repository_str rf ref) tk w = (e, w') \<Longrightarrow>
      (case e of None \<Rightarrow> True | Some (HubNotFound x) \<Rightarrow> True | _ \<Rightarrow> False) \<Longrightarrow> settled w' ref = None"
begin

lemma hub_deletes_repository:
  assumes "dockerhub_deleter env rf authorization client ref auth w = (None, w')"
    and "rf_repository_str rf r = rf_repository_str rf ref"
  shows "settled w' r = None"
proof -
  obtain tk w2 e where "dh_delete_repo api (rf_repository_str rf ref) tk w2 = (e, w')"
    and "case e of None \<Rightarrow> True | Some (HubNotFound x) \<Rightarrow> True | _ \<Rightarrow> False"
    using assms(1) unfolding dockerhub_deleter_def client [symmetric]
    by (auto simp: Let_def split: prod.splits sum.splits option.splits go_error.splits)
  then show ?thesis
    using repo_deleted [of r tk w2 e w'] assms(2) by simp
qed

lemma hub_only_deletes:
  assumes "dockerhub_deleter env rf authorization client ref auth w = (e, w')"
  shows "resolve w' r = resolve w r \<or> resolve w' r = None"
proof -
  obtain a w1 where a: "authorization auth w = (a, w1)" by fastforce
  note k1 = auth_keeps [OF a, of r]
  show ?thesis
  proof (cases a)
    case (Inl x)
    then show ?thesis using assms a k1 unfolding dockerhub_deleter_def client [symmetric] by (simp add: Let_def)
  next
    case (Inr cfg)
    obtain t w2 where t: "dh_token api (au_username cfg) (au_password cfg) w1 = (t, w2)" by fastforce
    note k2 = token_keeps [OF t, of r]
    show ?thesis
    proof (cases t)
      case (Inl x)
      then show ?thesis
        using assms a Inr t k1 k2 unfolding dockerhub_deleter_def client [symmetric] by (auto simp: Let_def)
    next
      case tk: (Inr tk)
      obtain d w3 where d: "dh_delete_repo api (rf_repository_str rf ref) tk w2 = (d, w3)" by fastforce
      have "w' = w3"
        using assms a Inr t tk d unfolding dockerhub_deleter_def client [symmetric]
        by (auto simp: Let_def split: option.splits go_error.splits)
      then show ?thesis using repo_only_deletes [OF d, of r] k1 k2 by auto
    qed
  qed
qed

end

sublocale hub_registry \<subseteq> hub: deleter_contract resolve settled background "dockerhub_deleter env rf authorization client"
  by unfold_locales (erule hub_deletes_repository [OF _ refl], erule hub_only_deletes)

section \<open>A registry in memory\<close>

text \<open>
  References as the library has them: a repository with a tag or a digest. The registry keeps the
  manifests of each repository by digest, the tags by repository and name, and the deletions it has
  accepted and not yet carried out; with the rest of its state \<open>'o\<close> it decides which calls it
  refuses, with any status but 404.
\<close>

datatype image_ref = TagRef string string | DigestRef string string

datatype deletion = DropTag string string | DropManifest string string | DropRepository string

record 'o registry_world =
  rg_manifests :: "(string \<times> string) list"
  rg_tags :: "(string \<times> string) \<rightharpoonup> string"
  rg_pending :: "deletion list"
  rg_other :: 'o

fun carry_out :: "deletion \<Rightarrow> 'o registry_world \<Rightarrow> 'o registry_world" where
  "carry_out (DropTag r t) w = w\<lparr>rg_tags := (rg_tags w)((r, t) := None)\<rparr>"
| "carry_out (DropManifest r d) w = w\<lparr>rg_manifests := filter (\<lambda>m. m \<noteq> (r, d)) (rg_manifests w)\<rparr>"
| "carry_out (DropRepository r) w = w\<lparr>rg_manifests := filter (\<lambda>m. fst m \<noteq> r) (rg_manifests w)\<rparr>"

text \<open>An accepted deletion waits; the background carries out the oldest.\<close>

definition accept :: "deletion \<Rightarrow> 'o registry_world \<Rightarrow> 'o registry_world" where
  "accept d w = w\<lparr>rg_pending := rg_pending w @ [d]\<rparr>"

definition memory_background :: "'o registry_world \<Rightarrow> 'o registry_world" where
  "memory_background w = (case rg_pending w of [] \<Rightarrow> w | d # ds \<Rightarrow> carry_out d (w\<lparr>rg_pending := ds\<rparr>))"

fun ref_repository :: "image_ref \<Rightarrow> string" where
  "ref_repository (TagRef r t) = r"
| "ref_repository (DigestRef r d) = r"

definition parse_ref :: "string \<Rightarrow> go_error + image_ref" where
  "parse_ref s =
     (if CHR ''@'' \<in> set s
      then Inr (DigestRef (takeWhile (\<lambda>c. c \<noteq> CHR ''@'') s) (tl (dropWhile (\<lambda>c. c \<noteq> CHR ''@'') s)))
      else if s = [] then Inl (ErrorText ''empty reference'')
      else Inr (TagRef s ''latest''))"

definition memory_refs :: "image_ref ref_api" where
  "memory_refs =
     \<lparr>rf_parse = parse_ref, rf_context_name = ref_repository, rf_repository_str = ref_repository,
      rf_name = ref_repository, rf_is_tag = (\<lambda>r. case r of TagRef _ _ \<Rightarrow> True | _ \<Rightarrow> False),
      rf_unsupported_code = ''UNSUPPORTED''\<rparr>"

definition proper_repository :: "string \<Rightarrow> bool" where
  "proper_repository r \<longleftrightarrow> CHR ''@'' \<notin> set r"

definition split_digest :: "string \<Rightarrow> hash" where
  "split_digest d = \<lparr>hash_algorithm = takeWhile (\<lambda>c. c \<noteq> CHR '':'') d, hash_hex = tl (dropWhile (\<lambda>c. c \<noteq> CHR '':'') d)\<rparr>"

text \<open>A tag resolves when its manifest is there; names outside the grammar resolve to nothing.\<close>

definition registry_resolve :: "'o registry_world \<Rightarrow> image_ref \<Rightarrow> string option" where
  "registry_resolve w ref =
     (if \<not> proper_repository (ref_repository ref) then None
      else (case ref of
              DigestRef r d \<Rightarrow> if (r, d) \<in> set (rg_manifests w) \<and> CHR '':'' \<in> set d then Some d else None
            | TagRef r t \<Rightarrow>
                (case rg_tags w (r, t) of
                   None \<Rightarrow> None
                 | Some d \<Rightarrow> if (r, d) \<in> set (rg_manifests w) \<and> CHR '':'' \<in> set d then Some d else None)))"

definition memory_get ::
  "('o \<Rightarrow> (int \<times> string list) option \<times> 'o) \<Rightarrow> image_ref \<Rightarrow> unit \<Rightarrow> ('o registry_world, go_error + hash) effect" where
  "memory_get refuse ref auth w =
     (let (r, x) = refuse (rg_other w); w' = w\<lparr>rg_other := x\<rparr>
      in case r of
           Some (code, diags) \<Rightarrow>
             (Inl (ForeignError (TransportErr (if code = 404 then 500 else code) diags) ''refused''), w')
         | None \<Rightarrow>
             (case registry_resolve w ref of
                None \<Rightarrow> (Inl (ForeignError (TransportErr 404 []) ''no such manifest''), w')
              | Some d \<Rightarrow> (Inr (split_digest d), w')))"

definition memory_delete ::
  "('o \<Rightarrow> (int \<times> string list) option \<times> 'o) \<Rightarrow> image_ref \<Rightarrow> unit \<Rightarrow> ('o registry_world, go_error option) effect" where
  "memory_delete refuse ref auth w =
     (let (r, x) = refuse (rg_other w); w' = w\<lparr>rg_other := x\<rparr>
      in case r of
           Some (code, diags) \<Rightarrow>
             (Some (ForeignError (TransportErr (if code = 404 then 500 else code) diags) ''refused''), w')
         | None \<Rightarrow>
             (case registry_resolve w ref of
                None \<Rightarrow> (Some (ForeignError (TransportErr 404 []) ''no such manifest''), w')
              | Some _ \<Rightarrow>
                  (None, accept (case ref of TagRef r' t \<Rightarrow> DropTag r' t | DigestRef r' d \<Rightarrow> DropManifest r' d) w')))"

text \<open>What resolves when all pending deletions are carried out.\<close>

definition registry_settled :: "'o registry_world \<Rightarrow> image_ref \<Rightarrow> string option" where
  "registry_settled w = registry_resolve (fold carry_out (rg_pending w) w)"

lemma registry_resolve_other [simp]:
  "registry_resolve (w\<lparr>rg_other := x\<rparr>) = registry_resolve w"
  "registry_resolve (w\<lparr>rg_pending := ds\<rparr>) = registry_resolve w"
  by (rule ext, simp add: registry_resolve_def split: image_ref.splits option.splits)+

lemma carry_out_frame [simp]:
  "carry_out d (w\<lparr>rg_other := x\<rparr>) = (carry_out d w)\<lparr>rg_other := x\<rparr>"
  "carry_out d (w\<lparr>rg_pending := ds\<rparr>) = (carry_out d w)\<lparr>rg_pending := ds\<rparr>"
  "rg_pending (carry_out d w) = rg_pending w"
  by (cases d; simp)+

lemma carry_out_all_frame [simp]:
  "fold carry_out es (w\<lparr>rg_other := x\<rparr>) = (fold carry_out es w)\<lparr>rg_other := x\<rparr>"
  "fold carry_out es (w\<lparr>rg_pending := ds\<rparr>) = (fold carry_out es w)\<lparr>rg_pending := ds\<rparr>"
  by (induction es arbitrary: w) simp_all

lemma carry_out_resolve:
  "registry_resolve (carry_out d w) r = registry_resolve w r \<or> registry_resolve (carry_out d w) r = None"
  by (cases d; cases r) (auto simp: registry_resolve_def split: option.splits)

lemma carry_out_all_resolve:
  "registry_resolve (fold carry_out ds w) r = registry_resolve w r \<or> registry_resolve (fold carry_out ds w) r = None"
proof (induction ds arbitrary: w)
  case (Cons d ds)
  then show ?case using Cons.IH [of "carry_out d w"] carry_out_resolve [of d w r] by (metis fold_simps(2))
qed simp

lemma accept_views [simp]:
  "registry_resolve (accept d w) = registry_resolve w"
  "registry_settled (accept d w) = registry_resolve (carry_out d (fold carry_out (rg_pending w) w))"
  by (simp_all add: accept_def registry_settled_def)

lemma registry_settled_other [simp]: "registry_settled (w\<lparr>rg_other := x\<rparr>) = registry_settled w"
  by (simp add: registry_settled_def)

lemma memory_background_all:
  "length (rg_pending w) \<le> k \<Longrightarrow>
     (memory_background ^^ k) w = (fold carry_out (rg_pending w) w)\<lparr>rg_pending := []\<rparr>"
proof (induction k arbitrary: w)
  case 0
  then show ?case by simp
next
  case (Suc k)
  show ?case
  proof (cases "rg_pending w")
    case Nil
    then have "memory_background w = w" by (simp add: memory_background_def)
    then have "(memory_background ^^ k) w = w" for k by (induction k) simp_all
    then show ?thesis using Nil by (simp del: funpow.simps)
  next
    case (Cons d ds)
    have "rg_pending (memory_background w) = ds"
      by (simp add: memory_background_def Cons)
    then show ?thesis
      using Suc.IH [of "memory_background w"] Suc.prems Cons
      by (simp add: funpow_Suc_right memory_background_def del: funpow.simps)
  qed
qed

interpretation memory_settling: settling_registry registry_resolve registry_settled memory_background
proof (unfold_locales, goal_cases)
  case (1 w r)
  then show ?case using carry_out_all_resolve by (simp add: registry_settled_def)
next
  case (2 w r)
  then show ?case
    by (intro exI [of _ "length (rg_pending w)"]) (simp add: memory_background_all registry_settled_def)
qed

lemma registry_resolve_digest:
  "registry_resolve w ref = Some d \<Longrightarrow> CHR '':'' \<in> set d \<and> (ref_repository ref, d) \<in> set (rg_manifests w) \<and>
     proper_repository (ref_repository ref)"
  by (cases ref) (auto simp: registry_resolve_def split: if_splits option.splits)

lemma split_digest_join:
  assumes "CHR '':'' \<in> set d"
  shows "hash_algorithm (split_digest d) @ '':'' @ hash_hex (split_digest d) = d"
proof -
  have "dropWhile (\<lambda>c. c \<noteq> CHR '':'') d \<noteq> []" using assms by (simp add: dropWhile_eq_Nil_conv)
  moreover have "hd (dropWhile (\<lambda>c. c \<noteq> CHR '':'') d) = CHR '':''"
    using hd_dropWhile [OF calculation] by simp
  ultimately have "'':'' @ tl (dropWhile (\<lambda>c. c \<noteq> CHR '':'') d) = dropWhile (\<lambda>c. c \<noteq> CHR '':'') d"
    by (metis append_Cons append_Nil list.collapse)
  then show ?thesis by (simp add: split_digest_def)
qed

lemma parse_digest_ref:
  "proper_repository r \<Longrightarrow> parse_ref (r @ ''@'' @ d) = Inr (DigestRef r d)"
  by (simp add: parse_ref_def proper_repository_def takeWhile_append dropWhile_append takeWhile_eq_all_conv
      dropWhile_eq_Nil_conv)

lemma memory_delete_cases:
  assumes "memory_delete refuse ref auth w = (e, w')"
  obtains x where "w' = w\<lparr>rg_other := x\<rparr>" "e \<noteq> None"
      "(case e of None \<Rightarrow> True | Some err \<Rightarrow> is_404 err) \<Longrightarrow> registry_resolve w ref = None"
    | x where "w' = accept (case ref of TagRef r' t \<Rightarrow> DropTag r' t | DigestRef r' d \<Rightarrow> DropManifest r' d) (w\<lparr>rg_other := x\<rparr>)"
  using assms that
  by (auto simp: memory_delete_def Let_def is_404_def split: prod.splits option.splits if_splits)

lemma memory_delete_resolve:
  assumes "memory_delete refuse ref auth w = (e, w')"
  shows "registry_resolve w' r = registry_resolve w r"
    and "registry_settled w' r = registry_settled w r \<or> registry_settled w' r = None"
proof -
  show "registry_resolve w' r = registry_resolve w r"
    using assms by (cases rule: memory_delete_cases) simp_all
  show "registry_settled w' r = registry_settled w r \<or> registry_settled w' r = None"
    using assms
  proof (cases rule: memory_delete_cases)
    case (1 x)
    then show ?thesis by simp
  next
    case (2 x)
    define d where "d = (case ref of TagRef r' t \<Rightarrow> DropTag r' t | DigestRef r' d \<Rightarrow> DropManifest r' d)"
    have "registry_settled w' = registry_resolve (carry_out d (fold carry_out (rg_pending w) w))"
      using 2 by (simp add: d_def)
    then show ?thesis
      using carry_out_resolve [of d "fold carry_out (rg_pending w) w" r] by (simp only: registry_settled_def)
  qed
qed

lemma memory_delete_digest:
  assumes "parse_ref (ref_repository ref @ ''@'' @ dg) = Inr dref"
    and "memory_delete refuse dref auth w = (e, w')"
    and "case e of None \<Rightarrow> True | Some err \<Rightarrow> is_404 err"
  shows "registry_settled w' ref \<noteq> Some dg"
proof
  assume a: "registry_settled w' ref = Some dg"
  note m = registry_resolve_digest [OF a [unfolded registry_settled_def]]
  have d: "dref = DigestRef (ref_repository ref) dg"
    using assms(1) parse_digest_ref m by simp
  show False
    using assms(2)
  proof (cases rule: memory_delete_cases)
    case (1 x)
    have "registry_settled w ref = Some dg"
      using a unfolding 1(1) by simp
    then have r: "registry_resolve w ref = Some dg"
      using memory_settling.settled_below [of w ref] by (metis option.distinct(1))
    have "registry_resolve w dref = Some dg"
      using registry_resolve_digest [OF r] by (simp add: d registry_resolve_def)
    moreover have "registry_resolve w dref = None"
      by (rule 1(3) [OF assms(3)])
    ultimately show False by simp
  next
    case (2 x)
    define v where "v = fold carry_out (rg_pending w) w"
    have "registry_settled w' = registry_resolve (carry_out (DropManifest (ref_repository ref) dg) v)"
      using 2 by (simp add: d v_def)
    then have "registry_resolve (carry_out (DropManifest (ref_repository ref) dg) v) ref = Some dg"
      using a by simp
    from registry_resolve_digest [OF this] show False by simp
  qed
qed

interpretation memory: oci_registry registry_resolve registry_settled memory_background
  memory_refs "memory_delete refuse" "memory_get refuse"
proof (unfold_locales, goal_cases)
  case (1 ref auth w a w')
  then show ?case
    by (auto simp: memory_get_def Let_def split: prod.splits option.splits)
next
  case (2 ref auth w a w' r)
  then show ?case
    by (auto simp: memory_get_def Let_def split: prod.splits option.splits)
next
  case (3 ref auth w d w')
  then obtain x where x: "registry_resolve w ref = Some x" "d = split_digest x"
    by (auto simp: memory_get_def Let_def split: prod.splits option.splits)
  then have "hash_algorithm d @ '':'' @ hash_hex d = x"
    using registry_resolve_digest split_digest_join by blast
  then show ?case using x(1) by simp
next
  case (4 ref auth w err w')
  then have "registry_resolve w ref = None"
    by (auto simp: memory_get_def Let_def is_404_def split: prod.splits option.splits if_splits)
  then show ?case using memory_settling.settled_below [of w ref] by simp
next
  case (5 ref auth w e w' r)
  then show ?case using memory_delete_resolve(1) by blast
next
  case (6 ref auth w e w' r)
  then show ?case by (rule memory_delete_resolve(2))
next
  case (7 ref dg dref auth w e w')
  then show ?case using memory_delete_digest by (simp add: memory_refs_def)
qed

end
