(* ===== verification/GoArchiveLib.thy ===== *)
theory GoArchiveLib
  imports GoStrings "HOL-Library.Sublist"
begin

text \<open>
  What \<open>archive/archive.go\<close> uses of the standard library: \<open>path/filepath\<close> on Unix, the file modes of
  \<open>os\<close>, the entries of \<open>archive/zip\<close> and the headers of \<open>archive/tar\<close>, as of Go 1.14.
\<close>

unbundle bit_operations_syntax

section \<open>Paths\<close>

text \<open>The elements between the separators.\<close>

fun path_elems :: "string \<Rightarrow> string list" where
  "path_elems [] = [[]]"
| "path_elems (c # cs) =
     (if c = CHR ''/'' then [] # path_elems cs
      else (c # hd (path_elems cs)) # tl (path_elems cs))"

text \<open>
  \<open>Clean\<close>: the output is a stack of elements, top first. An empty element and \<open>.\<close> vanish; \<open>..\<close>
  takes back the last element unless that is a \<open>..\<close> itself; at the root it vanishes.
\<close>

fun clean_elems :: "bool \<Rightarrow> string list \<Rightarrow> string list \<Rightarrow> string list" where
  "clean_elems rooted out [] = out"
| "clean_elems rooted out (e # es) =
     (if e = [] \<or> e = ''.'' then clean_elems rooted out es
      else if e = ''..'' then
        (case out of
           prev # rest \<Rightarrow>
             if prev = ''..'' then clean_elems rooted (e # out) es else clean_elems rooted rest es
         | [] \<Rightarrow> if rooted then clean_elems rooted [] es else clean_elems rooted [e] es)
      else clean_elems rooted (e # out) es)"

definition filepath_clean :: "string \<Rightarrow> string" where
  "filepath_clean p =
     (if p = [] then ''.''
      else
        (let rooted = (hd p = CHR ''/'');
             body = go_join (rev (clean_elems rooted [] (path_elems p))) ''/''
         in if rooted then CHR ''/'' # body else if body = [] then ''.'' else body))"

text \<open>\<open>Join\<close> of two elements: empty leading elements are left out.\<close>

definition filepath_join2 :: "string \<Rightarrow> string \<Rightarrow> string" where
  "filepath_join2 a b =
     (if a \<noteq> [] then filepath_clean (a @ ''/'' @ b)
      else if b \<noteq> [] then filepath_clean b
      else [])"

section \<open>File modes\<close>

definition mode_dir :: "32 word" where "mode_dir = 0x80000000"
definition mode_symlink :: "32 word" where "mode_symlink = 0x08000000"
definition mode_device :: "32 word" where "mode_device = 0x04000000"
definition mode_named_pipe :: "32 word" where "mode_named_pipe = 0x02000000"
definition mode_socket :: "32 word" where "mode_socket = 0x01000000"
definition mode_setuid :: "32 word" where "mode_setuid = 0x00800000"
definition mode_setgid :: "32 word" where "mode_setgid = 0x00400000"
definition mode_char_device :: "32 word" where "mode_char_device = 0x00200000"
definition mode_sticky :: "32 word" where "mode_sticky = 0x00100000"
definition mode_irregular :: "32 word" where "mode_irregular = 0x00080000"

definition mode_type :: "32 word" where
  "mode_type = mode_dir OR mode_symlink OR mode_named_pipe OR mode_socket OR mode_device OR
     mode_char_device OR mode_irregular"

definition mode_is_regular :: "32 word \<Rightarrow> bool" where
  "mode_is_regular m \<longleftrightarrow> m AND mode_type = 0"

definition mode_perm :: "32 word \<Rightarrow> 32 word" where
  "mode_perm m = m AND 0x1FF"

section \<open>Zip entries\<close>

text \<open>
  An entry: its header, and what opening and reading it gives: an error, or its bytes with an
  error after them (a bad checksum, a truncated file).
\<close>

record zip_header =
  zh_name :: string
  zh_creator_version :: "16 word"
  zh_external_attrs :: "32 word"
  zh_modified :: int
  zh_size :: "64 word"

record zip_entry =
  ze_header :: zip_header
  ze_open :: "go_error + (string \<times> go_error option)"

definition unix_mode :: "32 word \<Rightarrow> 32 word" where
  "unix_mode m =
     (let perm = m AND 0x1FF;
          fmt = m AND 0xF000;
          typ = (if fmt = 0x6000 then mode_device
                 else if fmt = 0x2000 then mode_device OR mode_char_device
                 else if fmt = 0x4000 then mode_dir
                 else if fmt = 0x1000 then mode_named_pipe
                 else if fmt = 0xA000 then mode_symlink
                 else if fmt = 0xC000 then mode_socket
                 else 0);
          gid = (if m AND 0x400 \<noteq> 0 then mode_setgid else 0);
          uid = (if m AND 0x800 \<noteq> 0 then mode_setuid else 0);
          vtx = (if m AND 0x200 \<noteq> 0 then mode_sticky else 0)
      in perm OR typ OR gid OR uid OR vtx)"

definition msdos_mode :: "32 word \<Rightarrow> 32 word" where
  "msdos_mode m =
     (let mode = (if m AND 0x10 \<noteq> 0 then mode_dir OR 0x1FF else 0x1B6)
      in if m AND 0x01 \<noteq> 0 then mode AND NOT 0x92 else mode)"

definition zip_mode :: "zip_header \<Rightarrow> 32 word" where
  "zip_mode h =
     (let creator = drop_bit 8 (zh_creator_version h);
          mode = (if creator = 3 \<or> creator = 19 then unix_mode (drop_bit 16 (zh_external_attrs h))
                  else if creator = 11 \<or> creator = 14 \<or> creator = 0 then msdos_mode (zh_external_attrs h)
                  else 0)
      in if zh_name h \<noteq> [] \<and> last (zh_name h) = CHR ''/'' then mode OR mode_dir else mode)"

section \<open>Tar headers\<close>

datatype tar_type = TypeReg | TypeDir | TypeSymlink | TypeChar | TypeBlock | TypeFifo

record tar_header =
  th_typeflag :: tar_type
  th_name :: string
  th_linkname :: string
  th_size :: "64 word"
  th_mode :: "64 word"
  th_uid :: int
  th_gid :: int
  th_uname :: string
  th_gname :: string
  th_mod_time :: int

definition file_info_type :: "32 word \<Rightarrow> go_error + tar_type" where
  "file_info_type fm =
     (if mode_is_regular fm then Inr TypeReg
      else if fm AND mode_dir \<noteq> 0 then Inr TypeDir
      else if fm AND mode_symlink \<noteq> 0 then Inr TypeSymlink
      else if fm AND mode_device \<noteq> 0 then
        Inr (if fm AND mode_char_device \<noteq> 0 then TypeChar else TypeBlock)
      else if fm AND mode_named_pipe \<noteq> 0 then Inr TypeFifo
      else if fm AND mode_socket \<noteq> 0 then Inl (ErrorText ''archive/tar: sockets not supported'')
      else Inl (ErrorText ''archive/tar: unknown file mode''))"

text \<open>\<open>FileInfoHeader\<close> of a zip entry. The name it gives is replaced by the caller.\<close>

definition file_info_header :: "zip_header \<Rightarrow> string \<Rightarrow> go_error + tar_header" where
  "file_info_header h link =
     (let fm = zip_mode h
      in case file_info_type fm of
           Inl e \<Rightarrow> Inl e
         | Inr t \<Rightarrow> Inr
             \<lparr>th_typeflag = t, th_name = zh_name h,
              th_linkname = (if t = TypeSymlink then link else []),
              th_size = (if t = TypeReg then zh_size h else 0),
              th_mode = ucast (mode_perm fm) OR
                (if fm AND mode_setuid \<noteq> 0 then 0x800 else 0) OR
                (if fm AND mode_setgid \<noteq> 0 then 0x400 else 0) OR
                (if fm AND mode_sticky \<noteq> 0 then 0x200 else 0),
              th_uid = 0, th_gid = 0, th_uname = [], th_gname = [], th_mod_time = zh_modified h\<rparr>)"

section \<open>Facts about cleaned paths\<close>

lemma clean_elems_rooted:
  "list_all (\<lambda>e. e \<noteq> ''..'' \<and> e \<noteq> ''.'' \<and> e \<noteq> [] \<and> CHR ''/'' \<notin> set e) out \<Longrightarrow>
   list_all (\<lambda>e. CHR ''/'' \<notin> set e) es \<Longrightarrow>
     list_all (\<lambda>e. e \<noteq> ''..'' \<and> e \<noteq> ''.'' \<and> e \<noteq> [] \<and> CHR ''/'' \<notin> set e) (clean_elems True out es)"
  by (induction True out es rule: clean_elems.induct) (auto split: list.splits)

lemma path_elems_not_Nil [simp]: "path_elems p \<noteq> []"
  by (cases p) auto

lemma path_elems_no_slash: "list_all (\<lambda>e. CHR ''/'' \<notin> set e) (path_elems p)"
proof (induction p)
  case Nil
  then show ?case by simp
next
  case (Cons c p)
  then show ?case by (cases "path_elems p") auto
qed

lemma path_elems_single: "CHR ''/'' \<notin> set e \<Longrightarrow> path_elems e = [e]"
  by (induction e) auto

lemma path_elems_append_slash:
  "CHR ''/'' \<notin> set e \<Longrightarrow> path_elems (e @ CHR ''/'' # p) = e # path_elems p"
  by (induction e) auto

lemma path_elems_join:
  "es \<noteq> [] \<Longrightarrow> list_all (\<lambda>e. CHR ''/'' \<notin> set e) es \<Longrightarrow> path_elems (go_join es ''/'') = es"
  by (induction es "''/''" rule: go_join.induct) (auto simp: path_elems_single path_elems_append_slash)

text \<open>
  A path below the root with no element that leads elsewhere: what \<open>Clean\<close> makes of any rooted
  path.
\<close>

definition safe_path :: "string \<Rightarrow> bool" where
  "safe_path p \<longleftrightarrow>
     p = ''/'' \<or>
     (\<exists>es. p = CHR ''/'' # go_join es ''/'' \<and> es \<noteq> [] \<and>
        list_all (\<lambda>e. e \<noteq> ''..'' \<and> e \<noteq> ''.'' \<and> e \<noteq> [] \<and> CHR ''/'' \<notin> set e) es)"

lemma clean_rooted_safe: "safe_path (filepath_clean (CHR ''/'' # p))"
proof -
  let ?es = "rev (clean_elems True [] (path_elems (CHR ''/'' # p)))"
  have "list_all (\<lambda>e. e \<noteq> ''..'' \<and> e \<noteq> ''.'' \<and> e \<noteq> [] \<and> CHR ''/'' \<notin> set e) ?es"
    using clean_elems_rooted [OF _ path_elems_no_slash, of "[]" "CHR ''/'' # p"] by (simp add: list_all_iff)
  moreover have "filepath_clean (CHR ''/'' # p) = CHR ''/'' # go_join ?es ''/''"
    by (simp add: filepath_clean_def Let_def)
  ultimately show ?thesis
    by (cases "?es = []") (auto simp: safe_path_def)
qed

end
