(* ===== verification/Archive.thy ===== *)
theory Archive
  imports GoArchiveLib
begin

text \<open>
  \<open>archive/archive.go\<close> and \<open>archive/tar_builder.go\<close>: a zip file rewritten as a tar stream, and the
  builder of small tars. The tar writer is the interface \<open>TarWriter\<close>; files are opened by
  parameters.
\<close>

section \<open>The writer\<close>

record 'w tar_writer =
  tw_write_header :: "tar_header \<Rightarrow> ('w, go_error option) effect"
  tw_write :: "string \<Rightarrow> ('w, int \<times> go_error option) effect"
  tw_close :: "('w, go_error option) effect"

text \<open>
  \<open>io.Copy\<close> of data that arrives in pieces: it stops at the first write error or short write.
\<close>

fun io_copy :: "'w tar_writer \<Rightarrow> string list \<Rightarrow> ('w, go_error option) effect" where
  "io_copy tw [] w = (None, w)"
| "io_copy tw (c # cs) w =
     (case tw_write tw c w of
        ((n, Some e), w') \<Rightarrow> (Some e, w')
      | ((n, None), w') \<Rightarrow>
          if n \<noteq> int (length c) then (Some (ErrorText ''short write''), w') else io_copy tw cs w')"

section \<open>Headers\<close>

text \<open>\<open>NormalizedDateTime\<close>, in seconds since 1970: 1980-01-01 00:00:01 UTC.\<close>

definition normalized_date_time :: int where
  "normalized_date_time = 315532801"

definition normalize_header :: "bool \<Rightarrow> tar_header \<Rightarrow> tar_header" where
  "normalize_header normalize_mod_time h =
     (let h' = (if normalize_mod_time then h\<lparr>th_mod_time := normalized_date_time\<rparr> else h)
      in h'\<lparr>th_uid := 0, th_gid := 0, th_uname := [], th_gname := []\<rparr>)"

definition finalize_header :: "int \<Rightarrow> int \<Rightarrow> 64 word \<Rightarrow> bool \<Rightarrow> tar_header \<Rightarrow> tar_header" where
  "finalize_header uid gid mode normalize_mod_time h =
     (let h1 = normalize_header normalize_mod_time h;
          h2 = (if mode \<noteq> - 1 then h1\<lparr>th_mode := mode\<rparr> else h1)
      in h2\<lparr>th_uid := uid, th_gid := gid\<rparr>)"

definition is_fat_file :: "zip_header \<Rightarrow> bool" where
  "is_fat_file h \<longleftrightarrow>
     (let first_byte = drop_bit 8 (zh_creator_version h) in first_byte = 0 \<or> first_byte = 14)"

text \<open>
  The target of a symbolic link is the entry's content. An entry that cannot be opened gives the
  empty target and no error.
\<close>

definition symlink_target :: "zip_entry \<Rightarrow> go_error + string" where
  "symlink_target f =
     (case ze_open f of
        Inl e \<Rightarrow> Inr []
      | Inr (content, None) \<Rightarrow> Inr content
      | Inr (content, Some e) \<Rightarrow> Inl e)"

record tar_options =
  to_base_path :: string
  to_uid :: int
  to_gid :: int
  to_mode :: "64 word"
  to_normalize :: bool

definition entry_header :: "tar_options \<Rightarrow> zip_entry \<Rightarrow> go_error + tar_header" where
  "entry_header opt f =
     (let h = ze_header f;
          file_mode = (if is_fat_file h then 0x1FF else to_mode opt);
          raw = (if zip_mode h AND mode_symlink \<noteq> 0
                 then (case symlink_target f of Inl e \<Rightarrow> Inl e | Inr target \<Rightarrow> file_info_header h target)
                 else file_info_header h (zh_name h))
      in case raw of
           Inl e \<Rightarrow> Inl e
         | Inr th \<Rightarrow> Inr (finalize_header (to_uid opt) (to_gid opt) file_mode (to_normalize opt)
                          (th\<lparr>th_name := filepath_join2 (to_base_path opt) (zh_name h)\<rparr>)))"

text \<open>The contents of a regular entry; \<open>chunks\<close> is how its reader hands them out.\<close>

definition copy_entry ::
  "'w tar_writer \<Rightarrow> (string \<Rightarrow> string list) \<Rightarrow> zip_entry \<Rightarrow> ('w, go_error option) effect" where
  "copy_entry tw chunks f w =
     (case ze_open f of
        Inl e \<Rightarrow> (Some e, w)
      | Inr (content, read_error) \<Rightarrow>
          (case io_copy tw (chunks content) w of
             (Some e, w') \<Rightarrow> (Some e, w')
           | (None, w') \<Rightarrow> (read_error, w')))"

text \<open>The loop over the entries. A nil filter lets everything through.\<close>

fun write_entries ::
  "'w tar_writer \<Rightarrow> (string \<Rightarrow> string list) \<Rightarrow> tar_options \<Rightarrow> (string \<Rightarrow> bool) option \<Rightarrow> zip_entry list
    \<Rightarrow> ('w, go_error option) effect" where
  "write_entries tw chunks opt file_filter [] w = (None, w)"
| "write_entries tw chunks opt file_filter (f # fs) w =
     (if (case file_filter of None \<Rightarrow> False | Some p \<Rightarrow> \<not> p (zh_name (ze_header f)))
      then write_entries tw chunks opt file_filter fs w
      else (case entry_header opt f of
         Inl e \<Rightarrow> (Some e, w)
       | Inr header \<Rightarrow>
           (case tw_write_header tw header w of
              (Some e, w1) \<Rightarrow> (Some e, w1)
            | (None, w1) \<Rightarrow>
                if mode_is_regular (zip_mode (ze_header f))
                then (case copy_entry tw chunks f w1 of
                        (Some e, w2) \<Rightarrow> (Some e, w2)
                      | (None, w2) \<Rightarrow> write_entries tw chunks opt file_filter fs w2)
                else write_entries tw chunks opt file_filter fs w1)))"

definition write_zip_to_tar ::
  "(string \<Rightarrow> go_error + zip_entry list) \<Rightarrow> 'w tar_writer \<Rightarrow> (string \<Rightarrow> string list) \<Rightarrow> string \<Rightarrow> tar_options
    \<Rightarrow> (string \<Rightarrow> bool) option \<Rightarrow> ('w, go_error option) effect" where
  "write_zip_to_tar open_zip tw chunks src_zip opt file_filter w =
     (case open_zip src_zip of
        Inl e \<Rightarrow> (Some e, w)
      | Inr files \<Rightarrow> write_entries tw chunks opt file_filter files w)"

text \<open>
  The format: the writer of \<open>archive/tar\<close> over an \<open>io.Writer\<close> that takes everything, and what it has
  written there. \<open>ReadZipAsTar\<close> is given by what a caller reads from it who reads to the end: the
  bytes, and the error the end comes with (that of the generator; the error of closing the tar goes
  to \<open>Close\<close> only). \<open>ArchivePipe\<close> has the reader, the goroutine behind it and its other callers.
\<close>

record 'x tar_format =
  tf_new :: 'x
  tf_writer :: "'x tar_writer"
  tf_bytes :: "'x \<Rightarrow> string"

definition read_zip_as_tar ::
  "(string \<Rightarrow> go_error + zip_entry list) \<Rightarrow> (string \<Rightarrow> string list) \<Rightarrow> 'x tar_format \<Rightarrow> string \<Rightarrow> tar_options
    \<Rightarrow> (string \<Rightarrow> bool) option \<Rightarrow> string \<times> go_error option" where
  "read_zip_as_tar open_zip chunks tf src_path opt file_filter =
     (let (e, x) = write_zip_to_tar open_zip (tf_writer tf) chunks src_path opt file_filter (tf_new tf);
          (close_error, x') = tw_close (tf_writer tf) x
      in (tf_bytes tf x', e))"

section \<open>The builder\<close>

record file_entry =
  fe_type_flag :: tar_type
  fe_path :: string
  fe_mode :: "64 word"
  fe_mod_time :: int
  fe_contents :: string

type_synonym tar_builder = "file_entry list"

definition add_file :: "tar_builder \<Rightarrow> string \<Rightarrow> 64 word \<Rightarrow> int \<Rightarrow> string \<Rightarrow> tar_builder" where
  "add_file t path mode mod_time contents =
     t @ [\<lparr>fe_type_flag = TypeReg, fe_path = path, fe_mode = mode, fe_mod_time = mod_time, fe_contents = contents\<rparr>]"

definition add_dir :: "tar_builder \<Rightarrow> string \<Rightarrow> 64 word \<Rightarrow> int \<Rightarrow> tar_builder" where
  "add_dir t path mode mod_time =
     t @ [\<lparr>fe_type_flag = TypeDir, fe_path = path, fe_mode = mode, fe_mod_time = mod_time, fe_contents = []\<rparr>]"

definition builder_header :: "file_entry \<Rightarrow> tar_header" where
  "builder_header f =
     \<lparr>th_typeflag = fe_type_flag f, th_name = fe_path f, th_linkname = [],
      th_size = of_nat (length (fe_contents f)), th_mode = fe_mode f, th_uid = 0, th_gid = 0,
      th_uname = [], th_gname = [], th_mod_time = fe_mod_time f\<rparr>"

fun builder_entries :: "'w tar_writer \<Rightarrow> 64 word \<Rightarrow> file_entry list \<Rightarrow> ('w, 64 word \<times> go_error option) effect" where
  "builder_entries tw written [] w = ((written, None), w)"
| "builder_entries tw written (f # fs) w =
     (case tw_write_header tw (builder_header f) w of
        (Some e, w1) \<Rightarrow> ((written, Some e), w1)
      | (None, w1) \<Rightarrow>
          (case tw_write tw (fe_contents f) w1 of
             ((n, Some e), w2) \<Rightarrow> ((written, Some e), w2)
           | ((n, None), w2) \<Rightarrow> builder_entries tw (written + of_int n) fs w2))"

text \<open>\<open>WriteTo\<close> closes the writer last and drops the error of that.\<close>

definition builder_write_to :: "'w tar_writer \<Rightarrow> tar_builder \<Rightarrow> ('w, 64 word \<times> go_error option) effect" where
  "builder_write_to tw t w =
     (case builder_entries tw 0 t w of (r, w1) \<Rightarrow> (r, snd (tw_close tw w1)))"

text \<open>\<open>WriteToPath\<close>; creating the file gives the writer on it. \<open>errors.Wrapf\<close> puts its text in front.\<close>

definition builder_write_to_path ::
  "(string \<Rightarrow> ('w, go_error + 'w tar_writer) effect) \<Rightarrow> tar_builder \<Rightarrow> string \<Rightarrow> ('w, go_error option) effect" where
  "builder_write_to_path create t path w =
     (case create path w of
        (Inl e, w1) \<Rightarrow> (Some (WrappedError (''create file for tar: '' @ path @ '': '') e []), w1)
      | (Inr tw, w1) \<Rightarrow> (case builder_write_to tw t w1 of ((n, e), w2) \<Rightarrow> (e, w2)))"

text \<open>
  \<open>Reader\<close>: a goroutine writes into a pipe and closes it with the error of \<open>WriteTo\<close>; this is what
  reading the pipe ends with, \<open>None\<close> for the end of the stream.
\<close>

definition builder_reader :: "'w tar_writer \<Rightarrow> tar_builder \<Rightarrow> ('w, go_error option) effect" where
  "builder_reader tw t w = (case builder_write_to tw t w of ((n, e), w') \<Rightarrow> (e, w'))"

text \<open>\<open>aggregateError\<close>.\<close>

definition aggregate_error :: "go_error option \<Rightarrow> go_error option \<Rightarrow> go_error option" where
  "aggregate_error base addition =
     (case addition of
        None \<Rightarrow> base
      | Some a \<Rightarrow> (case base of None \<Rightarrow> Some a | Some b \<Rightarrow> Some (WrappedError (error_text b @ '': '') a [])))"

section \<open>A writer that records\<close>

text \<open>
  A world with the list of the calls the writer accepted, headers and data. \<open>verdict\<close> decides every
  call: it may refuse it with an error. What a refused call may already have passed to the stream
  below is no part of the list; the caller learns of it by the error.
\<close>

datatype tar_event = HeaderEvent tar_header | DataEvent string | CloseEvent

record 'o tar_log =
  tl_events :: "tar_event list"
  tl_other :: 'o

definition log_event :: "('o \<Rightarrow> go_error option \<times> 'o) \<Rightarrow> tar_event \<Rightarrow> ('o tar_log, go_error option) effect" where
  "log_event verdict ev w =
     (case verdict (tl_other w) of
        (Some e, x) \<Rightarrow> (Some e, w\<lparr>tl_other := x\<rparr>)
      | (None, x) \<Rightarrow> (None, \<lparr>tl_events = tl_events w @ [ev], tl_other = x\<rparr>))"

definition log_writer :: "('o \<Rightarrow> go_error option \<times> 'o) \<Rightarrow> 'o tar_log tar_writer" where
  "log_writer verdict =
     \<lparr>tw_write_header = (\<lambda>h. log_event verdict (HeaderEvent h)),
      tw_write = (\<lambda>s w. case log_event verdict (DataEvent s) w of
                     (Some e, w') \<Rightarrow> ((0, Some e), w') | (None, w') \<Rightarrow> ((int (length s), None), w')),
      tw_close = log_event verdict CloseEvent\<rparr>"

text \<open>The interface the two writers of tars rely on: a writer appends what it is given, or fails.\<close>

locale tar_sink =
  fixes tw :: "'w tar_writer"
    and events :: "'w \<Rightarrow> tar_event list"
  assumes header_ok: "tw_write_header tw h w = (None, w') \<Longrightarrow> events w' = events w @ [HeaderEvent h]"
    and header_failed: "tw_write_header tw h w = (Some e, w') \<Longrightarrow> events w' = events w"
    and write_ok: "tw_write tw s w = ((n, None), w') \<Longrightarrow> n = int (length s) \<and> events w' = events w @ [DataEvent s]"
    and write_failed: "tw_write tw s w = ((n, Some e), w') \<Longrightarrow> events w' = events w"

interpretation logged: tar_sink "log_writer verdict" tl_events
  by unfold_locales (auto simp: log_writer_def log_event_def split: prod.splits option.splits)

end
