(* ===== verification/RegistryHandlers.thy ===== *)
theory RegistryHandlers
  imports ImageDeleters Archive
begin

text \<open>
  \<open>handlers/*.go\<close>, \<open>healthz/check.go\<close> and \<open>package_upload/package_upload.go\<close>: the three endpoints
  of registry-buddy. A handler gets the request body and answers with a response; logging is left
  out, and writing the JSON of a response cannot fail.
\<close>

section \<open>DELETE /images\<close>

record delete_image_request =
  dr_image_reference :: string

definition dec_delete_image_request :: "json \<Rightarrow> delete_image_request option" where
  "dec_delete_image_request j = dec_struct (\<lambda>k v s.
     if eq_fold k ''image_reference''
     then map_option (\<lambda>x. s\<lparr>dr_image_reference := x\<rparr>) (dec_string v (dr_image_reference s))
     else Some s) j \<lparr>dr_image_reference = []\<rparr>"

definition invalid_delete_image_request :: "delete_image_request \<Rightarrow> bool" where
  "invalid_delete_image_request b \<longleftrightarrow> dr_image_reference b = []"

definition delete_image_response_json :: "string \<Rightarrow> json" where
  "delete_image_response_json image_reference = JObj [(''image_reference'', JStr image_reference)]"

definition write_success_response :: "'ref ref_api \<Rightarrow> 'ref \<Rightarrow> response_writer \<Rightarrow> response_writer" where
  "write_success_response rf ref rw =
     write_body (json_text (delete_image_response_json (rf_name rf ref)) @ [CHR 0x0A]) (write_header 202 rw)"

definition delete_image_handler ::
  "'ref ref_api \<Rightarrow> ('w, 'ref, 'auth) deleter \<Rightarrow> 'auth \<Rightarrow> string \<Rightarrow> ('w, http_response) effect" where
  "delete_image_handler rf deleter auth body w =
     (case Option.bind (json_decode body) dec_delete_image_request of
        None \<Rightarrow>
          (final_response (write_body (''unable to parse request body'' @ [CHR 0x0A]) (write_header 400 fresh_response)), w)
      | Some b \<Rightarrow>
          if invalid_delete_image_request b then
            (final_response (write_body (''missing required parameter'' @ [CHR 0x0A]) (write_header 422 fresh_response)), w)
          else (case rf_parse rf (dr_image_reference b) of
             Inl e \<Rightarrow>
               (final_response (write_body (''unable to parse image reference'' @ [CHR 0x0A]) (write_header 422 fresh_response)), w)
           | Inr ref \<Rightarrow>
               (case deleter ref auth w of
                  (Some e, w') \<Rightarrow>
                    (final_response (write_body (''unable to delete image '' @ rf_name rf ref @ [CHR 0x0A])
                       (write_header 500 fresh_response)), w')
                | (None, w') \<Rightarrow> (final_response (write_success_response rf ref fresh_response), w'))))"

section \<open>POST /packages\<close>

record post_package_body =
  pp_zip_path :: string
  pp_guid :: string
  pp_registry_base_path :: string

definition dec_post_package_body :: "json \<Rightarrow> post_package_body option" where
  "dec_post_package_body j = dec_struct (\<lambda>k v s.
     if eq_fold k ''package_zip_path'' then map_option (\<lambda>x. s\<lparr>pp_zip_path := x\<rparr>) (dec_string v (pp_zip_path s))
     else if eq_fold k ''package_guid'' then map_option (\<lambda>x. s\<lparr>pp_guid := x\<rparr>) (dec_string v (pp_guid s))
     else if eq_fold k ''registry_base_path''
     then map_option (\<lambda>x. s\<lparr>pp_registry_base_path := x\<rparr>) (dec_string v (pp_registry_base_path s))
     else Some s) j \<lparr>pp_zip_path = [], pp_guid = [], pp_registry_base_path = []\<rparr>"

definition invalid_post_package_request :: "post_package_body \<Rightarrow> bool" where
  "invalid_post_package_request b \<longleftrightarrow>
     pp_zip_path b = [] \<or> pp_guid b = [] \<or> pp_registry_base_path b = []"

text \<open>\<open>HashResponse\<close> and \<open>PostPackageResponse\<close>, in the order of their fields.\<close>

definition hash_response_json :: "hash \<Rightarrow> json" where
  "hash_response_json h = JObj [(''algorithm'', JStr (hash_algorithm h)), (''hex'', JStr (hash_hex h))]"

definition post_package_response_json :: "hash \<Rightarrow> json" where
  "post_package_response_json h = JObj [(''hash'', hash_response_json h)]"

type_synonym ('w, 'auth) uploader = "string \<Rightarrow> string \<Rightarrow> 'auth \<Rightarrow> ('w, go_error + hash) effect"

definition post_package_handler ::
  "('w, 'auth) uploader \<Rightarrow> 'auth \<Rightarrow> string \<Rightarrow> ('w, http_response) effect" where
  "post_package_handler upload auth body w =
     (case Option.bind (json_decode body) dec_post_package_body of
        None \<Rightarrow> (final_response (write_body ''unable to parse request body'' (write_header 400 fresh_response)), w)
      | Some b \<Rightarrow>
          if invalid_post_package_request b then
            (final_response (write_body ''missing required parameter'' (write_header 422 fresh_response)), w)
          else (case upload (pp_zip_path b) (pp_registry_base_path b @ ''/'' @ pp_guid b) auth w of
             (Inl e, w') \<Rightarrow>
               (final_response (write_body (''unable to convert/upload package '' @ pp_guid b) (write_header 500 fresh_response)), w')
           | (Inr h, w') \<Rightarrow>
               (final_response (write_body (json_text (post_package_response_json h) @ [CHR 0x0A]) fresh_response), w')))"

section \<open>Uploading a package\<close>

text \<open>
  \<open>Upload\<close>. The image library (\<open>random\<close>, \<open>mutate\<close>, \<open>tarball\<close>, \<open>remote\<close>) is a parameter;
  \<open>tarball.LayerFromReader\<close> reads the stream of \<open>ReadZipAsTar\<close> to its end and does not close it. The
  zips on disk, the pieces their contents arrive in and the tar format are those of the archive
  package.
\<close>

record 'x zip_api =
  za_open :: "string \<Rightarrow> go_error + zip_entry list"
  za_chunks :: "string \<Rightarrow> string list"
  za_format :: "'x tar_format"

record ('w, 'img, 'layer, 'ref, 'auth) image_api =
  im_random :: "('w, go_error + 'img) effect"
  im_layer :: "string \<times> go_error option \<Rightarrow> ('w, go_error + 'layer) effect"
  im_append :: "'img \<Rightarrow> 'layer \<Rightarrow> go_error + 'img"
  im_parse :: "string \<Rightarrow> go_error + 'ref"
  im_write :: "'ref \<Rightarrow> 'img \<Rightarrow> 'auth \<Rightarrow> ('w, go_error option) effect"
  im_digest :: "'img \<Rightarrow> go_error + hash"

definition package_tar_options :: tar_options where
  "package_tar_options = \<lparr>to_base_path = ''/'', to_uid = 0, to_gid = 0, to_mode = - 1, to_normalize = True\<rparr>"

definition upload_package ::
  "'x zip_api \<Rightarrow> ('w, 'img, 'layer, 'ref, 'auth) image_api \<Rightarrow> ('w, 'auth) uploader" where
  "upload_package za im zip_path registry_path auth w =
     (case im_random im w of
        (Inl e, w1) \<Rightarrow> (Inl e, w1)
      | (Inr img, w1) \<Rightarrow>
     (case im_layer im (read_zip_as_tar (za_open za) (za_chunks za) (za_format za) zip_path package_tar_options
                          (Some (\<lambda>name. True))) w1 of
        (Inl e, w2) \<Rightarrow> (Inl e, w2)
      | (Inr layer, w2) \<Rightarrow>
     (case im_append im img layer of
        Inl e \<Rightarrow> (Inl e, w2)
      | Inr img' \<Rightarrow>
     (case im_parse im registry_path of
        Inl e \<Rightarrow> (Inl e, w2)
      | Inr ref \<Rightarrow>
     (case im_write im ref img' auth w2 of
        (Some e, w3) \<Rightarrow> (Inl e, w3)
      | (None, w3) \<Rightarrow> (im_digest im img', w3))))))"

section \<open>GET /healthz\<close>

text \<open>
  \<open>Check\<close>. \<open>fmt.Sprintf\<close> writes an int under \<open>%s\<close> as \<open>%!s(int=...)\<close>. Connecting pings the registry.
\<close>

record ('w, 'repo, 'auth, 'client) health_api =
  ha_new_repository :: "string \<Rightarrow> go_error + 'repo"
  ha_registry_name :: "'repo \<Rightarrow> string"
  ha_connect :: "'repo \<Rightarrow> 'auth \<Rightarrow> ('w, go_error + 'client) effect"
  ha_http_get :: "'client \<Rightarrow> string \<Rightarrow> ('w, go_error + http_response) effect"

definition health_check ::
  "('w, 'repo, 'auth, 'client) health_api \<Rightarrow> string \<Rightarrow> 'auth \<Rightarrow> ('w, go_error option outcome) effect" where
  "health_check ha registry_path auth w =
     (case ha_new_repository ha registry_path of
        Inl e \<Rightarrow> (Panics (PanicWith e), w)
      | Inr repo \<Rightarrow>
     (case ha_connect ha repo auth w of
        (Inl e, w1) \<Rightarrow>
          (Returns (Some (ErrorText (''error setting up transport to the registry: '' @ error_text e))), w1)
      | (Inr c, w1) \<Rightarrow>
     (case ha_http_get ha c (''https://'' @ ha_registry_name ha repo @ ''/v2/'') w1 of
        (Inl e, w2) \<Rightarrow> (Returns (Some (ErrorText (''unable to reach the registry: '' @ error_text e))), w2)
      | (Inr res, w2) \<Rightarrow>
          (Returns (if rs_status res = 200 then None
             else Some (ErrorText (''unable to reach the registry, status code: %!s(int='' @ go_itoa (rs_status res) @ '')''))), w2))))"

definition healthz_handler ::
  "string \<Rightarrow> (string \<Rightarrow> 'auth \<Rightarrow> ('w, go_error option outcome) effect) \<Rightarrow> 'auth \<Rightarrow> ('w, http_response outcome) effect" where
  "healthz_handler base_path healthy auth w =
     (case healthy base_path auth w of
        (Panics p, w') \<Rightarrow> (Panics p, w')
      | (Returns (Some e), w') \<Rightarrow>
          (Returns (final_response (write_body (''unable to reach registry '' @ base_path) (write_header 401 fresh_response))), w')
      | (Returns None, w') \<Rightarrow> (Returns (final_response fresh_response), w'))"

lemma final_write [simp]:
  "final_response (write_body s (write_header c fresh_response)) = \<lparr>rs_status = c, rs_body = s\<rparr>"
  "final_response (write_body s fresh_response) = \<lparr>rs_status = 200, rs_body = s\<rparr>"
  "final_response fresh_response = \<lparr>rs_status = 200, rs_body = []\<rparr>"
  by (simp_all add: final_response_def write_body_def write_header_def fresh_response_def Let_def)

section \<open>What a deletion that was accepted means\<close>

context deleter_contract
begin

lemma accepted_deletion:
  assumes "delete_image_handler rf deleter auth body w = (res, w')" and "rs_status res = 202"
  shows "\<exists>b ref. Option.bind (json_decode body) dec_delete_image_request = Some b \<and>
     rf_parse rf (dr_image_reference b) = Inr ref \<and> settled w' ref = None \<and>
     (\<exists>n. \<forall>k\<ge>n. resolve ((background ^^ k) w') ref = None) \<and>
     json_decode (rs_body res) = Some (delete_image_response_json (rf_name rf ref))"
proof -
  obtain b ref where b: "Option.bind (json_decode body) dec_delete_image_request = Some b"
    and r: "rf_parse rf (dr_image_reference b) = Inr ref" and d: "deleter ref auth w = (None, w')"
    and x: "res = final_response (write_success_response rf ref fresh_response)"
    using assms by (auto simp: delete_image_handler_def split: option.splits sum.splits prod.splits if_splits)
  have "json_decode (json_text (delete_image_response_json (rf_name rf ref)) @ [CHR 0x0A]) =
      Some (delete_image_response_json (rf_name rf ref))"
    by (rule json_decode_text)
      (simp_all add: delete_image_response_json_def no_number_follows_def is_number_char_def is_digit_def)
  then show ?thesis
    using b r deleted [OF d] settled_gone [OF deleted [OF d]] x by (auto simp: write_success_response_def)
qed

lemma deletion_only_deletes:
  assumes "delete_image_handler rf deleter auth body w = (res, w')"
  shows "resolve w' r = resolve w r \<or> resolve w' r = None"
  using assms only_deletes [of _ auth w _ _ r]
  by (auto simp: delete_image_handler_def split: option.splits sum.splits prod.splits if_splits)

end

end
