(* ===== verification/ArchiveProperties.thy ===== *)
theory ArchiveProperties
  imports Archive
begin

text \<open>
  What the archive package writes: the stream of a zip as a function of its entries, the safety
  and reproducibility of that stream, the modes it carries, and the builder's stream.
\<close>

section \<open>The stream of a zip\<close>

definition entry_events :: "(string \<Rightarrow> string list) \<Rightarrow> tar_options \<Rightarrow> zip_entry \<Rightarrow> tar_event list" where
  "entry_events chunks opt f =
     (case entry_header opt f of
        Inl e \<Rightarrow> []
      | Inr h \<Rightarrow> HeaderEvent h #
          (if mode_is_regular (zip_mode (ze_header f))
           then (case ze_open f of Inl e \<Rightarrow> [] | Inr (content, _) \<Rightarrow> map DataEvent (chunks content))
           else []))"

definition accepted :: "(string \<Rightarrow> bool) option \<Rightarrow> zip_entry \<Rightarrow> bool" where
  "accepted file_filter f = (case file_filter of None \<Rightarrow> True | Some p \<Rightarrow> p (zh_name (ze_header f)))"

definition tar_stream ::
  "(string \<Rightarrow> string list) \<Rightarrow> tar_options \<Rightarrow> (string \<Rightarrow> bool) option \<Rightarrow> zip_entry list \<Rightarrow> tar_event list" where
  "tar_stream chunks opt file_filter files =
     concat (map (entry_events chunks opt) (filter (accepted file_filter) files))"

text \<open>One accepted entry: its header, then its content.\<close>

definition write_entry ::
  "'w tar_writer \<Rightarrow> (string \<Rightarrow> string list) \<Rightarrow> tar_options \<Rightarrow> zip_entry \<Rightarrow> ('w, go_error option) effect" where
  "write_entry tw chunks opt f w =
     (case entry_header opt f of
        Inl e \<Rightarrow> (Some e, w)
      | Inr header \<Rightarrow>
          (case tw_write_header tw header w of
             (Some e, w1) \<Rightarrow> (Some e, w1)
           | (None, w1) \<Rightarrow>
               if mode_is_regular (zip_mode (ze_header f)) then copy_entry tw chunks f w1 else (None, w1)))"

lemma write_entries_Cons [simp]:
  "write_entries tw chunks opt ff (f # fs) w =
     (if \<not> accepted ff f then write_entries tw chunks opt ff fs w
      else (case write_entry tw chunks opt f w of
              (Some e, w1) \<Rightarrow> (Some e, w1)
            | (None, w1) \<Rightarrow> write_entries tw chunks opt ff fs w1))"
  by (simp add: accepted_def write_entry_def split: option.splits sum.splits prod.splits)

declare write_entries.simps(2) [simp del]

context tar_sink
begin

lemma io_copy_events:
  "io_copy tw cs w = (e, w') \<Longrightarrow>
     (\<exists>n. events w' = events w @ map DataEvent (take n cs)) \<and>
     (e = None \<longrightarrow> events w' = events w @ map DataEvent cs)"
proof (induction cs arbitrary: w)
  case Nil
  then show ?case by simp
next
  case (Cons c cs)
  obtain n x w1 where t: "tw_write tw c w = ((n, x), w1)" by (metis surj_pair)
  show ?case
  proof (cases x)
    case (Some y)
    then have "e = Some y \<and> w' = w1" using Cons.prems t by simp
    moreover have "events w1 = events w" using write_failed t Some by blast
    ultimately show ?thesis by (auto intro: exI [of _ 0])
  next
    case None
    then have n: "n = int (length c)" and ev: "events w1 = events w @ [DataEvent c]"
      using write_ok t by blast+
    then have "io_copy tw cs w1 = (e, w')" using Cons.prems t None by simp
    from Cons.IH [OF this] obtain m where
      "events w' = events w1 @ map DataEvent (take m cs)"
      and "e = None \<longrightarrow> events w' = events w1 @ map DataEvent cs" by blast
    then show ?thesis using ev by (auto intro: exI [of _ "Suc m"])
  qed
qed

lemma copy_entry_events:
  assumes "copy_entry tw chunks f w = (e, w')"
  defines "content \<equiv> case ze_open f of Inl e \<Rightarrow> [] | Inr (content, _) \<Rightarrow> map DataEvent (chunks content)"
  shows "(\<exists>n. events w' = events w @ take n content) \<and> (e = None \<longrightarrow> events w' = events w @ content)"
proof (cases "ze_open f")
  case (Inl x)
  then show ?thesis using assms by (simp add: copy_entry_def)
next
  case (Inr p)
  obtain c r where p: "p = (c, r)" by (cases p)
  obtain x w1 where i: "io_copy tw (chunks c) w = (x, w1)" by fastforce
  have "w' = w1 \<and> (e = None \<longrightarrow> x = None)"
    using assms(1) Inr p i by (auto simp: copy_entry_def split: option.splits)
  then show ?thesis
    using io_copy_events [OF i] Inr p by (auto simp: content_def take_map)
qed

lemma write_entry_events:
  assumes "write_entry tw chunks opt f w = (e, w')"
  shows "(\<exists>n. events w' = events w @ take n (entry_events chunks opt f)) \<and>
     (e = None \<longrightarrow> events w' = events w @ entry_events chunks opt f)"
proof (cases "entry_header opt f")
  case (Inl x)
  then show ?thesis using assms by (auto simp: write_entry_def intro: exI [of _ 0])
next
  case (Inr h)
  obtain x w1 where hw: "tw_write_header tw h w = (x, w1)" by fastforce
  show ?thesis
  proof (cases x)
    case (Some y)
    then show ?thesis
      using assms Inr hw header_failed by (auto simp: write_entry_def intro: exI [of _ 0])
  next
    case None
    then have ev1: "events w1 = events w @ [HeaderEvent h]" using hw header_ok by blast
    show ?thesis
    proof (cases "mode_is_regular (zip_mode (ze_header f))")
      case False
      then show ?thesis
        using assms Inr hw None ev1 by (auto simp: write_entry_def entry_events_def intro: exI [of _ 1])
    next
      case True
      then have "copy_entry tw chunks f w1 = (e, w')"
        using assms Inr hw None by (simp add: write_entry_def)
      from copy_entry_events [OF this] show ?thesis
        using Inr True ev1 by (auto simp: entry_events_def intro: exI [of _ "Suc _"])
    qed
  qed
qed

lemma write_entries_events:
  "write_entries tw chunks opt ff files w = (e, w') \<Longrightarrow>
     (\<exists>n. events w' = events w @ take n (tar_stream chunks opt ff files)) \<and>
     (e = None \<longrightarrow> events w' = events w @ tar_stream chunks opt ff files)"
proof (induction files arbitrary: w)
  case Nil
  then show ?case by (simp add: tar_stream_def)
next
  case (Cons f fs)
  let ?rest = "tar_stream chunks opt ff fs" and ?f = "entry_events chunks opt f"
  show ?case
  proof (cases "accepted ff f")
    case False
    then show ?thesis using Cons by (simp add: tar_stream_def)
  next
    case True
    then have st: "tar_stream chunks opt ff (f # fs) = ?f @ ?rest"
      by (simp add: tar_stream_def)
    obtain x w1 where one: "write_entry tw chunks opt f w = (x, w1)" by fastforce
    obtain n where n: "events w1 = events w @ take n ?f" and full: "x = None \<longrightarrow> events w1 = events w @ ?f"
      using write_entry_events [OF one] by blast
    show ?thesis
    proof (cases x)
      case (Some y)
      have "take n ?f = take (min n (length ?f)) (?f @ ?rest)" by (simp add: min_def)
      then have "\<exists>m. events w1 = events w @ take m (?f @ ?rest)" using n by metis
      then show ?thesis
        using Cons.prems True one Some unfolding st by auto
    next
      case None
      then have "write_entries tw chunks opt ff fs w1 = (e, w')"
        using Cons.prems True one by simp
      from Cons.IH [OF this] obtain m where
        "events w' = events w1 @ take m ?rest" and "e = None \<longrightarrow> events w' = events w1 @ ?rest" by blast
      then show ?thesis
        using full None unfolding st by (auto intro!: exI [of _ "length ?f + m"])
    qed
  qed
qed

end

lemma write_entries_unfiltered:
  "write_entries tw chunks opt (Some (\<lambda>name. True)) files w = write_entries tw chunks opt None files w"
  by (induction files arbitrary: w) (simp_all add: accepted_def split: prod.splits option.splits)

lemma write_zip_to_tar_unfiltered:
  "write_zip_to_tar open_zip tw chunks src opt (Some (\<lambda>name. True)) w =
     write_zip_to_tar open_zip tw chunks src opt None w"
  by (simp add: write_zip_to_tar_def write_entries_unfiltered split: sum.splits)

lemma write_zip_to_tar_events:
  assumes "write_zip_to_tar open_zip (log_writer verdict) chunks src opt ff w = (e, w')"
  shows "\<exists>files n. (open_zip src = Inr files \<or> files = []) \<and>
     tl_events w' = tl_events w @ take n (tar_stream chunks opt ff files) \<and>
     (e = None \<longrightarrow> open_zip src = Inr files \<and> tl_events w' = tl_events w @ tar_stream chunks opt ff files)"
proof (cases "open_zip src")
  case (Inl x)
  then show ?thesis
    using assms by (auto simp: write_zip_to_tar_def intro: exI [of _ "[]"])
next
  case (Inr files)
  then show ?thesis
    using assms logged.write_entries_events [of verdict chunks opt ff files w e w']
    by (auto simp: write_zip_to_tar_def)
qed

section \<open>Names, owners, times\<close>

definition entry_ok :: "tar_options \<Rightarrow> tar_event \<Rightarrow> bool" where
  "entry_ok opt ev =
     (case ev of
        HeaderEvent h \<Rightarrow>
          safe_path (th_name h) \<and> th_uid h = to_uid opt \<and> th_gid h = to_gid opt \<and>
          th_uname h = [] \<and> th_gname h = [] \<and> (if to_normalize opt then th_mod_time h = normalized_date_time else True)
      | _ \<Rightarrow> True)"

lemma entry_header_ok:
  assumes "entry_header opt f = Inr h" and "to_base_path opt = ''/''"
  shows "entry_ok opt (HeaderEvent h)"
proof -
  have "th_name h = filepath_join2 (to_base_path opt) (zh_name (ze_header f))"
    and "th_uid h = to_uid opt \<and> th_gid h = to_gid opt \<and> th_uname h = [] \<and> th_gname h = [] \<and>
      (if to_normalize opt then th_mod_time h = normalized_date_time else True)"
    using assms(1)
    by (auto simp: entry_header_def Let_def finalize_header_def normalize_header_def split: sum.splits if_splits)
  then show ?thesis
    using assms(2) clean_rooted_safe by (simp add: entry_ok_def filepath_join2_def)
qed

lemma tar_stream_ok:
  "to_base_path opt = ''/'' \<Longrightarrow> list_all (entry_ok opt) (tar_stream chunks opt ff files)"
proof -
  assume b: "to_base_path opt = ''/''"
  have "list_all (entry_ok opt) (entry_events chunks opt f)" for f
  proof (cases "entry_header opt f")
    case (Inl e)
    then show ?thesis by (simp add: entry_events_def)
  next
    case (Inr h)
    have "entry_ok opt (DataEvent d)" for d by (simp add: entry_ok_def)
    then have "list_all (entry_ok opt) (map DataEvent ds)" for ds by (simp add: list_all_iff)
    then show ?thesis
      using entry_header_ok [OF Inr b] Inr by (simp add: entry_events_def split: sum.splits prod.splits)
  qed
  then show ?thesis by (auto simp: tar_stream_def list_all_iff)
qed

lemma list_all_take: "list_all P xs \<Longrightarrow> list_all P (take n xs)"
  by (auto simp: list_all_iff dest: in_set_takeD)

section \<open>Modification times\<close>

definition undated :: "zip_entry \<Rightarrow> zip_entry" where
  "undated f = f\<lparr>ze_header := (ze_header f)\<lparr>zh_modified := 0\<rparr>\<rparr>"

lemma undated_header_facts [simp]:
  "zh_name (h\<lparr>zh_modified := x\<rparr>) = zh_name h"
  "zh_size (h\<lparr>zh_modified := x\<rparr>) = zh_size h"
  "zip_mode (h\<lparr>zh_modified := x\<rparr>) = zip_mode h"
  "is_fat_file (h\<lparr>zh_modified := x\<rparr>) = is_fat_file h"
  by (simp_all add: zip_mode_def is_fat_file_def Let_def)

lemma undated_facts [simp]:
  "ze_header (undated f) = (ze_header f)\<lparr>zh_modified := 0\<rparr>"
  "ze_open (undated f) = ze_open f"
  "symlink_target (undated f) = symlink_target f"
  by (simp_all add: undated_def symlink_target_def)

lemma undated_accepted [simp]: "accepted ff (undated f) = accepted ff f"
  by (cases ff) (simp_all add: accepted_def)

lemma undated_file_info:
  "file_info_header (h\<lparr>zh_modified := x\<rparr>) link =
     (case file_info_header h link of Inl e \<Rightarrow> Inl e | Inr th \<Rightarrow> Inr (th\<lparr>th_mod_time := x\<rparr>))"
  by (simp add: file_info_header_def Let_def split: sum.splits)

lemma finalize_normalized:
  "finalize_header uid gid mode True (th\<lparr>th_mod_time := x, th_name := n\<rparr>) =
     finalize_header uid gid mode True (th\<lparr>th_name := n\<rparr>)"
  by (simp add: finalize_header_def normalize_header_def Let_def)

lemma undated_header:
  assumes "to_normalize opt"
  shows "entry_header opt (undated f) = entry_header opt f"
  by (simp add: entry_header_def Let_def undated_file_info assms finalize_normalized split: sum.splits)

lemma write_entries_undated:
  assumes "to_normalize opt"
  shows "write_entries tw chunks opt ff (map undated files) w = write_entries tw chunks opt ff files w"
proof (induction files arbitrary: w)
  case Nil
  then show ?case by simp
next
  case (Cons f fs)
  have "copy_entry tw chunks (undated f) = copy_entry tw chunks f"
    by (rule ext) (simp add: copy_entry_def)
  then have "write_entry tw chunks opt (undated f) v = write_entry tw chunks opt f v" for v
    by (simp add: write_entry_def undated_header [OF assms] split: sum.split prod.split option.split)
  then show ?case
    by (simp add: Cons split: prod.splits option.splits)
qed

section \<open>Permission bits\<close>

lemma and_power_ne_0: "(m :: 32 word) AND 2 ^ k \<noteq> 0 \<longleftrightarrow> bit m k"
  by (simp add: and_exp_eq_0_iff_not_bit)

text \<open>The mode a Unix zip entry of a regular file gets, bit by bit.\<close>

lemma unix_mode_regular:
  assumes "m AND 0xF000 = 0x8000"
  shows "unix_mode m = (m AND 0x1FF) OR (if bit m 10 then mode_setgid else 0) OR
     (if bit m 11 then mode_setuid else 0) OR (if bit m 9 then mode_sticky else 0)"
  using assms and_power_ne_0 [of m 9] and_power_ne_0 [of m 10] and_power_ne_0 [of m 11]
  by (simp add: unix_mode_def Let_def)

lemma and_power_cases: "(m :: 32 word) AND 2 ^ k = (if bit m k then 2 ^ k else 0)"
  by (auto intro!: bit_eqI simp: bit_and_iff bit_exp_iff)

lemmas mode_defs =
  mode_dir_def mode_symlink_def mode_device_def mode_named_pipe_def mode_socket_def mode_setuid_def
  mode_setgid_def mode_char_device_def mode_sticky_def mode_irregular_def mode_type_def

lemma unix_mode_regular_facts:
  assumes "m AND 0xF000 = 0x8000"
  shows "mode_is_regular (unix_mode m)" and "mode_perm (unix_mode m) = m AND 0x1FF"
    and "unix_mode m AND mode_symlink = 0"
    and "unix_mode m AND mode_setuid \<noteq> 0 \<longleftrightarrow> bit m 11"
    and "unix_mode m AND mode_setgid \<noteq> 0 \<longleftrightarrow> bit m 10"
    and "unix_mode m AND mode_sticky \<noteq> 0 \<longleftrightarrow> bit m 9"
  by (simp_all add: unix_mode_regular [OF assms] mode_is_regular_def mode_perm_def mode_defs
      bit.conj_disj_distrib2 and.assoc)

lemma permission_bits:
  "ucast (m AND 0x1FF) OR (if bit m 11 then 0x800 else 0) OR (if bit m 10 then 0x400 else 0) OR
     (if bit m 9 then 0x200 else 0) = (ucast (m AND 0xFFF :: 32 word) :: 64 word)"
proof -
  have "m AND 0xFFF = m AND (0x1FF OR 2 ^ 11 OR 2 ^ 10 OR 2 ^ 9)"
    by simp
  also have "\<dots> = (m AND 0x1FF) OR (m AND 2 ^ 11) OR (m AND 2 ^ 10) OR (m AND 2 ^ 9)"
    by (simp only: bit.conj_disj_distrib)
  finally show ?thesis
    unfolding and_power_cases by (simp add: unsigned_or_eq)
qed

section \<open>The builder\<close>

definition builder_events :: "file_entry \<Rightarrow> tar_event list" where
  "builder_events f = [HeaderEvent (builder_header f), DataEvent (fe_contents f)]"

context tar_sink
begin

lemma builder_entries_events:
  "builder_entries tw written fs w = ((n, None), w') \<Longrightarrow>
     events w' = events w @ concat (map builder_events fs) \<and>
     n = written + of_nat (sum_list (map (\<lambda>f. length (fe_contents f)) fs))"
proof (induction fs arbitrary: written w)
  case Nil
  then show ?case by simp
next
  case (Cons f fs)
  obtain w1 where h: "tw_write_header tw (builder_header f) w = (None, w1)"
    using Cons.prems by (auto split: prod.splits option.splits)
  obtain k w2 where d: "tw_write tw (fe_contents f) w1 = ((k, None), w2)"
    using Cons.prems h by (auto split: prod.splits option.splits)
  have "builder_entries tw (written + of_int k) fs w2 = ((n, None), w')"
    using Cons.prems h d by simp
  from Cons.IH [OF this] show ?case
    using header_ok [OF h] write_ok [OF d] by (simp add: builder_events_def add.assoc)
qed

end

section \<open>Examples\<close>

abbreviation accept_all :: "unit \<Rightarrow> go_error option \<times> unit" where
  "accept_all \<equiv> \<lambda>x. (None, x)"

definition example_options :: tar_options where
  "example_options = \<lparr>to_base_path = ''/'', to_uid = 0, to_gid = 0, to_mode = - 1, to_normalize = True\<rparr>"

definition example_entry :: "string \<Rightarrow> 32 word \<Rightarrow> int \<Rightarrow> go_error + (string \<times> go_error option) \<Rightarrow> zip_entry" where
  "example_entry name mode time content =
     \<lparr>ze_header = \<lparr>zh_name = name, zh_creator_version = 0x300, zh_external_attrs = push_bit 16 mode,
        zh_modified = time, zh_size = 2\<rparr>, ze_open = content\<rparr>"

definition example_zip :: "zip_entry list" where
  "example_zip = [example_entry ''../../etc/x'' 0x81ED 7 (Inr (''hi'', None))]"

definition empty_log :: "unit tar_log" where
  "empty_log = \<lparr>tl_events = [], tl_other = ()\<rparr>"

abbreviation example_run :: "zip_entry list \<Rightarrow> go_error option \<times> unit tar_log" where
  "example_run files \<equiv>
     write_zip_to_tar (\<lambda>p. Inr files) (log_writer accept_all) (\<lambda>s. [s]) ''z'' example_options None empty_log"

lemma example_mode: "zip_mode (ze_header (example_entry ''../../etc/x'' 0x81ED t c)) = 0x1ED"
  by (simp add: zip_mode_def example_entry_def unix_mode_def Let_def)

lemma example_header:
  "entry_header example_options (example_entry ''../../etc/x'' 0x81ED t c) =
     Inr \<lparr>th_typeflag = TypeReg, th_name = ''/etc/x'', th_linkname = [], th_size = 2, th_mode = 0x1ED,
       th_uid = 0, th_gid = 0, th_uname = [], th_gname = [], th_mod_time = normalized_date_time\<rparr>"
  by (simp add: entry_header_def example_mode file_info_header_def file_info_type_def mode_is_regular_def
      mode_perm_def mode_defs finalize_header_def normalize_header_def Let_def example_options_def)
    (simp add: example_entry_def is_fat_file_def filepath_join2_def filepath_clean_def)

lemma example_zip_run:
  "example_run example_zip =
     (None, \<lparr>tl_events = [HeaderEvent \<lparr>th_typeflag = TypeReg, th_name = ''/etc/x'', th_linkname = [],
        th_size = 2, th_mode = 0x1ED, th_uid = 0, th_gid = 0, th_uname = [], th_gname = [],
        th_mod_time = normalized_date_time\<rparr>, DataEvent ''hi''], tl_other = ()\<rparr>)"
  by (simp add: write_zip_to_tar_def example_zip_def accepted_def write_entry_def example_header example_mode
      mode_is_regular_def mode_defs log_writer_def log_event_def empty_log_def)
    (simp add: example_entry_def copy_entry_def)

section \<open>Properties\<close>

text \<open>C25: What \<open>WriteZipToTar\<close> writes is determined by the entries the filter accepts: for each one the
header the options give it and, for a regular file, its content in order. A run without an error
has written all of it, a run with an error a prefix of it, and nothing when the zip cannot be read.\<close>

theorem write_zip_to_tar_stream:
  assumes "write_zip_to_tar open_zip (log_writer verdict) chunks src opt ff w = (e, w')"
  shows "\<exists>files n. (open_zip src = Inr files \<or> files = []) \<and>
     tl_events w' = tl_events w @ take n (tar_stream chunks opt ff files) \<and>
     (e = None \<longrightarrow> open_zip src = Inr files \<and> tl_events w' = tl_events w @ tar_stream chunks opt ff files)"
  by (rule write_zip_to_tar_events [OF assms])

theorem write_zip_to_tar_stream_witness:
  "tl_events (snd (example_run example_zip)) = tar_stream (\<lambda>s. [s]) example_options None example_zip"
  using write_zip_to_tar_stream [OF example_zip_run]
  unfolding example_zip_run by (auto simp: empty_log_def)

text \<open>C26: A zip cannot make the tar of a package write outside of "/": with that base path every entry,
whatever its name and however the run ends, is named by a clean absolute path without any "..",
and belongs to the given owner without a user or group name, at the fixed time if asked for.\<close>

theorem write_zip_to_tar_safe:
  assumes "write_zip_to_tar open_zip (log_writer verdict) chunks src opt ff w = (e, w')"
    and "to_base_path opt = ''/''"
  shows "\<exists>new. tl_events w' = tl_events w @ new \<and> list_all (entry_ok opt) new"
  using write_zip_to_tar_events [OF assms(1)] list_all_take [OF tar_stream_ok [OF assms(2)]] by blast

theorem write_zip_to_tar_safe_witness:
  "list_all (entry_ok example_options) (tl_events (snd (example_run example_zip)))"
  using write_zip_to_tar_safe [OF example_zip_run]
  unfolding example_zip_run by (auto simp: empty_log_def example_options_def)

text \<open>C27: The tar does not depend on the times in the zip: with normalised times, two zips that differ in
modification times only give the same calls on the writer, with the same result.\<close>

theorem write_zip_to_tar_reproducible:
  assumes "to_normalize opt" and "open1 src1 = Inr files1" and "open2 src2 = Inr files2"
    and "map undated files1 = map undated files2"
  shows "write_zip_to_tar open1 tw chunks src1 opt ff w = write_zip_to_tar open2 tw chunks src2 opt ff w"
  using assms write_entries_undated [OF assms(1), of tw chunks ff files1 w]
    write_entries_undated [OF assms(1), of tw chunks ff files2 w]
  by (simp add: write_zip_to_tar_def)

theorem write_zip_to_tar_reproducible_witness:
  "example_run [example_entry ''a'' 0x81A4 1 (Inr (''hi'', None))] =
     example_run [example_entry ''a'' 0x81A4 99 (Inr (''hi'', None))]"
  by (rule write_zip_to_tar_reproducible
        [where ?files1.0 = "[example_entry ''a'' 0x81A4 1 (Inr (''hi'', None))]"
          and ?files2.0 = "[example_entry ''a'' 0x81A4 99 (Inr (''hi'', None))]"])
    (simp_all add: example_options_def undated_def example_entry_def)

text \<open>C28: With mode -1 a regular file of a Unix zip keeps its permission, setuid, setgid and sticky bits.\<close>

theorem unix_permissions_preserved:
  assumes "entry_header opt f = Inr h" and "to_mode opt = - 1"
    and "drop_bit 8 (zh_creator_version (ze_header f)) = 3"
    and "drop_bit 16 (zh_external_attrs (ze_header f)) AND 0xF000 = 0x8000"
    and "zh_name (ze_header f) = [] \<or> last (zh_name (ze_header f)) \<noteq> CHR ''/''"
  shows "th_typeflag h = TypeReg \<and>
     th_mode h = ucast (drop_bit 16 (zh_external_attrs (ze_header f)) AND 0xFFF)"
proof -
  let ?m = "drop_bit 16 (zh_external_attrs (ze_header f))"
  have mode: "zip_mode (ze_header f) = unix_mode ?m"
    using assms(3,5) by (auto simp: zip_mode_def Let_def)
  have fat: "\<not> is_fat_file (ze_header f)"
    using assms(3) by (simp add: is_fat_file_def)
  note facts = unix_mode_regular_facts [OF assms(4)]
  have "file_info_header (ze_header f) link = Inr
      \<lparr>th_typeflag = TypeReg, th_name = zh_name (ze_header f), th_linkname = [], th_size = zh_size (ze_header f),
       th_mode = ucast (?m AND 0xFFF), th_uid = 0, th_gid = 0, th_uname = [], th_gname = [],
       th_mod_time = zh_modified (ze_header f)\<rparr>" for link
    by (simp add: file_info_header_def file_info_type_def mode facts Let_def permission_bits [symmetric] or.assoc
        del: bit_0)
  then show ?thesis
    using assms(1,2) facts(3) fat
    by (auto simp: entry_header_def mode Let_def finalize_header_def normalize_header_def)
qed

theorem unix_permissions_preserved_witness:
  "th_mode (case entry_header example_options (example_entry ''../../etc/x'' 0x81ED 7 (Inr (''hi'', None))) of
     Inr h \<Rightarrow> h) = 0x1ED"
  unfolding example_header
  using unix_permissions_preserved [OF example_header [of 7 "Inr (''hi'', None)"]]
  by (simp add: example_options_def example_entry_def)

text \<open>A symbolic link of the zip whose content cannot be opened is not reported: its header is
written with an empty target.\<close>

theorem unreadable_symlink_is_written_empty:
  assumes "file_info_type (zip_mode (ze_header f)) = Inr TypeSymlink"
    and "zip_mode (ze_header f) AND mode_symlink \<noteq> 0" and "ze_open f = Inl e"
  shows "\<exists>h. entry_header opt f = Inr h \<and> th_typeflag h = TypeSymlink \<and> th_linkname h = []"
  using assms
  by (auto simp: entry_header_def symlink_target_def file_info_header_def Let_def finalize_header_def
      normalize_header_def)

theorem unreadable_symlink_is_written_empty_witness:
  "\<exists>h. entry_header example_options (example_entry ''l'' 0xA1FF 0 (Inl (ErrorText ''bad zip''))) = Inr h \<and>
     th_typeflag h = TypeSymlink \<and> th_linkname h = []"
  by (rule unreadable_symlink_is_written_empty)
    (simp_all add: example_entry_def zip_mode_def unix_mode_def Let_def file_info_type_def mode_is_regular_def mode_defs)

text \<open>When the tar builder's \<open>WriteTo\<close> reports no error, it has written for each added file, in the
order of the calls, its header and contents, and the count it returns is the sum of their lengths;
whether the closing of the tar succeeded does not show in the result.\<close>

theorem builder_writes_all:
  assumes "builder_write_to (log_writer verdict) t w = ((n, None), w')"
  shows "tl_events w' \<in> {tl_events w @ concat (map builder_events t) @ c | c. c \<in> {[], [CloseEvent]}} \<and>
     n = of_nat (sum_list (map (\<lambda>f. length (fe_contents f)) t))"
proof -
  obtain w1 where e: "builder_entries (log_writer verdict) 0 t w = ((n, None), w1)"
    and w': "w' = snd (tw_close (log_writer verdict) w1)"
    using assms by (auto simp: builder_write_to_def split: prod.splits)
  have "tl_events w' = tl_events w1 \<or> tl_events w' = tl_events w1 @ [CloseEvent]"
    by (auto simp: w' log_writer_def log_event_def split: prod.splits option.splits)
  then show ?thesis
    using logged.builder_entries_events [OF e] by auto
qed

theorem builder_writes_all_witness:
  "fst (builder_write_to (log_writer accept_all) (add_file (add_dir [] ''d'' 0x1ED 0) ''d/f'' 0x1A4 0 ''hello'') empty_log) = (5, None)"
proof -
  obtain n w' where r: "builder_write_to (log_writer accept_all)
      (add_file (add_dir [] ''d'' 0x1ED 0) ''d/f'' 0x1A4 0 ''hello'') empty_log = ((n, None), w')"
    by (simp add: builder_write_to_def add_file_def add_dir_def log_writer_def log_event_def)
  from builder_writes_all [OF this] have "n = 5"
    by (simp add: add_file_def add_dir_def)
  then show ?thesis by (simp add: r)
qed

end
