(* ===== verification/RegistryProperties.thy ===== *)
theory RegistryProperties
  imports RegistryHandlers ArchiveProperties
begin

text \<open>
  The endpoints of registry-buddy wired as \<open>main.go\<close> wires them, and what they promise. The
  in-memory registry is completed by a Docker Hub on the same store.
\<close>

section \<open>The dynamic deleter keeps the contract\<close>

lemma generic_contract:
  assumes "oci_registry resolve settled background rf del get"
  shows "deleter_contract resolve settled background (generic_deleter rf del get)"
  by (intro deleter_contract.intro deleter_contract_axioms.intro oci_registry.axioms(1) [OF assms])
    (erule oci_registry.generic_deletes [OF assms], erule oci_registry.generic_only_deletes [OF assms])

lemma hub_contract:
  assumes "hub_registry resolve settled background env rf authorization client api"
  shows "deleter_contract resolve settled background (dockerhub_deleter env rf authorization client)"
  by (intro deleter_contract.intro deleter_contract_axioms.intro hub_registry.axioms(1) [OF assms])
    (erule hub_registry.hub_deletes_repository [OF assms _ refl], erule hub_registry.hub_only_deletes [OF assms])

abbreviation default_hub :: "'w http_env \<Rightarrow> 'w dockerhub_api" where
  "default_hub env \<equiv> hub_api env (new_hub_client default_domain)"

lemma dynamic_contract:
  assumes "oci_registry resolve settled background rf del get"
    and "hub_registry resolve settled background env rf authorization (Some (default_hub env)) api"
  shows "deleter_contract resolve settled background (dynamic_deleter env rf authorization del get)"
  using deleter_contract.deleted [OF generic_contract [OF assms(1)]]
    deleter_contract.only_deletes [OF generic_contract [OF assms(1)]]
    deleter_contract.deleted [OF hub_contract [OF assms(2)]]
    deleter_contract.only_deletes [OF hub_contract [OF assms(2)]]
  by (intro deleter_contract.intro deleter_contract_axioms.intro oci_registry.axioms(1) [OF assms(1)])
    (auto simp: dynamic_deleter_def split: if_splits)

section \<open>A Docker Hub on the in-memory registry\<close>

text \<open>It accepts the deletion of a repository, with the answers 202 and 404, or refuses it.\<close>

definition memory_hub_do :: "('o \<Rightarrow> int \<times> 'o) \<Rightarrow> http_request \<Rightarrow> ('o registry_world, go_error + http_response) effect" where
  "memory_hub_do verdict req w =
     (let prefix = default_domain @ ''/v2/repositories/'';
          (status, x) = verdict (rg_other w);
          w' = w\<lparr>rg_other := x\<rparr>
      in if rq_method req = ''POST''
         then (Inr \<lparr>rs_status = 200, rs_body = json_text (JObj [(''token'', JStr ''jwt'')])\<rparr>, w')
         else if status = 202 \<or> status = 404
         then (Inr \<lparr>rs_status = status, rs_body = []\<rparr>, accept (DropRepository (butlast (drop (length prefix) (rq_url req)))) w')
         else (Inr \<lparr>rs_status = status, rs_body = []\<rparr>, w'))"

definition memory_hub_env :: "('o \<Rightarrow> int \<times> 'o) \<Rightarrow> 'o registry_world http_env" where
  "memory_hub_env verdict = \<lparr>he_url_error = (\<lambda>u. None), he_do = memory_hub_do verdict\<rparr>"

definition memory_authorization :: "unit \<Rightarrow> ('o registry_world, go_error + auth_config) effect" where
  "memory_authorization auth w = (Inr \<lparr>au_username = ''u'', au_password = ''p''\<rparr>, w)"

lemma drop_repository_resolve:
  "registry_resolve (carry_out (DropRepository repo) w) r =
     (if ref_repository r = repo then None else registry_resolve w r)"
  by (cases r) (auto simp: registry_resolve_def split: option.splits)

lemma memory_hub_delete_cases:
  assumes "delete_repo (memory_hub_env verdict) (new_hub_client default_domain) repo tk w = (e, w')"
  obtains x where "w' = w\<lparr>rg_other := x\<rparr>" "\<not> (case e of None \<Rightarrow> True | Some (HubNotFound x) \<Rightarrow> True | _ \<Rightarrow> False)"
    | x where "w' = accept (DropRepository repo) (w\<lparr>rg_other := x\<rparr>)"
proof -
  have d: "hub_domain (new_hub_client default_domain) = default_domain"
    by (simp add: new_hub_client_def default_domain_def)
  show thesis
    using assms that
    by (auto simp: delete_repo_def new_request_def memory_hub_env_def memory_hub_do_def header_add_def Let_def d
        butlast_append split: prod.splits if_splits)
qed

lemma memory_hub_delete:
  assumes "delete_repo (memory_hub_env verdict) (new_hub_client default_domain) repo tk w = (e, w')"
  shows "registry_resolve w' = registry_resolve w"
    and "(case e of None \<Rightarrow> True | Some (HubNotFound x) \<Rightarrow> True | _ \<Rightarrow> False) \<Longrightarrow> ref_repository r = repo \<Longrightarrow>
      registry_settled w' r = None"
proof -
  show "registry_resolve w' = registry_resolve w"
    using assms by (cases rule: memory_hub_delete_cases) simp_all
  show "registry_settled w' r = None"
    if "case e of None \<Rightarrow> True | Some (HubNotFound x) \<Rightarrow> True | _ \<Rightarrow> False" "ref_repository r = repo"
    using assms
  proof (cases rule: memory_hub_delete_cases)
    case (1 x)
    then show ?thesis using that(1) by simp
  next
    case (2 x)
    then show ?thesis using that(2) by (simp only: accept_views drop_repository_resolve if_True refl)
  qed
qed

lemma memory_hub_token:
  assumes "get_authorization_token (memory_hub_env verdict) c user pass w = (t, w')"
  shows "registry_resolve w' = registry_resolve w"
proof -
  have "w' = w \<or> (\<exists>x. w' = w\<lparr>rg_other := x\<rparr>)"
    using assms
    by (auto simp: get_authorization_token_def new_request_def memory_hub_env_def memory_hub_do_def header_add_def
        Let_def split: prod.splits option.splits)
  then show ?thesis by auto
qed

interpretation memory_hub: hub_registry registry_resolve registry_settled memory_background
  "memory_hub_env verdict" memory_refs memory_authorization
  "Some (default_hub (memory_hub_env verdict))" "default_hub (memory_hub_env verdict)"
proof (unfold_locales, goal_cases)
  case 1
  show ?case by simp
next
  case (2 auth w a w' r)
  then show ?case by (simp add: memory_authorization_def)
next
  case (3 user pass w t w' r)
  then show ?case by (simp add: hub_api_def memory_hub_token)
next
  case (4 repo tk w e w' r)
  then show ?case using memory_hub_delete(1) [of verdict repo tk w e w'] by (simp add: hub_api_def)
next
  case (5 ref tk w e w')
  then show ?case
    using memory_hub_delete(2) [of verdict "ref_repository ref" tk w e w' ref] by (simp add: hub_api_def memory_refs_def)
qed

section \<open>An example\<close>

definition example_registry :: "unit registry_world" where
  "example_registry =
     \<lparr>rg_manifests = [(''r/a'', ''sha256:1''), (''index.docker.io/x'', ''sha256:2'')],
      rg_tags = [(''r/a'', ''latest'') \<mapsto> ''sha256:1'', (''index.docker.io/x'', ''latest'') \<mapsto> ''sha256:2''],
      rg_pending = [], rg_other = ()\<rparr>"

abbreviation never_refuse :: "unit \<Rightarrow> (int \<times> string list) option \<times> unit" where
  "never_refuse \<equiv> \<lambda>x. (None, x)"

abbreviation always_accept :: "unit \<Rightarrow> int \<times> unit" where
  "always_accept \<equiv> \<lambda>x. (202, x)"

abbreviation example_deleter :: "(unit registry_world, image_ref, unit) deleter" where
  "example_deleter \<equiv>
     dynamic_deleter (memory_hub_env always_accept) memory_refs memory_authorization
       (memory_delete never_refuse) (memory_get never_refuse)"

text \<open>Both deletions, of the tag and of the manifest, were accepted and wait.\<close>

definition example_deleted :: "unit registry_world" where
  "example_deleted =
     accept (DropManifest ''r/a'' ''sha256:1'') (accept (DropTag ''r/a'' ''latest'') example_registry)"

definition example_delete_body :: string where
  "example_delete_body = json_text (delete_image_response_json ''r/a'')"

lemma example_delete_decode:
  "Option.bind (json_decode example_delete_body) dec_delete_image_request = Some \<lparr>dr_image_reference = ''r/a''\<rparr>"
  using json_decode_text [of "delete_image_response_json ''r/a''" "[]"]
  by (simp add: example_delete_body_def delete_image_response_json_def dec_delete_image_request_def
      dec_struct_def dec_string_def eq_fold_def)

lemma example_delete_run:
  "delete_image_handler memory_refs example_deleter () example_delete_body example_registry =
     (\<lparr>rs_status = 202, rs_body = json_text (delete_image_response_json ''r/a'') @ [CHR 0x0A]\<rparr>, example_deleted)"
proof -
  have get: "memory_get never_refuse (TagRef ''r/a'' ''latest'') () example_registry =
      (Inr \<lparr>hash_algorithm = ''sha256'', hash_hex = ''1''\<rparr>, example_registry)"
    by (simp add: memory_get_def registry_resolve_def example_registry_def proper_repository_def split_digest_def)
  have tag: "memory_delete never_refuse (TagRef ''r/a'' ''latest'') () example_registry =
      (None, accept (DropTag ''r/a'' ''latest'') example_registry)"
    by (simp add: memory_delete_def registry_resolve_def example_registry_def proper_repository_def)
  have dig: "memory_delete never_refuse (DigestRef ''r/a'' ''sha256:1'') ()
      (accept (DropTag ''r/a'' ''latest'') example_registry) = (None, example_deleted)"
    by (simp add: memory_delete_def registry_resolve_def example_registry_def proper_repository_def
        example_deleted_def accept_def)
  have "example_deleter (TagRef ''r/a'' ''latest'') () example_registry = (None, example_deleted)"
    using get tag dig
    by (simp add: dynamic_deleter_def memory_refs_def go_has_prefix_def generic_deleter_def digest_reference_def
        parse_ref_def attempt_delete_by_tag_def)
  then show ?thesis
    by (simp add: delete_image_handler_def example_delete_decode invalid_delete_image_request_def memory_refs_def
        parse_ref_def write_success_response_def)
qed

section \<open>Properties\<close>

text \<open>C19: When \<open>DELETE /images\<close> answers 202, its body named a reference that parses, the answer's JSON
decodes to the reference's full name, and the registry, which may delete asynchronously and so still
resolve the reference for a while, has accepted its deletion: once it has worked off what it accepted,
the reference resolves to nothing and stays so. (In a registry that deletes at once, \<open>settled\<close> is
\<open>resolve\<close> and it resolves to nothing when the answer is sent.) This holds for references to Docker Hub and to any
other registry, and through the tolerated errors.\<close>

theorem delete_image_accepted_means_gone:
  assumes "oci_registry resolve settled background rf del get"
    and "hub_registry resolve settled background env rf authorization (Some (default_hub env)) api"
    and "delete_image_handler rf (dynamic_deleter env rf authorization del get) auth body w = (res, w')"
    and "rs_status res = 202"
  shows "\<exists>b ref. Option.bind (json_decode body) dec_delete_image_request = Some b \<and>
     rf_parse rf (dr_image_reference b) = Inr ref \<and> settled w' ref = None \<and>
     (\<exists>n. \<forall>k\<ge>n. resolve ((background ^^ k) w') ref = None) \<and>
     json_decode (rs_body res) = Some (delete_image_response_json (rf_name rf ref))"
  by (rule deleter_contract.accepted_deletion [OF dynamic_contract [OF assms(1,2)] assms(3,4)])

theorem delete_image_accepted_means_gone_witness:
  "registry_resolve example_registry (TagRef ''r/a'' ''latest'') = Some ''sha256:1'' \<and>
     registry_resolve example_deleted (TagRef ''r/a'' ''latest'') = Some ''sha256:1'' \<and>
     registry_settled example_deleted (TagRef ''r/a'' ''latest'') = None"
  using delete_image_accepted_means_gone
    [OF memory.oci_registry_axioms memory_hub.hub_registry_axioms example_delete_run]
  by (auto simp: example_delete_decode memory_refs_def parse_ref_def registry_resolve_def example_registry_def
      example_deleted_def proper_repository_def)

text \<open>Whatever \<open>DELETE /images\<close> answers, it has only taken images away: every reference resolves
to what it resolved to before, or to nothing.\<close>

theorem delete_image_only_deletes:
  assumes "oci_registry resolve settled background rf del get"
    and "hub_registry resolve settled background env rf authorization (Some (default_hub env)) api"
    and "delete_image_handler rf (dynamic_deleter env rf authorization del get) auth body w = (res, w')"
  shows "resolve w' r = resolve w r \<or> resolve w' r = None"
  by (rule deleter_contract.deletion_only_deletes [OF dynamic_contract [OF assms(1,2)] assms(3)])

text \<open>On Docker Hub, deleting one image deletes its whole repository: after a success no reference
into that repository, whatever its tag or digest, resolves once the registry settled.\<close>

theorem dockerhub_deletes_whole_repository:
  assumes "hub_registry resolve settled background env rf authorization client api"
    and "dockerhub_deleter env rf authorization client ref auth w = (None, w')"
    and "rf_repository_str rf other = rf_repository_str rf ref"
  shows "settled w' other = None"
  by (rule hub_registry.hub_deletes_repository [OF assms])

lemma accepted_package:
  assumes "post_package_handler upload auth body w = (res, w')" and "rs_status res = 200"
  shows "\<exists>b h. Option.bind (json_decode body) dec_post_package_body = Some b \<and>
     pp_zip_path b \<noteq> [] \<and> pp_guid b \<noteq> [] \<and> pp_registry_base_path b \<noteq> [] \<and>
     upload (pp_zip_path b) (pp_registry_base_path b @ ''/'' @ pp_guid b) auth w = (Inr h, w') \<and>
     json_decode (rs_body res) = Some (post_package_response_json h)"
proof -
  obtain b h where b: "Option.bind (json_decode body) dec_post_package_body = Some b"
    "\<not> invalid_post_package_request b"
    and u: "upload (pp_zip_path b) (pp_registry_base_path b @ ''/'' @ pp_guid b) auth w = (Inr h, w')"
    and r: "rs_body res = json_text (post_package_response_json h) @ [CHR 0x0A]"
    using assms by (auto simp: post_package_handler_def split: option.splits sum.splits prod.splits if_splits)
  have "json_decode (rs_body res) = Some (post_package_response_json h)"
    unfolding r
    by (rule json_decode_text)
      (simp_all add: post_package_response_json_def hash_response_json_def no_number_follows_def
        is_number_char_def is_digit_def)
  then show ?thesis using b u by (auto simp: invalid_post_package_request_def)
qed

text \<open>When \<open>POST /packages\<close> answers 200, all three parameters were given, the uploader was called
with the zip path and the path \<open>registry_base_path/package_guid\<close> and succeeded, and the answer's JSON
decodes to the digest it returned.\<close>

theorem post_package_success:
  assumes "post_package_handler upload auth body w = (res, w')" and "rs_status res = 200"
  shows "\<exists>b h. Option.bind (json_decode body) dec_post_package_body = Some b \<and>
     pp_zip_path b \<noteq> [] \<and> pp_guid b \<noteq> [] \<and> pp_registry_base_path b \<noteq> [] \<and>
     upload (pp_zip_path b) (pp_registry_base_path b @ ''/'' @ pp_guid b) auth w = (Inr h, w') \<and>
     json_decode (rs_body res) = Some (post_package_response_json h)"
  by (rule accepted_package [OF assms])

definition example_post_body :: string where
  "example_post_body = json_text (JObj [(''package_zip_path'', JStr ''/z''), (''package_guid'', JStr ''g''),
     (''registry_base_path'', JStr ''reg'')])"

lemma example_post_decode:
  "Option.bind (json_decode example_post_body) dec_post_package_body =
     Some \<lparr>pp_zip_path = ''/z'', pp_guid = ''g'', pp_registry_base_path = ''reg''\<rparr>"
proof -
  have "json_decode example_post_body = Some (JObj [(''package_zip_path'', JStr ''/z''), (''package_guid'', JStr ''g''),
     (''registry_base_path'', JStr ''reg'')])"
    using json_decode_text [of "JObj [(''package_zip_path'', JStr ''/z''), (''package_guid'', JStr ''g''),
     (''registry_base_path'', JStr ''reg'')]" "[]"]
    by (simp add: example_post_body_def)
  then show ?thesis
    by (simp add: dec_post_package_body_def dec_struct_def dec_string_def eq_fold_def)
qed

definition example_uploader :: "(string, unit) uploader" where
  "example_uploader z p a w = (Inr \<lparr>hash_algorithm = ''sha256'', hash_hex = z\<rparr>, p)"

theorem post_package_success_witness:
  "\<exists>h. example_uploader ''/z'' ''reg/g'' () [] = (Inr h, ''reg/g'') \<and>
     json_decode (rs_body (fst (post_package_handler example_uploader () example_post_body []))) =
       Some (post_package_response_json h)"
proof -
  obtain res where run: "post_package_handler example_uploader () example_post_body [] = (res, ''reg/g'')"
    and st: "rs_status res = 200"
    by (simp add: post_package_handler_def example_post_decode invalid_post_package_request_def example_uploader_def)
  from post_package_success [OF run st] show ?thesis
    by (auto simp: example_post_decode example_uploader_def run)
qed

text \<open>A body that is not the JSON of a request, or lacks a parameter, is answered with 400 or 422
and nothing is uploaded; these answers are given in no other case.\<close>

theorem post_package_rejects:
  "rs_status (fst (post_package_handler upload auth body w)) \<in> {400, 422} \<longleftrightarrow>
     (case Option.bind (json_decode body) dec_post_package_body of
        None \<Rightarrow> post_package_handler upload auth body w = (\<lparr>rs_status = 400, rs_body = ''unable to parse request body''\<rparr>, w)
      | Some b \<Rightarrow> (pp_zip_path b = [] \<or> pp_guid b = [] \<or> pp_registry_base_path b = []) \<and>
          post_package_handler upload auth body w = (\<lparr>rs_status = 422, rs_body = ''missing required parameter''\<rparr>, w))"
  by (auto simp: post_package_handler_def invalid_post_package_request_def split: option.splits sum.splits prod.splits)

text \<open>
  What \<open>tarball.LayerFromReader\<close> promises: it reports the error a stream ends with, and a layer it
  gives contains the bytes of the stream.
\<close>

definition layer_law :: "('w, 'img, 'layer, 'ref, 'auth) image_api \<Rightarrow> ('layer \<Rightarrow> string) \<Rightarrow> bool" where
  "layer_law im content \<longleftrightarrow>
     (\<forall>s e w layer w'. im_layer im (s, e) w = (Inr layer, w') \<longrightarrow> e = None \<and> content layer = s)"

text \<open>A format whose bytes are some encoding of the calls its writer accepted.\<close>

definition log_format :: "('o \<Rightarrow> go_error option \<times> 'o) \<Rightarrow> 'o \<Rightarrow> (tar_event list \<Rightarrow> string) \<Rightarrow> 'o tar_log tar_format" where
  "log_format verdict start encode =
     \<lparr>tf_new = \<lparr>tl_events = [], tl_other = start\<rparr>, tf_writer = log_writer verdict,
      tf_bytes = (\<lambda>w. encode (tl_events w))\<rparr>"

lemma read_zip_as_tar_stream:
  assumes "read_zip_as_tar open_zip chunks (log_format verdict start encode) src opt ff = (s, None)"
  shows "\<exists>files. open_zip src = Inr files \<and>
     s \<in> encode ` {tar_stream chunks opt ff files, tar_stream chunks opt ff files @ [CloseEvent]}"
proof -
  obtain e w where z: "write_zip_to_tar open_zip (log_writer verdict) chunks src opt ff
      \<lparr>tl_events = [], tl_other = start\<rparr> = (e, w)"
    by (metis surj_pair)
  have e: "e = None" and s: "s = encode (tl_events (snd (tw_close (log_writer verdict) w)))"
    using assms z by (auto simp: read_zip_as_tar_def log_format_def split: prod.splits)
  obtain files where f: "open_zip src = Inr files" and ev: "tl_events w = tar_stream chunks opt ff files"
    using write_zip_to_tar_events [OF z] e by auto
  have "tl_events (snd (tw_close (log_writer verdict) w)) = tl_events w \<or>
      tl_events (snd (tw_close (log_writer verdict) w)) = tl_events w @ [CloseEvent]"
    by (auto simp: log_writer_def log_event_def split: prod.splits option.splits)
  then show ?thesis using f ev s by auto
qed

text \<open>C22: An upload that reports a digest has written, under the reference of the given path, an image with
that digest and one layer, and the layer holds the tar of the whole zip: every entry in order, each
named by a clean absolute path without "..", owned by root, at the fixed time.\<close>

theorem upload_package_writes:
  assumes "upload_package \<lparr>za_open = open_zip, za_chunks = chunks, za_format = log_format verdict start encode\<rparr>
       im zip_path registry_path auth w = (Inr h, w')"
    and "layer_law im content"
  shows "\<exists>files events img w1 layer w2 img' ref.
     open_zip zip_path = Inr files \<and>
     events \<in> {c. \<exists>t \<in> {[], [CloseEvent]}. c = tar_stream chunks package_tar_options None files @ t} \<and>
     list_all (entry_ok package_tar_options) events \<and> content layer = encode events \<and>
     im_random im w = (Inr img, w1) \<and> im_append im img layer = Inr img' \<and> im_parse im registry_path = Inr ref \<and>
     im_write im ref img' auth w2 = (None, w') \<and> im_digest im img' = Inr h"
proof -
  let ?tar = "read_zip_as_tar open_zip chunks (log_format verdict start encode) zip_path package_tar_options
      (Some (\<lambda>name. True))"
  obtain img w1 layer w2 img' ref where run: "im_random im w = (Inr img, w1)" "im_layer im ?tar w1 = (Inr layer, w2)"
      "im_append im img layer = Inr img'" "im_parse im registry_path = Inr ref"
      "im_write im ref img' auth w2 = (None, w')" "im_digest im img' = Inr h"
    using assms(1) by (auto simp: upload_package_def split: sum.splits prod.splits option.splits)
  obtain s e where se: "?tar = (s, e)" by fastforce
  have "e = None \<and> content layer = s"
    using assms(2) run(2) unfolding layer_law_def se by blast
  then have s: "?tar = (s, None)" and content: "content layer = s"
    using se by auto
  have all: "tar_stream chunks opt (Some (\<lambda>name. True)) fs = tar_stream chunks opt None fs" for opt fs
    by (simp add: tar_stream_def accepted_def)
  obtain files where f: "open_zip zip_path = Inr files"
    and "s \<in> encode ` {tar_stream chunks package_tar_options None files,
      tar_stream chunks package_tar_options None files @ [CloseEvent]}"
    using read_zip_as_tar_stream [OF s] by (auto simp: all)
  then have "\<exists>t \<in> {[], [CloseEvent]}. s = encode (tar_stream chunks package_tar_options None files @ t)"
    by auto
  then obtain t where t: "t \<in> {[], [CloseEvent]}"
    and enc: "s = encode (tar_stream chunks package_tar_options None files @ t)" by blast
  have "list_all (entry_ok package_tar_options) (tar_stream chunks package_tar_options None files @ t)"
    using tar_stream_ok [of package_tar_options chunks None files] t
    by (auto simp: package_tar_options_def entry_ok_def)
  then show ?thesis using f t enc content run by blast
qed

definition example_image_api :: "(string list, nat, string, string, unit) image_api" where
  "example_image_api =
     \<lparr>im_random = (\<lambda>w. (Inr 0, w)),
      im_layer = (\<lambda>(s, e) w. (case e of Some e \<Rightarrow> Inl e | None \<Rightarrow> Inr s, w)), im_append = (\<lambda>i l. Inr (Suc i)), im_parse = Inr,
      im_write = (\<lambda>r i a w. (None, r # w)), im_digest = (\<lambda>i. Inr \<lparr>hash_algorithm = ''sha256'', hash_hex = replicate i (CHR ''d'')\<rparr>)\<rparr>"

lemma example_layer_law: "layer_law example_image_api (\<lambda>s. s)"
  by (auto simp: layer_law_def example_image_api_def split: option.splits)

definition example_encode :: "tar_event list \<Rightarrow> string" where
  "example_encode evs = replicate (length evs) (CHR ''e'')"

lemma example_tar:
  "snd (read_zip_as_tar (\<lambda>p. Inr example_zip) (\<lambda>s. [s]) (log_format accept_all () example_encode) zip_path
      package_tar_options (Some (\<lambda>name. True))) = None"
proof -
  have "fst (write_zip_to_tar (\<lambda>p. Inr example_zip) (log_writer accept_all) (\<lambda>s. [s]) zip_path package_tar_options
      (Some (\<lambda>name. True)) \<lparr>tl_events = [], tl_other = ()\<rparr>) = None"
    (is "fst ?run = None")
  proof -
    have "?run = example_run example_zip"
      by (simp only: write_zip_to_tar_unfiltered example_options_def package_tar_options_def empty_log_def)
        (simp add: write_zip_to_tar_def)
    then show ?thesis by (simp only: example_zip_run fst_conv)
  qed
  then show ?thesis
    by (auto simp: read_zip_as_tar_def log_format_def split: prod.splits)
qed

lemma example_upload:
  "upload_package \<lparr>za_open = (\<lambda>p. Inr example_zip), za_chunks = (\<lambda>s. [s]), za_format = log_format accept_all () example_encode\<rparr>
     example_image_api ''z'' ''reg/g'' () [] = (Inr \<lparr>hash_algorithm = ''sha256'', hash_hex = ''d''\<rparr>, [''reg/g''])"
  using example_tar [of "''z''"]
  by (auto simp: upload_package_def example_image_api_def split: prod.splits option.splits)

theorem upload_package_writes_witness:
  "\<exists>events. list_all (entry_ok package_tar_options) events \<and>
     events \<in> {c. \<exists>t \<in> {[], [CloseEvent]}. c = tar_stream (\<lambda>s. [s]) package_tar_options None example_zip @ t}"
  using upload_package_writes [OF example_upload example_layer_law] by blast

text \<open>The health endpoint panics exactly when the configured registry path is no repository name;
otherwise it answers 200 when the registry answered its ping with 200, and 401 in every other case.\<close>

theorem healthz_outcome:
  "fst (healthz_handler base (health_check ha) auth w) =
     (case ha_new_repository ha base of
        Inl e \<Rightarrow> Panics (PanicWith e)
      | Inr repo \<Rightarrow> Returns
          (if (\<exists>c w1 res w2. ha_connect ha repo auth w = (Inr c, w1) \<and>
                ha_http_get ha c (''https://'' @ ha_registry_name ha repo @ ''/v2/'') w1 = (Inr res, w2) \<and> rs_status res = 200)
           then \<lparr>rs_status = 200, rs_body = []\<rparr>
           else \<lparr>rs_status = 401, rs_body = ''unable to reach registry '' @ base\<rparr>))"
  by (auto simp: healthz_handler_def health_check_def split: sum.splits prod.splits)

end
