(* ===== verification/RegistryEndToEnd.thy ===== *)
theory RegistryEndToEnd
  imports RegistryProperties
begin

text \<open>
  registry-buddy as \<open>newServer\<close> wires it: the uploader, the dynamic deleter and the health check
  behind the three routes, over one registry. What becomes of an image from its upload to its
  deletion, and what a whole session of requests can leave in the registry.
\<close>

section \<open>The wired server\<close>

text \<open>
  A handler takes the body of a request; \<open>credentials\<close> is \<open>authn.FromConfig\<close>.
\<close>

type_synonym 'w buddy_handler = "string \<Rightarrow> ('w, http_response outcome) effect"

definition buddy_server ::
  "(auth_config \<Rightarrow> 'auth) \<Rightarrow> ('w, 'auth) uploader \<Rightarrow> 'ref ref_api \<Rightarrow> ('w, 'ref, 'auth) deleter \<Rightarrow>
     ('w, 'repo, 'auth, 'client) health_api \<Rightarrow> registry_config \<Rightarrow> 'w buddy_handler registry_server" where
  "buddy_server credentials upload rf deleter ha cfg =
     new_server
       (\<lambda>a body w. let (res, w') = post_package_handler upload (credentials a) body w in (Returns res, w'))
       (\<lambda>a body w. let (res, w') = delete_image_handler rf deleter (credentials a) body w in (Returns res, w'))
       (\<lambda>base a body. healthz_handler base (health_check ha) (credentials a))
       cfg"

text \<open>
  A request for the path and method of a route goes to its handler; any other is answered by the
  router. A panic ends its own request only.
\<close>

record buddy_request =
  bq_path :: string
  bq_method :: string
  bq_body :: string

definition route_handler :: "'h registry_server \<Rightarrow> buddy_request \<Rightarrow> 'h option" where
  "route_handler srv q = map_of (map (\<lambda>(p, m, h). ((p, m), h)) (rv_routes srv)) (bq_path q, bq_method q)"

definition serve_request :: "'w buddy_handler registry_server \<Rightarrow> buddy_request \<Rightarrow> ('w, http_response outcome option) effect" where
  "serve_request srv q w =
     (case route_handler srv q of
        None \<Rightarrow> (None, w)
      | Some h \<Rightarrow> (let (res, w') = h (bq_body q) w in (Some res, w')))"

fun serve_all :: "'w buddy_handler registry_server \<Rightarrow> buddy_request list \<Rightarrow> ('w, http_response outcome option list) effect" where
  "serve_all srv [] w = ([], w)"
| "serve_all srv (q # qs) w =
     (let (res, w1) = serve_request srv q w;
          (more, w2) = serve_all srv qs w1
      in (res # more, w2))"

section \<open>A registry that takes images\<close>

definition digest_text :: "hash \<Rightarrow> string" where
  "digest_text h = hash_algorithm h @ '':'' @ hash_hex h"

text \<open>
  What a registry promises of \<open>remote.Write\<close>: when it succeeds the reference resolves to the
  image's digest; whatever happens, a reference resolves to what it did before, to that digest, or to
  nothing, when a deletion accepted earlier was carried out meanwhile.
\<close>

locale push_registry =
  fixes im :: "('w, 'img, 'layer, 'ref, 'auth) image_api"
    and resolve :: "'w \<Rightarrow> 'ref \<Rightarrow> string option"
  assumes random_keeps: "im_random im w = (base, w') \<Longrightarrow> resolve w' = resolve w"
    and layer_keeps: "im_layer im s w = (layer, w') \<Longrightarrow> resolve w' = resolve w"
    and written: "im_write im ref img auth w = (None, w') \<Longrightarrow> im_digest im img = Inr h \<Longrightarrow>
      resolve w' ref = Some (digest_text h)"
    and write_adds: "im_write im ref img auth w = (e, w') \<Longrightarrow>
      resolve w' r = resolve w r \<or> resolve w' r = None \<or>
      (\<exists>h. im_digest im img = Inr h \<and> resolve w' r = Some (digest_text h))"

text \<open>\<open>packaged za im zip_path h\<close>: an image made from the tar of the zip has the digest \<open>h\<close>.\<close>

definition packaged ::
  "'x zip_api \<Rightarrow> ('w, 'img, 'layer, 'ref, 'auth) image_api \<Rightarrow> string \<Rightarrow> hash \<Rightarrow> bool" where
  "packaged za im zip_path h \<longleftrightarrow>
     (\<exists>w img w1 layer w2 img'. im_random im w = (Inr img, w1) \<and>
        im_layer im (read_zip_as_tar (za_open za) (za_chunks za) (za_format za) zip_path package_tar_options
          (Some (\<lambda>name. True))) w1 = (Inr layer, w2) \<and>
        im_append im img layer = Inr img' \<and> im_digest im img' = Inr h)"

context push_registry
begin

lemma upload_resolves:
  assumes "upload_package za im zip_path registry_path auth w = (Inr h, w')"
  shows "\<exists>ref. im_parse im registry_path = Inr ref \<and> resolve w' ref = Some (digest_text h) \<and> packaged za im zip_path h"
proof -
  obtain img w1 layer w2 img' ref where run: "im_random im w = (Inr img, w1)"
    "im_layer im (read_zip_as_tar (za_open za) (za_chunks za) (za_format za) zip_path package_tar_options
       (Some (\<lambda>name. True))) w1 = (Inr layer, w2)"
    "im_append im img layer = Inr img'" "im_parse im registry_path = Inr ref"
    "im_write im ref img' auth w2 = (None, w')" "im_digest im img' = Inr h"
    using assms by (auto simp: upload_package_def split: sum.splits prod.splits option.splits)
  have "packaged za im zip_path h"
    unfolding packaged_def using run by blast
  then show ?thesis using run(4) written [OF run(5,6)] by blast
qed

lemma upload_adds:
  assumes "upload_package za im zip_path registry_path auth w = (res, w')"
  shows "resolve w' r = resolve w r \<or> resolve w' r = None \<or>
     (\<exists>h. packaged za im zip_path h \<and> resolve w' r = Some (digest_text h))"
proof -
  obtain i w1 where i: "im_random im w = (i, w1)" by fastforce
  show ?thesis
  proof (cases i)
    case (Inl e)
    then show ?thesis using assms i random_keeps [OF i] by (simp add: upload_package_def)
  next
    case (Inr img)
    obtain l w2 where l: "im_layer im (read_zip_as_tar (za_open za) (za_chunks za) (za_format za) zip_path
        package_tar_options (Some (\<lambda>name. True))) w1 = (l, w2)" by fastforce
    note keeps = random_keeps [OF i] layer_keeps [OF l]
    show ?thesis
    proof (cases "\<exists>layer img' ref. l = Inr layer \<and> im_append im img layer = Inr img' \<and> im_parse im registry_path = Inr ref")
      case False
      then show ?thesis
        using assms i Inr l keeps by (auto simp: upload_package_def split: sum.splits)
    next
      case True
      then obtain layer img' ref where run: "l = Inr layer" "im_append im img layer = Inr img'"
        "im_parse im registry_path = Inr ref" by blast
      obtain e w3 where wr: "im_write im ref img' auth w2 = (e, w3)" by fastforce
      have "w' = w3" using assms i Inr l run wr by (simp add: upload_package_def split: option.splits)
      moreover have "packaged za im zip_path h" if "im_digest im img' = Inr h" for h
        using that i Inr l run unfolding packaged_def by blast
      ultimately show ?thesis using write_adds [OF wr, of r] keeps by auto
    qed
  qed
qed

lemma post_adds:
  assumes "post_package_handler (upload_package za im) auth body w = (res, w')"
  shows "resolve w' r = resolve w r \<or> resolve w' r = None \<or>
     (\<exists>b h. Option.bind (json_decode body) dec_post_package_body = Some b \<and>
        packaged za im (pp_zip_path b) h \<and> resolve w' r = Some (digest_text h))"
  using assms upload_adds [of za _ _ auth w _ _ r]
  by (auto simp: post_package_handler_def split: option.splits if_splits prod.splits sum.splits)

end

section \<open>The server over one registry\<close>

text \<open>The health check pings the registry and adds nothing to it.\<close>

locale buddy_registry =
  push_registry im resolve + deleter_contract resolve settled background deleter
  for im :: "('w, 'img, 'layer, 'ref, 'auth) image_api"
    and resolve :: "'w \<Rightarrow> 'ref \<Rightarrow> string option"
    and settled :: "'w \<Rightarrow> 'ref \<Rightarrow> string option"
    and background :: "'w \<Rightarrow> 'w"
    and deleter :: "('w, 'ref, 'auth) deleter" +
  fixes ha :: "('w, 'repo, 'auth, 'client) health_api"
  assumes connect_keeps: "ha_connect ha repo auth w = (c, w') \<Longrightarrow> resolve w' r = resolve w r \<or> resolve w' r = None"
    and ping_keeps: "ha_http_get ha client url w = (resp, w') \<Longrightarrow> resolve w' r = resolve w r \<or> resolve w' r = None"
begin

lemma health_keeps:
  assumes "health_check ha path auth w = (out, w')" and "resolve w' r = Some d"
  shows "resolve w r = Some d"
proof -
  have c: "ha_connect ha repo auth w = (x, w1) \<Longrightarrow> resolve w1 r = Some d \<Longrightarrow> resolve w r = Some d" for repo x w1
    using connect_keeps [of repo auth w x w1 r] by auto
  have g: "ha_http_get ha client url w1 = (x, w2) \<Longrightarrow> resolve w2 r = Some d \<Longrightarrow> resolve w1 r = Some d" for client url x w1 w2
    using ping_keeps [of client url w1 x w2 r] by auto
  show ?thesis
    using assms by (auto simp: health_check_def dest: c g split: sum.splits prod.splits if_splits)
qed

lemma healthz_keeps:
  "healthz_handler base (health_check ha) auth w = (out, w') \<Longrightarrow> resolve w' r = Some d \<Longrightarrow> resolve w r = Some d"
  by (auto simp: healthz_handler_def dest: health_keeps split: outcome.splits option.splits prod.splits)

lemma request_images:
  assumes "serve_request (buddy_server credentials (upload_package za im) rf deleter ha cfg) q w = (res, w')"
    and "resolve w' r = Some d"
  shows "resolve w r = Some d \<or>
     (bq_path q = ''/packages'' \<and> bq_method q = ''POST'' \<and>
      (\<exists>b h. Option.bind (json_decode (bq_body q)) dec_post_package_body = Some b \<and>
         packaged za im (pp_zip_path b) h \<and> d = digest_text h))"
proof -
  let ?auth = "credentials \<lparr>au_username = rc_username cfg, au_password = rc_password cfg\<rparr>"
  consider "w' = w"
    | "bq_path q = ''/packages''" "bq_method q = ''POST''"
      "\<exists>x. post_package_handler (upload_package za im) ?auth (bq_body q) w = (x, w')"
    | "\<exists>x. delete_image_handler rf deleter ?auth (bq_body q) w = (x, w')"
    | "\<exists>x. healthz_handler (rc_base_path cfg) (health_check ha) ?auth w = (x, w')"
    using assms(1)
    by (auto simp: serve_request_def route_handler_def buddy_server_def new_server_def Let_def
        split: option.splits prod.splits if_splits)
  then show ?thesis
  proof cases
    case 1
    then show ?thesis using assms(2) by simp
  next
    case 2
    then show ?thesis using assms(2) post_adds [of za ?auth "bq_body q" w _ w' r] by auto
  next
    case 3
    then show ?thesis using assms(2) deletion_only_deletes [of rf ?auth "bq_body q" w _ w' r] by auto
  next
    case 4
    then show ?thesis using assms(2) healthz_keeps by blast
  qed
qed

lemma session_images:
  assumes "serve_all (buddy_server credentials (upload_package za im) rf deleter ha cfg) qs w = (res, w')"
    and "resolve w' r = Some d"
  shows "resolve w r = Some d \<or>
     list_ex (\<lambda>q. bq_path q = ''/packages'' \<and> bq_method q = ''POST'' \<and>
       (\<exists>b h. Option.bind (json_decode (bq_body q)) dec_post_package_body = Some b \<and>
          packaged za im (pp_zip_path b) h \<and> d = digest_text h)) qs"
  using assms(1)
proof (induction qs arbitrary: w res)
  case Nil
  then show ?case using assms(2) by simp
next
  case (Cons q qs)
  let ?srv = "buddy_server credentials (upload_package za im) rf deleter ha cfg"
  obtain x w1 where q: "serve_request ?srv q w = (x, w1)" by fastforce
  obtain xs where rest: "serve_all ?srv qs w1 = (xs, w')"
    using Cons.prems q by (auto simp: Let_def split: prod.splits)
  show ?case
    using Cons.IH [OF rest] request_images [OF q, of r d] by auto
qed

end

text \<open>An upload followed by the deletion of what it wrote.\<close>

lemma package_life:
  assumes push: "push_registry im resolve" and del: "deleter_contract resolve settled background deleter"
    and "post_package_handler (upload_package za im) auth body w = (posted, w1)" and "rs_status posted = 200"
    and "delete_image_handler rf deleter auth' body' w1 = (removed, w2)" and "rs_status removed = 202"
    and "Option.bind (json_decode body) dec_post_package_body = Some b"
    and "Option.bind (json_decode body') dec_delete_image_request = Some b'"
    and "dr_image_reference b' = pp_registry_base_path b @ ''/'' @ pp_guid b"
    and "im_parse im = rf_parse rf"
  shows "\<exists>ref h. rf_parse rf (dr_image_reference b') = Inr ref \<and> packaged za im (pp_zip_path b) h \<and>
     json_decode (rs_body posted) = Some (post_package_response_json h) \<and>
     resolve w1 ref = Some (digest_text h) \<and> settled w2 ref = None \<and>
     (\<exists>n. \<forall>k\<ge>n. resolve ((background ^^ k) w2) ref = None)"
proof -
  obtain h where h: "upload_package za im (pp_zip_path b) (pp_registry_base_path b @ ''/'' @ pp_guid b) auth w = (Inr h, w1)"
    and j: "json_decode (rs_body posted) = Some (post_package_response_json h)"
    using accepted_package [OF assms(3,4)] assms(7) by auto
  then obtain ref where ref: "rf_parse rf (dr_image_reference b') = Inr ref" "resolve w1 ref = Some (digest_text h)"
    "packaged za im (pp_zip_path b) h"
    using push_registry.upload_resolves [OF push h] assms(9,10) by auto
  moreover have "settled w2 ref = None \<and> (\<exists>n. \<forall>k\<ge>n. resolve ((background ^^ k) w2) ref = None)"
    using deleter_contract.accepted_deletion [OF del assms(5,6)] assms(8) ref(1) by auto
  ultimately show ?thesis using j by blast
qed

section \<open>On the registry in memory\<close>

text \<open>Writing an image stores its manifest and, under a tag, moves the tag to it.\<close>

fun push_manifest :: "image_ref \<Rightarrow> string \<Rightarrow> 'o registry_world \<Rightarrow> 'o registry_world" where
  "push_manifest (TagRef r t) d w =
     w\<lparr>rg_manifests := (r, d) # rg_manifests w, rg_tags := (rg_tags w)((r, t) \<mapsto> d)\<rparr>"
| "push_manifest (DigestRef r d') d w = w\<lparr>rg_manifests := (r, d) # rg_manifests w\<rparr>"

definition memory_write ::
  "('o \<Rightarrow> (int \<times> string list) option \<times> 'o) \<Rightarrow> (string list \<Rightarrow> string) \<Rightarrow> image_ref \<Rightarrow> string list \<Rightarrow> unit \<Rightarrow>
     ('o registry_world, go_error option) effect" where
  "memory_write refuse digest_of ref layers auth w =
     (let (r, x) = refuse (rg_other w); w' = w\<lparr>rg_other := x\<rparr>; d = ''sha256:'' @ digest_of layers
      in case r of
           Some (code, diags) \<Rightarrow> (Some (ForeignError (TransportErr code diags) ''refused''), w')
         | None \<Rightarrow>
             if proper_repository (ref_repository ref) \<and> (case ref of DigestRef _ d' \<Rightarrow> d' = d | TagRef _ _ \<Rightarrow> True)
             then (None, push_manifest ref d w')
             else (Some (ForeignError (TransportErr 400 []) ''bad reference''), w'))"

definition memory_image_api ::
  "('o \<Rightarrow> (int \<times> string list) option \<times> 'o) \<Rightarrow> (string list \<Rightarrow> string) \<Rightarrow>
     ('o registry_world, string list, string, image_ref, unit) image_api" where
  "memory_image_api refuse digest_of =
     \<lparr>im_random = (\<lambda>w. (Inr [], w)), im_layer = (\<lambda>(s, e) w. (case e of Some e \<Rightarrow> Inl e | None \<Rightarrow> Inr s, w)),
      im_append = (\<lambda>layers l. Inr (layers @ [l])), im_parse = parse_ref,
      im_write = memory_write refuse digest_of,
      im_digest = (\<lambda>layers. Inr \<lparr>hash_algorithm = ''sha256'', hash_hex = digest_of layers\<rparr>)\<rparr>"

definition memory_health :: "('o registry_world, string, unit, unit) health_api" where
  "memory_health =
     \<lparr>ha_new_repository = Inr, ha_registry_name = (\<lambda>r. r), ha_connect = (\<lambda>r a w. (Inr (), w)),
      ha_http_get = (\<lambda>c u w. (Inr \<lparr>rs_status = 200, rs_body = []\<rparr>, w))\<rparr>"

lemma push_manifest_resolve:
  "CHR '':'' \<in> set d \<Longrightarrow> registry_resolve (push_manifest ref d w) r = registry_resolve w r \<or>
     registry_resolve (push_manifest ref d w) r = Some d"
  by (cases ref; cases r) (auto simp: registry_resolve_def split: option.splits)

lemma memory_write_resolve:
  assumes "memory_write refuse digest_of ref layers auth w = (e, w')"
  shows "registry_resolve w' r = registry_resolve w r \<or>
     registry_resolve w' r = Some (''sha256:'' @ digest_of layers)"
proof -
  obtain x where "w' = w\<lparr>rg_other := x\<rparr> \<or> w' = push_manifest ref (''sha256:'' @ digest_of layers) (w\<lparr>rg_other := x\<rparr>)"
    using assms by (auto simp: memory_write_def Let_def split: prod.splits option.splits if_splits)
  then show ?thesis
    using push_manifest_resolve [of "''sha256:'' @ digest_of layers" ref "w\<lparr>rg_other := x\<rparr>" r]
    unfolding registry_resolve_other by auto
qed

interpretation memory_push: push_registry "memory_image_api refuse digest_of" registry_resolve
proof (unfold_locales, goal_cases)
  case (1 w base w')
  then show ?case by (simp add: memory_image_api_def)
next
  case (2 s w layer w')
  then show ?case by (cases s) (simp add: memory_image_api_def)
next
  case (3 ref img auth w w' h)
  then show ?case
    by (cases ref) (auto simp: memory_image_api_def memory_write_def digest_text_def Let_def registry_resolve_def
        split: prod.splits option.splits if_splits)
next
  case (4 ref img auth w e w' r)
  then show ?case
    using memory_write_resolve [of refuse digest_of ref img auth w e w' r]
    by (auto simp: memory_image_api_def digest_text_def)
qed

interpretation memory_buddy: buddy_registry "memory_image_api refuse digest_of" registry_resolve
  registry_settled memory_background
  "dynamic_deleter (memory_hub_env verdict) memory_refs memory_authorization (memory_delete refuse) (memory_get refuse)"
  memory_health
proof (intro buddy_registry.intro memory_push.push_registry_axioms
    dynamic_contract [OF memory.oci_registry_axioms memory_hub.hub_registry_axioms])
  show "buddy_registry_axioms registry_resolve memory_health"
    by unfold_locales (simp_all add: memory_health_def)
qed

section \<open>An example\<close>

abbreviation example_zips :: "unit tar_log zip_api" where
  "example_zips \<equiv>
     \<lparr>za_open = (\<lambda>p. Inr example_zip), za_chunks = (\<lambda>s. [s]), za_format = log_format accept_all () example_encode\<rparr>"

abbreviation example_images :: "(unit registry_world, string list, string, image_ref, unit) image_api" where
  "example_images \<equiv> memory_image_api never_refuse (\<lambda>layers. ''d'')"

definition empty_registry :: "unit registry_world" where
  "empty_registry = \<lparr>rg_manifests = [], rg_tags = Map.empty, rg_pending = [], rg_other = ()\<rparr>"

definition one_package :: "unit registry_world" where
  "one_package = \<lparr>rg_manifests = [(''reg/g'', ''sha256:d'')], rg_tags = [(''reg/g'', ''latest'') \<mapsto> ''sha256:d''],
     rg_pending = [], rg_other = ()\<rparr>"

text \<open>The two deletions of the package are accepted and wait.\<close>

definition removed_package :: "unit registry_world" where
  "removed_package = accept (DropManifest ''reg/g'' ''sha256:d'') (accept (DropTag ''reg/g'' ''latest'') one_package)"

definition example_removal_body :: string where
  "example_removal_body = json_text (delete_image_response_json ''reg/g'')"

lemma example_removal_decode:
  "Option.bind (json_decode example_removal_body) dec_delete_image_request = Some \<lparr>dr_image_reference = ''reg/g''\<rparr>"
  using json_decode_text [of "delete_image_response_json ''reg/g''" "[]"]
  by (simp add: example_removal_body_def delete_image_response_json_def dec_delete_image_request_def
      dec_struct_def dec_string_def eq_fold_def)

lemma example_reg_g: "parse_ref ''reg/g'' = Inr (TagRef ''reg/g'' ''latest'')" "proper_repository ''reg/g''"
  by (simp_all add: parse_ref_def proper_repository_def)

lemma example_push:
  "upload_package example_zips example_images ''/z'' ''reg/g'' () empty_registry =
     (Inr \<lparr>hash_algorithm = ''sha256'', hash_hex = ''d''\<rparr>, one_package)"
  using example_tar [of "''/z''"]
  by (auto simp: upload_package_def memory_image_api_def example_reg_g memory_write_def empty_registry_def
      one_package_def Let_def split: prod.splits option.splits)

lemma example_posted:
  "post_package_handler (upload_package example_zips example_images) () example_post_body empty_registry =
     (\<lparr>rs_status = 200, rs_body = json_text (post_package_response_json \<lparr>hash_algorithm = ''sha256'', hash_hex = ''d''\<rparr>) @ [CHR 0x0A]\<rparr>,
      one_package)"
  by (simp add: post_package_handler_def example_post_decode invalid_post_package_request_def
      example_push [simplified])

lemma example_removed:
  "delete_image_handler memory_refs example_deleter () example_removal_body one_package =
     (\<lparr>rs_status = 202, rs_body = json_text (delete_image_response_json ''reg/g'') @ [CHR 0x0A]\<rparr>, removed_package)"
proof -
  have get: "memory_get never_refuse (TagRef ''reg/g'' ''latest'') () one_package =
      (Inr \<lparr>hash_algorithm = ''sha256'', hash_hex = ''d''\<rparr>, one_package)"
    by (simp add: memory_get_def registry_resolve_def one_package_def proper_repository_def split_digest_def)
  have tag: "memory_delete never_refuse (TagRef ''reg/g'' ''latest'') () one_package =
      (None, accept (DropTag ''reg/g'' ''latest'') one_package)"
    by (simp add: memory_delete_def registry_resolve_def one_package_def proper_repository_def)
  have dig: "memory_delete never_refuse (DigestRef ''reg/g'' ''sha256:d'') ()
      (accept (DropTag ''reg/g'' ''latest'') one_package) = (None, removed_package)"
    by (simp add: memory_delete_def registry_resolve_def one_package_def proper_repository_def removed_package_def
        accept_def)
  have "example_deleter (TagRef ''reg/g'' ''latest'') () one_package = (None, removed_package)"
    using get tag dig
    by (simp add: dynamic_deleter_def memory_refs_def go_has_prefix_def generic_deleter_def digest_reference_def
        parse_ref_def attempt_delete_by_tag_def)
  then show ?thesis
    by (simp add: delete_image_handler_def example_removal_decode invalid_delete_image_request_def memory_refs_def
        parse_ref_def write_success_response_def)
qed

section \<open>Properties\<close>

text \<open>C20: A package that \<open>POST /packages\<close> answered with 200 is in the registry under its path, with the
digest of the answer, which is that of an image of its zip; and a \<open>DELETE /images\<close> with that path
that answers 202 takes it out, if not at once then when the registry has worked off what it accepted,
and whether the path is on Docker Hub or elsewhere.\<close>

theorem package_lifecycle:
  assumes "push_registry im resolve" and "im_parse im = rf_parse rf"
    and "oci_registry resolve settled background rf del get"
    and "hub_registry resolve settled background env rf authorization (Some (default_hub env)) api"
    and "post_package_handler (upload_package za im) auth body w = (posted, w1)" and "rs_status posted = 200"
    and "delete_image_handler rf (dynamic_deleter env rf authorization del get) auth body' w1 = (removed, w2)"
    and "rs_status removed = 202"
    and "Option.bind (json_decode body) dec_post_package_body = Some b"
    and "Option.bind (json_decode body') dec_delete_image_request = Some b'"
    and "dr_image_reference b' = pp_registry_base_path b @ ''/'' @ pp_guid b"
  shows "\<exists>ref h. rf_parse rf (dr_image_reference b') = Inr ref \<and> packaged za im (pp_zip_path b) h \<and>
     json_decode (rs_body posted) = Some (post_package_response_json h) \<and>
     resolve w1 ref = Some (digest_text h) \<and> settled w2 ref = None \<and>
     (\<exists>n. \<forall>k\<ge>n. resolve ((background ^^ k) w2) ref = None)"
  by (rule package_life [OF assms(1) dynamic_contract [OF assms(3,4)] assms(5-11,2)])

theorem package_lifecycle_witness:
  "\<exists>h. packaged example_zips example_images ''/z'' h \<and>
     registry_resolve one_package (TagRef ''reg/g'' ''latest'') = Some (digest_text h) \<and>
     registry_resolve removed_package (TagRef ''reg/g'' ''latest'') = Some (digest_text h) \<and>
     registry_settled removed_package (TagRef ''reg/g'' ''latest'') = None"
  using package_lifecycle
    [OF memory_push.push_registry_axioms _ memory.oci_registry_axioms memory_hub.hub_registry_axioms
      example_posted _ example_removed _ example_post_decode example_removal_decode]
  by (auto simp: memory_image_api_def memory_refs_def example_reg_g removed_package_def)

text \<open>C21: Whatever requests the wired server is sent, in whatever order and with whatever answers, an
image that a reference resolves to at the end was there at the start, or is made from the zip of a
well-formed \<open>POST /packages\<close> among them: nothing else gets into the registry.\<close>

theorem session_image_provenance:
  assumes "push_registry im resolve" and "oci_registry resolve settled background rf del get"
    and "hub_registry resolve settled background env rf authorization (Some (default_hub env)) api"
    and "buddy_registry_axioms resolve ha"
    and "serve_all (buddy_server credentials (upload_package za im) rf
           (dynamic_deleter env rf authorization del get) ha cfg) qs w = (res, w')"
    and "resolve w' r = Some d"
  shows "resolve w r = Some d \<or>
     list_ex (\<lambda>q. bq_path q = ''/packages'' \<and> bq_method q = ''POST'' \<and>
       (\<exists>b h. Option.bind (json_decode (bq_body q)) dec_post_package_body = Some b \<and>
          packaged za im (pp_zip_path b) h \<and> d = digest_text h)) qs"
  by (rule buddy_registry.session_images
      [OF buddy_registry.intro [OF assms(1) dynamic_contract [OF assms(2,3)] assms(4)] assms(5,6)])

theorem session_image_provenance_witness:
  "\<exists>b h. Option.bind (json_decode example_post_body) dec_post_package_body = Some b \<and>
     packaged example_zips example_images (pp_zip_path b) h \<and> ''sha256:d'' = digest_text h"
proof -
  let ?cfg = "\<lparr>rc_base_path = ''reg'', rc_username = ''u'', rc_password = ''p'', rc_port = 8080\<rparr>"
  have ax: "buddy_registry_axioms registry_resolve memory_health"
    by unfold_locales (simp_all add: memory_health_def)
  have "\<exists>res. serve_all (buddy_server (\<lambda>a. ()) (upload_package example_zips example_images) memory_refs
      example_deleter memory_health ?cfg) [\<lparr>bq_path = ''/packages'', bq_method = ''POST'', bq_body = example_post_body\<rparr>]
      empty_registry = (res, one_package)"
    by (simp add: serve_request_def route_handler_def buddy_server_def new_server_def Let_def example_posted)
  then obtain res where run: "serve_all (buddy_server (\<lambda>a. ()) (upload_package example_zips example_images) memory_refs
      example_deleter memory_health ?cfg) [\<lparr>bq_path = ''/packages'', bq_method = ''POST'', bq_body = example_post_body\<rparr>]
      empty_registry = (res, one_package)" by blast
  show ?thesis
    using session_image_provenance [OF memory_push.push_registry_axioms memory.oci_registry_axioms
        memory_hub.hub_registry_axioms ax run, of "TagRef ''reg/g'' ''latest''" "''sha256:d''"]
    by (simp add: registry_resolve_def one_package_def empty_registry_def proper_repository_def)
qed

end
