(* ===== verification/ArchivePipe.thy ===== *)
theory ArchivePipe
  imports Archive
begin

text \<open>
  \<open>GenerateTarWithWriter\<close> of \<open>archive/archive.go\<close>: a goroutine runs the generator over a tar
  writer whose output goes into an \<open>io.Pipe\<close>, and the caller reads the other end. What the
  generator writes through the tar writer is a parameter: a process that offers bytes to the pipe,
  looks at the error it gets back and ends after finitely many writes with an error, nil or a panic.
\<close>

section \<open>Processes over a pipe\<close>

datatype 'r pipe_proc =
    PipeWrite string "go_error option \<Rightarrow> 'r pipe_proc"
  | PipeDone 'r

text \<open>How the generator ends, together with what closing the tar writer writes at that point.\<close>

datatype gen_result = Returned "go_error option" | Panicked string

type_synonym closing = "go_error option pipe_proc"
type_synonym generator = "(gen_result \<times> closing) pipe_proc"

datatype goroutine =
    Generating generator
  | ClosingTar gen_result closing
  | SendingErr "go_error option"
  | Gone

datatype tar_consumer =
    Open
  | AwaitingErr
  | Closed "go_error option"

text \<open>
  \<open>ps_writer_end\<close> is the value of \<open>pw.CloseWithError\<close> once it was called, \<open>ps_reader_closed\<close>
  whether \<open>pr.Close\<close> was called, \<open>ps_output\<close> the bytes the caller has read and \<open>ps_read_end\<close>
  what the read that ended the stream returned (\<open>None\<close> inside for \<open>io.EOF\<close>).
\<close>

record pipe_state =
  ps_goroutine :: goroutine
  ps_writer_end :: "go_error option option"
  ps_reader_closed :: bool
  ps_consumer :: tar_consumer
  ps_output :: string
  ps_read_end :: "go_error option option"

definition generate_tar :: "generator \<Rightarrow> pipe_state" where
  "generate_tar gen =
     \<lparr>ps_goroutine = Generating gen, ps_writer_end = None, ps_reader_closed = False,
      ps_consumer = Open, ps_output = [], ps_read_end = None\<rparr>"

text \<open>The error a pipe's writer sees after the reader closed.\<close>

definition closed_pipe :: "go_error option" where
  "closed_pipe = Some (ForeignError OpaqueErr ''io: read/write on closed pipe'')"

text \<open>
  The value given to \<open>pw.CloseWithError\<close>: the generator's error, or that of the deferred function
  that recovers a panic.
\<close>

fun end_error :: "gen_result \<Rightarrow> go_error option" where
  "end_error (Returned e) = e"
| "end_error (Panicked m) = Some (ErrorText (''panic: '' @ m))"

text \<open>
  After closing both ends the goroutine hands the error of the tar writer to the channel (closing a
  pipe never fails); the deferred function of a panic just ends.
\<close>

fun after_closing :: "gen_result \<Rightarrow> go_error option \<Rightarrow> goroutine" where
  "after_closing (Returned e) close_error = SendingErr (aggregate_error close_error None)"
| "after_closing (Panicked m) close_error = Gone"

text \<open>The goroutine's pending write, with the goroutine after it.\<close>

fun pending_write :: "goroutine \<Rightarrow> (string \<times> (string \<Rightarrow> goroutine) \<times> (go_error option \<Rightarrow> goroutine)) option" where
  "pending_write (Generating (PipeWrite d k)) =
     Some (d, \<lambda>rest. Generating (PipeWrite rest k), \<lambda>e. Generating (k e))"
| "pending_write (ClosingTar r (PipeWrite d k)) =
     Some (d, \<lambda>rest. ClosingTar r (PipeWrite rest k), \<lambda>e. ClosingTar r (k e))"
| "pending_write g = None"

section \<open>Steps\<close>

text \<open>
  A read with a buffer of \<open>n\<close> bytes takes part of the pending write, or all of it, in which case
  the write returns; a pending write on a pipe whose reader is closed fails.
\<close>

inductive pipe_step :: "pipe_state \<Rightarrow> pipe_state \<Rightarrow> bool" where
  read_part: "ps_consumer s = Open \<Longrightarrow> pending_write (ps_goroutine s) = Some (d, keep, resume) \<Longrightarrow>
    0 < n \<Longrightarrow> n < length d \<Longrightarrow>
    pipe_step s (s\<lparr>ps_goroutine := keep (drop n d), ps_output := ps_output s @ take n d\<rparr>)"
| read_all: "ps_consumer s = Open \<Longrightarrow> pending_write (ps_goroutine s) = Some (d, keep, resume) \<Longrightarrow>
    pipe_step s (s\<lparr>ps_goroutine := resume None, ps_output := ps_output s @ d\<rparr>)"
| write_closed: "ps_reader_closed s \<Longrightarrow> pending_write (ps_goroutine s) = Some (d, keep, resume) \<Longrightarrow>
    pipe_step s (s\<lparr>ps_goroutine := resume closed_pipe\<rparr>)"
| generated: "ps_goroutine s = Generating (PipeDone (r, c)) \<Longrightarrow>
    pipe_step s (s\<lparr>ps_goroutine := ClosingTar r c\<rparr>)"
| tar_closed: "ps_goroutine s = ClosingTar r (PipeDone close_error) \<Longrightarrow>
    pipe_step s (s\<lparr>ps_goroutine := after_closing r close_error, ps_writer_end := Some (end_error r)\<rparr>)"
| read_end: "ps_consumer s = Open \<Longrightarrow> ps_writer_end s = Some e \<Longrightarrow>
    pipe_step s (s\<lparr>ps_read_end := Some e\<rparr>)"
| close_reader: "ps_consumer s = Open \<Longrightarrow>
    pipe_step s (s\<lparr>ps_consumer := AwaitingErr, ps_reader_closed := True\<rparr>)"
| receive: "ps_consumer s = AwaitingErr \<Longrightarrow> ps_goroutine s = SendingErr e \<Longrightarrow>
    pipe_step s (s\<lparr>ps_consumer := Closed (aggregate_error None e), ps_goroutine := Gone\<rparr>)"

lemma pipe_step_cases [consumes 1, case_names read_part read_all write_closed generated tar_closed read_end
    close_reader receive]:
  assumes "pipe_step s t"
  obtains d keep resume n where "ps_consumer s = Open" and "pending_write (ps_goroutine s) = Some (d, keep, resume)"
      and "0 < n" and "n < length d"
      and "t = s\<lparr>ps_goroutine := keep (drop n d), ps_output := ps_output s @ take n d\<rparr>"
    | d keep resume where "ps_consumer s = Open" and "pending_write (ps_goroutine s) = Some (d, keep, resume)"
      and "t = s\<lparr>ps_goroutine := resume None, ps_output := ps_output s @ d\<rparr>"
    | d keep resume where "ps_reader_closed s" and "pending_write (ps_goroutine s) = Some (d, keep, resume)"
      and "t = s\<lparr>ps_goroutine := resume closed_pipe\<rparr>"
    | r c where "ps_goroutine s = Generating (PipeDone (r, c))" and "t = s\<lparr>ps_goroutine := ClosingTar r c\<rparr>"
    | r close_error where "ps_goroutine s = ClosingTar r (PipeDone close_error)"
      and "t = s\<lparr>ps_goroutine := after_closing r close_error, ps_writer_end := Some (end_error r)\<rparr>"
    | e where "ps_consumer s = Open" and "ps_writer_end s = Some e" and "t = s\<lparr>ps_read_end := Some e\<rparr>"
    | "ps_consumer s = Open" and "t = s\<lparr>ps_consumer := AwaitingErr, ps_reader_closed := True\<rparr>"
    | e where "ps_consumer s = AwaitingErr" and "ps_goroutine s = SendingErr e"
      and "t = s\<lparr>ps_consumer := Closed (aggregate_error None e), ps_goroutine := Gone\<rparr>"
  using assms by (rule pipe_step.cases) (erule (4) that | erule (3) that | erule (2) that | erule (1) that | metis that)+

text \<open>A second \<open>Close\<close> after one that returned.\<close>

fun close_again :: "pipe_state \<Rightarrow> go_error option" where
  "close_again s = (case ps_consumer s of Closed e \<Rightarrow> Some (ErrorText ''reader already closed'') | c \<Rightarrow> None)"

section \<open>The bytes of a generator\<close>

primrec proc_bytes :: "'r pipe_proc \<Rightarrow> string" where
  "proc_bytes (PipeWrite d k) = d @ proc_bytes (k None)"
| "proc_bytes (PipeDone r) = []"

primrec proc_result :: "'r pipe_proc \<Rightarrow> 'r" where
  "proc_result (PipeWrite d k) = proc_result (k None)"
| "proc_result (PipeDone r) = r"

text \<open>All results a process can end with, whatever errors its writes meet.\<close>

primrec proc_results :: "'r pipe_proc \<Rightarrow> 'r set" where
  "proc_results (PipeWrite d k) = (\<Union>e. proc_results (k e))"
| "proc_results (PipeDone r) = {r}"

definition generated_bytes :: "generator \<Rightarrow> string" where
  "generated_bytes gen = proc_bytes gen @ proc_bytes (snd (proc_result gen))"

text \<open>
  What the reader of the stream is to see at its end, whatever the goroutine does: the error the
  generator returned, or the text of its panic.
\<close>

definition generated_end :: "generator \<Rightarrow> go_error option" where
  "generated_end gen =
     (case fst (proc_result gen) of Returned err \<Rightarrow> err | Panicked m \<Rightarrow> Some (ErrorText (''panic: '' @ m)))"

fun remaining_bytes :: "goroutine \<Rightarrow> string" where
  "remaining_bytes (Generating gen) = generated_bytes gen"
| "remaining_bytes (ClosingTar r c) = proc_bytes c"
| "remaining_bytes g = []"

fun remaining_end :: "goroutine \<Rightarrow> go_error option \<Rightarrow> go_error option" where
  "remaining_end (Generating gen) e = generated_end gen"
| "remaining_end (ClosingTar r c) e = end_error r"
| "remaining_end g e = e"

fun tar_finished :: "goroutine \<Rightarrow> bool" where
  "tar_finished (SendingErr e) = True"
| "tar_finished Gone = True"
| "tar_finished g = False"

definition stream_inv :: "generator \<Rightarrow> pipe_state \<Rightarrow> bool" where
  "stream_inv gen s \<longleftrightarrow>
     (tar_finished (ps_goroutine s) = (ps_writer_end s \<noteq> None)) \<and>
     (ps_consumer s = Open \<longrightarrow> \<not> ps_reader_closed s \<and>
        ps_output s @ remaining_bytes (ps_goroutine s) = generated_bytes gen \<and>
        (ps_writer_end s = None \<longrightarrow> remaining_end (ps_goroutine s) None = generated_end gen) \<and>
        (\<forall>e. ps_writer_end s = Some e \<longrightarrow> e = generated_end gen)) \<and>
     (ps_consumer s = Open \<longrightarrow> (\<forall>e. ps_read_end s = Some e \<longrightarrow> ps_writer_end s = Some e))"

lemma stream_inv_init: "stream_inv gen (generate_tar gen)"
  by (simp add: stream_inv_def generate_tar_def)

lemma pending_write_facts:
  assumes "pending_write g = Some (d, keep, resume)"
  shows "remaining_bytes g = d @ remaining_bytes (resume None)"
    "remaining_bytes (keep rest) = rest @ remaining_bytes (resume None)"
    "remaining_end (resume None) e = remaining_end g e" "remaining_end (keep rest) e = remaining_end g e"
    "\<not> tar_finished g" "\<not> tar_finished (keep rest)" "\<not> tar_finished (resume e)"
  using assms
  by (induction g rule: pending_write.induct) (auto simp: generated_bytes_def generated_end_def)

lemma stream_inv_step:
  assumes "pipe_step s t" and "stream_inv gen s"
  shows "stream_inv gen t"
  using assms
proof (cases rule: pipe_step_cases)
  case (read_part d keep resume n)
  note f = pending_write_facts [OF read_part(2)]
  have cut: "take n d @ drop n d @ xs = d @ xs" for xs :: string
    by (metis append_assoc append_take_drop_id)
  show ?thesis using assms(2) read_part f by (cases "ps_read_end s") (auto simp: stream_inv_def cut)
next
  case (read_all d keep resume)
  note f = pending_write_facts [OF read_all(2)]
  show ?thesis using assms(2) read_all f by (cases "ps_read_end s") (auto simp: stream_inv_def)
next
  case (write_closed d keep resume)
  note f = pending_write_facts [OF write_closed(2)]
  show ?thesis using assms(2) write_closed f by (auto simp: stream_inv_def)
next
  case (tar_closed r c)
  then show ?thesis using assms(2) by (cases r) (auto simp: stream_inv_def)
qed (auto simp: stream_inv_def generated_bytes_def generated_end_def split: gen_result.splits)

lemma stream_inv_run:
  assumes "pipe_step\<^sup>*\<^sup>* (generate_tar gen) s"
  shows "stream_inv gen s"
  using assms by (induction rule: rtranclp_induct) (auto intro: stream_inv_init stream_inv_step)

section \<open>A recovered panic\<close>

fun unanswered :: "goroutine \<Rightarrow> bool" where
  "unanswered (ClosingTar (Panicked m) c) = True"
| "unanswered Gone = True"
| "unanswered g = False"

lemma unanswered_step:
  assumes "pipe_step s t" and "unanswered (ps_goroutine s)" and "\<nexists>e. ps_consumer s = Closed e"
  shows "unanswered (ps_goroutine t) \<and> (\<nexists>e. ps_consumer t = Closed e)"
proof -
  have next_write: "unanswered (keep r) \<and> unanswered (resume e)"
    if "pending_write (ps_goroutine s) = Some (d, keep, resume)" for d keep resume r e
    using that assms(2) by (induction "ps_goroutine s" rule: unanswered.induct; cases "ps_goroutine s")
      (auto elim!: pending_write.elims)
  show ?thesis
    using assms(1)
  proof (cases rule: pipe_step_cases)
    case (tar_closed r c)
    then show ?thesis using assms by (cases r) auto
  qed (use assms next_write in auto)
qed

section \<open>Every run ends\<close>

text \<open>All maximal runs from a state reach a goal.\<close>

inductive inevitably :: "(pipe_state \<Rightarrow> bool) \<Rightarrow> pipe_state \<Rightarrow> bool" for goal where
  reached: "goal s \<Longrightarrow> inevitably goal s"
| ahead: "pipe_step s t \<Longrightarrow> (\<And>u. pipe_step s u \<Longrightarrow> inevitably goal u) \<Longrightarrow> inevitably goal s"

definition close_returned :: "pipe_state \<Rightarrow> bool" where
  "close_returned s \<longleftrightarrow> (\<exists>e. ps_consumer s = Closed e)"


text \<open>The generator cannot panic, whatever errors its writes meet.\<close>

definition never_panics :: "generator \<Rightarrow> bool" where
  "never_panics gen \<longleftrightarrow> (\<forall>(r, c) \<in> proc_results gen. \<exists>e. r = Returned e)"

fun answering :: "goroutine \<Rightarrow> bool" where
  "answering (Generating gen) = never_panics gen"
| "answering (ClosingTar r c) = (\<exists>e. r = Returned e)"
| "answering (SendingErr e) = True"
| "answering Gone = False"

definition answer_inv :: "pipe_state \<Rightarrow> bool" where
  "answer_inv s \<longleftrightarrow> close_returned s \<or>
     answering (ps_goroutine s) \<and> (ps_consumer s = AwaitingErr \<longrightarrow> ps_reader_closed s)"

lemma answering_writes:
  assumes "pending_write g = Some (d, keep, resume)" and "answering g"
  shows "answering (keep rest)" "answering (resume e)"
  using assms by (induction g rule: pending_write.induct) (auto simp: never_panics_def)

lemma answer_inv_step:
  assumes "pipe_step s t" and "answer_inv s"
  shows "answer_inv t"
  using assms(1)
proof (cases rule: pipe_step_cases)
  case (generated r c)
  then show ?thesis using assms(2)
    by (auto simp: answer_inv_def close_returned_def never_panics_def)
next
  case (tar_closed r c)
  then show ?thesis using assms(2) by (cases r) (auto simp: answer_inv_def close_returned_def)
qed (use assms(2) answering_writes in \<open>auto simp: answer_inv_def close_returned_def\<close>)

lemma answer_inv_run:
  assumes "pipe_step\<^sup>*\<^sup>* (generate_tar gen) s" and "never_panics gen"
  shows "answer_inv s"
  using assms
proof (induction rule: rtranclp_induct)
  case base
  then show ?case by (simp add: answer_inv_def generate_tar_def)
qed (auto intro: answer_inv_step)

lemma sending_ends:
  assumes "ps_consumer s = AwaitingErr" and "ps_goroutine s = SendingErr e"
  shows "inevitably close_returned s"
proof (rule inevitably.ahead)
  show "pipe_step s (s\<lparr>ps_consumer := Closed (aggregate_error None e), ps_goroutine := Gone\<rparr>)"
    using assms by (rule pipe_step.receive)
next
  fix u assume "pipe_step s u"
  then have "close_returned u"
    using assms by (cases rule: pipe_step_cases) (auto simp: close_returned_def)
  then show "inevitably close_returned u" by (rule inevitably.reached)
qed

lemma closing_ends:
  assumes "ps_consumer s = AwaitingErr" and "ps_reader_closed s"
    and "ps_goroutine s = ClosingTar (Returned e) c"
  shows "inevitably close_returned s"
  using assms
proof (induction c arbitrary: s)
  case (PipeWrite d k)
  show ?case
  proof (rule inevitably.ahead)
    show "pipe_step s (s\<lparr>ps_goroutine := ClosingTar (Returned e) (k closed_pipe)\<rparr>)"
      using pipe_step.write_closed [of s d _ "\<lambda>x. ClosingTar (Returned e) (k x)"] PipeWrite.prems by simp
  next
    fix u assume "pipe_step s u"
    then have "ps_consumer u = AwaitingErr \<and> ps_reader_closed u \<and>
        ps_goroutine u = ClosingTar (Returned e) (k closed_pipe)"
      using PipeWrite.prems by (cases rule: pipe_step_cases) auto
    then show "inevitably close_returned u" using PipeWrite.IH by blast
  qed
next
  case (PipeDone ce)
  show ?case
  proof (rule inevitably.ahead [OF pipe_step.tar_closed])
    show "ps_goroutine s = ClosingTar (Returned e) (PipeDone ce)" by (rule PipeDone.prems)
  next
    fix u assume "pipe_step s u"
    then have "ps_consumer u = AwaitingErr \<and> ps_goroutine u = SendingErr (aggregate_error ce None)"
      using PipeDone.prems by (cases rule: pipe_step_cases) auto
    then show "inevitably close_returned u" using sending_ends by blast
  qed
qed

lemma generating_ends:
  assumes "ps_consumer s = AwaitingErr" and "ps_reader_closed s"
    and "ps_goroutine s = Generating gen" and "never_panics gen"
  shows "inevitably close_returned s"
  using assms
proof (induction gen arbitrary: s)
  case (PipeWrite d k)
  show ?case
  proof (rule inevitably.ahead)
    show "pipe_step s (s\<lparr>ps_goroutine := Generating (k closed_pipe)\<rparr>)"
      using pipe_step.write_closed [of s d _ "\<lambda>x. Generating (k x)"] PipeWrite.prems by simp
  next
    fix u assume "pipe_step s u"
    then have "ps_consumer u = AwaitingErr \<and> ps_reader_closed u \<and> ps_goroutine u = Generating (k closed_pipe)"
      using PipeWrite.prems by (cases rule: pipe_step_cases) auto
    moreover have "never_panics (k closed_pipe)"
      using PipeWrite.prems(4) by (auto simp: never_panics_def)
    ultimately show "inevitably close_returned u" using PipeWrite.IH by blast
  qed
next
  case (PipeDone p)
  obtain e c where p: "p = (Returned e, c)"
    using PipeDone.prems(4) by (cases p) (auto simp: never_panics_def)
  show ?case
  proof (rule inevitably.ahead [OF pipe_step.generated])
    show "ps_goroutine s = Generating (PipeDone (Returned e, c))" using PipeDone.prems p by simp
  next
    fix u assume "pipe_step s u"
    then have "ps_consumer u = AwaitingErr \<and> ps_reader_closed u \<and> ps_goroutine u = ClosingTar (Returned e) c"
      using PipeDone.prems p by (cases rule: pipe_step_cases) auto
    then show "inevitably close_returned u" using closing_ends by blast
  qed
qed

lemma pipe_step_run: "pipe_step s t \<Longrightarrow> pipe_step\<^sup>*\<^sup>* s t"
  by (rule r_into_rtranclp)

section \<open>Properties\<close>

definition example_generator :: generator where
  "example_generator =
     PipeWrite ''abc'' (\<lambda>e. PipeDone (Returned (Some (ErrorText ''bad zip'')), PipeWrite ''-'' (\<lambda>e'. PipeDone e')))"

definition example_panic :: generator where
  "example_panic = PipeDone (Panicked ''boom'', PipeDone None)"

text \<open>C29: A caller who reads the stream to its end has read exactly the bytes the generator and the closing
of the tar wrote, in order and however the reads cut them up, and the error he meets at the end is the very one the
generator returned (end of file for nil), or "panic: " with the text of the panic that ended it.\<close>

theorem tar_stream_read:
  assumes "pipe_step\<^sup>*\<^sup>* (generate_tar gen) s" and "ps_consumer s = Open" and "ps_read_end s = Some e"
  shows "ps_output s = generated_bytes gen \<and>
     e = (case fst (proc_result gen) of Returned err \<Rightarrow> err | Panicked m \<Rightarrow> Some (ErrorText (''panic: '' @ m)))"
  using stream_inv_run [OF assms(1)] assms(2,3) unfolding generated_end_def [symmetric]
  by (cases "ps_goroutine s") (auto simp: stream_inv_def)

lemma example_read:
  "pipe_step\<^sup>*\<^sup>* (generate_tar example_generator)
     \<lparr>ps_goroutine = SendingErr None, ps_writer_end = Some (Some (ErrorText ''bad zip'')), ps_reader_closed = False,
      ps_consumer = Open, ps_output = ''abc-'', ps_read_end = Some (Some (ErrorText ''bad zip''))\<rparr>"
proof -
  let ?s = "\<lambda>g w out r. \<lparr>ps_goroutine = g, ps_writer_end = w, ps_reader_closed = False,
      ps_consumer = Open, ps_output = out, ps_read_end = r\<rparr>"
  let ?bad = "Some (ErrorText ''bad zip'')"
  let ?c = "PipeWrite ''-'' (\<lambda>e. PipeDone e)"
  let ?k = "\<lambda>e. PipeDone (Returned ?bad, ?c)"
  have 1: "pipe_step (generate_tar example_generator) (?s (Generating (PipeWrite ''bc'' ?k)) None ''a'' None)"
    using read_part [of "generate_tar example_generator" "''abc''" "\<lambda>rest. Generating (PipeWrite rest ?k)" _ 1]
    by (simp add: generate_tar_def example_generator_def)
  have 2: "pipe_step (?s (Generating (PipeWrite ''bc'' ?k)) None ''a'' None) (?s (Generating (?k None)) None ''abc'' None)"
    using read_all [of "?s (Generating (PipeWrite ''bc'' ?k)) None ''a'' None" "''bc''" _ "\<lambda>e. Generating (?k e)"] by simp
  have 3: "pipe_step (?s (Generating (?k None)) None ''abc'' None) (?s (ClosingTar (Returned ?bad) ?c) None ''abc'' None)"
    using generated [of "?s (Generating (?k None)) None ''abc'' None"] by simp
  have 4: "pipe_step (?s (ClosingTar (Returned ?bad) ?c) None ''abc'' None)
      (?s (ClosingTar (Returned ?bad) (PipeDone None)) None ''abc-'' None)"
    using read_all [of "?s (ClosingTar (Returned ?bad) ?c) None ''abc'' None" "''-''" _ "\<lambda>e. ClosingTar (Returned ?bad) (PipeDone e)"]
    by simp
  have 5: "pipe_step (?s (ClosingTar (Returned ?bad) (PipeDone None)) None ''abc-'' None)
      (?s (SendingErr None) (Some ?bad) ''abc-'' None)"
    using tar_closed [of "?s (ClosingTar (Returned ?bad) (PipeDone None)) None ''abc-'' None"]
    by (simp add: aggregate_error_def)
  have 6: "pipe_step (?s (SendingErr None) (Some ?bad) ''abc-'' None) (?s (SendingErr None) (Some ?bad) ''abc-'' (Some ?bad))"
    using read_end [of "?s (SendingErr None) (Some ?bad) ''abc-'' None"] by simp
  show ?thesis
    using 1 2 3 4 5 6 by (meson converse_rtranclp_into_rtranclp rtranclp.rtrancl_refl)
qed

theorem tar_stream_read_witness:
  "generated_bytes example_generator = ''abc-'' \<and> fst (proc_result example_generator) = Returned (Some (ErrorText ''bad zip''))"
  using tar_stream_read [OF example_read] by (simp add: example_generator_def)

text \<open>C31: After a panic of the generator, closing the reader never returns: the deferred function of the
goroutine sends nothing on the channel that \<open>Close\<close> waits for.\<close>

theorem close_hangs_after_panic:
  assumes "pipe_step\<^sup>*\<^sup>* (generate_tar gen) s" and "ps_goroutine s = ClosingTar (Panicked m) c"
    and "pipe_step\<^sup>*\<^sup>* s t"
  shows "ps_consumer t \<noteq> Closed e"
proof -
  have "\<nexists>e. ps_consumer s = Closed e"
  proof -
    have "(\<exists>e. ps_consumer s' = Closed e) \<longrightarrow> ps_goroutine s' = Gone"
      if "pipe_step\<^sup>*\<^sup>* (generate_tar gen) s'" for s'
      using that
    proof (induction rule: rtranclp_induct)
      case base
      then show ?case by (simp add: generate_tar_def)
    next
      case (step s' u)
      from step.hyps(2) show ?case
        using step.IH by (cases rule: pipe_step_cases) auto
    qed
    from this [OF assms(1)] show ?thesis using assms(2) by auto
  qed
  then have start: "unanswered (ps_goroutine s) \<and> (\<nexists>e. ps_consumer s = Closed e)"
    using assms(2) by simp
  have "unanswered (ps_goroutine t) \<and> (\<nexists>e. ps_consumer t = Closed e)"
    using assms(3)
  proof (induction rule: rtranclp_induct)
    case base
    then show ?case using start by simp
  next
    case (step t u)
    then show ?case using unanswered_step by blast
  qed
  then show ?thesis by blast
qed

definition example_blocked :: pipe_state where
  "example_blocked =
     \<lparr>ps_goroutine = Gone, ps_writer_end = Some (Some (ErrorText ''panic: boom'')), ps_reader_closed = True,
      ps_consumer = AwaitingErr, ps_output = [], ps_read_end = None\<rparr>"

lemma example_panic_run:
  "pipe_step (generate_tar example_panic) ((generate_tar example_panic)\<lparr>ps_goroutine := ClosingTar (Panicked ''boom'') (PipeDone None)\<rparr>)"
  "pipe_step\<^sup>*\<^sup>* ((generate_tar example_panic)\<lparr>ps_goroutine := ClosingTar (Panicked ''boom'') (PipeDone None)\<rparr>) example_blocked"
proof -
  let ?s = "(generate_tar example_panic)\<lparr>ps_goroutine := ClosingTar (Panicked ''boom'') (PipeDone None)\<rparr>"
  let ?t = "?s\<lparr>ps_consumer := AwaitingErr, ps_reader_closed := True\<rparr>"
  show "pipe_step (generate_tar example_panic) ?s"
    by (rule pipe_step.generated) (simp add: generate_tar_def example_panic_def)
  have "pipe_step ?s ?t"
    by (rule pipe_step.close_reader) (simp add: generate_tar_def)
  moreover have "pipe_step ?t example_blocked"
    using tar_closed [of ?t "Panicked ''boom''" None] by (simp add: generate_tar_def example_blocked_def)
  ultimately show "pipe_step\<^sup>*\<^sup>* ?s example_blocked" by simp
qed

theorem close_hangs_after_panic_witness:
  "\<forall>e. ps_consumer example_blocked \<noteq> Closed e"
  using close_hangs_after_panic [OF pipe_step_run [OF example_panic_run(1)] _ example_panic_run(2)] by simp

text \<open>C30: With a generator that does not panic a \<open>Close\<close> always returns: from every state in which the caller
waits in it, wherever the generator is, each run ends with the error handed over. The goroutine in
turn waits for the \<open>Close\<close>: a caller who only reads leaves it behind.\<close>

theorem close_returns:
  assumes "pipe_step\<^sup>*\<^sup>* (generate_tar gen) s" and "never_panics gen"
  shows "(ps_consumer s = AwaitingErr \<longrightarrow> inevitably close_returned s) \<and>
     (ps_consumer s = Open \<longrightarrow> ps_goroutine s \<noteq> Gone)"
proof (cases "close_returned s")
  case True
  then show ?thesis by (auto simp: close_returned_def)
next
  case False
  then have inv: "answering (ps_goroutine s)" "ps_consumer s = AwaitingErr \<longrightarrow> ps_reader_closed s"
    using answer_inv_run [OF assms] by (auto simp: answer_inv_def)
  have "inevitably close_returned s" if "ps_consumer s = AwaitingErr"
  proof (cases "ps_goroutine s")
    case (ClosingTar r c)
    then show ?thesis using inv that closing_ends [OF that] by auto
  qed (use inv that generating_ends sending_ends in auto)
  then show ?thesis using inv(1) by auto
qed

theorem close_returns_witness:
  "inevitably close_returned
     ((generate_tar example_generator)\<lparr>ps_consumer := AwaitingErr, ps_reader_closed := True\<rparr>)"
proof -
  let ?s = "(generate_tar example_generator)\<lparr>ps_consumer := AwaitingErr, ps_reader_closed := True\<rparr>"
  have "pipe_step\<^sup>*\<^sup>* (generate_tar example_generator) ?s"
    by (rule pipe_step_run, rule pipe_step.close_reader) (simp add: generate_tar_def)
  moreover have "never_panics example_generator"
    by (simp add: example_generator_def never_panics_def)
  ultimately show ?thesis using close_returns by fastforce
qed

end
