(* ===== verification/BackupMetadata.thy ===== *)
theory BackupMetadata
  imports GoJson GoJsonFacts
begin

text \<open>
  backup-metadata-generator: \<open>internal/cfmetadata\<close> (the CF client, the summary of a foundation, its
  JSON and the comparison), \<open>internal/helpers\<close>, \<open>internal/delegate\<close> and the main program. The
  go-cfclient library, the JSON differ and the process' streams are parameters.
\<close>

section \<open>cfmetadata/client.go\<close>

record org =
  org_name :: string
  org_guid :: string

record cf_space =
  sp_name :: string
  sp_guid :: string
  sp_org_guid :: string

record app =
  app_name :: string
  app_space_guid :: string

record user =
  user_name :: string

text \<open>
  The fields of the library's records that the client reads, its configuration and the four list
  calls of \<open>CloudFoundryClient\<close>.
\<close>

record lib_org =
  lo_name :: string
  lo_guid :: string

record lib_space =
  ls_name :: string
  ls_guid :: string
  ls_organization_guid :: string

record lib_app =
  la_name :: string
  la_space_guid :: string

record lib_user =
  lu_username :: string

record cfclient_config =
  cc_api_address :: string
  cc_client_id :: string
  cc_client_secret :: string
  cc_skip_ssl_validation :: bool

record 'w cloud_foundry_client =
  cl_list_orgs :: "('w, go_error + lib_org list) effect"
  cl_list_spaces :: "('w, go_error + lib_space list) effect"
  cl_list_apps :: "('w, go_error + lib_app list) effect"
  cl_list_users :: "('w, go_error + lib_user list) effect"

definition new_metadata_client ::
  "(cfclient_config \<Rightarrow> ('w, 'c \<times> go_error option) effect) \<Rightarrow> string \<Rightarrow> string \<Rightarrow> string
    \<Rightarrow> ('w, 'c \<times> go_error option) effect" where
  "new_metadata_client lib_new api_address client_id client_secret =
     lib_new \<lparr>cc_api_address = api_address, cc_client_id = client_id, cc_client_secret = client_secret,
       cc_skip_ssl_validation = True\<rparr>"

text \<open>Each method returns a slice and an error, and the empty slice with an error.\<close>

definition list_with :: "('a \<Rightarrow> 'b) \<Rightarrow> ('w, go_error + 'a list) effect \<Rightarrow> ('w, 'b list \<times> go_error option) effect" where
  "list_with conv lister w =
     (case lister w of
        (Inl e, w') \<Rightarrow> (([], Some e), w')
      | (Inr xs, w') \<Rightarrow> ((map conv xs, None), w'))"

definition client_orgs :: "'w cloud_foundry_client \<Rightarrow> ('w, org list \<times> go_error option) effect" where
  "client_orgs c = list_with (\<lambda>o'. \<lparr>org_name = lo_name o', org_guid = lo_guid o'\<rparr>) (cl_list_orgs c)"

definition client_spaces :: "'w cloud_foundry_client \<Rightarrow> ('w, cf_space list \<times> go_error option) effect" where
  "client_spaces c =
     list_with (\<lambda>s. \<lparr>sp_name = ls_name s, sp_guid = ls_guid s, sp_org_guid = ls_organization_guid s\<rparr>)
       (cl_list_spaces c)"

definition client_apps :: "'w cloud_foundry_client \<Rightarrow> ('w, app list \<times> go_error option) effect" where
  "client_apps c =
     list_with (\<lambda>a. \<lparr>app_name = la_name a, app_space_guid = la_space_guid a\<rparr>) (cl_list_apps c)"

definition client_users :: "'w cloud_foundry_client \<Rightarrow> ('w, user list \<times> go_error option) effect" where
  "client_users c = list_with (\<lambda>u. \<lparr>user_name = lu_username u\<rparr>) (cl_list_users c)"

section \<open>cfmetadata/metadata.go: the summary\<close>

text \<open>A slice that may be nil is an option.\<close>

record app_summary =
  as_name :: string

record space_summary =
  ss_name :: string
  ss_apps :: "app_summary list option"

record org_summary =
  os_name :: string
  os_spaces :: "space_summary list option"

record totals =
  tt_orgs :: int
  tt_spaces :: int
  tt_users :: int
  tt_apps :: int

record metadata =
  md_totals :: totals
  md_orgs :: "org_summary list option"

text \<open>The interface \<open>CfClient\<close> of the getter.\<close>

record 'w cf_lister =
  cf_orgs :: "('w, org list \<times> go_error option) effect"
  cf_spaces :: "('w, cf_space list \<times> go_error option) effect"
  cf_apps :: "('w, app list \<times> go_error option) effect"
  cf_users :: "('w, user list \<times> go_error option) effect"

text \<open>\<open>NewMetadataGetter\<close>: the getter is the interface it is given, and there is no error.\<close>

definition new_metadata_getter :: "'w cf_lister \<Rightarrow> go_error + 'w cf_lister" where
  "new_metadata_getter cf = Inr cf"

definition client_lister :: "'w cloud_foundry_client \<Rightarrow> 'w cf_lister" where
  "client_lister c =
     \<lparr>cf_orgs = client_orgs c, cf_spaces = client_spaces c, cf_apps = client_apps c, cf_users = client_users c\<rparr>"

text \<open>\<open>m[k] = append(m[k], v)\<close>: a missing entry reads as the nil slice.\<close>

definition append_at :: "'k \<Rightarrow> 'v \<Rightarrow> ('k, 'v list) go_map \<Rightarrow> ('k, 'v list) go_map" where
  "append_at k v m = go_put k ((case go_get m k of None \<Rightarrow> [] | Some vs \<Rightarrow> vs) @ [v]) m"

definition build_app_map :: "app list \<Rightarrow> (string, app_summary list) go_map" where
  "build_app_map apps = fold (\<lambda>a. append_at (app_space_guid a) \<lparr>as_name = app_name a\<rparr>) apps []"

definition build_spaces_map ::
  "(string, app_summary list) go_map \<Rightarrow> cf_space list \<Rightarrow> (string, space_summary list) go_map" where
  "build_spaces_map app_map spaces =
     fold (\<lambda>s. append_at (sp_org_guid s) \<lparr>ss_name = sp_name s, ss_apps = go_get app_map (sp_guid s)\<rparr>) spaces []"

definition get_all_orgs_summary :: "org list \<Rightarrow> cf_space list \<Rightarrow> app list \<Rightarrow> org_summary list option" where
  "get_all_orgs_summary orgs spaces apps =
     (let app_map = build_app_map apps;
          spaces_map = build_spaces_map app_map spaces
      in Some (map (\<lambda>o'. \<lparr>os_name = org_name o', os_spaces = go_get spaces_map (org_guid o')\<rparr>) orgs))"

text \<open>The errors of the four calls are dropped.\<close>

definition execute_metadata :: "'w cf_lister \<Rightarrow> ('w, metadata \<times> go_error option) effect" where
  "execute_metadata cf w =
     (let ((orgs, e1), w1) = cf_orgs cf w;
          ((spaces, e2), w2) = cf_spaces cf w1;
          ((apps, e3), w3) = cf_apps cf w2;
          ((users, e4), w4) = cf_users cf w3
      in ((\<lparr>md_totals = \<lparr>tt_orgs = int (length orgs), tt_spaces = int (length spaces),
                         tt_users = int (length users), tt_apps = int (length apps)\<rparr>,
            md_orgs = get_all_orgs_summary orgs spaces apps\<rparr>, None), w4))"

section \<open>The JSON of a summary\<close>

definition slice_json :: "('a \<Rightarrow> json) \<Rightarrow> 'a list option \<Rightarrow> json" where
  "slice_json enc xs = (case xs of None \<Rightarrow> JNull | Some ys \<Rightarrow> JArr (map enc ys))"

definition app_summary_json :: "app_summary \<Rightarrow> json" where
  "app_summary_json a = JObj [(''name'', JStr (as_name a))]"

definition space_summary_json :: "space_summary \<Rightarrow> json" where
  "space_summary_json s =
     JObj [(''name'', JStr (ss_name s)), (''apps'', slice_json app_summary_json (ss_apps s))]"

definition org_summary_json :: "org_summary \<Rightarrow> json" where
  "org_summary_json o' =
     JObj [(''name'', JStr (os_name o')), (''spaces'', slice_json space_summary_json (os_spaces o'))]"

definition totals_json :: "totals \<Rightarrow> json" where
  "totals_json t =
     JObj [(''orgs'', JNum (tt_orgs t)), (''spaces'', JNum (tt_spaces t)),
           (''users'', JNum (tt_users t)), (''apps'', JNum (tt_apps t))]"

definition metadata_json :: "metadata \<Rightarrow> json" where
  "metadata_json m =
     JObj [(''totals'', totals_json (md_totals m)), (''orgs'', slice_json org_summary_json (md_orgs m))]"

text \<open>\<open>toStr\<close> of both packages: \<open>json.Marshal\<close> of a \<open>Metadata\<close> cannot fail.\<close>

definition metadata_text :: "metadata \<Rightarrow> string" where
  "metadata_text m = json_text (metadata_json m)"

text \<open>Decoding with \<open>DisallowUnknownFields\<close>: a key that is no field is an error.\<close>

definition dec_app_summary :: "json \<Rightarrow> app_summary \<Rightarrow> app_summary option" where
  "dec_app_summary = dec_struct (\<lambda>k v s.
     if eq_fold k ''name'' then map_option (\<lambda>x. s\<lparr>as_name := x\<rparr>) (dec_string v (as_name s)) else None)"

definition dec_space_summary :: "json \<Rightarrow> space_summary \<Rightarrow> space_summary option" where
  "dec_space_summary = dec_struct (\<lambda>k v s.
     if eq_fold k ''name'' then map_option (\<lambda>x. s\<lparr>ss_name := x\<rparr>) (dec_string v (ss_name s))
     else if eq_fold k ''apps''
     then map_option (\<lambda>x. s\<lparr>ss_apps := x\<rparr>) (dec_slice_into dec_app_summary \<lparr>as_name = []\<rparr> v (ss_apps s))
     else None)"

definition dec_org_summary :: "json \<Rightarrow> org_summary \<Rightarrow> org_summary option" where
  "dec_org_summary = dec_struct (\<lambda>k v s.
     if eq_fold k ''name'' then map_option (\<lambda>x. s\<lparr>os_name := x\<rparr>) (dec_string v (os_name s))
     else if eq_fold k ''spaces''
     then map_option (\<lambda>x. s\<lparr>os_spaces := x\<rparr>)
       (dec_slice_into dec_space_summary \<lparr>ss_name = [], ss_apps = None\<rparr> v (os_spaces s))
     else None)"

definition dec_totals :: "json \<Rightarrow> totals \<Rightarrow> totals option" where
  "dec_totals = dec_struct (\<lambda>k v s.
     if eq_fold k ''orgs'' then map_option (\<lambda>x. s\<lparr>tt_orgs := x\<rparr>) (dec_int v (tt_orgs s))
     else if eq_fold k ''spaces'' then map_option (\<lambda>x. s\<lparr>tt_spaces := x\<rparr>) (dec_int v (tt_spaces s))
     else if eq_fold k ''users'' then map_option (\<lambda>x. s\<lparr>tt_users := x\<rparr>) (dec_int v (tt_users s))
     else if eq_fold k ''apps'' then map_option (\<lambda>x. s\<lparr>tt_apps := x\<rparr>) (dec_int v (tt_apps s))
     else None)"

definition zero_metadata :: metadata where
  "zero_metadata =
     \<lparr>md_totals = \<lparr>tt_orgs = 0, tt_spaces = 0, tt_users = 0, tt_apps = 0\<rparr>, md_orgs = None\<rparr>"

definition dec_metadata :: "json \<Rightarrow> metadata option" where
  "dec_metadata j = dec_struct (\<lambda>k v s.
     if eq_fold k ''totals'' then map_option (\<lambda>x. s\<lparr>md_totals := x\<rparr>) (dec_totals v (md_totals s))
     else if eq_fold k ''orgs''
     then map_option (\<lambda>x. s\<lparr>md_orgs := x\<rparr>)
       (dec_slice_into dec_org_summary \<lparr>os_name = [], os_spaces = None\<rparr> v (md_orgs s))
     else None) j zero_metadata"

section \<open>The comparison\<close>

text \<open>gojsondiff: the difference of two JSON texts, whether it is one, and its ASCII form.\<close>

record 'd json_differ =
  jd_compare :: "string \<Rightarrow> string \<Rightarrow> 'd"
  jd_modified :: "'d \<Rightarrow> bool"
  jd_format :: "json \<Rightarrow> 'd \<Rightarrow> string"

definition compare_texts :: "'d json_differ \<Rightarrow> string \<Rightarrow> string \<Rightarrow> string" where
  "compare_texts jd left right =
     (let d = jd_compare jd left right
      in if \<not> jd_modified jd d then []
         else jd_format jd (case json_unmarshal left of Some j \<Rightarrow> j | None \<Rightarrow> JNull) d)"

definition compare_metadata :: "'d json_differ \<Rightarrow> string \<Rightarrow> metadata \<Rightarrow> go_error + string" where
  "compare_metadata jd left_str right =
     (case Option.bind (json_decode left_str) dec_metadata of
        None \<Rightarrow> Inl json_error
      | Some left \<Rightarrow> Inr (compare_texts jd (metadata_text left) (metadata_text right)))"

section \<open>The program\<close>

text \<open>\<open>splits[1]\<close> is out of range for an entry without "=".\<close>

fun environ_loop :: "string list \<Rightarrow> (string, string) go_map \<Rightarrow> (string, string) go_map outcome" where
  "environ_loop [] m = Returns m"
| "environ_loop (e # es) m =
     (case go_split2 e (CHR ''='') of
        k # v # _ \<Rightarrow> environ_loop es (go_put k v m)
      | _ \<Rightarrow> Panics IndexRange)"

definition environ_to_map :: "string list \<Rightarrow> (string, string) go_map outcome" where
  "environ_to_map env = environ_loop env []"

text \<open>What the program calls: the constructor of the CF client, standard input and output.\<close>

record ('w, 'd) cli_env =
  ce_new_client :: "cfclient_config \<Rightarrow> ('w, 'w cloud_foundry_client \<times> go_error option) effect"
  ce_read_all :: "('w, string \<times> go_error option) effect"
  ce_println :: "string \<Rightarrow> 'w \<Rightarrow> 'w"
  ce_differ :: "'d json_differ"

definition get_current_cf_metadata ::
  "('w, 'd) cli_env \<Rightarrow> string \<Rightarrow> string \<Rightarrow> string \<Rightarrow> ('w, go_error + metadata) effect" where
  "get_current_cf_metadata ce cf_api username password w =
     (case new_metadata_client (ce_new_client ce) cf_api username password w of
        ((c, Some e), w1) \<Rightarrow> (Inl e, w1)
      | ((c, None), w1) \<Rightarrow>
          (case new_metadata_getter (client_lister c) of
             Inl e \<Rightarrow> (Inl e, w1)
           | Inr mg \<Rightarrow>
               (case execute_metadata mg w1 of
                  ((m, Some e), w2) \<Rightarrow> (Inl e, w2)
                | ((m, None), w2) \<Rightarrow> (Inr m, w2))))"

definition print_metadata ::
  "('w, 'd) cli_env \<Rightarrow> string \<Rightarrow> string \<Rightarrow> string \<Rightarrow> ('w, go_error option) effect" where
  "print_metadata ce cf_api username password w =
     (case get_current_cf_metadata ce cf_api username password w of
        (Inl e, w1) \<Rightarrow> (Some e, w1)
      | (Inr m, w1) \<Rightarrow> (None, ce_println ce (''CF Metadata: '' @ metadata_text m) w1))"

definition print_comparison ::
  "('w, 'd) cli_env \<Rightarrow> string \<Rightarrow> string \<Rightarrow> string \<Rightarrow> ('w, go_error option) effect" where
  "print_comparison ce cf_api username password w =
     (case ce_read_all ce w of
        ((pipe_content, Some e), w1) \<Rightarrow> (Some e, w1)
      | ((pipe_content, None), w1) \<Rightarrow>
          (case get_current_cf_metadata ce cf_api username password w1 of
             (Inl e, w2) \<Rightarrow> (Some e, w2)
           | (Inr m, w2) \<Rightarrow>
               (case compare_metadata (ce_differ ce) pipe_content m of
                  Inl e \<Rightarrow>
                    (Some (ErrorText (''could not compare current CF metadata with input JSON: '' @ error_text e)), w2)
                | Inr d \<Rightarrow>
                    (None, ce_println ce
                       (if d = [] then ''No differences found between input and current state'' else d) w2))))"

definition env_value :: "(string, string) go_map \<Rightarrow> string \<Rightarrow> string" where
  "env_value env k = (case go_get env k of None \<Rightarrow> [] | Some v \<Rightarrow> v)"

definition missing_variable :: "string \<Rightarrow> go_error" where
  "missing_variable name = ErrorText (CHR 0x27 # name @ CHR 0x27 # '' Environment Variable is not set'')"

definition delegate_main ::
  "('w, 'd) cli_env \<Rightarrow> string list \<Rightarrow> (string, string) go_map \<Rightarrow> ('w, go_error option outcome) effect" where
  "delegate_main ce args env w =
     (let cf_api = env_value env ''CF_API_HOST'';
          cf_client = env_value env ''CF_CLIENT'';
          cf_client_secret = env_value env ''CF_CLIENT_SECRET''
      in if cf_api = [] then (Returns (Some (missing_variable ''CF_API_HOST'')), w)
         else if cf_client = [] then (Returns (Some (missing_variable ''CF_CLIENT'')), w)
         else if cf_client_secret = [] then (Returns (Some (missing_variable ''CF_CLIENT_SECRET'')), w)
         else case args of
           [] \<Rightarrow> (Panics IndexRange, w)
         | [prog] \<Rightarrow> (let (e, w') = print_metadata ce cf_api cf_client cf_client_secret w in (Returns e, w'))
         | [prog, cmd] \<Rightarrow>
             if cmd \<noteq> ''compare''
             then (Returns (Some (ErrorText (''unknown option: '' @ cmd @ '', Did you mean compare ?''))), w)
             else (let (e, w') = print_comparison ce cf_api cf_client cf_client_secret w in (Returns e, w'))
         | prog # rest \<Rightarrow>
             (Returns (Some (ErrorText (''invalid arguments, usage: '' @ prog @
                '' or cat cf-metadata-another-system.json | '' @ prog @ '' compare''))), w))"

text \<open>How the process ends: its exit code and what it wrote to standard error, or a panic.\<close>

datatype process_end = ExitCode int string | Crash go_panic

definition program_main ::
  "('w, 'd) cli_env \<Rightarrow> string list \<Rightarrow> string list \<Rightarrow> ('w, process_end) effect" where
  "program_main ce args environ w =
     (case environ_to_map environ of
        Panics p \<Rightarrow> (Crash p, w)
      | Returns env \<Rightarrow>
          (case delegate_main ce args env w of
             (Panics p, w') \<Rightarrow> (Crash p, w')
           | (Returns (Some e), w') \<Rightarrow> (ExitCode 1 (error_text e @ [CHR 0x0A]), w')
           | (Returns None, w') \<Rightarrow> (ExitCode 0 [], w')))"

end
