(* ===== verification/BackupProperties.thy ===== *)
theory BackupProperties
  imports BackupMetadata
begin

text \<open>
  Properties of the backup-metadata-generator: what the summary says about a foundation, that its
  JSON is read back, when a comparison finds no difference, and how the program ends. The world of
  the examples and of the program's properties is an arbitrary outside with the text written to
  standard output so far.
\<close>

section \<open>Grouping\<close>

definition nil_if_empty :: "'a list \<Rightarrow> 'a list option" where
  "nil_if_empty xs = (if xs = [] then None else Some xs)"

lemma append_at_fill:
  assumes "go_map_ok m"
  shows "go_get (fold (\<lambda>x. append_at (f x) (g x)) xs m) k =
     (if filter (\<lambda>x. f x = k) xs = [] then go_get m k
      else Some ((case go_get m k of None \<Rightarrow> [] | Some vs \<Rightarrow> vs) @ map g (filter (\<lambda>x. f x = k) xs)))"
  using assms
proof (induction xs arbitrary: m)
  case Nil
  then show ?case by simp
next
  case (Cons x xs)
  have ok: "go_map_ok (append_at (f x) (g x) m)"
    using Cons.prems by (simp add: append_at_def gm.ok_put)
  show ?case
    using Cons.IH [OF ok] Cons.prems
    by (auto simp: append_at_def gm.get_put split: option.splits)
qed

lemma append_at_get:
  "go_get (fold (\<lambda>x. append_at (f x) (g x)) xs []) k = nil_if_empty (map g (filter (\<lambda>x. f x = k) xs))"
  by (simp add: append_at_fill gm.ok_none gm.get_none nil_if_empty_def)

text \<open>The apps of a space and the spaces of an org, as filters over the lists.\<close>

definition apps_of :: "app list \<Rightarrow> string \<Rightarrow> app_summary list option" where
  "apps_of apps guid = nil_if_empty (map (\<lambda>a. \<lparr>as_name = app_name a\<rparr>) (filter (\<lambda>a. app_space_guid a = guid) apps))"

definition spaces_of :: "cf_space list \<Rightarrow> app list \<Rightarrow> string \<Rightarrow> space_summary list option" where
  "spaces_of spaces apps guid =
     nil_if_empty (map (\<lambda>s. \<lparr>ss_name = sp_name s, ss_apps = apps_of apps (sp_guid s)\<rparr>)
       (filter (\<lambda>s. sp_org_guid s = guid) spaces))"

definition summary_spec :: "org list \<Rightarrow> cf_space list \<Rightarrow> app list \<Rightarrow> user list \<Rightarrow> metadata" where
  "summary_spec orgs spaces apps users =
     \<lparr>md_totals = \<lparr>tt_orgs = int (length orgs), tt_spaces = int (length spaces),
                   tt_users = int (length users), tt_apps = int (length apps)\<rparr>,
      md_orgs = Some (map (\<lambda>g. \<lparr>os_name = org_name g, os_spaces = spaces_of spaces apps (org_guid g)\<rparr>) orgs)\<rparr>"

lemma build_app_map_get: "go_get (build_app_map apps) k = apps_of apps k"
  unfolding build_app_map_def apps_of_def by (rule append_at_get)

lemma build_spaces_map_get:
  "go_get (build_spaces_map (build_app_map apps) spaces) k = spaces_of spaces apps k"
  unfolding build_spaces_map_def spaces_of_def build_app_map_get by (rule append_at_get)

lemma execute_summary:
  assumes "cf_orgs cf w = ((orgs, e1), w1)" and "cf_spaces cf w1 = ((spaces, e2), w2)"
    and "cf_apps cf w2 = ((apps, e3), w3)" and "cf_users cf w3 = ((users, e4), w4)"
  shows "execute_metadata cf w = ((summary_spec orgs spaces apps users, None), w4)"
  by (simp add: execute_metadata_def assms get_all_orgs_summary_def summary_spec_def build_spaces_map_get Let_def)

section \<open>Reading back\<close>

lemma dec_elems_into_map:
  "(\<And>x. x \<in> set xs \<Longrightarrow> f (enc x) z = Some x) \<Longrightarrow> dec_elems_into f z (map enc xs) [] = Some xs"
  by (induction xs) auto

lemma dec_slice_into_json:
  "(\<And>ys x. xs = Some ys \<Longrightarrow> x \<in> set ys \<Longrightarrow> f (enc x) z = Some x) \<Longrightarrow>
     dec_slice_into f z (slice_json enc xs) None = Some xs"
  by (cases xs) (auto simp: dec_slice_into_def slice_json_def dec_elems_into_map)

lemma eq_fold_metadata_tags:
  "\<not> eq_fold ''apps'' ''name''" "\<not> eq_fold ''spaces'' ''name''" "\<not> eq_fold ''orgs'' ''totals''"
  "\<not> eq_fold ''spaces'' ''orgs''" "\<not> eq_fold ''users'' ''orgs''" "\<not> eq_fold ''apps'' ''orgs''"
  "\<not> eq_fold ''users'' ''spaces''" "\<not> eq_fold ''apps'' ''spaces''" "\<not> eq_fold ''apps'' ''users''"
  by (simp_all add: eq_fold_def lower_def)

lemmas dec_simps = dec_struct_def dec_string_def dec_int_def eq_fold_metadata_tags

lemma dec_app_summary_json: "dec_app_summary (app_summary_json a) z = Some a"
  by (cases a) (simp add: dec_app_summary_def app_summary_json_def dec_simps)

lemma dec_space_summary_json:
  "dec_space_summary (space_summary_json s) \<lparr>ss_name = [], ss_apps = None\<rparr> = Some s"
  by (cases s) (simp add: dec_space_summary_def space_summary_json_def dec_simps dec_slice_into_json
      dec_app_summary_json)

lemma dec_org_summary_json:
  "dec_org_summary (org_summary_json g) \<lparr>os_name = [], os_spaces = None\<rparr> = Some g"
  by (cases g) (simp add: dec_org_summary_def org_summary_json_def dec_simps dec_slice_into_json
      dec_space_summary_json)

text \<open>Totals that are 64-bit integers.\<close>

definition totals_within :: "int \<Rightarrow> metadata \<Rightarrow> bool" where
  "totals_within b m \<longleftrightarrow>
     (let t = md_totals m in \<forall>x \<in> {tt_orgs t, tt_spaces t, tt_users t, tt_apps t}. - b \<le> x \<and> x < b)"

lemma dec_metadata_json:
  assumes "totals_within (2 ^ 63) m"
  shows "dec_metadata (metadata_json m) = Some m"
proof -
  obtain t gs where m: "m = \<lparr>md_totals = t, md_orgs = gs\<rparr>" by (cases m)
  have "dec_totals (totals_json t) z = Some t" for z
    using assms by (cases t, cases z)
      (simp add: m totals_within_def dec_totals_def totals_json_def dec_simps)
  then show ?thesis
    by (simp add: m dec_metadata_def metadata_json_def zero_metadata_def dec_simps dec_slice_into_json
        dec_org_summary_json)
qed

lemma slice_json_plain: "(\<And>x. json_plain (enc x)) \<Longrightarrow> json_plain (slice_json enc xs)"
  by (cases xs) (auto simp: slice_json_def list_all_iff)

lemma metadata_json_plain: "json_plain (metadata_json m)"
proof -
  have a: "json_plain (app_summary_json x)" for x by (simp add: app_summary_json_def)
  have b: "json_plain (space_summary_json x)" for x
    by (simp add: space_summary_json_def slice_json_plain a)
  have c: "json_plain (org_summary_json x)" for x
    by (simp add: org_summary_json_def slice_json_plain b)
  show ?thesis by (simp add: metadata_json_def totals_json_def slice_json_plain c)
qed

lemma metadata_text_decodes:
  assumes "totals_within (2 ^ 63) m" and "no_number_follows r"
  shows "Option.bind (json_decode (metadata_text m @ r)) dec_metadata = Some m"
  using json_decode_text [OF metadata_json_plain assms(2)] dec_metadata_json [OF assms(1)]
  by (simp add: metadata_text_def)

section \<open>A lister that does not print\<close>

text \<open>
  What the getter needs of a \<open>CfClient\<close> to leave an observation \<open>out\<close> of the world alone, such as
  the text on standard output.
\<close>

locale quiet_lister =
  fixes cf :: "'w cf_lister" and out :: "'w \<Rightarrow> 'o"
  assumes orgs_quiet: "out (snd (cf_orgs cf w)) = out w"
    and spaces_quiet: "out (snd (cf_spaces cf w)) = out w"
    and apps_quiet: "out (snd (cf_apps cf w)) = out w"
    and users_quiet: "out (snd (cf_users cf w)) = out w"
begin

lemma execute_quiet: "out (snd (execute_metadata cf w)) = out w"
  by (simp add: execute_metadata_def split_beta Let_def orgs_quiet spaces_quiet apps_quiet users_quiet)

lemma execute_no_error: "\<exists>m w'. execute_metadata cf w = ((m, None), w') \<and> out w' = out w"
  using execute_quiet [of w] by (auto simp: execute_metadata_def split_beta Let_def)

end

type_synonym 'k console = "'k \<times> string"

definition on_console :: "('k, 'a) effect \<Rightarrow> ('k console, 'a) effect" where
  "on_console f w = (let (a, k) = f (fst w) in (a, (k, snd w)))"

definition console_client :: "'k cloud_foundry_client \<Rightarrow> 'k console cloud_foundry_client" where
  "console_client c =
     \<lparr>cl_list_orgs = on_console (cl_list_orgs c), cl_list_spaces = on_console (cl_list_spaces c),
      cl_list_apps = on_console (cl_list_apps c), cl_list_users = on_console (cl_list_users c)\<rparr>"

lemma on_console_out: "snd (snd (on_console f w)) = snd w"
  by (simp add: on_console_def split: prod.splits)

lemma list_with_console: "snd (snd (list_with conv (on_console f) w)) = snd w"
  using on_console_out [of f w] by (auto simp: list_with_def split: prod.splits sum.splits)

interpretation console_lister: quiet_lister "client_lister (console_client c)" snd for c
  by unfold_locales (simp_all add: client_lister_def console_client_def client_orgs_def client_spaces_def
      client_apps_def client_users_def list_with_console)

text \<open>
  The program over a console: the outside makes the client and answers its calls, standard input
  is read in one piece, a line is written with its newline.
\<close>

definition console_env ::
  "(cfclient_config \<Rightarrow> ('k, 'k cloud_foundry_client \<times> go_error option) effect) \<Rightarrow> string \<times> go_error option
    \<Rightarrow> 'd json_differ \<Rightarrow> ('k console, 'd) cli_env" where
  "console_env lib_new stdin jd =
     \<lparr>ce_new_client = (\<lambda>conf. on_console (\<lambda>k. let ((c, e), k') = lib_new conf k in ((console_client c, e), k'))),
      ce_read_all = (\<lambda>w. (stdin, w)),
      ce_println = (\<lambda>s w. (fst w, snd w @ s @ [CHR 0x0A])),
      ce_differ = jd\<rparr>"

lemma console_env_simps [simp]:
  "ce_println (console_env lib_new stdin jd) s w = (fst w, snd w @ s @ [CHR 0x0A])"
  "ce_read_all (console_env lib_new stdin jd) w = (stdin, w)"
  "ce_differ (console_env lib_new stdin jd) = jd"
  by (simp_all add: console_env_def)

text \<open>An answer of the API as the getter uses it: an error reads as nothing.\<close>

definition answered :: "go_error + 'a list \<Rightarrow> 'a list" where
  "answered r = (case r of Inl e \<Rightarrow> [] | Inr xs \<Rightarrow> xs)"

lemma answered_simps [simp]: "answered (Inl e) = []" "answered (Inr xs) = xs"
  by (simp_all add: answered_def)

definition foundation_summary ::
  "go_error + lib_org list \<Rightarrow> go_error + lib_space list \<Rightarrow> go_error + lib_app list \<Rightarrow> go_error + lib_user list \<Rightarrow> metadata" where
  "foundation_summary orgs spaces apps users =
     summary_spec (map (\<lambda>g. \<lparr>org_name = lo_name g, org_guid = lo_guid g\<rparr>) (answered orgs))
       (map (\<lambda>s. \<lparr>sp_name = ls_name s, sp_guid = ls_guid s, sp_org_guid = ls_organization_guid s\<rparr>) (answered spaces))
       (map (\<lambda>a. \<lparr>app_name = la_name a, app_space_guid = la_space_guid a\<rparr>) (answered apps))
       (map (\<lambda>u. \<lparr>user_name = lu_username u\<rparr>) (answered users))"

text \<open>The four calls of a client, with what they answer and the outside they leave.\<close>

definition lists_answer :: "'k cloud_foundry_client \<Rightarrow> 'k \<Rightarrow> go_error + lib_org list \<Rightarrow> go_error + lib_space list
    \<Rightarrow> go_error + lib_app list \<Rightarrow> go_error + lib_user list \<Rightarrow> 'k \<Rightarrow> bool" where
  "lists_answer c k orgs spaces apps users k' \<longleftrightarrow>
     (let (r1, k1) = cl_list_orgs c k; (r2, k2) = cl_list_spaces c k1;
          (r3, k3) = cl_list_apps c k2; (r4, k4) = cl_list_users c k3
      in (r1, r2, r3, r4, k4) = (orgs, spaces, apps, users, k'))"

lemma list_with_answered:
  "list_with conv (on_console lister) (k, out) =
     ((map conv (answered (fst (lister k))), case fst (lister k) of Inl e \<Rightarrow> Some e | Inr xs \<Rightarrow> None),
      (snd (lister k), out))"
  by (auto simp: list_with_def on_console_def answered_def split: prod.splits sum.splits)

lemma execute_lists:
  assumes "lists_answer c k orgs spaces apps users k'"
  shows "execute_metadata (client_lister (console_client c)) (k, out) =
     ((foundation_summary orgs spaces apps users, None), (k', out))"
proof -
  obtain k1 k2 k3 where c: "cl_list_orgs c k = (orgs, k1)" "cl_list_spaces c k1 = (spaces, k2)"
      "cl_list_apps c k2 = (apps, k3)" "cl_list_users c k3 = (users, k')"
    using assms by (auto simp: lists_answer_def split: prod.splits)
  show ?thesis
    unfolding foundation_summary_def
    by (rule execute_summary [where ?w1.0 = "(k1, out)" and ?w2.0 = "(k2, out)" and ?w3.0 = "(k3, out)"])
      (simp_all add: client_lister_def console_client_def client_orgs_def client_spaces_def client_apps_def
        client_users_def list_with_answered c)
qed

text \<open>The configuration the program makes its client with.\<close>

definition program_config :: "(string, string) go_map \<Rightarrow> cfclient_config" where
  "program_config env =
     \<lparr>cc_api_address = env_value env ''CF_API_HOST'', cc_client_id = env_value env ''CF_CLIENT'',
      cc_client_secret = env_value env ''CF_CLIENT_SECRET'', cc_skip_ssl_validation = True\<rparr>"

definition configured :: "(string, string) go_map \<Rightarrow> bool" where
  "configured env \<longleftrightarrow>
     env_value env ''CF_API_HOST'' \<noteq> [] \<and> env_value env ''CF_CLIENT'' \<noteq> [] \<and> env_value env ''CF_CLIENT_SECRET'' \<noteq> []"

lemma current_metadata:
  assumes "lib_new (program_config env) k = ((c, None), k1)" and "lists_answer c k1 orgs spaces apps users k2"
  shows "get_current_cf_metadata (console_env lib_new stdin jd) (env_value env ''CF_API_HOST'')
       (env_value env ''CF_CLIENT'') (env_value env ''CF_CLIENT_SECRET'') (k, out) =
     (Inr (foundation_summary orgs spaces apps users), (k2, out))"
  using assms execute_lists [OF assms(2)]
  by (simp add: get_current_cf_metadata_def new_metadata_getter_def new_metadata_client_def console_env_def on_console_def program_config_def)

section \<open>Properties of the summary\<close>

text \<open>C32: The loops that fill two maps by \<open>append\<close> group as a reader expects: every org in order, with the
spaces whose org GUID is its GUID in order, each with the apps whose space GUID is its GUID in
order; an org without spaces or a space without apps has the nil slice, \<open>null\<close> in the JSON.\<close>

theorem summary_groups_by_guid:
  "get_all_orgs_summary orgs spaces apps =
     Some (map (\<lambda>g. \<lparr>os_name = org_name g, os_spaces = spaces_of spaces apps (org_guid g)\<rparr>) orgs)"
  by (simp add: get_all_orgs_summary_def build_spaces_map_get Let_def)

text \<open>The JSON of a summary is read back as it was, whatever follows it on the input, provided the totals
are 64-bit integers: no unknown field, no null slice turned empty.\<close>

theorem metadata_json_roundtrip:
  assumes "totals_within (2 ^ 63) m" and "no_number_follows r"
  shows "Option.bind (json_decode (metadata_text m @ r)) dec_metadata = Some m"
  by (rule metadata_text_decodes [OF assms])

theorem metadata_json_roundtrip_witness:
  "Option.bind (json_decode (metadata_text (summary_spec [\<lparr>org_name = [CHR 0x22], org_guid = ''g''\<rparr>] [] [] []) @ [CHR 0x0A]))
     dec_metadata = Some (summary_spec [\<lparr>org_name = [CHR 0x22], org_guid = ''g''\<rparr>] [] [] [])"
  by (rule metadata_json_roundtrip)
    (simp_all add: totals_within_def summary_spec_def no_number_follows_def is_number_char_def is_digit_def)

text \<open>
  What the comparison relies on of the JSON differ: the texts of two summaries with numbers a
  floating-point value holds exactly differ when the values do, and a difference has a text.
\<close>

definition differ_ok :: "'d json_differ \<Rightarrow> bool" where
  "differ_ok jd \<longleftrightarrow>
     (\<forall>a b. totals_within (2 ^ 53) a \<longrightarrow> totals_within (2 ^ 53) b \<longrightarrow>
        jd_modified jd (jd_compare jd (json_text (metadata_json a)) (json_text (metadata_json b))) =
          (metadata_json a \<noteq> metadata_json b)) \<and>
     (\<forall>j d. jd_format jd j d \<noteq> [])"

definition text_differ :: "(string \<times> string) json_differ" where
  "text_differ =
     \<lparr>jd_compare = Pair, jd_modified = (\<lambda>(l, r). json_unmarshal l \<noteq> json_unmarshal r),
      jd_format = (\<lambda>j (l, r). ''-'' @ l @ ''+'' @ r)\<rparr>"

lemma text_differ_ok: "differ_ok text_differ"
  by (simp add: differ_ok_def text_differ_def json_unmarshal_text metadata_json_plain split: prod.splits)

lemma totals_within_mono: "totals_within (2 ^ 53) m \<Longrightarrow> totals_within (2 ^ 63) m"
  by (auto simp: totals_within_def Let_def)

lemma metadata_json_inj:
  assumes "metadata_json a = metadata_json b" and "totals_within (2 ^ 53) a" and "totals_within (2 ^ 53) b"
  shows "a = b"
  using dec_metadata_json [OF totals_within_mono [OF assms(2)]]
    dec_metadata_json [OF totals_within_mono [OF assms(3)]] assms(1) by (metis option.inject)

text \<open>C33: A comparison finds no difference exactly when the input, read strictly, is the current summary.\<close>

theorem compare_finds_differences:
  assumes "differ_ok jd" and "Option.bind (json_decode input) dec_metadata = Some left"
    and "totals_within (2 ^ 53) left" and "totals_within (2 ^ 53) m"
  shows "\<exists>d. compare_metadata jd input m = Inr d \<and> (d = [] \<longleftrightarrow> left = m)"
  using assms metadata_json_inj [of left m]
  by (auto simp: compare_metadata_def compare_texts_def metadata_text_def differ_ok_def Let_def)

theorem compare_finds_differences_witness:
  "\<exists>d. compare_metadata text_differ (metadata_text zero_metadata @ [CHR 0x0A]) (summary_spec [] [] [] []) = Inr d \<and> d \<noteq> []"
proof -
  have input: "Option.bind (json_decode (metadata_text zero_metadata @ [CHR 0x0A])) dec_metadata = Some zero_metadata"
    by (rule metadata_text_decodes)
      (simp_all add: totals_within_def zero_metadata_def no_number_follows_def is_number_char_def is_digit_def)
  show ?thesis
    using compare_finds_differences [OF text_differ_ok input, of "summary_spec [] [] [] []"]
    by (auto simp: zero_metadata_def summary_spec_def totals_within_def)
qed

lemma printed_line_rejected: "compare_metadata jd (''CF Metadata: '' @ s) m = Inl json_error"
  by (simp add: compare_metadata_def json_decode_def json_read_def is_space_def is_number_char_def is_digit_def)

text \<open>The line the program prints for a report is not an input of \<open>compare\<close>: with its prefix
"CF Metadata: " it is rejected, whatever follows.\<close>

theorem compare_rejects_printed_line:
  "compare_metadata jd (''CF Metadata: '' @ s) m = Inl json_error"
  by (simp add: compare_metadata_def json_decode_def json_read_def is_space_def is_number_char_def is_digit_def)

section \<open>Properties of the program\<close>

definition example_env :: "string list" where
  "example_env = [''CF_API_HOST=api'', ''CF_CLIENT=id'', ''CF_CLIENT_SECRET=a=b'']"

definition example_map :: "(string, string) go_map" where
  "example_map = [(''CF_API_HOST'', ''api''), (''CF_CLIENT'', ''id''), (''CF_CLIENT_SECRET'', ''a=b'')]"

lemma example_env_map: "environ_to_map example_env = Returns example_map"
  by (simp add: environ_to_map_def example_env_def go_split2_def go_put_def example_map_def)

lemma example_configured: "configured example_map"
  by (simp add: configured_def env_value_def go_get_def example_map_def)

text \<open>An API whose answers never change, given one by one.\<close>

definition fixed_api :: "go_error + lib_org list \<Rightarrow> go_error + lib_space list \<Rightarrow> go_error + lib_app list
    \<Rightarrow> go_error + lib_user list \<Rightarrow> unit cloud_foundry_client" where
  "fixed_api os ss as us =
     \<lparr>cl_list_orgs = Pair os, cl_list_spaces = Pair ss, cl_list_apps = Pair as, cl_list_users = Pair us\<rparr>"

lemma fixed_api_lists: "lists_answer (fixed_api os ss as us) k os ss as us ()"
  by (simp add: lists_answer_def fixed_api_def)

lemma environ_loop_get:
  assumes "environ_loop es m = Returns m'" and "go_map_ok m"
  shows "go_get m' k =
     (case map_of (rev (map (\<lambda>e. (takeWhile (\<lambda>x. x \<noteq> CHR ''='') e, tl (dropWhile (\<lambda>x. x \<noteq> CHR ''='') e))) es)) k of
        None \<Rightarrow> go_get m k | Some v \<Rightarrow> Some v)"
  using assms
proof (induction es arbitrary: m)
  case (Cons e es)
  let ?k = "takeWhile (\<lambda>x. x \<noteq> CHR ''='') e" and ?v = "tl (dropWhile (\<lambda>x. x \<noteq> CHR ''='') e)"
  have "environ_loop es (go_put ?k ?v m) = Returns m'"
    using Cons.prems by (auto simp: go_split2_def split: if_splits)
  from Cons.IH [OF this gm.ok_put [OF Cons.prems(2)]] show ?case
    using Cons.prems(2) by (auto simp: gm.get_put map_add_def split: option.splits)
qed simp

lemma environ_loop_panics:
  "(\<exists>p. environ_loop es m = Panics p) \<longleftrightarrow> (\<exists>e \<in> set es. CHR ''='' \<notin> set e)"
  by (induction es arbitrary: m) (auto simp: go_split2_def)

text \<open>The program crashes on an environment entry without "=", before it looks at anything else, and on no
other environment: the map of a well-formed one has for each name the value after the first "=" of
its last entry.\<close>

theorem environ_to_map_outcome:
  "(case environ_to_map es of
      Panics p \<Rightarrow> \<exists>e \<in> set es. CHR ''='' \<notin> set e
    | Returns m \<Rightarrow> (\<nexists>e. e \<in> set es \<and> CHR ''='' \<notin> set e) \<and>
        go_get m = map_of (rev (map (\<lambda>e. (takeWhile (\<lambda>x. x \<noteq> CHR ''='') e,
          tl (dropWhile (\<lambda>x. x \<noteq> CHR ''='') e))) es)))"
proof (cases "environ_to_map es")
  case (Panics p)
  then show ?thesis using environ_loop_panics [of es "[]"] by (auto simp: environ_to_map_def)
next
  case (Returns m)
  then have m: "environ_loop es [] = Returns m" by (simp add: environ_to_map_def)
  have "\<nexists>e. e \<in> set es \<and> CHR ''='' \<notin> set e"
    using m environ_loop_panics [of es "[]"] by auto
  moreover have "go_get m k = map_of (rev (map (\<lambda>e. (takeWhile (\<lambda>x. x \<noteq> CHR ''='') e,
          tl (dropWhile (\<lambda>x. x \<noteq> CHR ''='') e))) es)) k" for k
    using environ_loop_get [OF m gm.ok_none, of k] by (simp add: gm.get_none split: option.splits)
  ultimately show ?thesis using Returns by auto
qed

lemma printed_report:
  assumes "environ_to_map environ = Returns env" and "configured env"
    and "lib_new (program_config env) k = ((c, None), k1)" and "lists_answer c k1 orgs spaces apps users k2"
  shows "program_main (console_env lib_new stdin jd) [prog] environ (k, out) =
     (ExitCode 0 [], (k2, out @ ''CF Metadata: '' @ metadata_text (foundation_summary orgs spaces apps users) @ [CHR 0x0A]))"
  using assms(1,2) current_metadata [of lib_new env k c k1, OF assms(3,4), of stdin jd out]
  by (simp add: program_main_def delegate_main_def configured_def print_metadata_def Let_def)

text \<open>C34: Without arguments the program prints the summary of what the CF API answered, on one line after
"CF Metadata: ", and exits with 0, once a client could be made. A list call that failed counts as
empty: the report does not show that the API was down.\<close>

theorem report_prints_answers:
  assumes "environ_to_map environ = Returns env" and "configured env"
    and "lib_new (program_config env) k = ((c, None), k1)" and "lists_answer c k1 orgs spaces apps users k2"
  shows "program_main (console_env lib_new stdin jd) [prog] environ (k, out) =
     (ExitCode 0 [], (k2, out @ ''CF Metadata: '' @ metadata_text (foundation_summary orgs spaces apps users) @ [CHR 0x0A]))"
  using printed_report [of environ env lib_new k c k1] assms by simp

theorem report_prints_answers_witness:
  "snd (snd (program_main (console_env (\<lambda>conf k. ((fixed_api (Inl json_error) (Inl json_error) (Inl json_error) (Inl json_error), None), k))
       ([], None) text_differ) [''prog''] example_env ((), []))) =
     ''CF Metadata: '' @ metadata_text (summary_spec [] [] [] []) @ [CHR 0x0A]"
  by (subst report_prints_answers [OF example_env_map example_configured _
        fixed_api_lists [of "Inl json_error" "Inl json_error" "Inl json_error" "Inl json_error"]])
    (simp_all add: foundation_summary_def)

text \<open>C35: The report the program prints is not itself an input of \<open>compare\<close>: fed back as it is, it is rejected
with exit code 1 and nothing printed. Without the prefix "CF Metadata: ", which
\<open>bin/get-backup-metadata.sh\<close> and the tests strip, it is read, and \<open>compare\<close> exits with 0 and prints that
there are no differences exactly when the CF API's answers make the same summary as they did when
the report was printed; otherwise it prints the differ's text of the two summaries.\<close>

theorem compare_own_report:
  assumes "environ_to_map environ = Returns env" and "configured env" and "differ_ok jd"
    and "lib_new (program_config env) k = ((c, None), k1)" and "lists_answer c k1 orgs spaces apps users k2"
    and "totals_within (2 ^ 53) (foundation_summary orgs spaces apps users)"
    and "program_main (console_env lib_new stdin jd) [prog] environ (k, []) = (r, (k', report))"
    and "lib_new (program_config env) l = ((c', None), l1)" and "lists_answer c' l1 orgs' spaces' apps' users' l2"
    and "totals_within (2 ^ 53) (foundation_summary orgs' spaces' apps' users')"
  shows "r = ExitCode 0 [] \<and>
     program_main (console_env lib_new (report, None) jd) [prog, ''compare''] environ (l, out) =
       (ExitCode 1 (''could not compare current CF metadata with input JSON: '' @ error_text json_error @ [CHR 0x0A]),
        (l2, out)) \<and>
     program_main (console_env lib_new (drop (length ''CF Metadata: '') report, None) jd) [prog, ''compare''] environ (l, out) =
       (ExitCode 0 [],
        (l2, out @
          (if foundation_summary orgs' spaces' apps' users' = foundation_summary orgs spaces apps users
           then ''No differences found between input and current state''
           else compare_texts jd (metadata_text (foundation_summary orgs spaces apps users))
                  (metadata_text (foundation_summary orgs' spaces' apps' users'))) @ [CHR 0x0A]))"
proof -
  let ?m = "foundation_summary orgs spaces apps users" and ?m' = "foundation_summary orgs' spaces' apps' users'"
  have rep: "r = ExitCode 0 []" "report = ''CF Metadata: '' @ metadata_text ?m @ [CHR 0x0A]"
    using assms(1,2,4,5,7) printed_report [of environ env lib_new k c k1 orgs spaces apps users k2 stdin jd prog "[]"] by simp_all
  have cmp: "program_main (console_env lib_new (input, None) jd) [prog, ''compare''] environ (l, out) =
      (case compare_metadata jd input ?m' of
         Inl e \<Rightarrow> (ExitCode 1 (''could not compare current CF metadata with input JSON: '' @ error_text e @ [CHR 0x0A]), (l2, out))
       | Inr d \<Rightarrow> (ExitCode 0 [], (l2, out @ (if d = [] then ''No differences found between input and current state'' else d) @ [CHR 0x0A])))"
    for input
    using assms(1,2) current_metadata [of lib_new env l c' l1, OF assms(8,9), of "(input, None)" jd out]
    by (simp add: program_main_def delegate_main_def configured_def print_comparison_def Let_def split: sum.splits)
  have input: "Option.bind (json_decode (metadata_text ?m @ [CHR 0x0A])) dec_metadata = Some ?m"
    by (rule metadata_text_decodes [OF totals_within_mono [OF assms(6)]])
      (simp add: no_number_follows_def is_number_char_def is_digit_def)
  have "compare_metadata jd (metadata_text ?m @ [CHR 0x0A]) ?m' = Inr (compare_texts jd (metadata_text ?m) (metadata_text ?m'))"
    using input by (simp add: compare_metadata_def)
  moreover have "compare_texts jd (metadata_text ?m) (metadata_text ?m') = [] \<longleftrightarrow> ?m' = ?m"
    using assms(3,6,10) metadata_json_inj [OF _ assms(6,10)]
    by (auto simp: compare_texts_def metadata_text_def differ_ok_def Let_def)
  moreover have "drop (length ''CF Metadata: '') report = metadata_text ?m @ [CHR 0x0A]"
    unfolding rep by simp
  moreover have "compare_metadata jd report ?m' = Inl json_error"
    unfolding rep by (rule printed_line_rejected)
  ultimately show ?thesis
    unfolding cmp using rep(1) by (simp del: length_Cons)
qed

abbreviation one_org_api :: "cfclient_config \<Rightarrow> (unit, unit cloud_foundry_client \<times> go_error option) effect" where
  "one_org_api \<equiv> \<lambda>conf k. ((fixed_api (Inr [\<lparr>lo_name = ''o'', lo_guid = ''1''\<rparr>]) (Inr []) (Inr []) (Inr []), None), k)"

abbreviation one_org_summary :: metadata where
  "one_org_summary \<equiv> foundation_summary (Inr [\<lparr>lo_name = ''o'', lo_guid = ''1''\<rparr>]) (Inr []) (Inr []) (Inr [])"

theorem compare_own_report_witness:
  "program_main (console_env one_org_api (metadata_text one_org_summary @ [CHR 0x0A], None) text_differ)
       [''prog'', ''compare''] example_env ((), []) =
     (ExitCode 0 [], ((), ''No differences found between input and current state'' @ [CHR 0x0A]))"
proof -
  have t: "totals_within (2 ^ 53) one_org_summary"
    by (simp add: totals_within_def foundation_summary_def summary_spec_def answered_def)
  have run: "program_main (console_env one_org_api ([], None) text_differ) [''prog''] example_env ((), []) =
      (ExitCode 0 [], ((), ''CF Metadata: '' @ metadata_text one_org_summary @ [CHR 0x0A]))"
    using printed_report [of example_env example_map one_org_api "()", OF example_env_map example_configured refl
        fixed_api_lists, of "([], None)" text_differ "''prog''" "[]"]
    by (simp only: append_Nil)
  show ?thesis
    using compare_own_report [of example_env example_map text_differ one_org_api "()", OF example_env_map
        example_configured text_differ_ok refl fixed_api_lists t run refl fixed_api_lists t] by simp
qed

text \<open>
  What can keep the program from answering, in the order in which it finds out: unset variables,
  arguments, standard input, the client, the JSON of the input.
\<close>

definition program_failures ::
  "(string, string) go_map \<Rightarrow> string \<Rightarrow> string list \<Rightarrow> string \<times> go_error option \<Rightarrow> go_error option \<Rightarrow> go_error list" where
  "program_failures env prog args stdin client_error =
     map missing_variable (filter (\<lambda>v. env_value env v = []) [''CF_API_HOST'', ''CF_CLIENT'', ''CF_CLIENT_SECRET'']) @
     (if 1 < length args
      then [ErrorText (''invalid arguments, usage: '' @ prog @ '' or cat cf-metadata-another-system.json | '' @ prog @ '' compare'')]
      else if args \<notin> {[], [''compare'']}
      then [ErrorText (''unknown option: '' @ hd args @ '', Did you mean compare ?'')] else []) @
     (if args = [''compare''] then (case snd stdin of None \<Rightarrow> [] | Some e \<Rightarrow> [e]) else []) @
     (case client_error of None \<Rightarrow> [] | Some e \<Rightarrow> [e]) @
     (if args = [''compare''] \<and> Option.bind (json_decode (fst stdin)) dec_metadata = None
      then [ErrorText (''could not compare current CF metadata with input JSON: '' @ error_text json_error)] else [])"

text \<open>What it prints when nothing does.\<close>

definition program_output :: "'d json_differ \<Rightarrow> string list \<Rightarrow> string \<times> go_error option \<Rightarrow> metadata \<Rightarrow> string" where
  "program_output jd args stdin m =
     (if args = [] then ''CF Metadata: '' @ metadata_text m
      else case compare_metadata jd (fst stdin) m of
             Inr (x # d) \<Rightarrow> x # d
           | _ \<Rightarrow> ''No differences found between input and current state'')"

lemma current_metadata_error:
  assumes "lib_new (program_config env) k = ((c, Some e), k1)"
  shows "get_current_cf_metadata (console_env lib_new stdin jd) (env_value env ''CF_API_HOST'')
       (env_value env ''CF_CLIENT'') (env_value env ''CF_CLIENT_SECRET'') (k, out) = (Inl e, (k1, out))"
  using assms
  by (simp add: get_current_cf_metadata_def new_metadata_client_def console_env_def on_console_def program_config_def)

lemma program_run:
  assumes "environ_to_map environ = Returns env" and "lib_new (program_config env) k = ((c, ce), k1)"
    and "lists_answer c k1 orgs spaces apps users k2"
  shows "\<exists>k'. program_main (console_env lib_new stdin jd) (prog # args) environ (k, out) =
     (case program_failures env prog args stdin ce of
        e # later \<Rightarrow> (ExitCode 1 (error_text e @ [CHR 0x0A]), (k', out))
      | [] \<Rightarrow> (ExitCode 0 [], (k2, out @
          program_output jd args stdin (foundation_summary orgs spaces apps users) @ [CHR 0x0A])))"
proof (cases "configured env")
  case False
  then show ?thesis
    using assms(1) by (auto simp: program_main_def delegate_main_def program_failures_def configured_def Let_def)
next
  case True
  note env = True [unfolded configured_def]
  have current: "get_current_cf_metadata (console_env lib_new stdin jd) (env_value env ''CF_API_HOST'')
       (env_value env ''CF_CLIENT'') (env_value env ''CF_CLIENT_SECRET'') (k, out) =
      (case ce of Some e \<Rightarrow> (Inl e, (k1, out)) | None \<Rightarrow> (Inr (foundation_summary orgs spaces apps users), (k2, out)))"
  proof (cases ce)
    case None
    then show ?thesis using current_metadata [of lib_new env k c k1, OF _ assms(3)] assms(2) by simp
  next
    case (Some e)
    then show ?thesis using current_metadata_error [of lib_new env k c e k1] assms(2) by simp
  qed
  consider "args = []" | "args = [''compare'']" | cmd where "args = [cmd]" "cmd \<noteq> ''compare''" | "1 < length args"
    by (cases args rule: remdups_adj.cases) auto
  then show ?thesis
  proof cases
    case 1
    then show ?thesis
      using assms(1) env current
      by (cases ce) (auto simp: program_main_def delegate_main_def program_failures_def print_metadata_def
          program_output_def Let_def)
  next
    case 2
    obtain input se where stdin: "stdin = (input, se)" by fastforce
    have run: "program_main (console_env lib_new stdin jd) (prog # args) environ (k, out) =
        (let (e, w') = print_comparison (console_env lib_new stdin jd) (env_value env ''CF_API_HOST'')
           (env_value env ''CF_CLIENT'') (env_value env ''CF_CLIENT_SECRET'') (k, out)
         in case e of Some x \<Rightarrow> (ExitCode 1 (error_text x @ [CHR 0x0A]), w') | None \<Rightarrow> (ExitCode 0 [], w'))"
      using assms(1) env 2 by (simp add: program_main_def delegate_main_def Let_def split: prod.splits option.splits)
    have fails: "program_failures env prog args stdin ce =
        (case se of None \<Rightarrow> [] | Some e \<Rightarrow> [e]) @ (case ce of None \<Rightarrow> [] | Some e \<Rightarrow> [e]) @
        (if Option.bind (json_decode input) dec_metadata = None
         then [ErrorText (''could not compare current CF metadata with input JSON: '' @ error_text json_error)] else [])"
      using env by (simp add: program_failures_def 2 stdin)
    show ?thesis
      unfolding run fails using current [unfolded stdin]
      by (cases se; cases ce; cases "Option.bind (json_decode input) dec_metadata")
        (simp_all add: 2 stdin print_comparison_def compare_metadata_def program_output_def split: list.splits)
  next
    case (3 cmd)
    then show ?thesis
      using assms(1) env by (auto simp: program_main_def delegate_main_def program_failures_def Let_def)
  next
    case 4
    then obtain x y rest where "args = x # y # rest" by (cases args rule: remdups_adj.cases) auto
    then show ?thesis
      using assms(1) env by (simp add: program_main_def delegate_main_def program_failures_def Let_def)
  qed
qed

lemma client_calls:
  obtains orgs spaces apps users k2 where "lists_answer c k orgs spaces apps users k2"
proof -
  obtain r1 k1 where 1: "cl_list_orgs c k = (r1, k1)" by fastforce
  obtain r2 k2 where 2: "cl_list_spaces c k1 = (r2, k2)" by fastforce
  obtain r3 k3 where 3: "cl_list_apps c k2 = (r3, k3)" by fastforce
  obtain r4 k4 where 4: "cl_list_users c k3 = (r4, k4)" by fastforce
  show thesis by (rule that [of r1 r2 r3 r4 k4]) (simp add: lists_answer_def 1 2 3 4)
qed

text \<open>C36: How the program ends: an environment entry without "=" crashes it; otherwise the first of the failures
above is written, alone and with a newline, to standard error, nothing is printed and the exit code is
1; and when there is no failure the exit code is 0, nothing is written to standard error, and printed
is exactly the report of the CF API's answers after "CF Metadata: ", or for \<open>compare\<close> the text of the
comparison of the input with them ("No differences ..." when it is empty), with one newline.\<close>

theorem program_exit:
  assumes "program_main (console_env lib_new stdin jd) (prog # args) environ (k, out) = (r, (k', out'))"
  shows "case environ_to_map environ of
       Panics p \<Rightarrow> (\<exists>e \<in> set environ. CHR ''='' \<notin> set e) \<and> r = Crash p \<and> (k', out') = (k, out)
     | Returns env \<Rightarrow>
         (\<nexists>e. e \<in> set environ \<and> CHR ''='' \<notin> set e) \<and>
         (let ((c, client_error), k1) = lib_new (program_config env) k
          in case program_failures env prog args stdin client_error of
               e # later \<Rightarrow> r = ExitCode 1 (error_text e @ [CHR 0x0A]) \<and> out' = out
             | [] \<Rightarrow> r = ExitCode 0 [] \<and>
                 (\<exists>orgs spaces apps users. lists_answer c k1 orgs spaces apps users k' \<and>
                    out' = out @
                      (if args = []
                       then ''CF Metadata: '' @ metadata_text (foundation_summary orgs spaces apps users)
                       else case compare_metadata jd (fst stdin) (foundation_summary orgs spaces apps users) of
                              Inr (x # d) \<Rightarrow> x # d
                            | _ \<Rightarrow> ''No differences found between input and current state'') @ [CHR 0x0A]))"
proof (cases "environ_to_map environ")
  case (Panics p)
  then show ?thesis
    using assms environ_loop_panics [of environ "[]"] by (auto simp: program_main_def environ_to_map_def)
next
  case (Returns env)
  obtain c ce k1 where n: "lib_new (program_config env) k = ((c, ce), k1)" by (metis prod.exhaust)
  obtain orgs spaces apps users k2 where l: "lists_answer c k1 orgs spaces apps users k2" by (rule client_calls)
  have "\<nexists>e. e \<in> set environ \<and> CHR ''='' \<notin> set e"
    using Returns environ_loop_panics [of environ "[]"] by (auto simp: environ_to_map_def)
  moreover have "case program_failures env prog args stdin ce of
       e # later \<Rightarrow> r = ExitCode 1 (error_text e @ [CHR 0x0A]) \<and> out' = out
     | [] \<Rightarrow> r = ExitCode 0 [] \<and> k' = k2 \<and>
         out' = out @ program_output jd args stdin (foundation_summary orgs spaces apps users) @ [CHR 0x0A]"
    using program_run [of environ env lib_new k c ce k1, OF Returns n l, of stdin jd prog args out] assms
    by (auto split: list.splits)
  ultimately show ?thesis
    using l unfolding program_output_def by (auto simp: Returns n split: list.splits)
qed

theorem program_exit_witness:
  "fst (program_main (console_env one_org_api ([], None) text_differ) [''prog'', ''compareee''] example_env ((), [])) =
     ExitCode 1 (''unknown option: compareee, Did you mean compare ?'' @ [CHR 0x0A])"
proof -
  obtain r k' out' where p: "program_main (console_env one_org_api ([], None) text_differ) [''prog'', ''compareee'']
      example_env ((), []) = (r, (k', out'))"
    by (metis prod.exhaust)
  show ?thesis
    using program_exit [OF p] example_configured
    by (simp add: p example_env_map program_failures_def configured_def)
qed

end
