(* ===== verification/FakeMethods.thy ===== *)
theory FakeMethods
  imports GoPrelude
begin

text \<open>
  What counterfeiter writes for each method of an interface: a double that records its calls and
  answers from a script. The generated code has the same six functions for every method, over the
  fields of that method; \<open>fake_method\<close> builds them from the accessors of the fields, and
  \<open>ControllerFakes\<close>, \<open>BuddyFakes\<close> and \<open>BackupFakes\<close> have one instance per method of the repository's
  doubles.
\<close>

section \<open>The fields of a method\<close>

text \<open>
  \<open>Stub\<close>, \<open>argsForCall\<close>, \<open>returns\<close>, \<open>returnsOnCall\<close>. A function value is a reference \<open>'c\<close>, since a
  stub may be a closure that uses the double itself; what calling it does is a parameter. Arguments
  and results are tuples; a nil map is \<open>None\<close>.
\<close>

record ('c, 'a, 'r) method_fields =
  mf_stub :: "'c option"
  mf_args_for_call :: "'a list"
  mf_returns :: 'r
  mf_returns_on_call :: "(int, 'r) go_map option"

text \<open>
  An argument as an \<open>interface{}\<close>: a string, a struct of the repository's own, a value of an interface
  or pointer type of a library (a reference), or the slice of the variadic ones.
\<close>

datatype ('s, 'v) go_any = AnyString string | AnyStruct 's | AnyValue 'v | AnyValues "'v list"

text \<open>\<open>map[string][][]interface{}\<close>.\<close>

type_synonym 'v invocations = "(string, 'v list list) go_map option"

definition map_or_nil :: "('k, 'v) go_map option \<Rightarrow> ('k, 'v) go_map" where
  "map_or_nil m = (case m of None \<Rightarrow> [] | Some xs \<Rightarrow> xs)"

text \<open>\<open>recordInvocation\<close>: the map is made at the first call, the slice of a key at its first call.\<close>

definition record_invocation :: "string \<Rightarrow> 'v list \<Rightarrow> 'v invocations \<Rightarrow> 'v invocations" where
  "record_invocation key args ivs =
     (let m = map_or_nil ivs;
          m1 = (case go_get m key of None \<Rightarrow> go_put key [] m | Some _ \<Rightarrow> m)
      in Some (go_put key ((case go_get m1 key of None \<Rightarrow> [] | Some calls \<Rightarrow> calls) @ [args]) m1))"

text \<open>\<open>Invocations\<close>: a copy of the map, filled in the order \<open>range\<close> takes.\<close>

definition copied_invocations :: "(string list \<Rightarrow> string list) \<Rightarrow> 'v invocations \<Rightarrow> (string, 'v list list) go_map" where
  "copied_invocations ord ivs = fold (\<lambda>(key, calls) copy. go_put key calls copy) (go_range ord (map_or_nil ivs)) []"

section \<open>The six functions of a method\<close>

record ('f, 'w, 'c, 'a, 'r) fake_ops =
  fo_call :: "('c \<Rightarrow> 'a \<Rightarrow> ('f \<times> 'w, 'r outcome) effect) \<Rightarrow> 'a \<Rightarrow> ('f \<times> 'w, 'r outcome) effect"
  fo_call_count :: "'f \<Rightarrow> int"
  fo_calls :: "'c option \<Rightarrow> 'f \<Rightarrow> 'f"
  fo_args_for_call :: "int \<Rightarrow> 'f \<Rightarrow> 'a outcome"
  fo_returns :: "'r \<Rightarrow> 'f \<Rightarrow> 'f"
  fo_returns_on_call :: "int \<Rightarrow> 'r \<Rightarrow> 'f \<Rightarrow> 'f"

text \<open>
  The method itself: the answer scripted for this call is looked up before the call is recorded;
  a stub then takes precedence over it, and it over the answer for all calls. \<open>run\<close> says what
  calling a stub does to the double and the world.
\<close>

definition call_fake ::
  "('f \<Rightarrow> ('c, 'a, 'r) method_fields) \<Rightarrow>
   ((('c, 'a, 'r) method_fields \<Rightarrow> ('c, 'a, 'r) method_fields) \<Rightarrow> 'f \<Rightarrow> 'f) \<Rightarrow>
   (string \<Rightarrow> 'v list \<Rightarrow> 'f \<Rightarrow> 'f) \<Rightarrow> string \<Rightarrow> ('a \<Rightarrow> 'v list) \<Rightarrow>
   ('c \<Rightarrow> 'a \<Rightarrow> ('f \<times> 'w, 'r outcome) effect) \<Rightarrow> 'a \<Rightarrow> ('f \<times> 'w, 'r outcome) effect" where
  "call_fake sel upd recording key box run a fw =
     (let (f, w) = fw;
          m = sel f;
          specific = go_get (map_or_nil (mf_returns_on_call m)) (int (length (mf_args_for_call m)));
          f1 = upd (\<lambda>m. m\<lparr>mf_args_for_call := mf_args_for_call m @ [a]\<rparr>) f;
          f2 = recording key (box a) f1
      in case mf_stub (sel f2) of
           Some stub \<Rightarrow> run stub a (f2, w)
         | None \<Rightarrow>
             (case specific of
                Some r \<Rightarrow> (Returns r, (f2, w))
              | None \<Rightarrow> (Returns (mf_returns (sel f2)), (f2, w))))"

definition fake_method ::
  "('f \<Rightarrow> ('c, 'a, 'r) method_fields) \<Rightarrow>
   ((('c, 'a, 'r) method_fields \<Rightarrow> ('c, 'a, 'r) method_fields) \<Rightarrow> 'f \<Rightarrow> 'f) \<Rightarrow>
   (string \<Rightarrow> 'v list \<Rightarrow> 'f \<Rightarrow> 'f) \<Rightarrow> string \<Rightarrow> ('a \<Rightarrow> 'v list) \<Rightarrow> ('f, 'w, 'c, 'a, 'r) fake_ops" where
  "fake_method sel upd recording key box =
     \<lparr>fo_call = call_fake sel upd recording key box,
      fo_call_count = (\<lambda>f. int (length (mf_args_for_call (sel f)))),
      fo_calls = (\<lambda>stub. upd (\<lambda>m. m\<lparr>mf_stub := stub\<rparr>)),
      fo_args_for_call = (\<lambda>i f.
        if 0 \<le> i \<and> nat i < length (mf_args_for_call (sel f))
        then Returns (mf_args_for_call (sel f) ! nat i) else Panics IndexRange),
      fo_returns = (\<lambda>r. upd (\<lambda>m. m\<lparr>mf_stub := None, mf_returns := r\<rparr>)),
      fo_returns_on_call = (\<lambda>i r. upd (\<lambda>m. m\<lparr>mf_stub := None,
        mf_returns_on_call := Some (go_put i r (map_or_nil (mf_returns_on_call m)))\<rparr>))\<rparr>"

lemma fake_method_sel [simp]:
  "fo_call (fake_method sel upd recording key box) = call_fake sel upd recording key box"
  "fo_call_count (fake_method sel upd recording key box) f = int (length (mf_args_for_call (sel f)))"
  "fo_calls (fake_method sel upd recording key box) stub = upd (\<lambda>m. m\<lparr>mf_stub := stub\<rparr>)"
  "fo_returns (fake_method sel upd recording key box) r = upd (\<lambda>m. m\<lparr>mf_stub := None, mf_returns := r\<rparr>)"
  "fo_returns_on_call (fake_method sel upd recording key box) i r = upd (\<lambda>m. m\<lparr>mf_stub := None,
     mf_returns_on_call := Some (go_put i r (map_or_nil (mf_returns_on_call m)))\<rparr>)"
  by (simp_all add: fake_method_def)

section \<open>The record of the invocations\<close>

lemma go_put_ok: "go_map_ok m \<Longrightarrow> go_map_ok (go_put k v m)"
  by (rule gm.ok_put)

definition calls_of :: "string \<Rightarrow> 'v invocations \<Rightarrow> 'v list list" where
  "calls_of key ivs = (case go_get (map_or_nil ivs) key of None \<Rightarrow> [] | Some calls \<Rightarrow> calls)"

lemma record_invocation_ok:
  "go_map_ok (map_or_nil ivs) \<Longrightarrow> go_map_ok (map_or_nil (record_invocation key args ivs))"
  by (auto simp: record_invocation_def Let_def map_or_nil_def go_put_ok split: option.splits)

lemma calls_of_record:
  assumes "go_map_ok (map_or_nil ivs)"
  shows "calls_of k (record_invocation key args ivs) = calls_of k ivs @ (if k = key then [args] else [])"
  using assms
  by (auto simp: calls_of_def record_invocation_def map_or_nil_def Let_def gm.get_put go_put_ok
      split: option.splits)

lemma copied_invocations_get:
  assumes "range_order ord" and "go_map_ok (map_or_nil ivs)"
  shows "go_get (copied_invocations ord ivs) key = go_get (map_or_nil ivs) key"
proof -
  let ?ps = "go_range ord (map_or_nil ivs)"
  have eq: "copied_invocations ord ivs = fold (\<lambda>x. go_put (fst x) (snd x)) ?ps []"
    unfolding copied_invocations_def by (rule fold_cong) auto
  have set: "set ?ps = {(k, v). go_get (map_or_nil ivs) k = Some v}"
    by (rule go_range_set [OF assms])
  show ?thesis
  proof (cases "go_get (map_or_nil ivs) key")
    case None
    then have "key \<notin> fst ` set ?ps" by (auto simp: set)
    then show ?thesis using None by (simp add: eq gm.get_fill gm.ok_none gm.get_none)
  next
    case (Some v)
    have mem: "(key, v) \<in> set ?ps" using Some by (simp add: set)
    let ?l = "last (filter (\<lambda>x. fst x = key) ?ps)"
    have "filter (\<lambda>x. fst x = key) ?ps \<noteq> []" unfolding filter_empty_conv using mem by force
    then have "?l \<in> set ?ps \<and> fst ?l = key"
      using last_in_set [of "filter (\<lambda>x. fst x = key) ?ps"] by auto
    then have "snd ?l = v" using Some by (auto simp: set)
    moreover have "key \<in> fst ` set ?ps" using mem by force
    ultimately show ?thesis using Some by (simp add: eq gm.get_fill gm.ok_none)
  qed
qed

section \<open>What a double does\<close>

text \<open>The answer scripted for the \<open>i\<close>-th call, counted from 0.\<close>

definition scripted :: "('c, 'a, 'r) method_fields \<Rightarrow> nat \<Rightarrow> 'r" where
  "scripted m i =
     (case go_get (map_or_nil (mf_returns_on_call m)) (int i) of Some r \<Rightarrow> r | None \<Rightarrow> mf_returns m)"

lemma scripted_args [simp]: "scripted (m\<lparr>mf_args_for_call := xs\<rparr>) i = scripted m i"
  by (simp add: scripted_def split: option.split)

text \<open>Calls one after the other.\<close>

fun call_many :: "('a \<Rightarrow> ('s, 'r outcome) effect) \<Rightarrow> 'a list \<Rightarrow> ('s, 'r outcome list) effect" where
  "call_many call [] s = ([], s)"
| "call_many call (a # rest) s =
     (let (r, s1) = call a s; (rs, s2) = call_many call rest s1 in (r # rs, s2))"

text \<open>
  The fields of one method in a double: what is needed to reason about its functions.
  \<open>recording\<close> is \<open>recordInvocation\<close>; a call is recorded under a key, with its arguments boxed.
\<close>

locale fake_slot =
  fixes sel :: "'f \<Rightarrow> ('c, 'a, 'r) method_fields"
    and upd :: "(('c, 'a, 'r) method_fields \<Rightarrow> ('c, 'a, 'r) method_fields) \<Rightarrow> 'f \<Rightarrow> 'f"
    and recording :: "string \<Rightarrow> 'v list \<Rightarrow> 'f \<Rightarrow> 'f"
    and ivs_of :: "'f \<Rightarrow> 'v invocations"
  assumes sel_upd: "sel (upd g f) = g (sel f)"
    and ivs_upd: "ivs_of (upd g f) = ivs_of f"
    and sel_recording: "sel (recording key args f) = sel f"
    and ivs_recording: "ivs_of (recording key args f) = record_invocation key args (ivs_of f)"
begin

definition after_call :: "string \<Rightarrow> ('a \<Rightarrow> 'v list) \<Rightarrow> 'a \<Rightarrow> 'f \<Rightarrow> 'f" where
  "after_call key box a f = recording key (box a) (upd (\<lambda>m. m\<lparr>mf_args_for_call := mf_args_for_call m @ [a]\<rparr>) f)"

lemma sel_after_call:
  "sel (after_call key box a f) = (sel f)\<lparr>mf_args_for_call := mf_args_for_call (sel f) @ [a]\<rparr>"
  by (simp add: after_call_def sel_recording sel_upd)

lemma ivs_after_call: "ivs_of (after_call key box a f) = record_invocation key (box a) (ivs_of f)"
  by (simp add: after_call_def ivs_recording ivs_upd)

lemma call_scripted:
  "mf_stub (sel f) = None \<Longrightarrow>
     call_fake sel upd recording key box run a (f, w) = (Returns (scripted (sel f) (length (mf_args_for_call (sel f)))), (after_call key box a f, w))"
  by (auto simp: call_fake_def Let_def after_call_def [symmetric] sel_after_call scripted_def split: option.splits)

lemma call_stubbed:
  "mf_stub (sel f) = Some stub \<Longrightarrow> call_fake sel upd recording key box run a (f, w) = run stub a (after_call key box a f, w)"
  by (simp add: call_fake_def Let_def after_call_def [symmetric] sel_after_call)

lemma scripted_after_call [simp]: "scripted (sel (after_call key box a f)) i = scripted (sel f) i"
  by (simp add: sel_after_call)

text \<open>A run of calls without a stub: each gets its own answer, and all are recorded in order.\<close>

lemma calls_scripted:
  assumes "mf_stub (sel f) = None" and "go_map_ok (map_or_nil (ivs_of f))"
    and "call_many (call_fake sel upd recording key box run) as (f, w) = (rs, (f', w'))"
  shows "rs = map (\<lambda>i. Returns (scripted (sel f) (length (mf_args_for_call (sel f)) + i))) [0..<length as] \<and>
     w' = w \<and> mf_args_for_call (sel f') = mf_args_for_call (sel f) @ as \<and>
     calls_of key (ivs_of f') = calls_of key (ivs_of f) @ map box as"
  using assms
proof (induction as arbitrary: f rs)
  case Nil
  then show ?case by simp
next
  case (Cons a rest)
  let ?g = "after_call key box a f"
  obtain rs' where rest: "call_many (call_fake sel upd recording key box run) rest (?g, w) = (rs', (f', w'))"
    and rs: "rs = Returns (scripted (sel f) (length (mf_args_for_call (sel f)))) # rs'"
    using Cons.prems by (auto simp: call_scripted Let_def split: prod.splits)
  have g: "mf_stub (sel ?g) = None" "go_map_ok (map_or_nil (ivs_of ?g))"
    using Cons.prems by (simp_all add: sel_after_call ivs_after_call record_invocation_ok)
  have upt: "[0..<Suc (length rest)] = 0 # map Suc [0..<length rest]"
    by (simp add: upt_conv_Cons map_Suc_upt del: upt_Suc)
  show ?case
    using Cons.IH [OF g rest] Cons.prems(2) rs
    by (simp add: sel_after_call ivs_after_call calls_of_record upt del: upt_Suc)
qed

end

end
