(* ===== verification/ControllerFakes.thy ===== *)
theory ControllerFakes
  imports FakeMethods BuildProperties
begin

text \<open>
  The doubles of cf-api-controllers: \<open>controllers/fake/\<close>, \<open>cf/cffakes/\<close> and
  \<open>image_registry/image_registryfakes/\<close>. Each struct is a record with the fields of each method;
  each method's definition stands for its six functions. A method without arguments has no
  \<open>ArgsForCall\<close>, and its operation is not used.
\<close>

section \<open>The doubles\<close>

text \<open>\<open>ControllerRuntimeClient\<close>.\<close>

record ('c, 'v) runtime_client =
  rcf_create :: "('c, 'v \<times> 'v \<times> 'v list, go_error option) method_fields"
  rcf_delete :: "('c, 'v \<times> 'v \<times> 'v list, go_error option) method_fields"
  rcf_delete_all_of :: "('c, 'v \<times> 'v \<times> 'v list, go_error option) method_fields"
  rcf_get :: "('c, 'v \<times> (string \<times> string) \<times> 'v, go_error option) method_fields"
  rcf_list :: "('c, 'v \<times> 'v \<times> 'v list, go_error option) method_fields"
  rcf_patch :: "('c, 'v \<times> 'v \<times> 'v \<times> 'v list, go_error option) method_fields"
  rcf_status :: "('c, unit, 'v option) method_fields"
  rcf_update :: "('c, 'v \<times> 'v \<times> 'v list, go_error option) method_fields"
  rcf_invocations :: "(string \<times> string, 'v) go_any invocations"

definition runtime_client_record :: "string \<Rightarrow> (string \<times> string, 'v) go_any list \<Rightarrow> ('c, 'v) runtime_client \<Rightarrow> ('c, 'v) runtime_client" where
  "runtime_client_record key args = rcf_invocations_update (record_invocation key args)"

definition runtime_client_create ::
  "(('c, 'v) runtime_client, 'w, 'c, 'v \<times> 'v \<times> 'v list, go_error option) fake_ops" where
  "runtime_client_create =
     fake_method rcf_create rcf_create_update runtime_client_record ''Create''
       (\<lambda>(ctx, obj, opts). [AnyValue ctx, AnyValue obj, AnyValues opts])"

definition runtime_client_delete ::
  "(('c, 'v) runtime_client, 'w, 'c, 'v \<times> 'v \<times> 'v list, go_error option) fake_ops" where
  "runtime_client_delete =
     fake_method rcf_delete rcf_delete_update runtime_client_record ''Delete''
       (\<lambda>(ctx, obj, opts). [AnyValue ctx, AnyValue obj, AnyValues opts])"

definition runtime_client_delete_all_of ::
  "(('c, 'v) runtime_client, 'w, 'c, 'v \<times> 'v \<times> 'v list, go_error option) fake_ops" where
  "runtime_client_delete_all_of =
     fake_method rcf_delete_all_of rcf_delete_all_of_update runtime_client_record ''DeleteAllOf''
       (\<lambda>(ctx, obj, opts). [AnyValue ctx, AnyValue obj, AnyValues opts])"

definition runtime_client_get ::
  "(('c, 'v) runtime_client, 'w, 'c, 'v \<times> (string \<times> string) \<times> 'v, go_error option) fake_ops" where
  "runtime_client_get =
     fake_method rcf_get rcf_get_update runtime_client_record ''Get''
       (\<lambda>(ctx, key, obj). [AnyValue ctx, AnyStruct key, AnyValue obj])"

definition runtime_client_list ::
  "(('c, 'v) runtime_client, 'w, 'c, 'v \<times> 'v \<times> 'v list, go_error option) fake_ops" where
  "runtime_client_list =
     fake_method rcf_list rcf_list_update runtime_client_record ''List''
       (\<lambda>(ctx, obj, opts). [AnyValue ctx, AnyValue obj, AnyValues opts])"

definition runtime_client_patch ::
  "(('c, 'v) runtime_client, 'w, 'c, 'v \<times> 'v \<times> 'v \<times> 'v list, go_error option) fake_ops" where
  "runtime_client_patch =
     fake_method rcf_patch rcf_patch_update runtime_client_record ''Patch''
       (\<lambda>(ctx, obj, patch, opts). [AnyValue ctx, AnyValue obj, AnyValue patch, AnyValues opts])"

definition runtime_client_status ::
  "(('c, 'v) runtime_client, 'w, 'c, unit, 'v option) fake_ops" where
  "runtime_client_status =
     fake_method rcf_status rcf_status_update runtime_client_record ''Status''
       (\<lambda>u. [])"

definition runtime_client_update ::
  "(('c, 'v) runtime_client, 'w, 'c, 'v \<times> 'v \<times> 'v list, go_error option) fake_ops" where
  "runtime_client_update =
     fake_method rcf_update rcf_update_update runtime_client_record ''Update''
       (\<lambda>(ctx, obj, opts). [AnyValue ctx, AnyValue obj, AnyValues opts])"

definition runtime_client_invocations ::
  "(string list \<Rightarrow> string list) \<Rightarrow> ('c, 'v) runtime_client \<Rightarrow> (string, (string \<times> string, 'v) go_any list list) go_map" where
  "runtime_client_invocations ord fake = copied_invocations ord (rcf_invocations fake)"

text \<open>The methods of a fresh or used double, one slot each.\<close>

interpretation runtime_client_create: fake_slot rcf_create rcf_create_update runtime_client_record rcf_invocations
  by unfold_locales (simp_all add: runtime_client_record_def)

interpretation runtime_client_delete: fake_slot rcf_delete rcf_delete_update runtime_client_record rcf_invocations
  by unfold_locales (simp_all add: runtime_client_record_def)

interpretation runtime_client_delete_all_of: fake_slot rcf_delete_all_of rcf_delete_all_of_update runtime_client_record rcf_invocations
  by unfold_locales (simp_all add: runtime_client_record_def)

interpretation runtime_client_get: fake_slot rcf_get rcf_get_update runtime_client_record rcf_invocations
  by unfold_locales (simp_all add: runtime_client_record_def)

interpretation runtime_client_list: fake_slot rcf_list rcf_list_update runtime_client_record rcf_invocations
  by unfold_locales (simp_all add: runtime_client_record_def)

interpretation runtime_client_patch: fake_slot rcf_patch rcf_patch_update runtime_client_record rcf_invocations
  by unfold_locales (simp_all add: runtime_client_record_def)

interpretation runtime_client_status: fake_slot rcf_status rcf_status_update runtime_client_record rcf_invocations
  by unfold_locales (simp_all add: runtime_client_record_def)

interpretation runtime_client_update: fake_slot rcf_update rcf_update_update runtime_client_record rcf_invocations
  by unfold_locales (simp_all add: runtime_client_record_def)

text \<open>\<open>CFBuildUpdater\<close>.\<close>

record 'c build_updater =
  buf_update_build :: "('c, string \<times> cf_build, go_error option) method_fields"
  buf_invocations :: "(cf_build, unit) go_any invocations"

definition build_updater_record :: "string \<Rightarrow> (cf_build, unit) go_any list \<Rightarrow> 'c build_updater \<Rightarrow> 'c build_updater" where
  "build_updater_record key args = buf_invocations_update (record_invocation key args)"

definition build_updater_update_build ::
  "('c build_updater, 'w, 'c, string \<times> cf_build, go_error option) fake_ops" where
  "build_updater_update_build =
     fake_method buf_update_build buf_update_build_update build_updater_record ''UpdateBuild''
       (\<lambda>(guid, build). [AnyString guid, AnyStruct build])"

definition build_updater_invocations ::
  "(string list \<Rightarrow> string list) \<Rightarrow> 'c build_updater \<Rightarrow> (string, (cf_build, unit) go_any list list) go_map" where
  "build_updater_invocations ord fake = copied_invocations ord (buf_invocations fake)"

interpretation build_updater_update_build: fake_slot buf_update_build buf_update_build_update build_updater_record buf_invocations
  by unfold_locales (simp_all add: build_updater_record_def)

text \<open>\<open>FakeClientInterface\<close>.\<close>

record 'c fake_client =
  fci_list_routes :: "('c, unit, route_list \<times> go_error option) method_fields"
  fci_invocations :: "(unit, unit) go_any invocations"

definition fake_client_record :: "string \<Rightarrow> (unit, unit) go_any list \<Rightarrow> 'c fake_client \<Rightarrow> 'c fake_client" where
  "fake_client_record key args = fci_invocations_update (record_invocation key args)"

definition fake_client_list_routes ::
  "('c fake_client, 'w, 'c, unit, route_list \<times> go_error option) fake_ops" where
  "fake_client_list_routes =
     fake_method fci_list_routes fci_list_routes_update fake_client_record ''ListRoutes''
       (\<lambda>u. [])"

definition fake_client_invocations ::
  "(string list \<Rightarrow> string list) \<Rightarrow> 'c fake_client \<Rightarrow> (string, (unit, unit) go_any list list) go_map" where
  "fake_client_invocations ord fake = copied_invocations ord (fci_invocations fake)"

interpretation fake_client_list_routes: fake_slot fci_list_routes fci_list_routes_update fake_client_record fci_invocations
  by unfold_locales (simp_all add: fake_client_record_def)

text \<open>\<open>FakeRest\<close>.\<close>

record ('c, 'v) fake_rest =
  frs_patch :: "('c, string \<times> string \<times> 'v, http_response option \<times> go_error option) method_fields"
  frs_invocations :: "(unit, 'v) go_any invocations"

definition fake_rest_record :: "string \<Rightarrow> (unit, 'v) go_any list \<Rightarrow> ('c, 'v) fake_rest \<Rightarrow> ('c, 'v) fake_rest" where
  "fake_rest_record key args = frs_invocations_update (record_invocation key args)"

definition fake_rest_patch ::
  "(('c, 'v) fake_rest, 'w, 'c, string \<times> string \<times> 'v, http_response option \<times> go_error option) fake_ops" where
  "fake_rest_patch =
     fake_method frs_patch frs_patch_update fake_rest_record ''Patch''
       (\<lambda>(url, token, body). [AnyString url, AnyString token, AnyValue body])"

definition fake_rest_invocations ::
  "(string list \<Rightarrow> string list) \<Rightarrow> ('c, 'v) fake_rest \<Rightarrow> (string, (unit, 'v) go_any list list) go_map" where
  "fake_rest_invocations ord fake = copied_invocations ord (frs_invocations fake)"

interpretation fake_rest_patch: fake_slot frs_patch frs_patch_update fake_rest_record frs_invocations
  by unfold_locales (simp_all add: fake_rest_record_def)

text \<open>\<open>FakeTokenFetcher\<close>.\<close>

record 'c fake_token_fetcher =
  ftf_fetch :: "('c, unit, string \<times> go_error option) method_fields"
  ftf_invocations :: "(unit, unit) go_any invocations"

definition fake_token_fetcher_record :: "string \<Rightarrow> (unit, unit) go_any list \<Rightarrow> 'c fake_token_fetcher \<Rightarrow> 'c fake_token_fetcher" where
  "fake_token_fetcher_record key args = ftf_invocations_update (record_invocation key args)"

definition fake_token_fetcher_fetch ::
  "('c fake_token_fetcher, 'w, 'c, unit, string \<times> go_error option) fake_ops" where
  "fake_token_fetcher_fetch =
     fake_method ftf_fetch ftf_fetch_update fake_token_fetcher_record ''Fetch''
       (\<lambda>u. [])"

definition fake_token_fetcher_invocations ::
  "(string list \<Rightarrow> string list) \<Rightarrow> 'c fake_token_fetcher \<Rightarrow> (string, (unit, unit) go_any list list) go_map" where
  "fake_token_fetcher_invocations ord fake = copied_invocations ord (ftf_invocations fake)"

interpretation fake_token_fetcher_fetch: fake_slot ftf_fetch ftf_fetch_update fake_token_fetcher_record ftf_invocations
  by unfold_locales (simp_all add: fake_token_fetcher_record_def)

text \<open>\<open>FakeImageConfigFetcher\<close>.\<close>

record 'c fake_config_fetcher =
  fcf_fetch_image_config :: "('c, string \<times> string \<times> string, image_config option \<times> go_error option) method_fields"
  fcf_invocations :: "(unit, unit) go_any invocations"

definition fake_config_fetcher_record :: "string \<Rightarrow> (unit, unit) go_any list \<Rightarrow> 'c fake_config_fetcher \<Rightarrow> 'c fake_config_fetcher" where
  "fake_config_fetcher_record key args = fcf_invocations_update (record_invocation key args)"

definition fake_config_fetcher_fetch_image_config ::
  "('c fake_config_fetcher, 'w, 'c, string \<times> string \<times> string, image_config option \<times> go_error option) fake_ops" where
  "fake_config_fetcher_fetch_image_config =
     fake_method fcf_fetch_image_config fcf_fetch_image_config_update fake_config_fetcher_record ''FetchImageConfig''
       (\<lambda>(image, account, ns). [AnyString image, AnyString account, AnyString ns])"

definition fake_config_fetcher_invocations ::
  "(string list \<Rightarrow> string list) \<Rightarrow> 'c fake_config_fetcher \<Rightarrow> (string, (unit, unit) go_any list list) go_map" where
  "fake_config_fetcher_invocations ord fake = copied_invocations ord (fcf_invocations fake)"

interpretation fake_config_fetcher_fetch_image_config: fake_slot fcf_fetch_image_config fcf_fetch_image_config_update fake_config_fetcher_record fcf_invocations
  by unfold_locales (simp_all add: fake_config_fetcher_record_def)

section \<open>The build controller under test\<close>

text \<open>
  The reconciler with a \<open>CFBuildUpdater\<close> double in place of the CF client, as in the tests of the
  controller; the cluster's \<open>Get\<close> and the image registry act on the rest of the world.
\<close>

definition beside_double :: "('k, 'a) effect \<Rightarrow> ('f \<times> 'k, 'a) effect" where
  "beside_double e w = (let (a, k) = e (snd w) in (a, (fst w, k)))"

text \<open>The double's \<open>UpdateBuild\<close> for stubs that compute their answer and do not panic.\<close>

definition double_update ::
  "('c \<Rightarrow> string \<times> cf_build \<Rightarrow> go_error option) \<Rightarrow> string \<Rightarrow> cf_build \<Rightarrow>
     ('c build_updater \<times> 'k, go_error option) effect" where
  "double_update answer guid b w =
     (case fo_call build_updater_update_build (\<lambda>stub a s. (Returns (answer stub a), s)) (guid, b) w of
        (Returns e, w') \<Rightarrow> (e, w')
      | (Panics p, w') \<Rightarrow> (None, w'))"

definition double_build_env ::
  "('c \<Rightarrow> string \<times> cf_build \<Rightarrow> go_error option) \<Rightarrow> 'k build_env \<Rightarrow> ('c build_updater \<times> 'k) build_env" where
  "double_build_env answer kenv =
     \<lparr>be_get = (\<lambda>req. beside_double (be_get kenv req)),
      be_is_not_found = be_is_not_found kenv,
      be_conditions = be_conditions kenv,
      be_fetch_config = (\<lambda>i s n. beside_double (be_fetch_config kenv i s n)),
      be_metadata_label = be_metadata_label kenv,
      be_unmarshal_metadata = be_unmarshal_metadata kenv,
      be_update_build = double_update answer\<rparr>"

abbreviation updates_seen :: "'c build_updater \<Rightarrow> (string \<times> cf_build) list" where
  "updates_seen f \<equiv> mf_args_for_call (buf_update_build f)"

text \<open>The answer a call of the double gets.\<close>

definition double_answer :: "('c \<Rightarrow> string \<times> cf_build \<Rightarrow> go_error option) \<Rightarrow> 'c build_updater \<Rightarrow> string \<times> cf_build \<Rightarrow> go_error option" where
  "double_answer answer f a =
     (case mf_stub (buf_update_build f) of
        Some stub \<Rightarrow> answer stub a
      | None \<Rightarrow> scripted (buf_update_build f) (length (updates_seen f)))"

lemma double_update_run:
  "double_update answer guid b (f, k) =
     (double_answer answer f (guid, b),
      (build_updater_update_build.after_call ''UpdateBuild'' (\<lambda>(guid, build). [AnyString guid, AnyStruct build]) (guid, b) f, k))"
  by (cases "mf_stub (buf_update_build f)")
    (simp_all add: double_update_def double_answer_def build_updater_update_build_def
      build_updater_update_build.call_scripted build_updater_update_build.call_stubbed)

lemma double_update_seen:
  "double_update answer guid b w = (e, w') \<Longrightarrow> updates_seen (fst w') = updates_seen (fst w) @ [(guid, b)]"
  by (cases w) (auto simp: double_update_run build_updater_update_build.sel_after_call)

lemma beside_double_fst [simp]: "fst (snd (beside_double e w)) = fst w"
  by (simp add: beside_double_def split: prod.splits)

lemma beside_double_frame: "beside_double e w = (a, w') \<Longrightarrow> fst w' = fst w"
  by (metis beside_double_fst snd_conv)

text \<open>The double keeps the contract that the networked client keeps.\<close>

interpretation double_reporter: build_reporter "double_build_env answer kenv"
  "\<lambda>w. map (\<lambda>(guid, b). (guid, build_json b)) (updates_seen (fst w))"
  by unfold_locales (auto simp: double_build_env_def dest: double_update_seen)

lemma double_frame:
  "extract_process_types (double_build_env answer kenv) b w = (r, w') \<Longrightarrow> fst w' = fst w"
  by (auto simp: extract_process_types_def double_build_env_def split: prod.splits outcome.splits sum.splits
      dest: beside_double_frame)

section \<open>Properties\<close>

text \<open>With the double in place of the CF client a reconciliation that found its build and returned
called \<open>UpdateBuild\<close> once, with the build's GUID and the report it deserves, also when the call fails;
its error is the one the double was scripted to answer, and asks for a retry.\<close>

theorem double_sees_report:
  assumes "be_get (double_build_env answer kenv) req w = (Inr b, w1)"
    and "build_reconcile (double_build_env answer kenv) req w = (Returns (res, err), w')"
  shows "\<exists>r. reports (double_build_env answer kenv) b w1 r \<and>
     updates_seen (fst w') = updates_seen (fst w) @ [(label_value (kb_labels b) build_guid_label, r)] \<and>
     err = double_answer answer (fst w) (label_value (kb_labels b) build_guid_label, r) \<and>
     res = (if err = None then zero_result else requeue_result)"
proof -
  let ?guid = "label_value (kb_labels b) build_guid_label"
  obtain r w2 where r: "reports (double_build_env answer kenv) b w1 r"
    and up: "double_update answer ?guid r w2 = (err, w')"
    and w2: "w2 = w1 \<or> (\<exists>pt. extract_process_types (double_build_env answer kenv) b w1 = (Returns pt, w2))"
    and res: "res = (if err = None then zero_result else requeue_result)"
    using build_reconcile_update [OF assms] by (auto simp: double_build_env_def build_guid_of_def)
  have "fst w1 = fst w"
    using assms(1) beside_double_fst [of "be_get kenv req" w] by (simp add: double_build_env_def)
  then have same: "fst w2 = fst w"
    using w2 double_frame [of answer kenv b w1 _ w2] by metis
  then have "err = double_answer answer (fst w) (?guid, r)"
    using up by (cases w2) (simp add: double_update_run)
  then show ?thesis
    using r res double_update_seen [OF up] same by auto
qed

definition scripted_updater :: "nat build_updater" where
  "scripted_updater =
     \<lparr>buf_update_build = \<lparr>mf_stub = None, mf_args_for_call = [], mf_returns = None,
        mf_returns_on_call = Some [(0, Some (ErrorText ''down''))]\<rparr>,
      buf_invocations = None\<rparr>"

lemma scripted_updater_answer: "double_answer answer scripted_updater a = Some (ErrorText ''down'')"
  by (simp add: scripted_updater_def double_answer_def scripted_def map_or_nil_def go_get_def)

theorem double_sees_report_witness:
  "\<exists>r res err f'. build_reconcile (double_build_env (\<lambda>stub a. None) (example_kenv (example_build (succeeded ''False''))))
       (''ns'', ''b'') (scripted_updater, ()) = (Returns (res, err), (f', ())) \<and>
     updates_seen f' = [(''b1'', r)] \<and> build_state r = build_failed_state \<and> err = Some (ErrorText ''down'') \<and>
     res = requeue_result"
proof -
  let ?env = "double_build_env (\<lambda>stub a. None) (example_kenv (example_build (succeeded ''False'')))"
  have get: "be_get ?env (''ns'', ''b'') (scripted_updater, ()) = (Inr (example_build (succeeded ''False'')), (scripted_updater, ()))"
    by (simp add: double_build_env_def example_kenv_def beside_double_def)
  obtain res err f' where run: "build_reconcile ?env (''ns'', ''b'') (scripted_updater, ()) = (Returns (res, err), (f', ()))"
    by (simp add: build_reconcile_def double_build_env_def beside_double_def example_kenv_def example_condition_api_def
        example_build_def succeeded_def reconcile_failed_build_def double_update_run scripted_updater_answer Let_def)
  have st: "build_state r = build_failed_state" if "reports ?env (example_build (succeeded ''False'')) w r" for r w
    using that
    by (auto simp: reports_def build_condition_def failure_report_def failed_build_def double_build_env_def example_kenv_def
        example_condition_api_def example_build_def succeeded_def)
  show ?thesis
    using double_sees_report [OF get run] run st
    by (auto simp: scripted_updater_answer) (simp_all add: scripted_updater_def)
qed

end
