(* ===== verification/BackupFakes.thy ===== *)
theory BackupFakes
  imports FakeMethods BackupProperties
begin

text \<open>
  The doubles of backup-metadata-generator: \<open>cfmetadatafakes/\<close> and \<open>delegatefakes/\<close>. The double of
  the reader is the one with arguments it must copy.
\<close>

section \<open>The doubles\<close>

text \<open>\<open>FakeCfClient\<close>.\<close>

record 'c fake_cf_client =
  fcc_apps :: "('c, unit, app list \<times> go_error option) method_fields"
  fcc_orgs :: "('c, unit, org list \<times> go_error option) method_fields"
  fcc_spaces :: "('c, unit, cf_space list \<times> go_error option) method_fields"
  fcc_users :: "('c, unit, user list \<times> go_error option) method_fields"
  fcc_invocations :: "(unit, unit) go_any invocations"

definition fake_cf_client_record :: "string \<Rightarrow> (unit, unit) go_any list \<Rightarrow> 'c fake_cf_client \<Rightarrow> 'c fake_cf_client" where
  "fake_cf_client_record key args = fcc_invocations_update (record_invocation key args)"

definition fake_cf_client_apps ::
  "('c fake_cf_client, 'w, 'c, unit, app list \<times> go_error option) fake_ops" where
  "fake_cf_client_apps =
     fake_method fcc_apps fcc_apps_update fake_cf_client_record ''Apps''
       (\<lambda>u. [])"

definition fake_cf_client_orgs ::
  "('c fake_cf_client, 'w, 'c, unit, org list \<times> go_error option) fake_ops" where
  "fake_cf_client_orgs =
     fake_method fcc_orgs fcc_orgs_update fake_cf_client_record ''Orgs''
       (\<lambda>u. [])"

definition fake_cf_client_spaces ::
  "('c fake_cf_client, 'w, 'c, unit, cf_space list \<times> go_error option) fake_ops" where
  "fake_cf_client_spaces =
     fake_method fcc_spaces fcc_spaces_update fake_cf_client_record ''Spaces''
       (\<lambda>u. [])"

definition fake_cf_client_users ::
  "('c fake_cf_client, 'w, 'c, unit, user list \<times> go_error option) fake_ops" where
  "fake_cf_client_users =
     fake_method fcc_users fcc_users_update fake_cf_client_record ''Users''
       (\<lambda>u. [])"

definition fake_cf_client_invocations ::
  "(string list \<Rightarrow> string list) \<Rightarrow> 'c fake_cf_client \<Rightarrow> (string, (unit, unit) go_any list list) go_map" where
  "fake_cf_client_invocations ord fake = copied_invocations ord (fcc_invocations fake)"

text \<open>The methods of a fresh or used double, one slot each.\<close>

interpretation fake_cf_client_apps: fake_slot fcc_apps fcc_apps_update fake_cf_client_record fcc_invocations
  by unfold_locales (simp_all add: fake_cf_client_record_def)

interpretation fake_cf_client_orgs: fake_slot fcc_orgs fcc_orgs_update fake_cf_client_record fcc_invocations
  by unfold_locales (simp_all add: fake_cf_client_record_def)

interpretation fake_cf_client_spaces: fake_slot fcc_spaces fcc_spaces_update fake_cf_client_record fcc_invocations
  by unfold_locales (simp_all add: fake_cf_client_record_def)

interpretation fake_cf_client_users: fake_slot fcc_users fcc_users_update fake_cf_client_record fcc_invocations
  by unfold_locales (simp_all add: fake_cf_client_record_def)

text \<open>
  \<open>FakeReader\<close>. A slice of bytes is an array by its address, or nil; \<open>Read\<close> records a copy in an
  array of its own and hands the caller's array to the stub.
\<close>

record 'w byte_world =
  bw_arrays :: "nat \<Rightarrow> string"
  bw_next :: nat
  bw_rest :: 'w

record 'c fake_reader =
  frd_read :: "('c, nat option, int \<times> go_error option) method_fields"
  frd_invocations :: "(nat option, unit) go_any invocations"

definition fake_reader_record ::
  "string \<Rightarrow> (nat option, unit) go_any list \<Rightarrow> 'c fake_reader \<Rightarrow> 'c fake_reader" where
  "fake_reader_record key args = frd_invocations_update (record_invocation key args)"

definition fake_reader_read ::
  "('c fake_reader, 'w byte_world, 'c, nat option, int \<times> go_error option) fake_ops" where
  "fake_reader_read =
     (let methods = fake_method frd_read frd_read_update fake_reader_record ''Read'' (\<lambda>copy. [AnyStruct copy])
      in methods\<lparr>fo_call := \<lambda>run arg (f, w).
           (let (copy, w1) =
              (case arg of
                 None \<Rightarrow> (None, w)
               | Some a \<Rightarrow>
                   (Some (bw_next w),
                    w\<lparr>bw_arrays := (bw_arrays w)(bw_next w := bw_arrays w a), bw_next := bw_next w + 1\<rparr>))
            in fo_call methods (\<lambda>stub _. run stub arg) copy (f, w1))\<rparr>)"

definition fake_reader_invocations ::
  "(string list \<Rightarrow> string list) \<Rightarrow> 'c fake_reader \<Rightarrow> (string, (nat option, unit) go_any list list) go_map" where
  "fake_reader_invocations ord fake = copied_invocations ord (frd_invocations fake)"

interpretation fake_reader_slot: fake_slot frd_read frd_read_update fake_reader_record frd_invocations
  by unfold_locales (simp_all add: fake_reader_record_def)

section \<open>The recorded buffers\<close>

lemma fake_reader_sel [simp]:
  "fo_args_for_call fake_reader_read i f =
     (if 0 \<le> i \<and> nat i < length (mf_args_for_call (frd_read f))
      then Returns (mf_args_for_call (frd_read f) ! nat i) else Panics IndexRange)"
  "fo_call_count fake_reader_read f = int (length (mf_args_for_call (frd_read f)))"
  by (simp_all add: fake_reader_read_def fake_method_def Let_def)

lemma fake_reader_call:
  "fo_call fake_reader_read run (Some a) (f, w) =
     (let c = bw_next w;
          w1 = w\<lparr>bw_arrays := (bw_arrays w)(c := bw_arrays w a), bw_next := c + 1\<rparr>;
          f1 = fake_reader_slot.after_call ''Read'' (\<lambda>copy. [AnyStruct copy]) (Some c) f
      in case mf_stub (frd_read f) of
           Some stub \<Rightarrow> run stub (Some a) (f1, w1)
         | None \<Rightarrow> (Returns (scripted (frd_read f) (length (mf_args_for_call (frd_read f)))), (f1, w1)))"
  by (cases "mf_stub (frd_read f)")
    (simp_all add: fake_reader_read_def Let_def fake_reader_slot.call_scripted fake_reader_slot.call_stubbed)

text \<open>
  A stub that writes to no array but the buffer it is given and its own new ones, and that may
  itself call the double again.
\<close>

definition tame_stub ::
  "('c \<Rightarrow> nat option \<Rightarrow> ('c fake_reader \<times> 'w byte_world, (int \<times> go_error option) outcome) effect) \<Rightarrow> bool" where
  "tame_stub run \<longleftrightarrow>
     (\<forall>stub arg f w out f' w'. run stub arg (f, w) = (out, (f', w')) \<longrightarrow>
        (\<exists>more. mf_args_for_call (frd_read f') = mf_args_for_call (frd_read f) @ more) \<and>
        (\<forall>b < bw_next w. Some b \<noteq> arg \<longrightarrow> bw_arrays w' b = bw_arrays w b))"

section \<open>Properties\<close>

text \<open>What \<open>FakeReader\<close> recorded of a call is the buffer as it was when \<open>Read\<close> was called, in an
array of its own, whatever the stub then read into the buffer.\<close>

theorem fake_reader_copies:
  assumes "tame_stub run" and "a < bw_next w"
    and "fo_call fake_reader_read run (Some a) (f, w) = (out, (f', w'))"
  shows "\<exists>c. fo_args_for_call fake_reader_read (fo_call_count fake_reader_read f) f' = Returns (Some c) \<and>
     c \<noteq> a \<and> bw_arrays w' c = bw_arrays w a"
proof (cases "mf_stub (frd_read f)")
  case None
  then show ?thesis
    using assms(2,3) by (auto simp: fake_reader_call Let_def fake_reader_slot.sel_after_call nth_append)
next
  case (Some stub)
  let ?w1 = "w\<lparr>bw_arrays := (bw_arrays w)(bw_next w := bw_arrays w a), bw_next := bw_next w + 1\<rparr>"
  let ?f1 = "fake_reader_slot.after_call ''Read'' (\<lambda>copy. [AnyStruct copy]) (Some (bw_next w)) f"
  have run: "run stub (Some a) (?f1, ?w1) = (out, (f', w'))"
    using assms(3) Some by (simp add: fake_reader_call Let_def)
  then obtain more where "mf_args_for_call (frd_read f') = mf_args_for_call (frd_read ?f1) @ more"
    and keep: "\<forall>b < bw_next ?w1. Some b \<noteq> Some a \<longrightarrow> bw_arrays w' b = bw_arrays ?w1 b"
    using assms(1) unfolding tame_stub_def by blast
  then have "fo_args_for_call fake_reader_read (fo_call_count fake_reader_read f) f' = Returns (Some (bw_next w))"
    by (simp add: fake_reader_slot.sel_after_call nth_append)
  moreover have "bw_arrays w' (bw_next w) = bw_arrays w a"
    using keep assms(2) by auto
  ultimately show ?thesis using assms(2) by blast
qed

definition overwrite :: "nat \<Rightarrow> nat option \<Rightarrow> (nat fake_reader \<times> nat byte_world, (int \<times> go_error option) outcome) effect" where
  "overwrite stub arg fw =
     (let (f, w) = fw
      in (Returns (1, None),
          (f, case arg of None \<Rightarrow> w | Some a \<Rightarrow> w\<lparr>bw_arrays := (bw_arrays w)(a := ''new'')\<rparr>)))"

definition reading_fake :: "nat fake_reader" where
  "reading_fake =
     \<lparr>frd_read = \<lparr>mf_stub = Some 0, mf_args_for_call = [], mf_returns = (0, None), mf_returns_on_call = None\<rparr>,
      frd_invocations = None\<rparr>"

theorem fake_reader_copies_witness:
  "\<exists>f' w' c. fo_call fake_reader_read overwrite (Some 0) (reading_fake, \<lparr>bw_arrays = \<lambda>_. ''old'', bw_next = 1, bw_rest = 0\<rparr>) =
       (Returns (1, None), (f', w')) \<and>
     fo_args_for_call fake_reader_read 0 f' = Returns (Some c) \<and> bw_arrays w' c = ''old'' \<and> bw_arrays w' 0 = ''new''"
proof -
  let ?w = "\<lparr>bw_arrays = \<lambda>_. ''old'', bw_next = 1, bw_rest = 0\<rparr> :: nat byte_world"
  have tame: "tame_stub overwrite"
    by (auto simp: tame_stub_def overwrite_def split: option.splits)
  obtain f' w' where run: "fo_call fake_reader_read overwrite (Some 0) (reading_fake, ?w) = (Returns (1, None), (f', w'))"
    and new: "bw_arrays w' 0 = ''new''"
    by (simp add: fake_reader_call Let_def reading_fake_def overwrite_def)
  have "\<exists>c. fo_args_for_call fake_reader_read 0 f' = Returns (Some c) \<and> bw_arrays w' c = ''old''"
    using fake_reader_copies [OF tame _ run] by (auto simp: reading_fake_def)
  then show ?thesis using run new by blast
qed

end
