(* ===== verification/FakeLocks.thy ===== *)
theory FakeLocks
  imports FakeMethods "HOL-Library.Multiset"
begin

text \<open>
  The mutexes of a double with one method, such as \<open>FakeRest\<close>: goroutines that call the method and
  goroutines that call \<open>Invocations\<close>, as a step relation over what each of them is about to do. A
  call takes the method's mutex and inside it, in \<open>recordInvocation\<close>, the mutex of the
  invocations; \<open>Invocations\<close> takes the two in the opposite order.
\<close>

section \<open>Goroutines and their locks\<close>

text \<open>
  The phases of a call: before \<open>Lock\<close>; with the method's lock, the call appended and the answer for
  it looked up; also with the lock of the invocations; that lock released; all released; returned.
  The phases of \<open>Invocations\<close>: before \<open>RLock\<close>; with the invocations locked for reading; also with
  the method locked for reading; returned.
\<close>

datatype ('a, 'r, 'v) routine =
    Calling 'a
  | Appended 'a "'r option"
  | Recording 'a "'r option"
  | Recorded 'a "'r option"
  | Answering 'a "'r option"
  | Answered 'a 'r
  | Inspecting
  | Viewing
  | Copying
  | Copied "(string, 'v list list) go_map"

fun method_writer :: "('a, 'r, 'v) routine \<Rightarrow> bool" where
  "method_writer (Appended a s) = True"
| "method_writer (Recording a s) = True"
| "method_writer (Recorded a s) = True"
| "method_writer p = False"

fun method_reader :: "('a, 'r, 'v) routine \<Rightarrow> bool" where
  "method_reader Copying = True"
| "method_reader p = False"

fun record_writer :: "('a, 'r, 'v) routine \<Rightarrow> bool" where
  "record_writer (Recording a s) = True"
| "record_writer p = False"

fun record_reader :: "('a, 'r, 'v) routine \<Rightarrow> bool" where
  "record_reader Viewing = True"
| "record_reader Copying = True"
| "record_reader p = False"

fun returned :: "('a, 'r, 'v) routine \<Rightarrow> bool" where
  "returned (Answered a r) = True"
| "returned (Copied m) = True"
| "returned p = False"

record ('c, 'a, 'r, 'v) lock_state =
  lk_fields :: "('c, 'a, 'r) method_fields"
  lk_invocations :: "'v invocations"
  lk_routines :: "('a, 'r, 'v) routine list"

text \<open>
  A write lock is free when no goroutine holds the mutex, a read lock when none holds it for
  writing. \<open>sync.RWMutex\<close> also lets a waiting writer hold up new readers, which only blocks more.
\<close>

definition method_free :: "('c, 'a, 'r, 'v) lock_state \<Rightarrow> bool" where
  "method_free s \<longleftrightarrow> list_all (\<lambda>p. \<not> method_writer p \<and> \<not> method_reader p) (lk_routines s)"

definition method_readable :: "('c, 'a, 'r, 'v) lock_state \<Rightarrow> bool" where
  "method_readable s \<longleftrightarrow> list_all (\<lambda>p. \<not> method_writer p) (lk_routines s)"

definition record_free :: "('c, 'a, 'r, 'v) lock_state \<Rightarrow> bool" where
  "record_free s \<longleftrightarrow> list_all (\<lambda>p. \<not> record_writer p \<and> \<not> record_reader p) (lk_routines s)"

definition record_readable :: "('c, 'a, 'r, 'v) lock_state \<Rightarrow> bool" where
  "record_readable s \<longleftrightarrow> list_all (\<lambda>p. \<not> record_writer p) (lk_routines s)"

definition at :: "('c, 'a, 'r, 'v) lock_state \<Rightarrow> nat \<Rightarrow> ('a, 'r, 'v) routine \<Rightarrow> bool" where
  "at s i p \<longleftrightarrow> i < length (lk_routines s) \<and> lk_routines s ! i = p"

definition move :: "nat \<Rightarrow> ('a, 'r, 'v) routine \<Rightarrow> ('c, 'a, 'r, 'v) lock_state \<Rightarrow> ('c, 'a, 'r, 'v) lock_state" where
  "move i p s = s\<lparr>lk_routines := (lk_routines s)[i := p]\<rparr>"

section \<open>Steps\<close>

text \<open>
  A double without a stub. \<open>key\<close> and \<open>box\<close> are those of the method; \<open>ord\<close> is the order in which
  \<open>Invocations\<close> ranges over the map.
\<close>

inductive lock_step ::
  "string \<Rightarrow> ('a \<Rightarrow> 'v list) \<Rightarrow> ('c, 'a, 'r, 'v) lock_state \<Rightarrow> ('c, 'a, 'r, 'v) lock_state \<Rightarrow> bool"
  for key box where
  lock_method: "at s i (Calling a) \<Longrightarrow> method_free s \<Longrightarrow>
    lock_step key box s (move i
      (Appended a (go_get (map_or_nil (mf_returns_on_call (lk_fields s))) (int (length (mf_args_for_call (lk_fields s))))))
      (s\<lparr>lk_fields := (lk_fields s)\<lparr>mf_args_for_call := mf_args_for_call (lk_fields s) @ [a]\<rparr>\<rparr>))"
| lock_record: "at s i (Appended a specific) \<Longrightarrow> record_free s \<Longrightarrow>
    lock_step key box s (move i (Recording a specific) s)"
| unlock_record: "at s i (Recording a specific) \<Longrightarrow>
    lock_step key box s (move i (Recorded a specific)
      (s\<lparr>lk_invocations := record_invocation key (box a) (lk_invocations s)\<rparr>))"
| unlock_method: "at s i (Recorded a specific) \<Longrightarrow>
    lock_step key box s (move i (Answering a specific) s)"
| answer: "at s i (Answering a specific) \<Longrightarrow>
    lock_step key box s (move i
      (Answered a (case specific of Some r \<Rightarrow> r | None \<Rightarrow> mf_returns (lk_fields s))) s)"
| view_record: "at s i Inspecting \<Longrightarrow> record_readable s \<Longrightarrow> lock_step key box s (move i Viewing s)"
| view_method: "at s i Viewing \<Longrightarrow> method_readable s \<Longrightarrow> lock_step key box s (move i Copying s)"
| copy: "at s i Copying \<Longrightarrow> range_order ord \<Longrightarrow>
    lock_step key box s (move i (Copied (copied_invocations ord (lk_invocations s))) s)"

text \<open>From a fresh double, whatever answers it is scripted with, and any goroutines that start.\<close>

definition lock_init :: "('c, 'a, 'r) method_fields \<Rightarrow> ('a, 'r, 'v) routine list \<Rightarrow> ('c, 'a, 'r, 'v) lock_state" where
  "lock_init m ps = \<lparr>lk_fields = m\<lparr>mf_args_for_call := []\<rparr>, lk_invocations = None, lk_routines = ps\<rparr>"

inductive lock_run ::
  "string \<Rightarrow> ('a \<Rightarrow> 'v list) \<Rightarrow> ('c, 'a, 'r, 'v) lock_state \<Rightarrow> ('c, 'a, 'r, 'v) lock_state \<Rightarrow> bool"
  for key box s where
  refl: "lock_run key box s s"
| step: "lock_run key box s t \<Longrightarrow> lock_step key box t u \<Longrightarrow> lock_run key box s u"

definition stuck :: "string \<Rightarrow> ('a \<Rightarrow> 'v list) \<Rightarrow> ('c, 'a, 'r, 'v) lock_state \<Rightarrow> bool" where
  "stuck key box s \<longleftrightarrow> (\<nexists>t. lock_step key box s t) \<and> list_ex (\<lambda>p. \<not> returned p) (lk_routines s)"

lemma at_move [simp]: "at (move i p s) j q \<longleftrightarrow> (if i = j then i < length (lk_routines s) \<and> p = q else at s j q)"
  by (auto simp: at_def move_def)

lemma at_unique: "at s i p \<Longrightarrow> at s i q \<Longrightarrow> p = q"
  by (simp add: at_def)

lemma move_sel [simp]:
  "lk_fields (move i p s) = lk_fields s" "lk_invocations (move i p s) = lk_invocations s"
  "length (lk_routines (move i p s)) = length (lk_routines s)"
  "at (s\<lparr>lk_fields := m\<rparr>) j q = at s j q" "at (s\<lparr>lk_invocations := v\<rparr>) j q = at s j q"
  by (simp_all add: move_def at_def)

section \<open>Calls alone never block each other for good\<close>

fun is_call :: "('a, 'r, 'v) routine \<Rightarrow> bool" where
  "is_call Inspecting = False"
| "is_call Viewing = False"
| "is_call Copying = False"
| "is_call (Copied m) = False"
| "is_call p = True"

lemma all_routines: "list_all P (lk_routines s) \<longleftrightarrow> (\<forall>i p. at s i p \<longrightarrow> P p)"
  by (auto simp: list_all_length at_def)

lemma calls_only_step:
  assumes "lock_step key box s t" and "list_all is_call (lk_routines s)"
  shows "list_all is_call (lk_routines t)"
  using assms
  by (cases rule: lock_step.cases) (auto simp: all_routines split: if_splits, (metis is_call.simps)+)

lemma calls_only_run:
  "lock_run key box s t \<Longrightarrow> list_all is_call (lk_routines s) \<Longrightarrow> list_all is_call (lk_routines t)"
  by (induction rule: lock_run.induct) (auto intro: calls_only_step)

lemma call_phases:
  assumes "is_call p"
  obtains a where "p = Calling a" | a x where "p = Appended a x" | a x where "p = Recording a x"
    | a x where "p = Recorded a x" | a x where "p = Answering a x" | a r where "p = Answered a r"
  using assms by (cases p) auto

lemma calls_progress:
  assumes "list_all is_call (lk_routines s)" and "list_ex (\<lambda>p. \<not> returned p) (lk_routines s)"
  shows "\<exists>t. lock_step key box s t"
proof -
  obtain i p where p: "at s i p" "\<not> returned p" "is_call p"
    using assms by (auto simp: list_ex_length list_all_length at_def)
  have call: "is_call q" if "at s j q" for j q
    using assms(1) that by (simp add: all_routines)
  show ?thesis
  proof (cases "\<exists>j a x. at s j (Recording a x) \<or> at s j (Recorded a x) \<or> at s j (Answering a x)")
    case True
    then show ?thesis
      by (elim exE disjE) (rule exI, erule unlock_record | rule exI, erule unlock_method | rule exI, erule answer)+
  next
    case rest: False
    show ?thesis
    proof (cases "\<exists>j a x. at s j (Appended a x)")
      case True
      then obtain j a x where "at s j (Appended a x)" by blast
      moreover have "record_free s"
        unfolding record_free_def all_routines
      proof (intro allI impI)
        fix j q
        assume q: "at s j q"
        then show "\<not> record_writer q \<and> \<not> record_reader q"
          using rest by (cases rule: call_phases [OF call [OF q]]) auto
      qed
      ultimately show ?thesis by (intro exI) (rule lock_record)
    next
      case False
      then obtain a where "p = Calling a"
        using p rest by (cases rule: call_phases [OF p(3)]) auto
      moreover have "method_free s"
        unfolding method_free_def all_routines
      proof (intro allI impI)
        fix j q
        assume q: "at s j q"
        then show "\<not> method_writer q \<and> \<not> method_reader q"
          using rest False by (cases rule: call_phases [OF call [OF q]]) auto
      qed
      ultimately show ?thesis using p(1) by (intro exI) (rule lock_method, simp_all)
    qed
  qed
qed

section \<open>Concurrent calls take effect one after the other\<close>

fun routine_arg :: "('a, 'r, 'v) routine \<Rightarrow> 'a option" where
  "routine_arg (Calling a) = Some a"
| "routine_arg (Appended a x) = Some a"
| "routine_arg (Recording a x) = Some a"
| "routine_arg (Recorded a x) = Some a"
| "routine_arg (Answering a x) = Some a"
| "routine_arg (Answered a r) = Some a"
| "routine_arg p = None"

text \<open>What a call holds of its answer, if it was the \<open>k\<close>-th to be recorded.\<close>

fun answer_ok :: "('c, 'a, 'r) method_fields \<Rightarrow> nat \<Rightarrow> ('a, 'r, 'v) routine \<Rightarrow> bool" where
  "answer_ok m k (Appended a x) = (x = go_get (map_or_nil (mf_returns_on_call m)) (int k))"
| "answer_ok m k (Recording a x) = (x = go_get (map_or_nil (mf_returns_on_call m)) (int k))"
| "answer_ok m k (Recorded a x) = (x = go_get (map_or_nil (mf_returns_on_call m)) (int k))"
| "answer_ok m k (Answering a x) = (x = go_get (map_or_nil (mf_returns_on_call m)) (int k))"
| "answer_ok m k (Answered a r) = (r = scripted m k)"
| "answer_ok m k p = True"

fun entered :: "('a, 'r, 'v) routine \<Rightarrow> bool" where
  "entered (Calling a) = False"
| "entered p = True"

text \<open>The call that has been appended to the arguments and not yet to the invocations.\<close>

fun unrecorded :: "('a, 'r, 'v) routine \<Rightarrow> bool" where
  "unrecorded (Appended a x) = True"
| "unrecorded (Recording a x) = True"
| "unrecorded p = False"

definition order_inv ::
  "('c, 'a, 'r) method_fields \<Rightarrow> 'a list \<Rightarrow> (nat \<Rightarrow> nat) \<Rightarrow> ('c, 'a, 'r, 'v) lock_state \<Rightarrow> bool" where
  "order_inv m as pos s \<longleftrightarrow>
     length (lk_routines s) = length as \<and> (\<exists>xs. lk_fields s = m\<lparr>mf_args_for_call := xs\<rparr>) \<and>
     (\<forall>i p. at s i p \<longrightarrow> is_call p \<and> routine_arg p = Some (as ! i)) \<and>
     bij_betw pos {i. i < length as \<and> entered (lk_routines s ! i)} {..<length (mf_args_for_call (lk_fields s))} \<and>
     (\<forall>i p. at s i p \<longrightarrow> entered p \<longrightarrow>
        mf_args_for_call (lk_fields s) ! pos i = as ! i \<and> answer_ok m (pos i) p)"

definition record_inv :: "string \<Rightarrow> ('a \<Rightarrow> 'v list) \<Rightarrow> ('c, 'a, 'r, 'v) lock_state \<Rightarrow> bool" where
  "record_inv key box s \<longleftrightarrow>
     go_map_ok (map_or_nil (lk_invocations s)) \<and>
     (\<forall>i j p q. at s i p \<longrightarrow> at s j q \<longrightarrow> method_writer p \<longrightarrow> method_writer q \<longrightarrow> i = j) \<and>
     (\<forall>i p. at s i p \<longrightarrow> unrecorded p \<longrightarrow>
        (\<exists>xs a. mf_args_for_call (lk_fields s) = xs @ [a] \<and> routine_arg p = Some a \<and>
           calls_of key (lk_invocations s) = map box xs)) \<and>
     ((\<forall>i p. at s i p \<longrightarrow> \<not> unrecorded p) \<longrightarrow>
        calls_of key (lk_invocations s) = map box (mf_args_for_call (lk_fields s)))"

lemma order_inv_init: "order_inv m as pos (lock_init m (map Calling as))"
proof -
  have none: "{i. i < length as \<and> entered (map Calling as ! i)} = {}" by auto
  have "bij_betw pos {} {..<0}" by (simp add: bij_betw_def)
  moreover have "\<exists>xs. m\<lparr>mf_args_for_call := []\<rparr> = m\<lparr>mf_args_for_call := xs\<rparr>" by blast
  ultimately show ?thesis
    unfolding order_inv_def lock_init_def at_def lock_state.simps length_map none by auto
qed

text \<open>A step of a call that is already in the order leaves the order as it is.\<close>

lemma order_inv_move:
  assumes "order_inv m as pos s" and "at s i p" and "entered p" and "entered q" and "is_call q"
    and "routine_arg q = routine_arg p" and "answer_ok m (pos i) p \<Longrightarrow> answer_ok m (pos i) q"
  shows "order_inv m as pos (move i q s)"
proof -
  have "{j. j < length as \<and> entered (lk_routines (move i q s) ! j)} =
      {j. j < length as \<and> entered (lk_routines s ! j)}"
    using assms by (auto simp: move_def at_def nth_list_update order_inv_def)
  then show ?thesis
    using assms unfolding order_inv_def by (auto split: if_splits)
qed

lemma order_inv_call: "order_inv m as pos s \<Longrightarrow> at s i p \<Longrightarrow> is_call p"
  by (simp add: order_inv_def)

lemma order_inv_arg: "order_inv m as pos s \<Longrightarrow> at s i p \<Longrightarrow> routine_arg p = Some (as ! i)"
  by (simp add: order_inv_def)

lemma order_inv_answer:
  "order_inv m as pos s \<Longrightarrow> at s i p \<Longrightarrow> entered p \<Longrightarrow>
     mf_args_for_call (lk_fields s) ! pos i = as ! i \<and> answer_ok m (pos i) p"
  by (simp add: order_inv_def)

lemma order_inv_append:
  assumes "order_inv m as pos s" and "at s i (Calling a)"
  shows "order_inv m as (pos(i := length (mf_args_for_call (lk_fields s))))
     (move i (Appended a (go_get (map_or_nil (mf_returns_on_call (lk_fields s))) (int (length (mf_args_for_call (lk_fields s))))))
       (s\<lparr>lk_fields := (lk_fields s)\<lparr>mf_args_for_call := mf_args_for_call (lk_fields s) @ [a]\<rparr>\<rparr>))"
    (is "order_inv m as ?pos ?t")
proof -
  let ?xs = "mf_args_for_call (lk_fields s)"
  let ?in = "\<lambda>s. {j. j < length as \<and> entered (lk_routines s ! j)}"
  have i: "i < length as" "\<not> entered (lk_routines s ! i)" "as ! i = a"
    using assms by (auto simp: order_inv_def at_def)
  have set: "?in ?t = insert i (?in s)"
    using assms i by (auto simp: move_def at_def nth_list_update order_inv_def)
  have "bij_betw pos (?in s) {..<length ?xs}"
    using assms(1) by (simp add: order_inv_def)
  then have bij: "bij_betw ?pos (?in s) {..<length ?xs}"
    using i by (subst bij_betw_cong [where g = pos]) auto
  have "bij_betw ?pos (insert i (?in s)) (insert (length ?xs) {..<length ?xs})"
    using notIn_Un_bij_betw [of i "?in s" ?pos "{..<length ?xs}"] bij i by simp
  moreover have "insert (length ?xs) {..<length ?xs} = {..<Suc (length ?xs)}" by auto
  ultimately have bij': "bij_betw ?pos (?in ?t) {..<length (mf_args_for_call (lk_fields ?t))}"
    by (simp add: set)
  have below: "pos j < length ?xs" if "at s j p" "entered p" for j p
    using bij_betwE [OF \<open>bij_betw pos (?in s) {..<length ?xs}\<close>] that assms(1)
    by (auto simp: at_def order_inv_def)
  show ?thesis
    unfolding order_inv_def
  proof (intro conjI allI impI)
    fix j p
    assume j: "at ?t j p" "entered p"
    show "mf_args_for_call (lk_fields ?t) ! ?pos j = as ! j"
      using j i below assms(1) by (auto simp: order_inv_def nth_append split: if_splits)
    show "answer_ok m (?pos j) p"
      using j i assms(1) by (auto simp: order_inv_def split: if_splits)
  qed (use assms i bij' in \<open>auto simp: order_inv_def split: if_splits\<close>)
qed

lemma order_inv_step:
  assumes "lock_step key box s t" and "order_inv m as pos s"
  shows "\<exists>pos'. order_inv m as pos' t"
  using assms(1)
proof (cases rule: lock_step.cases)
  case (lock_method i a)
  then show ?thesis using order_inv_append [OF assms(2)] by blast
next
  case (lock_record i a x)
  then show ?thesis
    using order_inv_move [OF assms(2) lock_record(2), of "Recording a x"] by auto
next
  case (unlock_record i a x)
  have "order_inv m as pos (s\<lparr>lk_invocations := v\<rparr>)" for v
    using assms(2) by (simp add: order_inv_def)
  from order_inv_move [OF this, of "record_invocation key (box a) (lk_invocations s)" i "Recording a x" "Recorded a x"]
  show ?thesis using unlock_record by auto
next
  case (unlock_method i a x)
  then show ?thesis
    using order_inv_move [OF assms(2) unlock_method(2), of "Answering a x"] by auto
next
  case (answer i a x)
  have "mf_returns (lk_fields s) = mf_returns m"
    using assms(2) by (auto simp: order_inv_def)
  then have "order_inv m as pos (move i (Answered a (case x of Some r \<Rightarrow> r | None \<Rightarrow> mf_returns (lk_fields s))) s)"
    by (intro order_inv_move [OF assms(2) answer(2)]) (auto simp: scripted_def split: option.splits)
  then show ?thesis using answer(1) by blast
next
  case (view_record i)
  then show ?thesis using order_inv_call [OF assms(2)] by fastforce
next
  case (view_method i)
  then show ?thesis using order_inv_call [OF assms(2)] by fastforce
next
  case (copy i ord)
  then show ?thesis using order_inv_call [OF assms(2)] by fastforce
qed

lemma order_inv_run:
  "lock_run key box (lock_init m (map Calling as)) s \<Longrightarrow> \<exists>pos. order_inv m as pos s"
proof (induction rule: lock_run.induct)
  case refl
  show ?case using order_inv_init by blast
next
  case (step t u)
  then show ?case using order_inv_step by blast
qed

text \<open>The invocations follow the arguments: at most one call is between the two.\<close>

lemma unrecorded_writer: "unrecorded p \<Longrightarrow> method_writer p"
  by (cases p) simp_all

lemma record_invD:
  assumes "record_inv key box s"
  shows "go_map_ok (map_or_nil (lk_invocations s))"
    and "at s i p \<Longrightarrow> at s j q \<Longrightarrow> method_writer p \<Longrightarrow> method_writer q \<Longrightarrow> i = j"
    and "at s i p \<Longrightarrow> unrecorded p \<Longrightarrow> \<exists>xs a. mf_args_for_call (lk_fields s) = xs @ [a] \<and>
      routine_arg p = Some a \<and> calls_of key (lk_invocations s) = map box xs"
    and "(\<And>i p. at s i p \<Longrightarrow> \<not> unrecorded p) \<Longrightarrow>
      calls_of key (lk_invocations s) = map box (mf_args_for_call (lk_fields s))"
  using assms unfolding record_inv_def by blast+

lemma record_inv_settled:
  assumes "go_map_ok (map_or_nil (lk_invocations s))"
    and "\<And>i j p q. at s i p \<Longrightarrow> at s j q \<Longrightarrow> method_writer p \<Longrightarrow> method_writer q \<Longrightarrow> i = j"
    and "\<And>i p. at s i p \<Longrightarrow> \<not> unrecorded p"
    and "calls_of key (lk_invocations s) = map box (mf_args_for_call (lk_fields s))"
  shows "record_inv key box s"
  using assms unfolding record_inv_def by blast

lemma record_inv_init: "record_inv key box (lock_init m (map Calling as))"
  by (auto simp: record_inv_def lock_init_def at_def map_or_nil_def go_map_ok_def calls_of_def go_get_def)

text \<open>A goroutine that moves on without touching what the invariant reads.\<close>

lemma move_old:
  assumes "at s i p" and "at (move i q s) j r" and "Q q \<Longrightarrow> Q p"
    and "Q r"
  shows "\<exists>p'. at s j p' \<and> Q p'"
  using assms by (cases "i = j") auto

lemma move_unrecorded:
  assumes "at s i p" and "unrecorded q = unrecorded p" and "\<And>j r. at (move i q s) j r \<Longrightarrow> \<not> unrecorded r"
    and "at s j p'"
  shows "\<not> unrecorded p'"
proof (cases "i = j")
  case True
  then have "p' = p" using at_unique [OF assms(1)] assms(4) by simp
  moreover have "at (move i q s) i q" using assms(1) by (simp add: at_def [of s])
  ultimately show ?thesis using assms(2,3) by blast
next
  case False
  then have "at (move i q s) j p'" using assms(4) by simp
  then show ?thesis by (rule assms(3))
qed

lemma record_inv_move:
  assumes "record_inv key box s" and "at s i p" and "method_writer q \<Longrightarrow> method_writer p"
    and "unrecorded q = unrecorded p" and "unrecorded q \<Longrightarrow> routine_arg q = routine_arg p"
  shows "record_inv key box (move i q s)"
  unfolding record_inv_def move_sel
proof (intro conjI allI impI)
  fix j k r r'
  assume r: "at (move i q s) j r" "at (move i q s) k r'" "method_writer r" "method_writer r'"
  obtain p1 where p1: "at s j p1" "method_writer p1"
    using move_old [where Q = method_writer, OF assms(2) r(1) assms(3) r(3)] by blast
  obtain p2 where p2: "at s k p2" "method_writer p2"
    using move_old [where Q = method_writer, OF assms(2) r(2) assms(3) r(4)] by blast
  show "j = k" by (rule record_invD(2) [OF assms(1) p1(1) p2(1) p1(2) p2(2)])
next
  fix j r
  assume r: "at (move i q s) j r" "unrecorded r"
  obtain p' where "at s j p'" "unrecorded p'" "routine_arg r = routine_arg p'"
    using r assms(2,4,5) by (cases "i = j") auto
  then show "\<exists>xs a. mf_args_for_call (lk_fields s) = xs @ [a] \<and> routine_arg r = Some a \<and>
      calls_of key (lk_invocations s) = map box xs"
    using record_invD(3) [OF assms(1)] by simp
next
  assume none: "\<forall>j r. at (move i q s) j r \<longrightarrow> \<not> unrecorded r"
  show "calls_of key (lk_invocations s) = map box (mf_args_for_call (lk_fields s))"
  proof (rule record_invD(4) [OF assms(1)])
    fix j p'
    assume "at s j p'"
    then show "\<not> unrecorded p'"
      by (rule move_unrecorded [OF assms(2,4), rotated]) (rule none [rule_format])
  qed
qed (rule record_invD(1) [OF assms(1)])

text \<open>The two steps that change what is recorded: a call appends its argument, and records it.\<close>

lemma record_inv_append:
  assumes "record_inv key box s" and "at s i (Calling a)" and "method_free s"
  shows "record_inv key box (move i (Appended a x)
    (s\<lparr>lk_fields := (lk_fields s)\<lparr>mf_args_for_call := mf_args_for_call (lk_fields s) @ [a]\<rparr>\<rparr>))"
proof -
  have none: "\<not> method_writer p" "\<not> unrecorded p" if "at s j p" for j p
    using assms(3) that unrecorded_writer [of p] by (auto simp: method_free_def all_routines)
  then have "calls_of key (lk_invocations s) = map box (mf_args_for_call (lk_fields s))"
    using assms(1) by (auto simp: record_inv_def)
  moreover have "i < length (lk_routines s)"
    using assms(2) by (simp add: at_def)
  ultimately show ?thesis
    using none assms(1) unfolding record_inv_def by (auto split: if_splits intro!: exI [of _ i])
qed

lemma record_inv_recorded:
  assumes "record_inv key box s" and "at s i (Recording a x)"
  shows "record_inv key box (move i (Recorded a x) (s\<lparr>lk_invocations := record_invocation key (box a) (lk_invocations s)\<rparr>))"
    (is "record_inv key box (move i _ ?t)")
proof -
  obtain xs where xs: "mf_args_for_call (lk_fields s) = xs @ [a]" "calls_of key (lk_invocations s) = map box xs"
    using record_invD(3) [OF assms] by auto
  note ok = record_invD(1) [OF assms(1)]
  have alone: "j = i" if "at s j p" "method_writer p" for j p
    using record_invD(2) [OF assms(1) that(1) assms(2) that(2)] by simp
  have others: "\<not> unrecorded p" if "at (move i (Recorded a x) ?t) j p" for j p
    using that alone [of j p] unrecorded_writer [of p] by (auto split: if_splits)
  have uniq: "j = k" if "at (move i (Recorded a x) ?t) j p" "at (move i (Recorded a x) ?t) k q"
    "method_writer p" "method_writer q" for j k p q
    using that alone [of j p] alone [of k q] by (auto split: if_splits)
  show ?thesis
  proof (rule record_inv_settled)
    fix j k p q
    assume "at (move i (Recorded a x) ?t) j p" "at (move i (Recorded a x) ?t) k q"
      and "method_writer p" "method_writer q"
    then show "j = k" by (rule uniq)
  next
    fix j p
    assume "at (move i (Recorded a x) ?t) j p"
    then show "\<not> unrecorded p" by (rule others)
  qed (use xs ok in \<open>simp_all add: calls_of_record record_invocation_ok\<close>)
qed

lemma record_inv_step:
  assumes "lock_step key box s t" and "record_inv key box s"
  shows "record_inv key box t"
  using assms(1)
proof (cases rule: lock_step.cases)
  case (lock_method i a)
  show ?thesis unfolding lock_method(1) by (rule record_inv_append [OF assms(2) lock_method(2,3)])
next
  case (unlock_record i a x)
  show ?thesis unfolding unlock_record(1) by (rule record_inv_recorded [OF assms(2) unlock_record(2)])
next
  case (lock_record i a x)
  show ?thesis unfolding lock_record(1) by (rule record_inv_move [OF assms(2) lock_record(2)]) simp_all
next
  case (unlock_method i a x)
  show ?thesis unfolding unlock_method(1) by (rule record_inv_move [OF assms(2) unlock_method(2)]) simp_all
next
  case (answer i a x)
  show ?thesis unfolding answer(1) by (rule record_inv_move [OF assms(2) answer(2)]) simp_all
next
  case (view_record i)
  show ?thesis unfolding view_record(1) by (rule record_inv_move [OF assms(2) view_record(2)]) simp_all
next
  case (view_method i)
  show ?thesis unfolding view_method(1) by (rule record_inv_move [OF assms(2) view_method(2)]) simp_all
next
  case (copy i ord)
  show ?thesis unfolding copy(1) by (rule record_inv_move [OF assms(2) copy(2)]) simp_all
qed

lemma record_inv_run:
  "lock_run key box (lock_init m (map Calling as)) s \<Longrightarrow> record_inv key box s"
  by (induction rule: lock_run.induct) (auto intro: record_inv_init record_inv_step)

section \<open>Two runs\<close>

definition example_fields :: "(nat, string, int) method_fields" where
  "example_fields = \<lparr>mf_stub = None, mf_args_for_call = [], mf_returns = 0, mf_returns_on_call = Some [(0, 7)]\<rparr>"

definition example_box :: "string \<Rightarrow> string list" where
  "example_box a = [a]"

definition one_answered :: "(nat, string, int, string) lock_state" where
  "one_answered = \<lparr>lk_fields = example_fields\<lparr>mf_args_for_call := [''x'']\<rparr>,
     lk_invocations = Some [(''Read'', [[''x'']])], lk_routines = [Answered ''x'' 7]\<rparr>"

lemma lock_run_one:
  "lock_step key box s t \<Longrightarrow> lock_run key box t u \<Longrightarrow> lock_run key box s u"
  by (rotate_tac, induction rule: lock_run.induct) (auto intro: lock_run.intros)

lemmas state_simps = move_def at_def method_free_def record_free_def method_readable_def record_readable_def
  lock_init_def

lemma example_lock_run: "lock_run ''Read'' example_box (lock_init example_fields (map Calling [''x''])) one_answered"
proof -
  let ?f = "example_fields\<lparr>mf_args_for_call := [''x'']\<rparr>"
  let ?s = "\<lambda>v p. \<lparr>lk_fields = ?f, lk_invocations = v, lk_routines = [p]\<rparr> :: (nat, string, int, string) lock_state"
  let ?v = "Some [(''Read'', [[''x'']])]"
  have "lock_step ''Read'' example_box (lock_init example_fields (map Calling [''x''])) (?s None (Appended ''x'' (Some 7)))"
    using lock_step.lock_method [of "lock_init example_fields [Calling ''x'']" 0 "''x''" "''Read''" example_box]
    by (simp add: state_simps example_fields_def map_or_nil_def go_get_def)
  moreover have "lock_step ''Read'' example_box (?s None (Appended ''x'' (Some 7))) (?s None (Recording ''x'' (Some 7)))"
    using lock_step.lock_record [of "?s None (Appended ''x'' (Some 7))" 0 "''x''" "Some 7" "''Read''" example_box]
    by (simp add: state_simps)
  moreover have "lock_step ''Read'' example_box (?s None (Recording ''x'' (Some 7))) (?s ?v (Recorded ''x'' (Some 7)))"
    using lock_step.unlock_record [of "?s None (Recording ''x'' (Some 7))" 0 "''x''" "Some 7" "''Read''" example_box]
    by (simp add: state_simps record_invocation_def map_or_nil_def go_get_def go_put_def example_box_def)
  moreover have "lock_step ''Read'' example_box (?s ?v (Recorded ''x'' (Some 7))) (?s ?v (Answering ''x'' (Some 7)))"
    using lock_step.unlock_method [of "?s ?v (Recorded ''x'' (Some 7))" 0 "''x''" "Some 7" "''Read''" example_box]
    by (simp add: state_simps)
  moreover have "lock_step ''Read'' example_box (?s ?v (Answering ''x'' (Some 7))) one_answered"
    using lock_step.answer [of "?s ?v (Answering ''x'' (Some 7))" 0 "''x''" "Some 7" "''Read''" example_box]
    by (simp add: state_simps one_answered_def)
  ultimately show ?thesis by (blast intro: lock_run_one lock_run.refl)
qed

section \<open>Properties\<close>

text \<open>C39: When any number of goroutines call a double at once and all return, the calls have taken
effect in some order, each exactly once: the recorded arguments are the calls' in that order, each
call got the answer scripted for its place in it, and the invocations list the same calls.\<close>

theorem concurrent_calls_linearize:
  assumes "lock_run key box (lock_init m (map Calling as)) s" and "list_all returned (lk_routines s)"
  shows "\<exists>pos. bij_betw pos {..<length as} {..<length as} \<and>
     length (mf_args_for_call (lk_fields s)) = length as \<and>
     list_all (\<lambda>i. mf_args_for_call (lk_fields s) ! pos i = as ! i \<and>
       lk_routines s ! i = Answered (as ! i) (scripted m (pos i))) [0..<length as] \<and>
     calls_of key (lk_invocations s) = map box (mf_args_for_call (lk_fields s))"
proof -
  obtain pos where o: "order_inv m as pos s" using order_inv_run [OF assms(1)] by blast
  have len: "length (lk_routines s) = length as" using o by (simp add: order_inv_def)
  have all: "\<exists>r. lk_routines s ! i = Answered (as ! i) r \<and> r = scripted m (pos i) \<and>
      mf_args_for_call (lk_fields s) ! pos i = as ! i" if "i < length as" for i
  proof -
    have at: "at s i (lk_routines s ! i)" using that len by (simp add: at_def)
    have "returned (lk_routines s ! i)" using assms(2) that len by (simp add: list_all_length)
    then obtain b r where p: "lk_routines s ! i = Answered b r"
      using order_inv_call [OF o at] by (cases "lk_routines s ! i") auto
    then show ?thesis using order_inv_arg [OF o at] order_inv_answer [OF o at] by simp
  qed
  then have "{i. i < length as \<and> entered (lk_routines s ! i)} = {..<length as}" by fastforce
  then have bij: "bij_betw pos {..<length as} {..<length (mf_args_for_call (lk_fields s))}"
    using o by (simp add: order_inv_def)
  then have n: "length (mf_args_for_call (lk_fields s)) = length as"
    using bij_betw_same_card [OF bij] by simp
  have "\<not> unrecorded p" if "at s i p" for i p
  proof -
    have "returned p" using assms(2) that by (simp add: all_routines)
    then show ?thesis by (cases p) auto
  qed
  then have "calls_of key (lk_invocations s) = map box (mf_args_for_call (lk_fields s))"
    using record_inv_run [OF assms(1)] by (auto simp: record_inv_def)
  moreover have "list_all (\<lambda>i. mf_args_for_call (lk_fields s) ! pos i = as ! i \<and>
      lk_routines s ! i = Answered (as ! i) (scripted m (pos i))) [0..<length as]"
    unfolding list_all_iff using all by fastforce
  ultimately show ?thesis
    using bij [unfolded n] n by blast
qed

theorem concurrent_calls_linearize_witness:
  "\<exists>pos. bij_betw pos {..<1::nat} {..<1} \<and> lk_routines one_answered ! 0 = Answered ''x'' (scripted example_fields (pos 0))"
  using concurrent_calls_linearize [OF example_lock_run]
  by (auto simp: one_answered_def)

text \<open>Goroutines that only call the double never deadlock: as long as one has not returned, some
goroutine can take a step.\<close>

theorem calls_never_stuck:
  assumes "lock_run key box (lock_init m (map Calling as)) s"
  shows "\<not> stuck key box s"
proof -
  have "list_all is_call (lk_routines (lock_init m (map Calling as)))"
    by (simp add: lock_init_def list_all_iff)
  then show ?thesis
    using calls_progress [OF calls_only_run [OF assms]] unfolding stuck_def by blast
qed

theorem calls_never_stuck_witness: "\<not> stuck ''Read'' example_box one_answered"
  by (rule calls_never_stuck [OF example_lock_run])

text \<open>C40: A goroutine that calls a double and one that calls its \<open>Invocations\<close> can deadlock, each
holding the mutex the other waits for: \<open>Invocations\<close> takes the two in the opposite order.\<close>

theorem invocations_can_deadlock:
  "\<exists>s. lock_run key box (lock_init m [Calling a, Inspecting]) s \<and> stuck key box s"
proof -
  let ?x = "go_get (map_or_nil (mf_returns_on_call m)) 0"
  let ?s1 = "\<lparr>lk_fields = m\<lparr>mf_args_for_call := [a]\<rparr>, lk_invocations = None, lk_routines = [Appended a ?x, Inspecting]\<rparr>"
  let ?s2 = "?s1\<lparr>lk_routines := [Appended a ?x, Viewing]\<rparr>"
  have "lock_step key box (lock_init m [Calling a, Inspecting]) ?s1"
    using lock_step.lock_method [of "lock_init m [Calling a, Inspecting]" 0 a key box]
    by (simp add: state_simps)
  moreover have "lock_step key box ?s1 ?s2"
    using lock_step.view_record [of ?s1 1 key box] by (simp add: state_simps)
  ultimately have "lock_run key box (lock_init m [Calling a, Inspecting]) ?s2"
    by (blast intro: lock_run_one lock_run.refl)
  moreover have "\<not> lock_step key box ?s2 t" for t
    by (auto elim!: lock_step.cases simp: state_simps less_Suc_eq)
  ultimately show ?thesis
    unfolding stuck_def by auto
qed

end
