(* ===== verification/Spec2Isabelle.thy ===== *)
theory Spec2Isabelle
  imports SyncEndToEnd SyncSystem SyncStatus Watches DeepCopy RegistryEndToEnd ArchiveProperties ArchivePipe BackupProperties
    ControllerFakes BuddyFakes BackupFakes FakeLocks
begin

text \<open>
  A verification library of the Go programs of capi-k8s-release, the part of Cloud Foundry for
  Kubernetes that ties the Cloud Controller (CC) to the cluster. Three programs live under
  \<open>src/src/\<close>:

  \<^item> \<open>cf-api-controllers\<close>: a controller manager with three reconcilers. The PeriodicSync reconciler
    lists the routes of the CF API and makes the Route resources of the workloads namespace equal to
    them; the Build reconciler reports finished kpack builds to the CF API; the Image reconciler puts
    a rebased stack into the StatefulSet of an app and into its droplet. All three speak to the CF
    API through \<open>cf/client.go\<close> and to Kubernetes through the controller-runtime client.
  \<^item> \<open>registry-buddy\<close>: an HTTP server beside CC that uploads package bits to an image registry and
    deletes images, with a code path of its own for Docker Hub; packages are zips that \<open>archive/\<close>
    rewrites as tars.
  \<^item> \<open>backup-metadata-generator\<close>: a command that prints a summary of the orgs, spaces and apps of a
    foundation, for a backup, and compares such a summary with the current state.

  Everything here is a translation of that Go code; what is not under \<open>src/\<close> (Kubernetes, registry
  and UAA libraries, the CF API itself, the JSON differ) is a field of a record that the operations
  take, and what a property needs of it is a named hypothesis of the property
  (\<open>route_list_law\<close>, \<open>route_write_laws\<close>, \<open>condition_laws\<close>, \<open>differ_ok\<close>, ...).

  \<^bold>\<open>The language and its library.\<close> \<open>GoPrelude\<close> has errors (\<open>go_error\<close>, with the dynamic types the
  sources look into), panics (\<open>outcome\<close>), effects on an abstract world, and Go maps with the
  unspecified order of \<open>range\<close> as a parameter \<open>range_order\<close>; the locale \<open>finite_lookup\<close> states what
  a map promises and is interpreted on association lists. \<open>GoStrings\<close> has the functions of
  \<open>strings\<close>, \<open>strconv\<close> and \<open>fmt\<close>; \<open>GoJson\<close> the writer, the reader and the decoding rules of
  \<open>encoding/json\<close>, \<open>GoJsonFacts\<close> that a written value is read back. The reader spends a unit of fuel
  per call and is run with \<open>2 * length s + 1\<close>; \<open>read_value_fuel\<close> proves that this never runs out.
  \<open>GoHttp\<close> has requests, responses and the response writer; \<open>GoArchiveLib\<close> path cleaning, file modes
  as 32-bit words, and the headers of zip and tar. Strings are byte lists; JSON strings and keys
  beyond ASCII are copied and compared byte by byte.

  \<^bold>\<open>cf-api-controllers.\<close>
  \<^item> \<open>CfModel\<close>: the structs of \<open>cf/model/\<close>. \<open>CfClient\<close>: \<open>cf/client.go\<close>, \<open>cf/rest_client.go\<close> and
    \<open>cf/auth/uaa.go\<close>. A networked client (\<open>net_client\<close>) keeps a log of the requests sent and gets
    arbitrary answers; the locale \<open>cf_updater\<close> says what an update may do to that log, and is
    interpreted for builds and droplets.
  \<^item> \<open>RouteTranslator\<close>: \<open>cf/kubernetes/route_translator.go\<close>, with an explicit store for the port
    pointers, since the code takes the address of a loop variable.
  \<^item> \<open>ControllerRuntime\<close>: results, watch events and their filters, conditions.
    \<open>PeriodicSyncController\<close>: \<open>controllers/periodic_sync_controller.go\<close> and the resource;
    \<open>PeriodicSyncProperties\<close> proves that a successful run reaches the abstract target
    \<open>sync_target\<close> and that a failing one corrupts nothing, also when a write was carried out and its
    response lost (\<open>route_write_laws\<close>); \<open>SyncStatus\<close> runs it over a client that notes failed calls
    (\<open>noting\<close>) and shows that the Synced condition says how the run ended. \<open>SyncEndToEnd\<close> puts the
    reconciler on the networked client, against a CF API that paginates (\<open>paginated\<close>), and shows what
    reading only the first page does. \<open>SyncSystem\<close> is the controller over
    time, the step relation \<open>sync_steps\<close> of reconciliations and other clients of the API server:
    every managed resource is what the translator makes of a listed route, and a synchronised
    namespace stays so.
  \<^item> \<open>ImageConfigFetcher\<close>, \<open>BuildController\<close>, \<open>BuildProperties\<close>, \<open>ImageController\<close>: the other two
    reconcilers, with the locales \<open>build_reporter\<close> and \<open>rebaser\<close> and their interpretations on the
    networked client. A config file may be nil without an error, which \<open>fetch_image_config\<close> dereferences
    (\<open>nil_config_file\<close>). \<open>build_body_ok\<close> says what the body of a build update looks like, and is kept
    by any sequence of reconciliations.
  \<^item> \<open>ControllersMain\<close>: \<open>config.go\<close> and \<open>main.go\<close>: settings, clients, registration of the three
    reconcilers, start. \<open>Watches\<close>: \<open>groupversion_info.go\<close>, the \<open>init\<close> functions and the
    \<open>SetupWithManager\<close> of the reconcilers, with the locale \<open>scheme_laws\<close> for what adding types to a
    scheme does. \<open>DeepCopy\<close>: the generated deep copies, over a store of arrays.

  \<^bold>\<open>registry-buddy.\<close>
  \<^item> \<open>RegistryServer\<close>: \<open>config/config.go\<close>, and \<open>main.go\<close> as a step relation of its two goroutines.
  \<^item> \<open>DockerhubClient\<close>: \<open>dockerhub/client.go\<close>. \<open>ImageDeleters\<close>: \<open>image/\<close>. Many registries delete
    asynchronously, so the locale \<open>settling_registry\<close> has two views of a registry: what a reference
    resolves to now and what it will resolve to when the accepted deletions are carried out. On it
    rest the contract of a deleter (\<open>deleter_contract\<close>) and the locales of an OCI registry and of
    Docker Hub, which give that contract by \<open>sublocale\<close>; all are interpreted on a registry in memory
    that queues its deletions.
  \<^item> \<open>RegistryHandlers\<close>: \<open>handlers/\<close>, \<open>healthz/\<close> and \<open>package_upload/\<close>; \<open>RegistryProperties\<close>: what a
    success answer means. \<open>RegistryEndToEnd\<close>: the server as \<open>newServer\<close> wires it, over one registry
    (locales \<open>push_registry\<close> and \<open>buddy_registry\<close>, interpreted on a registry in memory): an image from
    its upload to its deletion, and what a session of requests leaves behind.
  \<^item> \<open>Archive\<close>: \<open>archive/archive.go\<close> and \<open>archive/tar_builder.go\<close>; \<open>ArchiveProperties\<close>: the tar of a
    zip is complete, safe to unpack and reproducible, over a tar writer that records its calls (locale
    \<open>tar_sink\<close>, interpreted as \<open>logged\<close>). \<open>ArchivePipe\<close>: the goroutine and the pipe behind
    \<open>GenerateTarWithWriter\<close> as a step relation; \<open>inevitably\<close> says that every run gets somewhere.

  \<^bold>\<open>backup-metadata-generator.\<close> \<open>BackupMetadata\<close>: the whole program; \<open>BackupProperties\<close>: the summary
  against a specification by filters, its JSON, the comparison, and how the process ends, with the
  locale \<open>quiet_lister\<close> for a client that leaves standard output alone.

  \<^bold>\<open>Test doubles.\<close> \<open>FakeMethods\<close> is what counterfeiter generates for one method, over accessors of its
  fields (locale \<open>fake_slot\<close>): answers by script or stub, and the record of all calls.
  \<open>ControllerFakes\<close>, \<open>BuddyFakes\<close> and \<open>BackupFakes\<close> instantiate it for each method of the three
  programs' doubles and interpret the locale there; \<open>ControllerFakes\<close> also runs the Build reconciler
  on its double, which is an instance of \<open>build_reporter\<close>. These are sequential; \<open>FakeLocks\<close> is the
  mutex protocol of a double with one method as a step relation of goroutines: concurrent calls
  linearise and never get stuck, but \<open>Invocations\<close> takes the locks in the opposite order of a call
  and can deadlock with it.

  \<^bold>\<open>Properties.\<close> Each property stands after a text with its number. For the reconcilers they say what
  a run without an error has achieved, that failures change nothing they should not, exactly when
  the code panics, and that success is not reported early; for the server, what a 200 or 202 means
  and that it stops cleanly; for the archives, completeness, safety, reproducibility and that
  closing returns; for the backup, grouping, round trips, and exactly what is printed. Theorems named
  \<open>..._witness\<close> apply a property to a concrete run.

  \<^bold>\<open>Not modelled.\<close> What a refused write of a tar writer may have passed on before its error (the log
  of \<open>log_writer\<close> has the accepted calls). \<open>main.go\<close> of the controllers makes three equal CF clients,
  which \<open>main_cf_client\<close> describes once. Registries are left alone between the requests of a session
  but for their own background work. Logging, the parsing of flags, and TLS settings beyond their flag. HTTP bodies are
  read in one piece. The capacity behind a decoded slice is not kept, so a JSON key that occurs three
  times with arrays of different lengths is read as if the hidden elements were zero. Time is a
  parameter. Generators of \<open>ArchivePipe\<close> end after finitely many writes. In \<open>FakeLocks\<close> nobody
  changes the script of a double while it is called. Test fixtures and suites, the Ruby, YAML and
  shell parts of the repository, and CI are left aside.
\<close>

end
